(* ===== verification/Enums.thy ===== *)
theory Enums
  imports Prelude
begin

text \<open>
  The string enumerations of \<open>src/hermes_payments/models.py\<close>: message kinds, the
  lifecycle states of an intent and the settlement rails, each with its \<open>.value\<close>.
\<close>

datatype MessageKind = INTENT | QUOTE | RECEIPT

fun MessageKind_value :: "MessageKind \<Rightarrow> string" where
  "MessageKind_value INTENT = ''payment_intent''"
| "MessageKind_value QUOTE = ''payment_quote''"
| "MessageKind_value RECEIPT = ''payment_receipt''"

datatype PaymentState =
    DRAFT | SUBMITTED | QUOTED | PREPARED | APPROVED | EXECUTING | SETTLED
  | FAILED | REJECTED | EXPIRED | CANCELLED | RECONCILIATION_REQUIRED

fun PaymentState_value :: "PaymentState \<Rightarrow> string" where
  "PaymentState_value DRAFT = ''draft''"
| "PaymentState_value SUBMITTED = ''submitted''"
| "PaymentState_value QUOTED = ''quoted''"
| "PaymentState_value PREPARED = ''prepared''"
| "PaymentState_value APPROVED = ''approved''"
| "PaymentState_value EXECUTING = ''executing''"
| "PaymentState_value SETTLED = ''settled''"
| "PaymentState_value FAILED = ''failed''"
| "PaymentState_value REJECTED = ''rejected''"
| "PaymentState_value EXPIRED = ''expired''"
| "PaymentState_value CANCELLED = ''cancelled''"
| "PaymentState_value RECONCILIATION_REQUIRED = ''reconciliation_required''"

fun PaymentState_name :: "PaymentState \<Rightarrow> string" where
  "PaymentState_name DRAFT = ''DRAFT''"
| "PaymentState_name SUBMITTED = ''SUBMITTED''"
| "PaymentState_name QUOTED = ''QUOTED''"
| "PaymentState_name PREPARED = ''PREPARED''"
| "PaymentState_name APPROVED = ''APPROVED''"
| "PaymentState_name EXECUTING = ''EXECUTING''"
| "PaymentState_name SETTLED = ''SETTLED''"
| "PaymentState_name FAILED = ''FAILED''"
| "PaymentState_name REJECTED = ''REJECTED''"
| "PaymentState_name EXPIRED = ''EXPIRED''"
| "PaymentState_name CANCELLED = ''CANCELLED''"
| "PaymentState_name RECONCILIATION_REQUIRED = ''RECONCILIATION_REQUIRED''"

datatype Rail = LIGHTNING

fun Rail_value :: "Rail \<Rightarrow> string" where
  "Rail_value LIGHTNING = ''lightning''"

instantiation PaymentState :: enum
begin

definition enum_PaymentState :: "PaymentState list" where
  "enum_PaymentState = [DRAFT, SUBMITTED, QUOTED, PREPARED, APPROVED, EXECUTING, SETTLED,
     FAILED, REJECTED, EXPIRED, CANCELLED, RECONCILIATION_REQUIRED]"

definition enum_all_PaymentState :: "(PaymentState \<Rightarrow> bool) \<Rightarrow> bool" where
  "enum_all_PaymentState P \<longleftrightarrow> list_all P enum_class.enum"

definition enum_ex_PaymentState :: "(PaymentState \<Rightarrow> bool) \<Rightarrow> bool" where
  "enum_ex_PaymentState P \<longleftrightarrow> list_ex P enum_class.enum"

instance
proof
  have univ: "(UNIV :: PaymentState set) = set enum_class.enum"
  proof (intro set_eqI iffI UNIV_I)
    fix s :: PaymentState
    show "s \<in> set enum_class.enum" by (cases s) (simp_all add: enum_PaymentState_def)
  qed
  then show "(UNIV :: PaymentState set) = set enum_class.enum" .
  show "distinct (enum_class.enum :: PaymentState list)"
    by (simp add: enum_PaymentState_def)
  fix P :: "PaymentState \<Rightarrow> bool"
  show "enum_class.enum_all P \<longleftrightarrow> Ball UNIV P"
    using univ by (auto simp: enum_all_PaymentState_def list_all_iff)
  show "enum_class.enum_ex P \<longleftrightarrow> Bex UNIV P"
    using univ by (auto simp: enum_ex_PaymentState_def list_ex_iff)
qed

end

lemma card_PaymentState: "card (UNIV :: PaymentState set) = 12"
proof -
  have "card (UNIV :: PaymentState set) = card (set (enum_class.enum :: PaymentState list))"
    by (simp add: UNIV_enum)
  also have "\<dots> = length (enum_class.enum :: PaymentState list)"
    by (rule distinct_card) (rule enum_distinct)
  finally show ?thesis by (simp add: enum_PaymentState_def)
qed

text \<open>The constructor of an enumeration from its value (\<open>PaymentState(v)\<close>, \<open>Rail(v)\<close>).\<close>

definition PaymentState_of_value :: "string \<Rightarrow> PaymentState option" where
  "PaymentState_of_value v = find (\<lambda>s. PaymentState_value s = v) enum_class.enum"

definition MessageKind_of_value :: "string \<Rightarrow> MessageKind option" where
  "MessageKind_of_value v = find (\<lambda>k. MessageKind_value k = v) [INTENT, QUOTE, RECEIPT]"

definition Rail_of_value :: "string \<Rightarrow> Rail option" where
  "Rail_of_value v = find (\<lambda>r. Rail_value r = v) [LIGHTNING]"

lemma PaymentState_value_roundtrip [simp]:
  "PaymentState_of_value (PaymentState_value s) = Some s"
  by (cases s) (simp_all add: PaymentState_of_value_def enum_PaymentState_def)

lemma MessageKind_value_roundtrip [simp]:
  "MessageKind_of_value (MessageKind_value k) = Some k"
  by (cases k) (simp_all add: MessageKind_of_value_def)

lemma Rail_value_roundtrip [simp]: "Rail_of_value (Rail_value r) = Some r"
  by (cases r) (simp add: Rail_of_value_def)

lemma PaymentState_value_inj: "PaymentState_value s = PaymentState_value t \<longleftrightarrow> s = t"
  by (metis PaymentState_value_roundtrip option.inject)

end
