(* ===== verification/State_Machine.thy ===== *)
theory State_Machine
  imports Enums
begin

text \<open>
  The finite automaton of \<open>src/hermes_payments/state_machine.py\<close>: the transition table,
  the terminal states, \<open>can_transition\<close>, \<open>transition\<close> and the worklist loop of
  \<open>reachable_states\<close>.
\<close>

section \<open>Table and operations\<close>

definition TRANSITIONS :: "((PaymentState \<times> string) \<times> PaymentState) list" where
  "TRANSITIONS = [
     ((DRAFT, ''submit''), SUBMITTED),
     ((SUBMITTED, ''quote_received''), QUOTED),
     ((QUOTED, ''prepared''), PREPARED),
     ((PREPARED, ''approved''), APPROVED),
     ((APPROVED, ''executing''), EXECUTING),
     ((EXECUTING, ''settled''), SETTLED),
     ((DRAFT, ''cancel''), CANCELLED),
     ((SUBMITTED, ''cancel''), CANCELLED),
     ((QUOTED, ''cancel''), CANCELLED),
     ((PREPARED, ''cancel''), CANCELLED),
     ((SUBMITTED, ''rejected''), REJECTED),
     ((QUOTED, ''rejected''), REJECTED),
     ((PREPARED, ''rejected''), REJECTED),
     ((APPROVED, ''rejected''), REJECTED),
     ((SUBMITTED, ''expired''), EXPIRED),
     ((QUOTED, ''expired''), EXPIRED),
     ((PREPARED, ''expired''), EXPIRED),
     ((APPROVED, ''expired''), EXPIRED),
     ((EXECUTING, ''expired''), RECONCILIATION_REQUIRED),
     ((QUOTED, ''adapter_error''), FAILED),
     ((PREPARED, ''adapter_error''), FAILED),
     ((APPROVED, ''adapter_error''), FAILED),
     ((EXECUTING, ''adapter_error''), RECONCILIATION_REQUIRED),
     ((EXECUTING, ''receipt_received''), SETTLED),
     ((RECONCILIATION_REQUIRED, ''receipt_received''), SETTLED),
     ((RECONCILIATION_REQUIRED, ''confirm_settled''), SETTLED)]"

definition TERMINAL_STATES :: "PaymentState list" where
  "TERMINAL_STATES = [SETTLED, FAILED, REJECTED, EXPIRED, CANCELLED]"

record TransitionResult =
  ok :: bool
  new_state :: PaymentState
  error :: "string option"

definition can_transition :: "PaymentState \<Rightarrow> string \<Rightarrow> bool" where
  "can_transition current trigger = ((current, trigger) \<in> fst ` set TRANSITIONS)"

definition transition :: "PaymentState \<Rightarrow> string \<Rightarrow> TransitionResult" where
  "transition current trigger =
     (if current \<in> set TERMINAL_STATES then
        \<lparr>ok = False, new_state = current,
         error = Some (''state '' @ PaymentState_value current @
                       '' is terminal; no transitions allowed'')\<rparr>
      else case map_of TRANSITIONS (current, trigger) of
        None \<Rightarrow>
          \<lparr>ok = False, new_state = current,
           error = Some (''no transition from '' @ PaymentState_value current @
                         '' on trigger '' @ [CHR 0x27] @ trigger @ [CHR 0x27])\<rparr>
      | Some next_state \<Rightarrow> \<lparr>ok = True, new_state = next_state, error = None\<rparr>)"

text \<open>
  \<open>frontier.pop()\<close> removes an arbitrary element of the set. The choice is the argument
  \<open>pick\<close>: at a frontier of \<open>n\<close> elements it pops the one at index \<open>pick n mod n\<close>, so the
  arbitrary \<open>pick\<close> covers every order the interpreter may choose.
\<close>

definition successors :: "PaymentState \<Rightarrow> PaymentState list" where
  "successors s = map snd (filter (\<lambda>((cur, _), _). cur = s) TRANSITIONS)"

definition add_all :: "PaymentState list \<Rightarrow> PaymentState list \<Rightarrow> PaymentState list" where
  "add_all frontier nxts = fold List.insert nxts frontier"

function reach_loop :: "(nat \<Rightarrow> nat) \<Rightarrow> PaymentState set \<Rightarrow> PaymentState list \<Rightarrow> PaymentState set" where
  "reach_loop pick visited frontier =
     (if frontier = [] then visited
      else let i = pick (length frontier) mod length frontier;
               s = frontier ! i;
               rest = take i frontier @ drop (Suc i) frontier
           in if s \<in> visited then reach_loop pick visited rest
              else reach_loop pick (insert s visited) (add_all rest (successors s)))"
  by pat_completeness auto
termination
proof (relation "measures [\<lambda>(_, visited, _). card (- visited), \<lambda>(_, _, frontier). length frontier]",
    goal_cases)
  case 1
  then show ?case by simp
next
  case (2 pick visited frontier i s rest)
  then have "i < length frontier" by simp
  moreover have "length rest = i + (length frontier - Suc i)"
    using 2 \<open>i < length frontier\<close> by simp
  ultimately have "length rest < length frontier" by linarith
  then show ?case by simp
next
  case (3 pick visited frontier i s rest)
  then have "- insert s visited \<subset> - visited" by auto
  then have "card (- insert s visited) < card (- visited)"
    by (rule psubset_card_mono [rotated]) simp
  then show ?case by simp
qed

declare reach_loop.simps [simp del]

definition reachable_states :: "(nat \<Rightarrow> nat) \<Rightarrow> PaymentState set" where
  "reachable_states pick = reach_loop pick {} [DRAFT]"

section \<open>The step relation of the table\<close>

inductive sm_step :: "PaymentState \<Rightarrow> string \<Rightarrow> PaymentState \<Rightarrow> bool" where
  sm_stepI: "ok (transition s t) \<Longrightarrow> sm_step s t (new_state (transition s t))"

lemma map_of_TRANSITIONS_cases:
  assumes "map_of TRANSITIONS (s, t) = Some s'"
  shows "((s, t), s') \<in> set TRANSITIONS"
  using assms by (rule map_of_SomeD)

lemma distinct_TRANSITIONS: "distinct (map fst TRANSITIONS)"
  by (simp add: TRANSITIONS_def)

text \<open>No terminal state has an entry in the table.\<close>

lemma terminal_no_entry: "s \<in> set TERMINAL_STATES \<Longrightarrow> (s, t) \<notin> fst ` set TRANSITIONS"
  by (auto simp: TERMINAL_STATES_def TRANSITIONS_def)

lemma transition_ok_iff: "ok (transition s t) \<longleftrightarrow> map_of TRANSITIONS (s, t) \<noteq> None"
  using terminal_no_entry [of s t]
  by (cases "map_of TRANSITIONS (s, t)") (auto simp: transition_def map_of_eq_None_iff [symmetric])

lemma transition_new_state:
  "map_of TRANSITIONS (s, t) = Some s' \<Longrightarrow> transition s t = \<lparr>ok = True, new_state = s', error = None\<rparr>"
  using terminal_no_entry [of s t]
  by (auto simp: transition_def map_of_eq_None_iff [symmetric])

lemma sm_step_iff: "sm_step s t s' \<longleftrightarrow> ((s, t), s') \<in> set TRANSITIONS"
proof -
  have "sm_step s t s' \<longleftrightarrow> map_of TRANSITIONS (s, t) = Some s'"
    using transition_ok_iff transition_new_state by (fastforce simp: sm_step.simps)
  then show ?thesis using distinct_TRANSITIONS by simp
qed

text \<open>The graph is acyclic: every step raises the rank of the state.\<close>

fun rank :: "PaymentState \<Rightarrow> nat" where
  "rank DRAFT = 0"
| "rank SUBMITTED = 1"
| "rank QUOTED = 2"
| "rank PREPARED = 3"
| "rank APPROVED = 4"
| "rank EXECUTING = 5"
| "rank RECONCILIATION_REQUIRED = 6"
| "rank _ = 7"

lemma sm_step_rank: "sm_step s t s' \<Longrightarrow> rank s < rank s'"
  by (auto simp: sm_step_iff TRANSITIONS_def)

lemma rank_le: "rank s \<le> 7"
  by (cases s) simp_all

text \<open>A run is a list of triggers applied one after the other.\<close>

fun sm_run :: "PaymentState \<Rightarrow> string list \<Rightarrow> PaymentState option" where
  "sm_run s [] = Some s"
| "sm_run s (t # ts) = (let r = transition s t in if ok r then sm_run (new_state r) ts else None)"

lemma sm_run_Cons_Some:
  "sm_run s (t # ts) = Some u \<longleftrightarrow> (\<exists>s'. sm_step s t s' \<and> sm_run s' ts = Some u)"
  by (auto simp: Let_def sm_step.simps)

lemma sm_run_terminal:
  assumes "s \<in> set TERMINAL_STATES"
  shows "sm_run s ts = Some u \<longleftrightarrow> ts = [] \<and> u = s"
  using assms by (cases ts) (auto simp: transition_def)

text \<open>
  Towards settlement the happy path is forced: before \<open>EXECUTING\<close> every other trigger leads
  into a terminal state that is not \<open>SETTLED\<close>.
\<close>

lemma forced_step:
  assumes run: "sm_run s ts = Some SETTLED" and "s \<noteq> SETTLED"
    and forced: "\<And>t s'. sm_step s t s' \<Longrightarrow> (t = t0 \<and> s' = s0) \<or> s' \<in> set TERMINAL_STATES - {SETTLED}"
  obtains r where "ts = t0 # r" and "sm_run s0 r = Some SETTLED"
proof (cases ts)
  case Nil
  with run \<open>s \<noteq> SETTLED\<close> show ?thesis by simp
next
  case (Cons t r)
  with run obtain s' where st: "sm_step s t s'" and r: "sm_run s' r = Some SETTLED"
    by (auto simp: sm_run_Cons_Some simp del: sm_run.simps)
  from r have "s' \<notin> set TERMINAL_STATES - {SETTLED}" by (auto simp: sm_run_terminal)
  with forced [OF st] have "t = t0" and "s' = s0" by auto
  with r Cons that show ?thesis by blast
qed

lemma sm_run_settles_from:
  "sm_run DRAFT ts = Some SETTLED \<Longrightarrow> \<exists>r. ts = ''submit'' # r \<and> sm_run SUBMITTED r = Some SETTLED"
  "sm_run SUBMITTED ts = Some SETTLED \<Longrightarrow> \<exists>r. ts = ''quote_received'' # r \<and> sm_run QUOTED r = Some SETTLED"
  "sm_run QUOTED ts = Some SETTLED \<Longrightarrow> \<exists>r. ts = ''prepared'' # r \<and> sm_run PREPARED r = Some SETTLED"
  "sm_run PREPARED ts = Some SETTLED \<Longrightarrow> \<exists>r. ts = ''approved'' # r \<and> sm_run APPROVED r = Some SETTLED"
  "sm_run APPROVED ts = Some SETTLED \<Longrightarrow> \<exists>r. ts = ''executing'' # r \<and> sm_run EXECUTING r = Some SETTLED"
  by (erule forced_step; force simp: sm_step_iff TRANSITIONS_def TERMINAL_STATES_def)+

section \<open>The worklist computes the reachable states\<close>

definition sm_edge :: "PaymentState \<Rightarrow> PaymentState \<Rightarrow> bool" where
  "sm_edge s s' \<longleftrightarrow> (\<exists>t. sm_step s t s')"

lemma set_successors: "set (successors s) = {s'. sm_edge s s'}"
  by (force simp: successors_def sm_edge_def sm_step_iff)

lemma set_add_all: "set (add_all frontier nxts) = set nxts \<union> set frontier"
  by (induction nxts arbitrary: frontier) (auto simp: add_all_def)

lemma set_pop:
  "i < length xs \<Longrightarrow> set xs = insert (xs ! i) (set (take i xs @ drop (Suc i) xs))"
  by (subst id_take_nth_drop [of i xs]) auto

text \<open>
  The loop invariant: what is visited or waiting covers the start and the successors of
  every visited state, and holds reachable states only.
\<close>

lemma reach_loop_correct:
  assumes "DRAFT \<in> visited \<union> set frontier"
    and "\<And>s s'. s \<in> visited \<Longrightarrow> sm_edge s s' \<Longrightarrow> s' \<in> visited \<union> set frontier"
    and "visited \<union> set frontier \<subseteq> {s. sm_edge\<^sup>*\<^sup>* DRAFT s}"
  shows "reach_loop pick visited frontier = {s. sm_edge\<^sup>*\<^sup>* DRAFT s}"
  using assms
proof (induction pick visited frontier rule: reach_loop.induct)
  case (1 pick visited frontier)
  show ?case
  proof (cases "frontier = []")
    case True
    have "s \<in> visited" if "sm_edge\<^sup>*\<^sup>* DRAFT s" for s
      using that by (induction rule: rtranclp_induct) (use 1 True in auto)
    with 1 True show ?thesis by (auto simp: reach_loop.simps)
  next
    case False
    define i where "i = pick (length frontier) mod length frontier"
    define s where "s = frontier ! i"
    define rest where "rest = take i frontier @ drop (Suc i) frontier"
    have i: "i < length frontier" using False by (simp add: i_def)
    have pop: "set frontier = insert s (set rest)"
      unfolding s_def rest_def by (rule set_pop [OF i])
    show ?thesis
    proof (cases "s \<in> visited")
      case True
      have "reach_loop pick visited rest = {s. sm_edge\<^sup>*\<^sup>* DRAFT s}"
        using "1.prems" pop True
        by (intro "1.IH"(1) [OF False i_def s_def rest_def True]) auto
      then show ?thesis
        using False True by (subst reach_loop.simps) (simp add: i_def s_def rest_def Let_def)
    next
      case new: False
      have succ_reach: "sm_edge\<^sup>*\<^sup>* DRAFT s'" if "sm_edge s s'" for s'
        using "1.prems"(3) pop that by (auto intro: rtranclp.rtrancl_into_rtrancl)
      have "reach_loop pick (insert s visited) (add_all rest (successors s)) =
          {s. sm_edge\<^sup>*\<^sup>* DRAFT s}"
        using "1.prems" pop succ_reach
        by (intro "1.IH"(2) [OF False i_def s_def rest_def new])
          (auto simp: set_add_all set_successors)
      then show ?thesis
        using False new by (subst reach_loop.simps) (simp add: i_def s_def rest_def Let_def)
    qed
  qed
qed

section \<open>Properties\<close>

text \<open>Every run of the automaton that ends in \<open>SETTLED\<close> goes through submission, quote,
  preparation, approval and execution, in this order and with nothing in between: no
  sequence of events settles a payment that was not approved.\<close>

theorem settlement_needs_approval:
  assumes "sm_run DRAFT ts = Some SETTLED"
  shows "\<exists>rest. ts = [''submit'', ''quote_received'', ''prepared'', ''approved'', ''executing''] @ rest
           \<and> sm_run EXECUTING rest = Some SETTLED"
  using assms by (auto dest!: sm_run_settles_from)

theorem settlement_needs_approval_witness:
  "\<exists>rest. [''submit'', ''quote_received'', ''prepared'', ''approved'', ''executing'',
      ''adapter_error'', ''confirm_settled''] =
      [''submit'', ''quote_received'', ''prepared'', ''approved'', ''executing''] @ rest
      \<and> sm_run EXECUTING rest = Some SETTLED"
  by (rule settlement_needs_approval) code_simp

text \<open>Once an intent is \<open>EXECUTING\<close>, no sequence of events takes it to \<open>EXPIRED\<close>, \<open>FAILED\<close>,
  \<open>REJECTED\<close> or \<open>CANCELLED\<close>: it stays in execution, needs reconciliation, or is settled.\<close>

theorem executing_never_fails:
  assumes "sm_run EXECUTING ts = Some s"
  shows "s \<in> {EXECUTING, RECONCILIATION_REQUIRED, SETTLED}"
proof -
  have "s \<in> {EXECUTING, RECONCILIATION_REQUIRED, SETTLED}"
    if "sm_run s0 ts = Some s" "s0 \<in> {EXECUTING, RECONCILIATION_REQUIRED, SETTLED}" for s0
    using that
  proof (induction ts arbitrary: s0)
    case (Cons t ts)
    then obtain s1 where "sm_step s0 t s1" "sm_run s1 ts = Some s"
      by (auto simp: sm_run_Cons_Some simp del: sm_run.simps)
    moreover from this(1) Cons.prems(2) have "s1 \<in> {EXECUTING, RECONCILIATION_REQUIRED, SETTLED}"
      by (auto simp: sm_step_iff TRANSITIONS_def)
    ultimately show ?case using Cons.IH by blast
  qed auto
  then show ?thesis using assms by blast
qed

theorem executing_never_fails_witness:
  "RECONCILIATION_REQUIRED \<in> {EXECUTING, RECONCILIATION_REQUIRED, SETTLED}
   \<and> sm_run EXECUTING [''expired''] = Some RECONCILIATION_REQUIRED"
proof
  show run: "sm_run EXECUTING [''expired''] = Some RECONCILIATION_REQUIRED" by code_simp
  show "RECONCILIATION_REQUIRED \<in> {EXECUTING, RECONCILIATION_REQUIRED, SETTLED}"
    by (rule executing_never_fails [OF run])
qed

text \<open>A payment takes at most seven transitions, whatever events arrive: every accepted
  sequence of triggers is at most as long as the rank it gains.\<close>

theorem runs_are_bounded:
  assumes "sm_run s ts = Some s'"
  shows "rank s + length ts \<le> rank s' \<and> length ts \<le> 7"
proof -
  have "rank s + length ts \<le> rank s'"
    using assms
  proof (induction ts arbitrary: s)
    case (Cons t ts)
    then obtain s1 where "sm_step s t s1" "sm_run s1 ts = Some s'"
      by (auto simp: sm_run_Cons_Some simp del: sm_run.simps)
    with Cons.IH [of s1] sm_step_rank [of s t s1] show ?case by simp
  qed simp
  with rank_le [of s'] show ?thesis by linarith
qed

theorem runs_are_bounded_witness:
  "rank DRAFT + length [''submit'', ''cancel''] \<le> rank CANCELLED \<and> length [''submit'', ''cancel''] \<le> 7"
  by (rule runs_are_bounded) code_simp

text \<open>\<open>reachable_states\<close> terminates and returns exactly the states the table reaches from
  \<open>DRAFT\<close>, which are all twelve, in whatever order the frontier is popped.\<close>

theorem reachable_states_correct:
  "reachable_states pick = {s. sm_edge\<^sup>*\<^sup>* DRAFT s} \<and> reachable_states pick = UNIV"
proof
  show eq: "reachable_states pick = {s. sm_edge\<^sup>*\<^sup>* DRAFT s}"
    unfolding reachable_states_def by (rule reach_loop_correct) auto
  have path: "sm_edge\<^sup>*\<^sup>* DRAFT s" if "sm_run DRAFT ts = Some s" for ts s
  proof -
    have "sm_edge\<^sup>*\<^sup>* s0 s" if "sm_run s0 ts = Some s" for s0
      using that
    proof (induction ts arbitrary: s0)
      case (Cons t ts)
      then show ?case
        by (auto simp: sm_run_Cons_Some sm_edge_def simp del: sm_run.simps
            intro: converse_rtranclp_into_rtranclp)
    qed simp
    with that show ?thesis by blast
  qed
  have "sm_edge\<^sup>*\<^sup>* DRAFT s" for s
  proof (cases s)
    case DRAFT
    then show ?thesis by simp
  qed (rule path [of "[''submit'']"] path [of "[''submit'', ''cancel'']"]
      path [of "[''submit'', ''rejected'']"] path [of "[''submit'', ''expired'']"]
      path [of "[''submit'', ''quote_received'']"]
      path [of "[''submit'', ''quote_received'', ''prepared'']"]
      path [of "[''submit'', ''quote_received'', ''adapter_error'']"]
      path [of "[''submit'', ''quote_received'', ''prepared'', ''approved'']"]
      path [of "[''submit'', ''quote_received'', ''prepared'', ''approved'', ''executing'']"]
      path [of "[''submit'', ''quote_received'', ''prepared'', ''approved'', ''executing'', ''settled'']"]
      path [of "[''submit'', ''quote_received'', ''prepared'', ''approved'', ''executing'', ''expired'']"],
      simp, code_simp; fail)+
  then show "reachable_states pick = UNIV" by (auto simp: eq)
qed

text \<open>\<open>can_transition\<close> predicts \<open>transition\<close> exactly, and a refused transition leaves the
  state as it was and reports an error.\<close>

theorem transition_result_spec:
  "ok (transition s t) = can_transition s t
   \<and> (ok (transition s t) = (error (transition s t) = None))
   \<and> (if can_transition s t then ((s, t), new_state (transition s t)) \<in> set TRANSITIONS
      else new_state (transition s t) = s)"
proof (cases "map_of TRANSITIONS (s, t)")
  case None
  then have "\<not> can_transition s t" by (simp add: can_transition_def map_of_eq_None_iff)
  with None show ?thesis by (simp add: transition_def)
next
  case (Some s')
  then have "can_transition s t"
    by (auto simp: can_transition_def dest!: map_of_SomeD intro: rev_image_eqI)
  with Some show ?thesis by (simp add: transition_new_state map_of_SomeD)
qed

end
