(* ===== verification/Py_Value.thy ===== *)
theory Py_Value
  imports Prelude
begin

text \<open>
  What the program uses of Python itself: text operations, decimal integers, IEEE double
  values with correctly rounded reading and shortest printing, JSON-shaped dynamic values
  with Python's truth value, equality, \<open>str\<close>, \<open>repr\<close> and \<open>int\<close>.

  A Python \<open>str\<close> is a \<^typ>\<open>string\<close>, one \<^typ>\<open>char\<close> per code point; code points above 255 are
  outside the model. A Python \<open>bytes\<close> is also a \<^typ>\<open>char list\<close>, one \<^typ>\<open>char\<close> per byte.
\<close>

type_synonym bytes = "char list"

abbreviation code :: "char \<Rightarrow> nat" where
  "code c \<equiv> of_char c"

section \<open>Text\<close>

definition is_space :: "char \<Rightarrow> bool" where
  "is_space c \<longleftrightarrow> code c \<in> {9, 10, 11, 12, 13, 28, 29, 30, 31, 32, 133, 160}"

definition py_strip :: "string \<Rightarrow> string" where
  "py_strip s = rev (dropWhile is_space (rev (dropWhile is_space s)))"

definition is_digit :: "char \<Rightarrow> bool" where
  "is_digit c \<longleftrightarrow> 48 \<le> code c \<and> code c \<le> 57"

text \<open>\<open>str.upper\<close>; the sharp s becomes two letters.\<close>

definition upper_char :: "char \<Rightarrow> string" where
  "upper_char c =
     (let n = code c in
      if 97 \<le> n \<and> n \<le> 122 then [char_of (n - 32)]
      else if n = 223 then ''SS''
      else if 224 \<le> n \<and> n \<le> 254 \<and> n \<noteq> 247 then [char_of (n - 32)]
      else [c])"

definition py_upper :: "string \<Rightarrow> string" where
  "py_upper s = concat (map upper_char s)"

text \<open>\<open>s.replace(pat, new)\<close> for a non-empty \<open>pat\<close>: leftmost occurrences, not overlapping.\<close>

fun py_replace :: "string \<Rightarrow> string \<Rightarrow> string \<Rightarrow> string" where
  "py_replace pat new [] = []"
| "py_replace pat new (c # cs) =
     (if take (length pat) (c # cs) = pat \<and> pat \<noteq> []
      then new @ py_replace pat new (drop (length pat - 1) cs)
      else c # py_replace pat new cs)"

section \<open>Decimal integers\<close>

definition digit_char :: "nat \<Rightarrow> char" where
  "digit_char n = char_of (48 + n)"

fun show_nat :: "nat \<Rightarrow> string" where
  "show_nat n = (if n < 10 then [digit_char n] else show_nat (n div 10) @ [digit_char (n mod 10)])"

declare show_nat.simps [simp del]

definition show_int :: "int \<Rightarrow> string" where
  "show_int i = (if i < 0 then CHR ''-'' # show_nat (nat (- i)) else show_nat (nat i))"

definition read_nat :: "string \<Rightarrow> nat" where
  "read_nat s = foldl (\<lambda>a c. 10 * a + (code c - 48)) 0 s"

lemma code_digit_char [simp]: "n < 10 \<Longrightarrow> code (digit_char n) = 48 + n"
  by (simp add: digit_char_def)

lemma is_digit_digit_char [simp]: "n < 10 \<Longrightarrow> is_digit (digit_char n)"
  by (simp add: is_digit_def)

lemma show_nat_digits: "\<forall>c \<in> set (show_nat n). is_digit c"
proof (induction n rule: show_nat.induct)
  case (1 n)
  then show ?case by (subst show_nat.simps) auto
qed

lemma show_nat_not_Nil [simp]: "show_nat n \<noteq> []"
  by (subst show_nat.simps) simp

lemma read_nat_snoc: "read_nat (s @ [c]) = 10 * read_nat s + (code c - 48)"
  by (simp add: read_nat_def)

lemma read_show_nat [simp]: "read_nat (show_nat n) = n"
proof (induction n rule: show_nat.induct)
  case (1 n)
  show ?case
  proof (cases "n < 10")
    case True
    then show ?thesis by (subst show_nat.simps) (simp add: read_nat_def)
  next
    case False
    with 1 have "read_nat (show_nat (n div 10)) = n div 10" by simp
    with False show ?thesis by (subst show_nat.simps) (simp add: read_nat_snoc)
  qed
qed

text \<open>Only zero is printed with a leading zero digit.\<close>

lemma hd_show_nat: "hd (show_nat n) = CHR ''0'' \<longleftrightarrow> n = 0"
proof (induction n rule: show_nat.induct)
  case (1 n)
  show ?case
  proof (cases "n < 10")
    case True
    have "(digit_char n = CHR ''0'') = (code (digit_char n) = code (CHR ''0''))"
      by (simp only: of_char_eq_iff)
    with True show ?thesis by (subst show_nat.simps) simp
  next
    case False
    with 1 show ?thesis by (subst show_nat.simps) (simp add: hd_append)
  qed
qed

lemma show_nat_0 [simp]: "show_nat 0 = ''0''"
  by code_simp

section \<open>Doubles\<close>

text \<open>
  A double is a NaN, an infinity (with its sign) or a finite value: sign, mantissa and binary
  exponent, \<open>\<plusminus> m * 2 ^ e\<close>. Finite values are kept in normal form (odd mantissa, or zero with
  exponent zero), so that distinct terms are distinct doubles.
\<close>

datatype pyfloat = FNan | FInf bool | FFin bool nat int

function strip_twos :: "nat \<Rightarrow> int \<Rightarrow> nat \<times> int" where
  "strip_twos m e = (if m = 0 then (0, 0) else if even m then strip_twos (m div 2) (e + 1) else (m, e))"
  by pat_completeness auto
termination
  by (relation "measure fst") auto

declare strip_twos.simps [simp del]

definition mk_float :: "bool \<Rightarrow> nat \<Rightarrow> int \<Rightarrow> pyfloat" where
  "mk_float neg m e = (let (m', e') = strip_twos m e in FFin neg m' e')"

fun bit_length :: "nat \<Rightarrow> nat" where
  "bit_length n = (if n = 0 then 0 else Suc (bit_length (n div 2)))"

declare bit_length.simps [simp del]

definition round_half_even :: "nat \<Rightarrow> nat \<Rightarrow> nat" where
  "round_half_even p q =
     (let d = p div q; r = p mod q
      in if 2 * r < q then d else if q < 2 * r then d + 1 else if even d then d else d + 1)"

text \<open>
  The double nearest to \<open>p / q\<close>, ties to even, with gradual underflow at \<open>2 ^ -1074\<close> and
  overflow to infinity at \<open>2 ^ 1024\<close>.
\<close>

definition float_of_ratio :: "bool \<Rightarrow> nat \<Rightarrow> nat \<Rightarrow> pyfloat" where
  "float_of_ratio neg p q =
     (if p = 0 then FFin neg 0 0 else
      let k = int (bit_length p) - int (bit_length q) - 53;
          ge = (\<lambda>e. if 0 \<le> e then q * 2 ^ nat e * 2 ^ 53 \<le> p else q * 2 ^ 53 \<le> p * 2 ^ nat (- e));
          e = max (if ge k then k + 1 else k) (- 1074);
          m = (if 0 \<le> e then round_half_even p (q * 2 ^ nat e)
               else round_half_even (p * 2 ^ nat (- e)) q)
      in if 1024 < int (bit_length m) + e then FInf neg else mk_float neg m e)"

text \<open>A decimal: digits \<open>d\<close> scaled by a power of ten.\<close>

definition float_of_decimal :: "bool \<Rightarrow> nat \<Rightarrow> int \<Rightarrow> pyfloat" where
  "float_of_decimal neg d x =
     (if 0 \<le> x then float_of_ratio neg (d * 10 ^ nat x) 1 else float_of_ratio neg d (10 ^ nat (- x)))"

text \<open>
  \<open>float.__repr__\<close>: the shortest digit string that reads back to the value, and the closest
  one to it among those. \<open>dec_exp\<close> is the exponent of the leading decimal digit.
\<close>

definition ratio_of :: "nat \<Rightarrow> int \<Rightarrow> nat \<times> nat" where
  "ratio_of m e = (if 0 \<le> e then (m * 2 ^ nat e, 1) else (m, 2 ^ nat (- e)))"

definition dec_exp :: "nat \<Rightarrow> nat \<Rightarrow> int" where
  "dec_exp p q =
     (if q \<le> p then int (length (show_nat (p div q))) - 1
      else - int (length (takeWhile (\<lambda>i. p * 10 ^ i < q) [1..<400])) - 1)"

definition digit_candidate :: "nat \<Rightarrow> int \<Rightarrow> nat \<Rightarrow> (nat \<times> int) option" where
  "digit_candidate m e n =
     (let (p, q) = ratio_of m e;
          x = dec_exp p q - int n + 1;
          (p', q') = (if 0 \<le> x then (p, q * 10 ^ nat x) else (p * 10 ^ nat (- x), q));
          lo = p' div q';
          good = (\<lambda>d. float_of_decimal False d x = mk_float False m e);
          near = (if 2 * (p' mod q') \<le> q' then lo else lo + 1);
          far = (if 2 * (p' mod q') \<le> q' then lo + 1 else lo)
      in if good near then Some (near, x) else if good far then Some (far, x) else None)"

definition shortest_digits :: "nat \<Rightarrow> int \<Rightarrow> nat \<times> int" where
  "shortest_digits m e =
     (case List.map_filter (digit_candidate m e) [1..<18] of [] \<Rightarrow> (0, 0) | c # _ \<Rightarrow> c)"

definition format_digits :: "string \<Rightarrow> int \<Rightarrow> string" where
  "format_digits ds pt =
     (if - 4 < pt \<and> pt \<le> 16 then
        (if pt \<le> 0 then ''0.'' @ replicate (nat (- pt)) (CHR ''0'') @ ds
         else if int (length ds) \<le> pt then ds @ replicate (nat pt - length ds) (CHR ''0'') @ ''.0''
         else take (nat pt) ds @ ''.'' @ drop (nat pt) ds)
      else
        (let x = pt - 1; ax = show_nat (nat \<bar>x\<bar>)
         in take 1 ds @ (if length ds = 1 then [] else CHR ''.'' # drop 1 ds) @ ''e'' @
            (if x < 0 then ''-'' else ''+'') @ (if length ax < 2 then CHR ''0'' # ax else ax)))"

fun float_repr :: "pyfloat \<Rightarrow> string" where
  "float_repr FNan = ''nan''"
| "float_repr (FInf neg) = (if neg then ''-inf'' else ''inf'')"
| "float_repr (FFin neg m e) =
     (if neg then ''-'' else []) @
     (if m = 0 then ''0.0''
      else let (d, x) = shortest_digits m e;
               ds = show_nat d;
               ds' = rev (dropWhile (\<lambda>c. c = CHR ''0'') (rev ds))
           in format_digits ds' (x + int (length ds)))"

fun float_trunc :: "bool \<Rightarrow> nat \<Rightarrow> int \<Rightarrow> int" where
  "float_trunc neg m e =
     (let a = int (if 0 \<le> e then m * 2 ^ nat e else m div 2 ^ nat (- e)) in if neg then - a else a)"

fun float_eq_int :: "pyfloat \<Rightarrow> int \<Rightarrow> bool" where
  "float_eq_int (FFin neg m e) i =
     (let a = (if neg then - int m else int m)
      in if 0 \<le> e then a * 2 ^ nat e = i else a = i * 2 ^ nat (- e))"
| "float_eq_int _ _ = False"

fun float_eq :: "pyfloat \<Rightarrow> pyfloat \<Rightarrow> bool" where
  "float_eq (FInf a) (FInf b) = (a = b)"
| "float_eq (FFin a m e) (FFin b n f) = (if m = 0 then n = 0 else a = b \<and> m = n \<and> e = f)"
| "float_eq _ _ = False"

section \<open>Exceptions\<close>

text \<open>
  The exceptions of the adapter, the transport and the Python library, with the text that
  \<open>str(e)\<close> gives where the program uses it. \<open>AmbiguousResult\<close> is a subclass of
  \<open>AdapterError\<close>, so an \<open>except AdapterError\<close> clause catches both.
\<close>

datatype exn =
    AdapterError string | AmbiguousResult string
  | ValueError string | TypeError string | OverflowError string | AttributeError string
  | KeyError string | OSError string | ValidationError
  | PeerTransportError string | PeerProtocolError string
  | BuzzTransportError string | EnvelopeValidationError string | OtherError string

fun exn_str :: "exn \<Rightarrow> string" where
  "exn_str (AdapterError m) = m"
| "exn_str (AmbiguousResult m) = m"
| "exn_str (ValueError m) = m"
| "exn_str (TypeError m) = m"
| "exn_str (OverflowError m) = m"
| "exn_str (AttributeError m) = m"
| "exn_str (KeyError k) = k"
| "exn_str (OSError m) = m"
| "exn_str ValidationError = ''validation error''"
| "exn_str (PeerTransportError m) = m"
| "exn_str (PeerProtocolError m) = m"
| "exn_str (BuzzTransportError m) = m"
| "exn_str (EnvelopeValidationError m) = m"
| "exn_str (OtherError m) = m"

fun is_adapter_error :: "exn \<Rightarrow> bool" where
  "is_adapter_error (AdapterError _) = True"
| "is_adapter_error (AmbiguousResult _) = True"
| "is_adapter_error _ = False"

section \<open>JSON-shaped values\<close>

datatype pyjson =
    JNull | JBool bool | JInt int | JFloat pyfloat | JStr string
  | JList "pyjson list" | JObj "(string \<times> pyjson) list"

fun py_type_name :: "pyjson \<Rightarrow> string" where
  "py_type_name JNull = ''NoneType''"
| "py_type_name (JBool _) = ''bool''"
| "py_type_name (JInt _) = ''int''"
| "py_type_name (JFloat _) = ''float''"
| "py_type_name (JStr _) = ''str''"
| "py_type_name (JList _) = ''list''"
| "py_type_name (JObj _) = ''dict''"

fun py_truthy :: "pyjson \<Rightarrow> bool" where
  "py_truthy JNull = False"
| "py_truthy (JBool b) = b"
| "py_truthy (JInt i) = (i \<noteq> 0)"
| "py_truthy (JFloat f) = (case f of FFin _ m _ \<Rightarrow> m \<noteq> 0 | _ \<Rightarrow> True)"
| "py_truthy (JStr s) = (s \<noteq> [])"
| "py_truthy (JList xs) = (xs \<noteq> [])"
| "py_truthy (JObj d) = (d \<noteq> [])"

text \<open>The number a Boolean or integer compares as.\<close>

fun py_index :: "pyjson \<Rightarrow> int option" where
  "py_index (JBool b) = Some (if b then 1 else 0)"
| "py_index (JInt i) = Some i"
| "py_index _ = None"

text \<open>\<open>a == b\<close>: numbers compare by value across types, dictionaries regardless of order.\<close>

fun py_eq :: "pyjson \<Rightarrow> pyjson \<Rightarrow> bool"
  and py_eq_list :: "pyjson list \<Rightarrow> pyjson list \<Rightarrow> bool"
  and py_eq_items :: "(string \<times> pyjson) list \<Rightarrow> (string \<times> pyjson) list \<Rightarrow> bool" where
  "py_eq JNull b = (b = JNull)"
| "py_eq (JBool x) b =
     (case b of JFloat g \<Rightarrow> float_eq_int g (if x then 1 else 0)
      | _ \<Rightarrow> py_index b = Some (if x then 1 else 0))"
| "py_eq (JInt i) b = (case b of JFloat g \<Rightarrow> float_eq_int g i | _ \<Rightarrow> py_index b = Some i)"
| "py_eq (JFloat f) b =
     (case b of JFloat g \<Rightarrow> float_eq f g
      | _ \<Rightarrow> (case py_index b of Some i \<Rightarrow> float_eq_int f i | None \<Rightarrow> False))"
| "py_eq (JStr s) b = (b = JStr s)"
| "py_eq (JList xs) b = (case b of JList ys \<Rightarrow> py_eq_list xs ys | _ \<Rightarrow> False)"
| "py_eq (JObj d) b = (case b of JObj d' \<Rightarrow> length d = length d' \<and> py_eq_items d d' | _ \<Rightarrow> False)"
| "py_eq_list [] ys = (ys = [])"
| "py_eq_list (x # xs) ys = (case ys of [] \<Rightarrow> False | y # ys' \<Rightarrow> py_eq x y \<and> py_eq_list xs ys')"
| "py_eq_items [] d' = True"
| "py_eq_items ((k, v) # d) d' =
     ((case dict_get d' k of None \<Rightarrow> False | Some w \<Rightarrow> py_eq v w) \<and> py_eq_items d d')"

lemma py_eq_Str_right [simp]: "py_eq v (JStr s) \<longleftrightarrow> v = JStr s"
  by (cases v) auto

lemma py_eq_Int_Int [simp]: "py_eq (JInt i) (JInt j) \<longleftrightarrow> i = j"
  by auto

subsection \<open>Text of values\<close>

fun join :: "string \<Rightarrow> string list \<Rightarrow> string" where
  "join sep [] = []"
| "join sep [x] = x"
| "join sep (x # y # ys) = x @ sep @ join sep (y # ys)"

definition hex_char :: "nat \<Rightarrow> char" where
  "hex_char n = (if n < 10 then digit_char n else char_of (87 + n))"

definition hex2 :: "nat \<Rightarrow> string" where
  "hex2 n = [hex_char (n div 16), hex_char (n mod 16)]"

text \<open>\<open>repr(s)\<close> of a string.\<close>

definition repr_char :: "char \<Rightarrow> char \<Rightarrow> string" where
  "repr_char q c =
     (let n = code c in
      if c = q \<or> n = 92 then [CHR 0x5C, c]
      else if n = 9 then [CHR 0x5C, CHR ''t'']
      else if n = 10 then [CHR 0x5C, CHR ''n'']
      else if n = 13 then [CHR 0x5C, CHR ''r'']
      else if n < 32 \<or> (127 \<le> n \<and> n \<le> 160) \<or> n = 173 then [CHR 0x5C, CHR ''x''] @ hex2 n
      else [c])"

definition str_repr :: "string \<Rightarrow> string" where
  "str_repr s =
     (let q = (if CHR 0x27 \<in> set s \<and> CHR 0x22 \<notin> set s then CHR 0x22 else CHR 0x27)
      in [q] @ concat (map (repr_char q) s) @ [q])"

fun py_repr :: "pyjson \<Rightarrow> string" where
  "py_repr JNull = ''None''"
| "py_repr (JBool b) = (if b then ''True'' else ''False'')"
| "py_repr (JInt i) = show_int i"
| "py_repr (JFloat f) = float_repr f"
| "py_repr (JStr s) = str_repr s"
| "py_repr (JList xs) = ''['' @ join '', '' (map py_repr xs) @ '']''"
| "py_repr (JObj d) =
     CHR 0x7B # join '', '' (map (\<lambda>(k, v). str_repr k @ '': '' @ py_repr v) d) @ [CHR 0x7D]"

definition py_str :: "pyjson \<Rightarrow> string" where
  "py_str v = (case v of JStr s \<Rightarrow> s | _ \<Rightarrow> py_repr v)"

lemma py_str_Str [simp]: "py_str (JStr s) = s"
  by (simp add: py_str_def)

subsection \<open>The constructor \<open>int\<close>\<close>

fun int_body :: "string \<Rightarrow> bool" where
  "int_body [] = False"
| "int_body [c] = is_digit c"
| "int_body (c # d # r) = (is_digit c \<and> (if d = CHR ''_'' then int_body r else int_body (d # r)))"

definition split_sign :: "string \<Rightarrow> bool \<times> string" where
  "split_sign s = (case s of c # r \<Rightarrow> if c = CHR ''-'' then (True, r)
     else if c = CHR ''+'' then (False, r) else (False, s) | [] \<Rightarrow> (False, []))"

definition read_int_text :: "string \<Rightarrow> int option" where
  "read_int_text s =
     (let (neg, b) = split_sign (py_strip s); a = int (read_nat (filter is_digit b))
      in if int_body b then Some (if neg then - a else a) else None)"

fun py_int :: "pyjson \<Rightarrow> exn + int" where
  "py_int (JBool b) = Inr (if b then 1 else 0)"
| "py_int (JInt i) = Inr i"
| "py_int (JFloat FNan) = Inl (ValueError ''cannot convert float NaN to integer'')"
| "py_int (JFloat (FInf _)) = Inl (OverflowError ''cannot convert float infinity to integer'')"
| "py_int (JFloat (FFin neg m e)) = Inr (float_trunc neg m e)"
| "py_int (JStr s) =
     (case read_int_text s of Some i \<Rightarrow> Inr i
      | None \<Rightarrow> Inl (ValueError (''invalid literal for int() with base 10: '' @ str_repr s)))"
| "py_int v =
     Inl (TypeError (''int() argument must be a string, a bytes-like object or a real number, not '' @
                     [CHR 0x27] @ py_type_name v @ [CHR 0x27]))"

subsection \<open>UTF-8\<close>

definition utf8_char :: "char \<Rightarrow> bytes" where
  "utf8_char c =
     (let n = code c in if n < 128 then [c] else [char_of (192 + n div 64), char_of (128 + n mod 64)])"

definition utf8_encode :: "string \<Rightarrow> bytes" where
  "utf8_encode s = concat (map utf8_char s)"

fun utf8_decode :: "bytes \<Rightarrow> string option" where
  "utf8_decode [] = Some []"
| "utf8_decode (b # bs) =
     (if code b < 128 then map_option (Cons b) (utf8_decode bs)
      else case bs of
        b2 # bs' \<Rightarrow>
          (if (code b = 194 \<or> code b = 195) \<and> 128 \<le> code b2 \<and> code b2 < 192
           then map_option (Cons (char_of ((code b - 192) * 64 + (code b2 - 128)))) (utf8_decode bs')
           else None)
      | [] \<Rightarrow> None)"

lemma code_lt_256: "code c < 256"
  using of_char_mod_256 [of c] by (metis mod_less_divisor zero_less_numeral)

lemma utf8_decode_char [simp]:
  "utf8_decode (utf8_char c @ bs) = map_option (Cons c) (utf8_decode bs)"
proof (cases "code c < 128")
  case True
  then show ?thesis by (simp add: utf8_char_def)
next
  case False
  define n where "n = code c"
  have n: "128 \<le> n" "n < 256" using False code_lt_256 [of c] by (auto simp: n_def)
  have q: "n div 64 = 2 \<or> n div 64 = 3" using n by linarith
  have b1: "code (char_of (192 + n div 64)) = 192 + n div 64" using q by auto
  have b2: "code (char_of (128 + n mod 64)) = 128 + n mod 64"
    using mod_less_divisor [of 64 n] by simp
  have "(192 + n div 64 - 192) * 64 + (128 + n mod 64 - 128) = n" by simp
  then have inv: "char_of ((code (char_of (192 + n div 64)) - 192) * 64 +
      (code (char_of (128 + n mod 64)) - 128)) = c"
    unfolding b1 b2 by (simp add: n_def)
  have "utf8_char c = [char_of (192 + n div 64), char_of (128 + n mod 64)]"
    using False by (simp add: utf8_char_def n_def Let_def)
  then show ?thesis
    using q inv b1 b2 mod_less_divisor [of 64 n] by (auto simp: n_def)
qed

lemma utf8_roundtrip [simp]: "utf8_decode (utf8_encode s) = Some s"
  by (induction s) (simp_all add: utf8_encode_def)

end
