(* ===== verification/Json_Roundtrip.thy ===== *)
theory Json_Roundtrip
  imports Json_Codec
begin

text \<open>
  Reading back what \<open>json.dumps\<close> wrote: \<open>json_loads (json_dumps opt v)\<close> is \<open>v\<close> with its
  dictionaries in the order \<open>dumps\<close> used. The only condition on the value is that its
  dictionaries have distinct keys and that its doubles print to digits that read back.
\<close>

section \<open>Strings\<close>

lemma hex_val_hex_char [simp]: "n < 16 \<Longrightarrow> hex_val (hex_char n) = Some n"
  by (auto simp: hex_val_def hex_char_def digit_char_def Let_def)

lemma code_eq_iff: "code c = n \<Longrightarrow> c = char_of n"
  by auto

lemma char_of_escapes:
  "char_of (34::nat) = CHR 0x22" "char_of (92::nat) = CHR 0x5C" "char_of (10::nat) = CHR 0x0A"
  "char_of (13::nat) = CHR 0x0D" "char_of (9::nat) = CHR 0x09" "char_of (12::nat) = CHR 0x0C"
  "char_of (8::nat) = CHR 0x08"
  by code_simp+

lemma parse_str_esc [simp]:
  "parse_str (esc_char a c @ t) = map_option (apfst (Cons c)) (parse_str t)"
proof -
  consider "code c \<in> {34, 92, 10, 13, 9, 12, 8}"
    | "code c \<notin> {34, 92, 10, 13, 9, 12, 8}" "code c < 32 \<or> a \<and> 127 \<le> code c"
    | "code c \<notin> {34, 92, 10, 13, 9, 12, 8}" "\<not> (code c < 32 \<or> a \<and> 127 \<le> code c)"
    by blast
  then show ?thesis
  proof cases
    case 1
    then show ?thesis by (auto simp: esc_char_def unescape_def char_of_escapes dest!: code_eq_iff)
  next
    case 2
    have "code c div 16 < 16" using code_lt_256 [of c] by (intro less_mult_imp_div_less) simp
    moreover have "char_of (16 * (code c div 16) + code c mod 16) = c"
      by (simp add: mult_div_mod_eq)
    ultimately have "unescape_u (CHR ''0'') (CHR ''0'') (hex_char (code c div 16))
        (hex_char (code c mod 16)) = Some c"
      by (simp add: unescape_u_def hex_val_def [of "CHR ''0''"])
    with 2 show ?thesis by (auto simp: esc_char_def Let_def hex2_def)
  next
    case 3
    then have "c \<noteq> quote_char" "c \<noteq> backslash" by auto
    with 3 show ?thesis by (auto simp: esc_char_def)
  qed
qed

lemma parse_str_body:
  "parse_str (concat (map (esc_char a) s) @ quote_char # t) = Some (s, t)"
  by (induction s) simp_all

section \<open>Numbers\<close>

definition delim :: "string \<Rightarrow> bool" where
  "delim r \<longleftrightarrow> r = [] \<or> hd r \<in> {CHR '','', CHR '']'', CHR 0x7D, CHR '' '', CHR 0x09, CHR 0x0A, CHR 0x0D}"

lemma delim_not_digit: "delim (c # r) \<Longrightarrow> \<not> is_digit c"
  by (auto simp: delim_def is_digit_def)

lemma digits_append:
  assumes "delim r"
  shows "takeWhile is_digit (s @ r) = takeWhile is_digit s"
    and "dropWhile is_digit (s @ r) = dropWhile is_digit s @ r"
  using assms
  by (induction s) (cases r; auto dest: delim_not_digit)+

lemma int_part_append: "delim r \<Longrightarrow> int_part (s @ r) = apsnd (\<lambda>x. x @ r) (int_part s)"
  by (cases s; cases r) (auto simp: int_part_def digits_append delim_def is_digit_def)

lemma frac_part_append: "delim r \<Longrightarrow> frac_part (s @ r) = apsnd (\<lambda>x. x @ r) (frac_part s)"
  by (cases s; cases r) (auto simp: frac_part_def digits_append delim_def)

lemma split_sign_append: "delim r \<Longrightarrow> split_sign (s @ r) = apsnd (\<lambda>x. x @ r) (split_sign s)"
  by (cases s; cases r) (auto simp: split_sign_def delim_def)

lemma exp_part_append: "delim r \<Longrightarrow> exp_part (s @ r) = apsnd (\<lambda>x. x @ r) (exp_part s)"
proof (cases s)
  case Nil
  assume "delim r"
  with Nil show ?thesis by (cases r) (auto simp: exp_part_def delim_def split: prod.splits)
next
  case (Cons c t)
  assume "delim r"
  with Cons show ?thesis
    by (cases "split_sign t") (auto simp: exp_part_def split_sign_append digits_append Let_def)
qed

lemma parse_number_append:
  assumes "delim r"
  shows "parse_number (s @ r) = map_option (apsnd (\<lambda>x. x @ r)) (parse_number s)"
proof -
  have "(take 1 (s @ r) = ''-'') = (take 1 s = ''-'')"
    using assms by (cases s; cases r) (auto simp: delim_def)
  moreover have "drop 1 (s @ r) = drop 1 s @ r" if "take 1 s = ''-''"
    using that by (cases s) auto
  ultimately show ?thesis
    by (auto simp: parse_number_def int_part_append [OF assms] frac_part_append [OF assms]
        exp_part_append [OF assms] Let_def split: prod.splits if_splits)
qed

lemma takeWhile_show_nat [simp]:
  "takeWhile is_digit (show_nat n) = show_nat n" "dropWhile is_digit (show_nat n) = []"
  using show_nat_digits [of n] by (simp_all add: takeWhile_eq_all_conv dropWhile_eq_Nil_conv)

lemma show_nat_single_zero: "hd (show_nat n) = CHR ''0'' \<Longrightarrow> show_nat n = ''0''"
  by (simp add: hd_show_nat)

lemma int_part_show_nat: "int_part (show_nat n) = (show_nat n, [])"
proof (cases "show_nat n")
  case (Cons c t)
  show ?thesis
  proof (cases "c = CHR ''0''")
    case True
    with Cons show_nat_single_zero [of n] show ?thesis by (simp add: int_part_def)
  next
    case False
    with Cons takeWhile_show_nat [of n] show ?thesis
      by (simp add: int_part_def del: takeWhile_show_nat)
  qed
qed simp

lemma show_nat_no_minus: "take 1 (show_nat n) \<noteq> ''-''"
proof
  assume "take 1 (show_nat n) = ''-''"
  then have "CHR ''-'' \<in> set (show_nat n)" by (cases "show_nat n") auto
  with show_nat_digits [of n] show False by (auto simp: is_digit_def)
qed

lemma parse_number_show_int: "parse_number (show_int i) = Some (JInt i, [])"
proof (cases "i < 0")
  case True
  then show ?thesis
    by (auto simp: parse_number_def show_int_def int_part_show_nat frac_part_def exp_part_def)
next
  case False
  then show ?thesis
    using show_nat_no_minus [of "nat i"]
    by (auto simp: parse_number_def show_int_def int_part_show_nat frac_part_def exp_part_def Let_def)
qed

lemma parse_number_starts:
  assumes "parse_number s = Some x"
  shows "\<exists>c r. s = c # r \<and> (c = CHR ''-'' \<or> is_digit c)"
proof (cases s)
  case Nil
  with assms show ?thesis by (simp add: parse_number_def int_part_def split: prod.splits)
next
  case (Cons c r)
  have "is_digit c" if "c \<noteq> CHR ''-''"
  proof (rule ccontr)
    assume "\<not> is_digit c"
    then have "fst (int_part s) = []"
      using Cons by (auto simp: int_part_def is_digit_def)
    with assms Cons that show False
      by (auto simp: parse_number_def split: prod.splits)
  qed
  with Cons show ?thesis by blast
qed

lemma parse_literal_number:
  assumes "parse_number s = Some x"
  shows "parse_literal s = Some x"
proof -
  from parse_number_starts [OF assms] obtain c r where "s = c # r" "c = CHR ''-'' \<or> is_digit c"
    by blast
  then have "take 4 s \<noteq> ''null''" "take 4 s \<noteq> ''true''" "take 5 s \<noteq> ''false''"
    by (auto simp: is_digit_def)
  with assms show ?thesis by (simp add: parse_literal_def)
qed

text \<open>A number token is read by the value parser as that number.\<close>

lemma parse_value_number:
  assumes "parse_number s = Some (v, [])" and "delim r"
  shows "parse_value (Suc n) (s @ r) = Some (v, r)"
proof -
  from assms have num: "parse_number (s @ r) = Some (v, r)" by (simp add: parse_number_append)
  from parse_number_starts [OF num] obtain c t where "s @ r = c # t" "c = CHR ''-'' \<or> is_digit c"
    by blast
  moreover from this(2) have "c \<noteq> quote_char" "c \<noteq> CHR 0x7B" "c \<noteq> CHR ''[''"
    by (auto simp: is_digit_def)
  ultimately show ?thesis using parse_literal_number [OF num] by simp
qed

section \<open>Values\<close>

text \<open>The order in which \<open>dumps\<close> writes a dictionary.\<close>

definition dump_order :: "dump_opts \<Rightarrow> (string \<times> 'a) list \<Rightarrow> (string \<times> 'a) list" where
  "dump_order opt d = (if d_sort opt then sort_key fst d else d)"

fun canon :: "dump_opts \<Rightarrow> pyjson \<Rightarrow> pyjson" where
  "canon opt (JList xs) = JList (map (canon opt) xs)"
| "canon opt (JObj d) = JObj (dump_order opt (map (\<lambda>(k, v). (k, canon opt v)) d))"
| "canon opt v = v"

fun float_ok :: "pyfloat \<Rightarrow> bool" where
  "float_ok (FFin neg m e) = (parse_number (float_repr (FFin neg m e)) = Some (JFloat (FFin neg m e), []))"
| "float_ok _ = True"

fun json_ok :: "pyjson \<Rightarrow> bool" where
  "json_ok (JFloat f) = float_ok f"
| "json_ok (JList xs) = list_all json_ok xs"
| "json_ok (JObj d) = (distinct (map fst d) \<and> list_all (\<lambda>(_, v). json_ok v) d)"
| "json_ok v = True"

definition opts_ok :: "dump_opts \<Rightarrow> bool" where
  "opts_ok opt \<longleftrightarrow> d_item opt \<in> {'','', '', ''} \<and> d_key opt \<in> {'':'', '': ''}"

lemma opts_ok_in_use [simp]:
  "opts_ok compact_sorted" "opts_ok canonical_opts" "opts_ok default_sorted"
  by (simp_all add: opts_ok_def compact_sorted_def canonical_opts_def default_sorted_def)

lemma insort_key_map_snd:
  "insort_key fst (k, f v) (map (\<lambda>(k, v). (k, f v)) d) =
   map (\<lambda>(k, v). (k, f v)) (insort_key fst (k, v) d)"
  by (induction d) auto

lemma dump_order_map_snd:
  "dump_order opt (map (\<lambda>(k, v). (k, f v)) d) = map (\<lambda>(k, v). (k, f v)) (dump_order opt d)"
proof -
  have "sort_key fst (map (\<lambda>(k, v). (k, f v)) d) = map (\<lambda>(k, v). (k, f v)) (sort_key fst d)"
    by (induction d) (auto simp: insort_key_map_snd)
  then show ?thesis by (simp add: dump_order_def)
qed

lemma set_dump_order [simp]: "set (dump_order opt d) = set d"
  by (simp add: dump_order_def)

lemma distinct_dump_order [simp]:
  "distinct (map fst (dump_order opt d)) = distinct (map fst d)"
  by (auto simp: dump_order_def distinct_map)

definition dump_item :: "dump_opts \<Rightarrow> string \<times> pyjson \<Rightarrow> string" where
  "dump_item opt = (\<lambda>(k, v). dump_str (d_ascii opt) k @ d_key opt @ json_dumps opt v)"

lemma json_dumps_Obj:
  "json_dumps opt (JObj d) =
     CHR 0x7B # join (d_item opt) (map (dump_item opt) (dump_order opt d)) @ [CHR 0x7D]"
proof -
  have "(if d_sort opt then sort_key fst (map (\<lambda>(k, v). (k, json_dumps opt v)) d)
         else map (\<lambda>(k, v). (k, json_dumps opt v)) d) =
        map (\<lambda>(k, v). (k, json_dumps opt v)) (dump_order opt d)"
    using dump_order_map_snd [of opt "json_dumps opt" d] by (simp add: dump_order_def)
  moreover have "map (\<lambda>(k, t). dump_str (d_ascii opt) k @ d_key opt @ t)
        (map (\<lambda>(k, v). (k, json_dumps opt v)) (dump_order opt d)) = map (dump_item opt) (dump_order opt d)"
    by (auto simp: dump_item_def)
  ultimately show ?thesis by (simp only: json_dumps.simps Let_def)
qed

text \<open>A written value starts with a character that is neither blank nor a closing bracket.\<close>

definition starts_value :: "string \<Rightarrow> bool" where
  "starts_value s \<longleftrightarrow> (\<exists>c r. s = c # r \<and> \<not> is_ws c \<and> c \<noteq> CHR '']'' \<and> c \<noteq> CHR 0x7D)"

lemma starts_value_number: "parse_number s = Some x \<Longrightarrow> starts_value s"
  using parse_number_starts [of s x] by (auto simp: starts_value_def is_ws_def is_digit_def)

lemma starts_value_dumps: "json_ok v \<Longrightarrow> starts_value (json_dumps opt v)"
proof (cases v)
  case (JInt i)
  then show ?thesis using starts_value_number [OF parse_number_show_int] by simp
next
  case (JFloat f)
  assume "json_ok v"
  show ?thesis
  proof (cases f)
    case (FFin neg m e)
    with JFloat \<open>json_ok v\<close> show ?thesis by (auto intro: starts_value_number simp del: float_repr.simps)
  qed (auto simp: JFloat starts_value_def is_ws_def)
qed (auto simp: starts_value_def is_ws_def dump_str_def Let_def)

lemma skip_ws_starts: "starts_value s \<Longrightarrow> skip_ws (s @ r) = s @ r"
  by (auto simp: starts_value_def)

lemma skip_ws_item: "opts_ok opt \<Longrightarrow> starts_value s \<Longrightarrow> skip_ws (tl (d_item opt) @ s @ r) = s @ r"
  by (auto simp: opts_ok_def starts_value_def is_ws_def)

lemma skip_ws_key: "opts_ok opt \<Longrightarrow> starts_value s \<Longrightarrow> skip_ws (tl (d_key opt) @ s @ r) = s @ r"
  by (auto simp: opts_ok_def starts_value_def is_ws_def)

lemma opts_ok_cons:
  "opts_ok opt \<Longrightarrow> d_item opt = CHR '','' # tl (d_item opt)"
  "opts_ok opt \<Longrightarrow> d_key opt = CHR '':'' # tl (d_key opt)"
  by (auto simp: opts_ok_def)

lemma join_starts: "starts_value x \<Longrightarrow> starts_value (join sep (x # xs))"
  by (cases xs) (auto simp: starts_value_def)

lemma delim_item: "opts_ok opt \<Longrightarrow> delim (d_item opt @ s)"
  by (auto simp: opts_ok_def delim_def)

text \<open>What the value parser does on the text of one value; \<open>reads\<close> is the induction claim.\<close>

definition reads :: "dump_opts \<Rightarrow> pyjson \<Rightarrow> bool" where
  "reads opt v \<longleftrightarrow> (\<forall>n r. 2 * length (json_dumps opt v) \<le> n \<longrightarrow> delim r \<longrightarrow>
     parse_value n (json_dumps opt v @ r) = Some (canon opt v, r))"

lemma parse_elems_reads:
  assumes "opts_ok opt" and "xs \<noteq> []" and "\<And>x. x \<in> set xs \<Longrightarrow> reads opt x \<and> json_ok x"
    and "2 * length (join (d_item opt) (map (json_dumps opt) xs)) < n"
  shows "parse_elems n (join (d_item opt) (map (json_dumps opt) xs) @ CHR '']'' # r) =
    Some (map (canon opt) xs, r)"
  using assms(2-)
proof (induction xs arbitrary: n rule: list_nonempty_induct)
  case (single x)
  then obtain m where n: "n = Suc m" by (cases n) auto
  with single have "parse_value m (json_dumps opt x @ CHR '']'' # r) = Some (canon opt x, CHR '']'' # r)"
    by (auto simp: reads_def delim_def)
  with n show ?case by (simp add: is_ws_def)
next
  case (cons x xs)
  let ?rest = "join (d_item opt) (map (json_dumps opt) xs)"
  from cons.prems obtain m where n: "n = Suc m" by (cases n) auto
  obtain y ys where xs: "xs = y # ys" using cons.hyps by (cases xs) auto
  have joined: "join (d_item opt) (json_dumps opt x # map (json_dumps opt) xs) = json_dumps opt x @ d_item opt @ ?rest"
    by (simp add: xs)
  have st: "starts_value ?rest"
    using cons.prems(1) by (simp add: xs join_starts starts_value_dumps del: join.simps)
  have "length (d_item opt) \<ge> 1" using \<open>opts_ok opt\<close> by (auto simp: opts_ok_def)
  with cons.prems(2) joined n have
    len: "2 * length (json_dumps opt x) \<le> m" "2 * length ?rest < m" by auto
  have "parse_value m (json_dumps opt x @ d_item opt @ ?rest @ CHR '']'' # r) =
      Some (canon opt x, d_item opt @ ?rest @ CHR '']'' # r)"
    using cons.prems(1) [of x] len(1) delim_item [OF \<open>opts_ok opt\<close>] by (auto simp: reads_def)
  moreover have "skip_ws (d_item opt @ ?rest @ CHR '']'' # r) =
      CHR '','' # tl (d_item opt) @ ?rest @ CHR '']'' # r"
    by (subst opts_ok_cons(1) [OF \<open>opts_ok opt\<close>]) (simp add: is_ws_def)
  moreover have "parse_elems m (?rest @ CHR '']'' # r) = Some (map (canon opt) xs, r)"
    using cons.IH [of m] cons.prems(1) len(2) by auto
  ultimately show ?case
    using skip_ws_item [OF \<open>opts_ok opt\<close> st, of "CHR '']'' # r"] n by (simp add: joined)
qed

lemma reads_str: "parse_str (tl (dump_str a s) @ r) = Some (s, r)"
  by (simp add: dump_str_def parse_str_body)

lemma dump_str_cons: "dump_str a s = quote_char # tl (dump_str a s)"
  by (simp add: dump_str_def)

lemma starts_value_item: "starts_value (dump_item opt kv)"
  by (cases kv) (simp add: dump_item_def dump_str_def starts_value_def is_ws_def)

text \<open>One key with its value, followed by the text \<open>r\<close> that ends the member.\<close>

lemma parse_member_reads:
  assumes "opts_ok opt" and "reads opt v" and "json_ok v"
    and "2 * length (dump_item opt (k, v)) \<le> m" and "delim r"
  shows "\<exists>t t'. dump_item opt (k, v) @ r = quote_char # t \<and> parse_str t = Some (k, CHR '':'' # t')
    \<and> parse_value m (skip_ws t') = Some (canon opt v, r)"
proof (intro exI conjI)
  show "dump_item opt (k, v) @ r =
      quote_char # (tl (dump_str (d_ascii opt) k) @ d_key opt @ json_dumps opt v @ r)"
    by (simp add: dump_item_def dump_str_def)
  show "parse_str (tl (dump_str (d_ascii opt) k) @ d_key opt @ json_dumps opt v @ r) =
      Some (k, CHR '':'' # tl (d_key opt) @ json_dumps opt v @ r)"
    using opts_ok_cons(2) [OF assms(1)] by (simp add: reads_str)
  have "2 * length (json_dumps opt v) \<le> m" using assms(4) by (simp add: dump_item_def)
  then show "parse_value m (skip_ws (tl (d_key opt) @ json_dumps opt v @ r)) = Some (canon opt v, r)"
    using assms(2,5) skip_ws_key [OF assms(1) starts_value_dumps [OF assms(3)]]
    by (simp add: reads_def)
qed

lemma parse_members_reads:
  assumes "opts_ok opt" and "d \<noteq> []" and "\<And>k v. (k, v) \<in> set d \<Longrightarrow> reads opt v \<and> json_ok v"
    and "2 * length (join (d_item opt) (map (dump_item opt) d)) < n"
  shows "parse_members n (join (d_item opt) (map (dump_item opt) d) @ CHR 0x7D # r) =
    Some (map (\<lambda>(k, v). (k, canon opt v)) d, r)"
  using assms(2-)
proof (induction d arbitrary: n rule: list_nonempty_induct)
  case (single kv)
  obtain k v where kv: "kv = (k, v)" by (cases kv)
  from single obtain m where n: "n = Suc m" by (cases n) auto
  from single kv n parse_member_reads [OF assms(1), of v k m "CHR 0x7D # r"]
  obtain t t' where "dump_item opt (k, v) @ CHR 0x7D # r = quote_char # t"
    "parse_str t = Some (k, CHR '':'' # t')"
    "parse_value m (skip_ws t') = Some (canon opt v, CHR 0x7D # r)"
    by (auto simp: delim_def)
  with n kv show ?case by (simp add: is_ws_def)
next
  case (cons kv d)
  obtain k v where kv: "kv = (k, v)" by (cases kv)
  let ?rest = "join (d_item opt) (map (dump_item opt) d)"
  from cons.prems obtain m where n: "n = Suc m" by (cases n) auto
  obtain y ys where d: "d = y # ys" using cons.hyps by (cases d) auto
  have joined: "join (d_item opt) (dump_item opt kv # map (dump_item opt) d) = dump_item opt kv @ d_item opt @ ?rest"
    by (simp add: d)
  have st: "starts_value ?rest"
    by (simp add: d join_starts starts_value_item del: join.simps)
  have "length (d_item opt) \<ge> 1" using \<open>opts_ok opt\<close> by (auto simp: opts_ok_def)
  with cons.prems(2) joined n have
    len: "2 * length (dump_item opt kv) \<le> m" "2 * length ?rest < m" by auto
  have rv: "reads opt v" "json_ok v" using cons.prems(1) [of k v] kv by auto
  from parse_member_reads [OF assms(1) rv, of k m "d_item opt @ ?rest @ CHR 0x7D # r"]
    len(1) kv delim_item [OF assms(1)]
  obtain t t' where step: "dump_item opt kv @ d_item opt @ ?rest @ CHR 0x7D # r = quote_char # t"
    "parse_str t = Some (k, CHR '':'' # t')"
    "parse_value m (skip_ws t') = Some (canon opt v, d_item opt @ ?rest @ CHR 0x7D # r)"
    by auto
  have sep: "skip_ws (d_item opt @ ?rest @ CHR 0x7D # r) =
      CHR '','' # tl (d_item opt) @ ?rest @ CHR 0x7D # r"
    by (subst opts_ok_cons(1) [OF \<open>opts_ok opt\<close>]) (simp add: is_ws_def)
  have "parse_members m (?rest @ CHR 0x7D # r) = Some (map (\<lambda>(k, v). (k, canon opt v)) d, r)"
    using cons.IH [of m] cons.prems(1) len(2) by auto
  then show ?case
    using step sep skip_ws_item [OF \<open>opts_ok opt\<close> st, of "CHR 0x7D # r"] n joined
    by (simp add: kv is_ws_def)
qed

lemma fold_dict_set_distinct:
  "distinct (map fst (acc @ kvs)) \<Longrightarrow> fold (\<lambda>(k, v). dict_set k v) kvs acc = acc @ kvs"
proof (induction kvs arbitrary: acc)
  case (Cons kv kvs)
  obtain k v where kv: "kv = (k, v)" by (cases kv)
  have "dict_set k v acc = acc @ [(k, v)]" if "k \<notin> fst ` set acc"
    using that by (induction acc) auto
  with Cons kv show ?case by auto
qed simp

lemma mk_obj_distinct: "distinct (map fst kvs) \<Longrightarrow> mk_obj kvs = JObj kvs"
  using fold_dict_set_distinct [of "[]" kvs] by (simp add: mk_obj_def)

lemma length_dumps_pos: "json_ok v \<Longrightarrow> 0 < length (json_dumps opt v)"
  using starts_value_dumps [of v opt] by (auto simp: starts_value_def)

lemma reads_List:
  assumes "opts_ok opt" and "json_ok (JList xs)" and "\<And>x. x \<in> set xs \<Longrightarrow> reads opt x"
  shows "reads opt (JList xs)"
  unfolding reads_def
proof (intro allI impI)
  fix n r
  let ?t = "join (d_item opt) (map (json_dumps opt) xs)"
  assume n: "2 * length (json_dumps opt (JList xs)) \<le> n" and "delim r"
  then obtain m where m: "n = Suc m" "2 * length ?t < m" by (cases n) auto
  show "parse_value n (json_dumps opt (JList xs) @ r) = Some (canon opt (JList xs), r)"
  proof (cases xs)
    case Nil
    with m show ?thesis by (simp add: is_ws_def)
  next
    case (Cons y ys)
    with assms have elems: "parse_elems m (?t @ CHR '']'' # r) = Some (map (canon opt) xs, r)"
      by (intro parse_elems_reads m(2)) (auto simp: list_all_iff)
    have "starts_value ?t"
      using assms(2) by (simp add: Cons join_starts starts_value_dumps del: join.simps)
    then obtain c u where "?t @ CHR '']'' # r = c # u" "\<not> is_ws c" "c \<noteq> CHR '']''"
      by (auto simp: starts_value_def)
    with m elems show ?thesis by simp
  qed
qed

lemma reads_Obj:
  assumes "opts_ok opt" and "json_ok (JObj d)" and "\<And>k v. (k, v) \<in> set d \<Longrightarrow> reads opt v"
  shows "reads opt (JObj d)"
  unfolding reads_def
proof (intro allI impI)
  fix n r
  let ?d = "dump_order opt d"
  let ?t = "join (d_item opt) (map (dump_item opt) ?d)"
  assume n: "2 * length (json_dumps opt (JObj d)) \<le> n" and "delim r"
  then obtain m where m: "n = Suc m" "2 * length ?t < m"
    by (cases n) (auto simp: json_dumps_Obj simp del: json_dumps.simps)
  have canon: "canon opt (JObj d) = JObj (map (\<lambda>(k, v). (k, canon opt v)) ?d)"
    by (simp add: dump_order_map_snd)
  show "parse_value n (json_dumps opt (JObj d) @ r) = Some (canon opt (JObj d), r)"
  proof (cases ?d)
    case Nil
    with m show ?thesis
      by (simp add: json_dumps_Obj canon is_ws_def del: json_dumps.simps canon.simps)
  next
    case (Cons y ys)
    then have "?d \<noteq> []" by simp
    then have mem: "parse_members m (?t @ CHR 0x7D # r) =
        Some (map (\<lambda>(k, v). (k, canon opt v)) ?d, r)"
      using assms by (intro parse_members_reads m(2)) (auto simp: list_all_iff)
    have "map fst (map (\<lambda>(k, v). (k, canon opt v)) ?d) = map fst ?d" by auto
    then have "distinct (map fst (map (\<lambda>(k, v). (k, canon opt v)) ?d))"
      using assms(2) by (simp only: distinct_dump_order json_ok.simps)
    then have obj: "mk_obj (map (\<lambda>(k, v). (k, canon opt v)) ?d) = canon opt (JObj d)"
      unfolding canon by (rule mk_obj_distinct)
    have "starts_value ?t"
      by (simp add: Cons join_starts starts_value_item del: join.simps)
    then obtain c u where "?t @ CHR 0x7D # r = c # u" "\<not> is_ws c" "c \<noteq> CHR 0x7D"
      by (auto simp: starts_value_def)
    with m mem obj show ?thesis
      by (simp add: json_dumps_Obj del: json_dumps.simps canon.simps)
  qed
qed

text \<open>A value without inner structure needs a single unit of fuel.\<close>

lemma reads_flat:
  assumes "json_ok v"
    and "\<And>m r. delim r \<Longrightarrow> parse_value (Suc m) (json_dumps opt v @ r) = Some (canon opt v, r)"
  shows "reads opt v"
  unfolding reads_def
proof (intro allI impI)
  fix n r
  assume "2 * length (json_dumps opt v) \<le> n" and "delim r"
  with length_dumps_pos [OF assms(1), of opt] obtain m where "n = Suc m" by (cases n) auto
  with assms(2) \<open>delim r\<close> show "parse_value n (json_dumps opt v @ r) = Some (canon opt v, r)"
    by simp
qed

lemma reads_infinite: "parse_value (Suc m) (''-Infinity'' @ r) = Some (JFloat (FInf True), r)"
  "parse_value (Suc m) (''Infinity'' @ r) = Some (JFloat (FInf False), r)"
  "parse_value (Suc m) (''NaN'' @ r) = Some (JFloat FNan, r)"
  by (simp_all add: parse_literal_def parse_number_def int_part_def frac_part_def exp_part_def
      is_digit_def Let_def split: prod.splits)

lemma reads_JFloat:
  assumes "float_ok f"
  shows "reads opt (JFloat f)"
proof (cases f)
  case (FFin neg m e)
  with assms show ?thesis
    by (intro reads_flat) (simp_all add: parse_value_number del: float_repr.simps parse_value.simps)
next
  case (FInf neg)
  then show ?thesis
    using reads_infinite by (intro reads_flat) (simp_all del: parse_value.simps)
next
  case FNan
  then show ?thesis
    using reads_infinite by (intro reads_flat) (simp_all del: parse_value.simps)
qed

lemma reads_value: "opts_ok opt \<Longrightarrow> json_ok v \<Longrightarrow> reads opt v"
proof (induction v)
  case (JInt i)
  show ?case
    using parse_value_number [OF parse_number_show_int]
    by (intro reads_flat) (simp_all del: parse_value.simps)
next
  case (JFloat f)
  then show ?case by (simp add: reads_JFloat)
next
  case (JStr s)
  show ?case by (intro reads_flat) (simp_all add: dump_str_def parse_str_body)
next
  case (JList xs)
  then show ?case by (intro reads_List) (auto simp: list_all_iff)
next
  case (JObj d)
  then show ?case by (intro reads_Obj) (fastforce simp: list_all_iff)+
qed (auto intro!: reads_flat simp: parse_literal_def)

section \<open>The round trip\<close>

theorem json_roundtrip:
  assumes "opts_ok opt" and "json_ok v"
  shows "json_loads (json_dumps opt v) = Some (canon opt v)"
proof -
  let ?t = "json_dumps opt v"
  have "skip_ws (?t @ []) = ?t @ []"
    using starts_value_dumps [OF assms(2)] by (rule skip_ws_starts)
  then have skip: "skip_ws ?t = ?t" by simp
  have "parse_value (2 * length ?t + 2) (?t @ []) = Some (canon opt v, [])"
    using reads_value [OF assms] by (simp add: reads_def delim_def del: parse_value.simps)
  then show ?thesis by (simp add: json_loads_def skip del: parse_value.simps)
qed

text \<open>Reordering does not change what a lookup finds.\<close>

lemma dict_get_dump_order:
  assumes "dict_wf d"
  shows "dict_get (dump_order opt d) k = dict_get d k"
proof -
  have "(dict_get (dump_order opt d) k = Some v) = (dict_get d k = Some v)" for v
    using assms by (simp add: map_of_eq_Some_iff)
  then show ?thesis by (metis not_Some_eq)
qed

lemma dict_get_map_snd:
  "dict_get (map (\<lambda>(k, v). (k, f v)) d) k = map_option f (dict_get d k)"
  by (induction d) auto

lemma dict_get_canon:
  assumes "json_ok (JObj d)" and "canon opt (JObj d) = JObj d'"
  shows "dict_get d' k = map_option (canon opt) (dict_get d k)"
proof -
  have "dict_wf (map (\<lambda>(k, v). (k, canon opt v)) d)"
    using assms(1) by (simp add: comp_def case_prod_beta')
  with assms(2) show ?thesis by (auto simp: dict_get_dump_order dict_get_map_snd)
qed

end
