(* ===== verification/Sha256.thy ===== *)
theory Sha256
  imports Py_Value "HOL-Library.Word"
begin

text \<open>
  \<open>hashlib.sha256(b).hexdigest()\<close>: SHA-256 on byte strings (FIPS 180-4), which the program
  uses for message identifiers, prepared hashes and transport message identifiers.
\<close>

unbundle bit_operations_syntax

type_synonym w32 = "32 word"

text \<open>
  The constants: the first 32 bits of the fractional parts of the cube roots of the first 64
  primes, and of the square roots of the first 8.
\<close>

definition first_primes :: "nat list" where
  "first_primes = filter (\<lambda>n. list_all (\<lambda>d. n mod d \<noteq> 0) [2..<n]) [2..<312]"

lemma first_primes_length: "8 \<le> length first_primes"
proof -
  let ?P = "\<lambda>n::nat. list_all (\<lambda>d. n mod d \<noteq> 0) [2..<n]"
  have "[2..<20 + 292] = [2..<20] @ [20..<20 + (292::nat)]" by (rule upt_add_eq_append) simp
  moreover have "20 + 292 = (312::nat)" by simp
  ultimately have "[2..<312] = [2..<20] @ [20..<(312::nat)]" by (simp only:)
  then have "length first_primes = length (filter ?P [2..<20]) + length (filter ?P [20..<312])"
    by (simp only: first_primes_def filter_append length_append)
  moreover have "length (filter ?P [2..<20]) = 8" by code_simp
  ultimately show ?thesis by (simp only: le_add1)
qed

definition int_root :: "nat \<Rightarrow> nat \<Rightarrow> nat" where
  "int_root k x = foldl (\<lambda>r i. if (r + 2 ^ i) ^ k \<le> x then r + 2 ^ i else r) 0 (rev [0..<36])"

definition sha_K :: "w32 list" where
  "sha_K = map (\<lambda>p. of_nat (int_root 3 (p * 2 ^ 96))) first_primes"

definition sha_H0 :: "w32 list" where
  "sha_H0 = map (\<lambda>p. of_nat (int_root 2 (p * 2 ^ 64))) (take 8 first_primes)"

fun be_word :: "bytes \<Rightarrow> w32" where
  "be_word bs = foldl (\<lambda>a b. push_bit 8 a OR of_nat (code b)) 0 bs"

fun words_of_bytes :: "nat \<Rightarrow> bytes \<Rightarrow> w32 list" where
  "words_of_bytes 0 bs = []"
| "words_of_bytes (Suc n) bs = be_word (take 4 bs) # words_of_bytes n (drop 4 bs)"

text \<open>Padding: a one bit, zeros, and the length in bits as a 64-bit big-endian number.\<close>

definition be64 :: "nat \<Rightarrow> bytes" where
  "be64 n = map (\<lambda>i. char_of (n div 256 ^ i)) [7, 6, 5, 4, 3, 2, 1, 0]"

definition sha_pad :: "bytes \<Rightarrow> bytes" where
  "sha_pad bs =
     bs @ [char_of (128::nat)] @ replicate ((119 - length bs mod 64) mod 64) (char_of (0::nat)) @
     be64 (8 * length bs)"

definition sig0 :: "w32 \<Rightarrow> w32" where
  "sig0 x = word_rotr 7 x XOR word_rotr 18 x XOR drop_bit 3 x"

definition sig1 :: "w32 \<Rightarrow> w32" where
  "sig1 x = word_rotr 17 x XOR word_rotr 19 x XOR drop_bit 10 x"

definition Sig0 :: "w32 \<Rightarrow> w32" where
  "Sig0 x = word_rotr 2 x XOR word_rotr 13 x XOR word_rotr 22 x"

definition Sig1 :: "w32 \<Rightarrow> w32" where
  "Sig1 x = word_rotr 6 x XOR word_rotr 11 x XOR word_rotr 25 x"

text \<open>The message schedule, kept with the newest word first while it grows.\<close>

fun sha_schedule :: "nat \<Rightarrow> w32 list \<Rightarrow> w32 list" where
  "sha_schedule 0 ws = rev ws"
| "sha_schedule (Suc n) ws = sha_schedule n ((sig1 (ws ! 1) + ws ! 6 + sig0 (ws ! 14) + ws ! 15) # ws)"

type_synonym sha_state = "w32 \<times> w32 \<times> w32 \<times> w32 \<times> w32 \<times> w32 \<times> w32 \<times> w32"

fun sha_round :: "sha_state \<Rightarrow> w32 \<times> w32 \<Rightarrow> sha_state" where
  "sha_round (a, b, c, d, e, f, g, h) (k, w) =
     (let t1 = h + Sig1 e + ((e AND f) XOR (NOT e AND g)) + k + w;
          t2 = Sig0 a + ((a AND b) XOR (a AND c) XOR (b AND c))
      in (t1 + t2, a, b, c, d + t1, e, f, g))"

definition sha_block :: "w32 list \<Rightarrow> w32 list \<Rightarrow> w32 list" where
  "sha_block hs ws =
     (case hs of
        [a, b, c, d, e, f, g, h] \<Rightarrow>
          (case foldl sha_round (a, b, c, d, e, f, g, h) (zip sha_K (sha_schedule 48 (rev ws))) of
             (a', b', c', d', e', f', g', h') \<Rightarrow>
               [a + a', b + b', c + c', d + d', e + e', f + f', g + g', h + h'])
      | _ \<Rightarrow> hs)"

fun sha_blocks :: "nat \<Rightarrow> w32 list \<Rightarrow> bytes \<Rightarrow> w32 list" where
  "sha_blocks 0 hs bs = hs"
| "sha_blocks (Suc n) hs bs = sha_blocks n (sha_block hs (words_of_bytes 16 bs)) (drop 64 bs)"

definition hex_word :: "w32 \<Rightarrow> string" where
  "hex_word w = map (\<lambda>i. hex_char (unat (drop_bit (4 * i) w) mod 16)) [7, 6, 5, 4, 3, 2, 1, 0]"

definition sha256_hex :: "bytes \<Rightarrow> string" where
  "sha256_hex bs =
     (let p = sha_pad bs in concat (map hex_word (sha_blocks (length p div 64) sha_H0 p)))"

text \<open>A digest is 64 characters long, whatever is hashed.\<close>

lemma length_sha_block: "length (sha_block hs ws) = length hs"
  by (auto simp: sha_block_def split: list.splits prod.splits)

lemma length_sha_blocks: "length (sha_blocks n hs bs) = length hs"
  by (induction n arbitrary: hs bs) (auto simp: length_sha_block)

lemma length_sha256_hex [simp]: "length (sha256_hex bs) = 64"
proof -
  have "length (concat (map hex_word ws)) = 8 * length ws" for ws
    by (induction ws) (simp_all add: hex_word_def)
  then show ?thesis by (simp add: sha256_hex_def Let_def length_sha_blocks sha_H0_def min_absorb2 [OF first_primes_length])
qed

end
