(* ===== verification/Models.thy ===== *)
theory Models
  imports Enums Json_Roundtrip Sha256
begin

text \<open>
  The domain messages of \<open>src/hermes_payments/models.py\<close>: identities, receive instructions,
  intents, quotes, approvals and receipts as records; the field constraints of the
  classes; \<open>model_dump(exclude_none=True)\<close>; and the canonical serialisation that gives a
  message its identifier.
\<close>

definition PROTOCOL_VERSION :: string where
  "PROTOCOL_VERSION = ''1''"

section \<open>Value objects and messages\<close>

record AgentIdentity =
  pubkey :: string
  relay_url :: "string option"

record RailReceiveInstruction =
  ri_rail :: Rail
  ri_invoice :: "string option"

record PaymentIntent =
  pi_id :: string
  pi_idempotency_key :: string
  pi_sender :: AgentIdentity
  pi_recipient :: AgentIdentity
  pi_amount_sat :: int
  pi_purpose :: string
  pi_max_fee_sat :: int
  pi_expires_at :: int
  pi_created_at :: int

datatype FeeConstraint = FeeExact | FeeMax

fun FeeConstraint_value :: "FeeConstraint \<Rightarrow> string" where
  "FeeConstraint_value FeeExact = ''exact''"
| "FeeConstraint_value FeeMax = ''max''"

record PaymentQuote =
  pq_id :: string
  pq_intent_id :: string
  pq_quote_id :: string
  pq_recipient :: AgentIdentity
  pq_receive_instruction :: RailReceiveInstruction
  pq_fee_sat :: int
  pq_fee_constraint :: FeeConstraint
  pq_expires_at :: int
  pq_created_at :: int

record PaymentApproval =
  pa_id :: string
  pa_intent_id :: string
  pa_quote_id :: string
  pa_prepared_hash :: string
  pa_approver :: AgentIdentity
  pa_created_at :: int

record PaymentReceipt =
  pr_id :: string
  pr_intent_id :: string
  pr_quote_id :: string
  pr_recipient :: AgentIdentity
  pr_settlement_ref :: string
  pr_amount_sat :: int
  pr_fee_sat :: int
  pr_rail :: Rail
  pr_settled_at :: int
  pr_created_at :: int

text \<open>
  Any domain model. The first three are the union \<open>PaymentMessage\<close>; an approval is local
  and not part of it, but it can be passed to the functions that must refuse it.
\<close>

datatype DomainMessage =
    MIntent PaymentIntent | MQuote PaymentQuote | MReceipt PaymentReceipt | MApproval PaymentApproval

section \<open>Field constraints\<close>

definition identity_ok :: "AgentIdentity \<Rightarrow> bool" where
  "identity_ok a \<longleftrightarrow> length (pubkey a) = 64"

definition intent_ok :: "PaymentIntent \<Rightarrow> bool" where
  "intent_ok i \<longleftrightarrow>
     1 \<le> length (pi_idempotency_key i) \<and> length (pi_idempotency_key i) \<le> 128
     \<and> identity_ok (pi_sender i) \<and> identity_ok (pi_recipient i)
     \<and> 0 < pi_amount_sat i
     \<and> 1 \<le> length (pi_purpose i) \<and> length (pi_purpose i) \<le> 512
     \<and> 0 \<le> pi_max_fee_sat i"

definition quote_ok :: "PaymentQuote \<Rightarrow> bool" where
  "quote_ok q \<longleftrightarrow>
     1 \<le> length (pq_quote_id q) \<and> length (pq_quote_id q) \<le> 128
     \<and> identity_ok (pq_recipient q) \<and> 0 \<le> pq_fee_sat q"

definition approval_ok :: "PaymentApproval \<Rightarrow> bool" where
  "approval_ok a \<longleftrightarrow> identity_ok (pa_approver a)"

definition receipt_ok :: "PaymentReceipt \<Rightarrow> bool" where
  "receipt_ok r \<longleftrightarrow> identity_ok (pr_recipient r) \<and> 0 < pr_amount_sat r \<and> 0 \<le> pr_fee_sat r"

section \<open>Dump, canonical bytes and identifiers\<close>

definition opt_field :: "string \<Rightarrow> string option \<Rightarrow> (string \<times> pyjson) list" where
  "opt_field k v = (case v of None \<Rightarrow> [] | Some s \<Rightarrow> [(k, JStr s)])"

definition identity_dump :: "AgentIdentity \<Rightarrow> pyjson" where
  "identity_dump a = JObj ((''pubkey'', JStr (pubkey a)) # opt_field ''relay_url'' (relay_url a))"

definition instruction_dump :: "RailReceiveInstruction \<Rightarrow> pyjson" where
  "instruction_dump ri =
     JObj ((''rail'', JStr (Rail_value (ri_rail ri))) # opt_field ''invoice'' (ri_invoice ri))"

definition intent_dump :: "PaymentIntent \<Rightarrow> (string \<times> pyjson) list" where
  "intent_dump i = [
     (''protocol_version'', JStr PROTOCOL_VERSION),
     (''id'', JStr (pi_id i)),
     (''idempotency_key'', JStr (pi_idempotency_key i)),
     (''sender'', identity_dump (pi_sender i)),
     (''recipient'', identity_dump (pi_recipient i)),
     (''amount_sat'', JInt (pi_amount_sat i)),
     (''purpose'', JStr (pi_purpose i)),
     (''max_fee_sat'', JInt (pi_max_fee_sat i)),
     (''expires_at'', JInt (pi_expires_at i)),
     (''created_at'', JInt (pi_created_at i))]"

definition quote_dump :: "PaymentQuote \<Rightarrow> (string \<times> pyjson) list" where
  "quote_dump q = [
     (''protocol_version'', JStr PROTOCOL_VERSION),
     (''id'', JStr (pq_id q)),
     (''intent_id'', JStr (pq_intent_id q)),
     (''quote_id'', JStr (pq_quote_id q)),
     (''recipient'', identity_dump (pq_recipient q)),
     (''receive_instruction'', instruction_dump (pq_receive_instruction q)),
     (''fee_sat'', JInt (pq_fee_sat q)),
     (''fee_constraint'', JStr (FeeConstraint_value (pq_fee_constraint q))),
     (''expires_at'', JInt (pq_expires_at q)),
     (''created_at'', JInt (pq_created_at q))]"

definition approval_dump :: "PaymentApproval \<Rightarrow> (string \<times> pyjson) list" where
  "approval_dump a = [
     (''protocol_version'', JStr PROTOCOL_VERSION),
     (''id'', JStr (pa_id a)),
     (''intent_id'', JStr (pa_intent_id a)),
     (''quote_id'', JStr (pa_quote_id a)),
     (''prepared_hash'', JStr (pa_prepared_hash a)),
     (''approver'', identity_dump (pa_approver a)),
     (''created_at'', JInt (pa_created_at a))]"

definition receipt_dump :: "PaymentReceipt \<Rightarrow> (string \<times> pyjson) list" where
  "receipt_dump r = [
     (''protocol_version'', JStr PROTOCOL_VERSION),
     (''id'', JStr (pr_id r)),
     (''intent_id'', JStr (pr_intent_id r)),
     (''quote_id'', JStr (pr_quote_id r)),
     (''recipient'', identity_dump (pr_recipient r)),
     (''settlement_ref'', JStr (pr_settlement_ref r)),
     (''amount_sat'', JInt (pr_amount_sat r)),
     (''fee_sat'', JInt (pr_fee_sat r)),
     (''rail'', JStr (Rail_value (pr_rail r))),
     (''settled_at'', JInt (pr_settled_at r)),
     (''created_at'', JInt (pr_created_at r))]"

fun model_dump :: "DomainMessage \<Rightarrow> (string \<times> pyjson) list" where
  "model_dump (MIntent i) = intent_dump i"
| "model_dump (MQuote q) = quote_dump q"
| "model_dump (MReceipt r) = receipt_dump r"
| "model_dump (MApproval a) = approval_dump a"

definition canonical_bytes :: "DomainMessage \<Rightarrow> bool \<Rightarrow> bytes" where
  "canonical_bytes m include_id =
     (let raw = model_dump m;
          raw' = (if include_id then raw else filter (\<lambda>(k, _). k \<noteq> ''id'') raw)
      in utf8_encode (json_dumps canonical_opts (JObj raw')))"

definition compute_id :: "DomainMessage \<Rightarrow> string" where
  "compute_id m = sha256_hex (canonical_bytes m False)"

definition compute_prepared_hash :: "bytes \<Rightarrow> string" where
  "compute_prepared_hash prepared_payload = sha256_hex prepared_payload"

text \<open>The message with its identifier replaced.\<close>

fun with_id :: "string \<Rightarrow> DomainMessage \<Rightarrow> DomainMessage" where
  "with_id x (MIntent i) = MIntent (i\<lparr>pi_id := x\<rparr>)"
| "with_id x (MQuote q) = MQuote (q\<lparr>pq_id := x\<rparr>)"
| "with_id x (MReceipt r) = MReceipt (r\<lparr>pr_id := x\<rparr>)"
| "with_id x (MApproval a) = MApproval (a\<lparr>pa_id := x\<rparr>)"

text \<open>Concrete messages used in examples.\<close>

definition sample_alice :: AgentIdentity where
  "sample_alice = \<lparr>pubkey = replicate 64 (CHR ''a''), relay_url = None\<rparr>"

definition sample_bob :: AgentIdentity where
  "sample_bob = \<lparr>pubkey = replicate 64 (CHR ''b''), relay_url = None\<rparr>"

definition sample_intent :: PaymentIntent where
  "sample_intent = \<lparr>pi_id = ''i1'', pi_idempotency_key = ''k1'', pi_sender = sample_alice,
     pi_recipient = sample_bob, pi_amount_sat = 1000, pi_purpose = ''coffee'',
     pi_max_fee_sat = 10, pi_expires_at = 2000, pi_created_at = 1000\<rparr>"

section \<open>The canonical bytes determine the message up to its identifier\<close>

lemmas dump_defs = intent_dump_def quote_dump_def receipt_dump_def approval_dump_def

lemma json_ok_identity [simp]: "json_ok (identity_dump a)"
  by (auto simp: identity_dump_def opt_field_def split: option.splits)

lemma json_ok_instruction [simp]: "json_ok (instruction_dump ri)"
  by (auto simp: instruction_dump_def opt_field_def split: option.splits)

lemma json_ok_dump [simp]: "json_ok (JObj (model_dump m))"
  by (cases m) (simp_all add: dump_defs)

lemma json_ok_dump_no_id: "json_ok (JObj (filter (\<lambda>(k, _). k \<noteq> ''id'') (model_dump m)))"
  by (cases m) (simp_all add: dump_defs)

lemma identity_dump_inj: "canon opt (identity_dump a) = canon opt (identity_dump b) \<Longrightarrow> a = b"
  by (cases a; cases b)
    (auto simp: identity_dump_def opt_field_def dump_order_def split: option.splits if_splits)

lemma instruction_dump_inj: "canon opt (instruction_dump a) = canon opt (instruction_dump b) \<Longrightarrow> a = b"
  by (cases a; cases b; cases "ri_rail a"; cases "ri_rail b")
    (auto simp: instruction_dump_def opt_field_def dump_order_def split: option.splits if_splits)

lemma FeeConstraint_value_inj: "FeeConstraint_value a = FeeConstraint_value b \<Longrightarrow> a = b"
  by (cases a; cases b) simp_all

text \<open>Equal canonical bytes give, key by key, equal fields.\<close>

lemma canonical_bytes_fields:
  assumes "canonical_bytes m False = canonical_bytes m' False" and "k \<noteq> ''id''"
  shows "map_option (canon canonical_opts) (dict_get (model_dump m) k) =
         map_option (canon canonical_opts) (dict_get (model_dump m') k)"
proof -
  let ?raw = "\<lambda>m. filter (\<lambda>(k, _). k \<noteq> ''id'') (model_dump m)"
  have "utf8_decode (canonical_bytes m False) = utf8_decode (canonical_bytes m' False)"
    using assms(1) by simp
  then have "json_dumps canonical_opts (JObj (?raw m)) = json_dumps canonical_opts (JObj (?raw m'))"
    by (simp add: canonical_bytes_def del: json_dumps.simps)
  then have "Some (canon canonical_opts (JObj (?raw m))) = Some (canon canonical_opts (JObj (?raw m')))"
    using json_roundtrip [OF opts_ok_in_use(2) json_ok_dump_no_id, of m]
      json_roundtrip [OF opts_ok_in_use(2) json_ok_dump_no_id, of m'] by simp
  then have eq: "canon canonical_opts (JObj (?raw m)) = canon canonical_opts (JObj (?raw m'))"
    by simp
  obtain d where d: "canon canonical_opts (JObj (?raw m)) = JObj d" by simp
  have "dict_get (?raw m) k = dict_get (model_dump m) k" for m
    using assms(2) by (cases m) (simp_all add: dump_defs)
  then show ?thesis
    using dict_get_canon [OF json_ok_dump_no_id d, of k]
      dict_get_canon [OF json_ok_dump_no_id d [unfolded eq], of k] by simp
qed

lemma canonical_bytes_kind:
  assumes "canonical_bytes m False = canonical_bytes m' False"
  shows "(\<exists>i. m = MIntent i) = (\<exists>i. m' = MIntent i)" "(\<exists>q. m = MQuote q) = (\<exists>q. m' = MQuote q)"
    "(\<exists>r. m = MReceipt r) = (\<exists>r. m' = MReceipt r)"
proof -
  note f = canonical_bytes_fields [OF assms]
  show "(\<exists>i. m = MIntent i) = (\<exists>i. m' = MIntent i)"
    using f [of "''idempotency_key''"] by (cases m; cases m') (simp_all add: dump_defs)
  show "(\<exists>q. m = MQuote q) = (\<exists>q. m' = MQuote q)"
    using f [of "''receive_instruction''"] by (cases m; cases m') (simp_all add: dump_defs)
  show "(\<exists>r. m = MReceipt r) = (\<exists>r. m' = MReceipt r)"
    using f [of "''settled_at''"] by (cases m; cases m') (simp_all add: dump_defs)
qed

lemma canonical_intent_inj:
  assumes "canonical_bytes (MIntent i) False = canonical_bytes (MIntent j) False"
  shows "i\<lparr>pi_id := x\<rparr> = j\<lparr>pi_id := x\<rparr>"
proof -
  note f = canonical_bytes_fields [OF assms]
  have "canon canonical_opts (identity_dump (pi_sender i)) = canon canonical_opts (identity_dump (pi_sender j))"
    using f [of "''sender''"] by (simp add: dump_defs)
  moreover have "canon canonical_opts (identity_dump (pi_recipient i)) =
      canon canonical_opts (identity_dump (pi_recipient j))"
    using f [of "''recipient''"] by (simp add: dump_defs)
  ultimately show ?thesis
    using f [of "''idempotency_key''"] f [of "''amount_sat''"] f [of "''purpose''"]
      f [of "''max_fee_sat''"] f [of "''expires_at''"] f [of "''created_at''"]
    by (cases i; cases j) (auto simp: dump_defs dest: identity_dump_inj)
qed

lemma canonical_quote_inj:
  assumes "canonical_bytes (MQuote p) False = canonical_bytes (MQuote q) False"
  shows "p\<lparr>pq_id := x\<rparr> = q\<lparr>pq_id := x\<rparr>"
proof -
  note f = canonical_bytes_fields [OF assms]
  have "canon canonical_opts (identity_dump (pq_recipient p)) =
      canon canonical_opts (identity_dump (pq_recipient q))"
    using f [of "''recipient''"] by (simp add: dump_defs)
  moreover have "canon canonical_opts (instruction_dump (pq_receive_instruction p)) =
      canon canonical_opts (instruction_dump (pq_receive_instruction q))"
    using f [of "''receive_instruction''"] by (simp add: dump_defs)
  ultimately show ?thesis
    using f [of "''intent_id''"] f [of "''quote_id''"] f [of "''fee_sat''"]
      f [of "''fee_constraint''"] f [of "''expires_at''"] f [of "''created_at''"]
    by (cases p; cases q)
      (auto simp: dump_defs dest: identity_dump_inj instruction_dump_inj FeeConstraint_value_inj)
qed

lemma canonical_receipt_inj:
  assumes "canonical_bytes (MReceipt r) False = canonical_bytes (MReceipt s) False"
  shows "r\<lparr>pr_id := x\<rparr> = s\<lparr>pr_id := x\<rparr>"
proof -
  note f = canonical_bytes_fields [OF assms]
  have "canon canonical_opts (identity_dump (pr_recipient r)) =
      canon canonical_opts (identity_dump (pr_recipient s))"
    using f [of "''recipient''"] by (simp add: dump_defs)
  moreover have "pr_rail r = pr_rail s" by (cases "pr_rail r"; cases "pr_rail s") simp
  ultimately show ?thesis
    using f [of "''intent_id''"] f [of "''quote_id''"] f [of "''settlement_ref''"] f [of "''amount_sat''"]
      f [of "''fee_sat''"] f [of "''settled_at''"] f [of "''created_at''"]
    by (cases r; cases s) (auto simp: dump_defs dest: identity_dump_inj)
qed

lemma canonical_approval_inj:
  assumes "canonical_bytes (MApproval a) False = canonical_bytes (MApproval b) False"
  shows "a\<lparr>pa_id := x\<rparr> = b\<lparr>pa_id := x\<rparr>"
proof -
  note f = canonical_bytes_fields [OF assms]
  have "canon canonical_opts (identity_dump (pa_approver a)) =
      canon canonical_opts (identity_dump (pa_approver b))"
    using f [of "''approver''"] by (simp add: dump_defs)
  then show ?thesis
    using f [of "''intent_id''"] f [of "''quote_id''"] f [of "''prepared_hash''"] f [of "''created_at''"]
    by (cases a; cases b) (auto simp: dump_defs dest: identity_dump_inj)
qed

lemma canonical_bytes_with_id: "canonical_bytes (with_id x m) False = canonical_bytes m False"
proof -
  have "filter (\<lambda>(k, _). k \<noteq> ''id'') (model_dump (with_id x m)) =
      filter (\<lambda>(k, _). k \<noteq> ''id'') (model_dump m)"
    by (cases m) (simp_all add: dump_defs)
  then show ?thesis by (simp add: canonical_bytes_def del: json_dumps.simps)
qed

section \<open>Properties\<close>

text \<open>C40: the canonical serialisation is injective up to the identifier: two domain models of
  any kinds have the same hash input exactly when they agree in their kind and in every
  field but \<open>id\<close>. So an identifier binds the whole message unless SHA-256 collides.\<close>

theorem canonical_bytes_binds_message:
  "canonical_bytes m False = canonical_bytes m' False \<longleftrightarrow> with_id x m = with_id x m'"
proof
  assume eq: "canonical_bytes m False = canonical_bytes m' False"
  note kinds = canonical_bytes_kind [OF eq]
  show "with_id x m = with_id x m'"
  proof (cases m)
    case (MIntent i)
    with kinds(1) obtain j where "m' = MIntent j" by auto
    with MIntent eq show ?thesis by (auto intro: canonical_intent_inj)
  next
    case (MQuote p)
    with kinds(2) obtain q where "m' = MQuote q" by auto
    with MQuote eq show ?thesis by (auto intro: canonical_quote_inj)
  next
    case (MReceipt r)
    with kinds(3) obtain s where "m' = MReceipt s" by auto
    with MReceipt eq show ?thesis by (auto intro: canonical_receipt_inj)
  next
    case (MApproval a)
    with kinds obtain b where "m' = MApproval b" by (cases m') auto
    with MApproval eq show ?thesis by (auto intro: canonical_approval_inj)
  qed
next
  assume "with_id x m = with_id x m'"
  then show "canonical_bytes m False = canonical_bytes m' False"
    by (metis canonical_bytes_with_id)
qed

text \<open>The identifier of an intent is not a function of the sender, recipient, amount,
  purpose and idempotency key alone, as the class documentation says: changing only the
  creation time changes the bytes that are hashed.\<close>

theorem intent_id_depends_on_created_at:
  assumes "t \<noteq> pi_created_at i"
  shows "canonical_bytes (MIntent (i\<lparr>pi_created_at := t\<rparr>)) False \<noteq> canonical_bytes (MIntent i) False"
proof
  assume "canonical_bytes (MIntent (i\<lparr>pi_created_at := t\<rparr>)) False = canonical_bytes (MIntent i) False"
  then have "(i\<lparr>pi_created_at := t\<rparr>)\<lparr>pi_id := []\<rparr> = i\<lparr>pi_id := []\<rparr>"
    by (rule canonical_intent_inj)
  then have "pi_created_at ((i\<lparr>pi_created_at := t\<rparr>)\<lparr>pi_id := []\<rparr>) = pi_created_at (i\<lparr>pi_id := []\<rparr>)"
    by simp
  with assms show False by simp
qed

theorem intent_id_depends_on_created_at_witness:
  "canonical_bytes (MIntent (sample_intent\<lparr>pi_created_at := 1001\<rparr>)) False \<noteq>
   canonical_bytes (MIntent sample_intent) False"
  by (rule intent_id_depends_on_created_at) (simp add: sample_intent_def)

end
