(* ===== verification/Redaction.thy ===== *)
theory Redaction
  imports Py_Value
begin

text \<open>
  \<open>redact_sensitive\<close> of \<open>src/hermes_payments/adapter.py\<close>: three regular-expression
  substitutions, each as the left-to-right scan that \<open>re.sub\<close> performs with it.
\<close>

definition is_alnum :: "char \<Rightarrow> bool" where
  "is_alnum c \<longleftrightarrow> is_digit c \<or> (65 \<le> code c \<and> code c \<le> 90) \<or> (97 \<le> code c \<and> code c \<le> 122)"

definition lower_ascii :: "char \<Rightarrow> char" where
  "lower_ascii c = (if 65 \<le> code c \<and> code c \<le> 90 then char_of (code c + 32) else c)"

text \<open>
  \<open>lnbc[a-zA-Z0-9]+|lntb[a-zA-Z0-9]+|lnbcrt[a-zA-Z0-9]+\<close>, ignoring case. The third alternative
  is an instance of the first.
\<close>

definition starts_invoice :: "string \<Rightarrow> bool" where
  "starts_invoice s \<longleftrightarrow> map lower_ascii (take 4 s) \<in> {''lnbc'', ''lntb''} \<and> takeWhile is_alnum (drop 4 s) \<noteq> []"

function redact_invoices :: "string \<Rightarrow> string" where
  "redact_invoices s =
     (if s = [] then []
      else if starts_invoice s then ''<INVOICE>'' @ redact_invoices (dropWhile is_alnum (drop 4 s))
      else hd s # redact_invoices (tl s))"
  by pat_completeness auto
termination
proof (relation "measure length", goal_cases)
  case (2 s)
  have "length (dropWhile is_alnum (drop 4 s)) \<le> length (drop 4 s)" by (rule length_dropWhile_le)
  also have "\<dots> < length s" using 2 by (cases s) (auto simp: starts_invoice_def)
  finally show ?case by simp
qed auto

declare redact_invoices.simps [simp del]

text \<open>
  \<open>/[^\s:]+\.macaroon\<close>: from a slash through the last \<open>.macaroon\<close> of the run of characters that
  are neither blank nor a colon, with at least one character in between. \<open>macaroon_end run\<close> is
  the length of that match within the run.
\<close>

definition macaroon_end :: "string \<Rightarrow> nat option" where
  "macaroon_end run =
     (case filter (\<lambda>i. take 9 (drop i run) = ''.macaroon'') (rev [1..<length run]) of
        [] \<Rightarrow> None | i # _ \<Rightarrow> Some (i + 9))"

function redact_macaroons :: "string \<Rightarrow> string" where
  "redact_macaroons s =
     (case s of
        [] \<Rightarrow> []
      | c # r \<Rightarrow>
          (case (if c = CHR ''/'' then macaroon_end (takeWhile (\<lambda>x. \<not> is_space x \<and> x \<noteq> CHR '':'') r) else None) of
             Some n \<Rightarrow> ''<MACAROON_PATH>'' @ redact_macaroons (drop n r)
           | None \<Rightarrow> c # redact_macaroons r))"
  by pat_completeness auto
termination
  by (relation "measure length") auto

declare redact_macaroons.simps [simp del]

text \<open>\<open>\b([a-f0-9]{64})\b\<close>: exactly 64 hexadecimal digits between word boundaries.\<close>

definition is_word :: "char \<Rightarrow> bool" where
  "is_word c \<longleftrightarrow> is_alnum c \<or> c = CHR ''_'' \<or>
     (let n = code c in n \<in> {170, 178, 179, 181, 185, 186, 188, 189, 190} \<or> (192 \<le> n \<and> n \<noteq> 215 \<and> n \<noteq> 247))"

definition is_lower_hex :: "char \<Rightarrow> bool" where
  "is_lower_hex c \<longleftrightarrow> is_digit c \<or> (97 \<le> code c \<and> code c \<le> 102)"

definition starts_hash :: "char option \<Rightarrow> string \<Rightarrow> bool" where
  "starts_hash prev s \<longleftrightarrow>
     (case prev of None \<Rightarrow> True | Some c \<Rightarrow> \<not> is_word c)
     \<and> 64 \<le> length s \<and> list_all is_lower_hex (take 64 s)
     \<and> (case drop 64 s of [] \<Rightarrow> True | c # _ \<Rightarrow> \<not> is_word c)"

function redact_hashes :: "char option \<Rightarrow> string \<Rightarrow> string" where
  "redact_hashes prev s =
     (case s of
        [] \<Rightarrow> []
      | c # r \<Rightarrow>
          (if starts_hash prev s
           then take 8 s @ ''...'' @ redact_hashes (Some (s ! 63)) (drop 64 s)
           else c # redact_hashes (Some c) r))"
  by pat_completeness auto
termination
  by (relation "measure (length \<circ> snd)") auto

declare redact_hashes.simps [simp del]

definition redact_sensitive :: "string \<Rightarrow> string" where
  "redact_sensitive text = redact_hashes None (redact_macaroons (redact_invoices text))"

section \<open>No hash survives\<close>

text \<open>\<open>has_hash prev s\<close>: the hash pattern matches somewhere in \<open>s\<close>, read after \<open>prev\<close>.\<close>

fun has_hash :: "char option \<Rightarrow> string \<Rightarrow> bool" where
  "has_hash prev [] = False"
| "has_hash prev (c # r) = (starts_hash prev (c # r) \<or> has_hash (Some c) r)"

lemma hex_is_word: "is_lower_hex c \<Longrightarrow> is_word c"
  by (auto simp: is_lower_hex_def is_word_def is_alnum_def)

text \<open>The pattern, by the run of hexadecimal digits at the front.\<close>

lemma starts_hash_run:
  "starts_hash prev s \<longleftrightarrow> (case prev of None \<Rightarrow> True | Some c \<Rightarrow> \<not> is_word c)
     \<and> length (takeWhile is_lower_hex s) = 64 \<and> (case dropWhile is_lower_hex s of [] \<Rightarrow> True | c # _ \<Rightarrow> \<not> is_word c)"
proof -
  have "(64 \<le> length s \<and> list_all is_lower_hex (take 64 s) \<and> (case drop 64 s of [] \<Rightarrow> True | c # _ \<Rightarrow> \<not> is_word c)) \<longleftrightarrow>
      length (takeWhile is_lower_hex s) = 64 \<and> (case dropWhile is_lower_hex s of [] \<Rightarrow> True | c # _ \<Rightarrow> \<not> is_word c)" (is "?l \<longleftrightarrow> ?r")
  proof
    assume l: ?l
    then have all: "\<forall>x \<in> set (take 64 s). is_lower_hex x" and len: "length (take 64 s) = 64" by (auto simp: list_all_iff)
    have stop: "takeWhile is_lower_hex (drop 64 s) = []" using l hex_is_word by (cases "drop 64 s") auto
    then have d: "dropWhile is_lower_hex (drop 64 s) = drop 64 s" by (cases "drop 64 s") (auto split: if_split_asm)
    have "takeWhile is_lower_hex s = take 64 s" "dropWhile is_lower_hex s = drop 64 s"
      using takeWhile_append2 [of "take 64 s" is_lower_hex "drop 64 s"] dropWhile_append2 [of "take 64 s" is_lower_hex "drop 64 s"]
        all stop d by simp_all
    with l len show ?r by simp
  next
    assume r: ?r
    have s: "s = takeWhile is_lower_hex s @ dropWhile is_lower_hex s" by simp
    with r have "take 64 s = takeWhile is_lower_hex s" "drop 64 s = dropWhile is_lower_hex s"
      by (metis append_eq_conv_conj)+
    moreover have "64 \<le> length s" using r length_takeWhile_le [of is_lower_hex s] by simp
    ultimately show ?l using r by (auto simp: list_all_iff dest: set_takeWhileD)
  qed
  then show ?thesis by (auto simp: starts_hash_def)
qed

lemma redact_hashes_Nil [simp]: "redact_hashes prev [] = []"
  by (simp add: redact_hashes.simps)

lemma redact_hashes_step: "\<not> starts_hash prev (c # r) \<Longrightarrow> redact_hashes prev (c # r) = c # redact_hashes (Some c) r"
  by (subst redact_hashes.simps) simp

lemma redact_hashes_found: "starts_hash prev s \<Longrightarrow>
    redact_hashes prev s = take 8 s @ ''...'' @ redact_hashes (Some (s ! 63)) (drop 64 s)"
  by (subst redact_hashes.simps) (auto simp: starts_hash_run split: list.split)

text \<open>After a word character the run at the front is copied.\<close>

lemma redact_hashes_run:
  "is_word c \<Longrightarrow> takeWhile is_lower_hex (redact_hashes (Some c) s) = takeWhile is_lower_hex s
     \<and> take 1 (dropWhile is_lower_hex (redact_hashes (Some c) s)) = take 1 (dropWhile is_lower_hex s)"
proof (induction s arbitrary: c)
  case (Cons d r)
  then have "redact_hashes (Some c) (d # r) = d # redact_hashes (Some d) r"
    by (intro redact_hashes_step) (simp add: starts_hash_run)
  with Cons.IH [of d] hex_is_word show ?case by auto
qed simp

lemma starts_hash_front:
  "\<lbrakk>takeWhile is_lower_hex s = takeWhile is_lower_hex t; take 1 (dropWhile is_lower_hex s) = take 1 (dropWhile is_lower_hex t)\<rbrakk>
    \<Longrightarrow> starts_hash prev s = starts_hash prev t"
proof -
  assume t: "takeWhile is_lower_hex s = takeWhile is_lower_hex t" and d: "take 1 (dropWhile is_lower_hex s) = take 1 (dropWhile is_lower_hex t)"
  have head: "(case xs of [] \<Rightarrow> True | c # _ \<Rightarrow> \<not> is_word c) = (case take 1 xs of [] \<Rightarrow> True | c # _ \<Rightarrow> \<not> is_word c)" for xs
    by (cases xs) auto
  show ?thesis unfolding starts_hash_run t head [of "dropWhile is_lower_hex s"] head [of "dropWhile is_lower_hex t"] d ..
qed

lemma starts_hash_take8:
  assumes "starts_hash prev s"
  shows "\<forall>x \<in> set (take 8 s). is_lower_hex x" "length (take 8 s) = 8"
proof -
  have "set (take 8 s) \<subseteq> set (take 64 s)" by (rule set_take_subset_set_take) simp
  with assms show "\<forall>x \<in> set (take 8 s). is_lower_hex x" by (auto simp: starts_hash_def list_all_iff)
  from assms show "length (take 8 s) = 8" by (simp add: starts_hash_def)
qed

lemma redacted_not_at_front: "\<not> starts_hash prev (redact_hashes prev s)"
proof (cases "starts_hash prev s")
  case True
  note run = starts_hash_take8 [OF True]
  have "takeWhile is_lower_hex (take 8 s @ ''...'' @ t) = take 8 s" for t
    using takeWhile_append2 [of "take 8 s" is_lower_hex "''...'' @ t"] run(1) by (simp add: is_lower_hex_def is_digit_def)
  with run(2) True show ?thesis by (simp add: redact_hashes_found starts_hash_run)
next
  case no: False
  show ?thesis
  proof (cases s)
    case Nil
    then show ?thesis by (simp add: starts_hash_def)
  next
    case (Cons c r)
    show ?thesis
    proof (cases "is_lower_hex c")
      case True
      with redact_hashes_run [OF hex_is_word, of c r] have "starts_hash prev (c # redact_hashes (Some c) r) = starts_hash prev (c # r)"
        by (intro starts_hash_front) auto
      with no Cons show ?thesis by (simp add: redact_hashes_step)
    next
      case False
      with no Cons show ?thesis by (simp add: redact_hashes_step) (simp add: starts_hash_run)
    qed
  qed
qed

lemma has_hash_hex_append:
  "is_word p \<Longrightarrow> \<forall>x \<in> set xs. is_lower_hex x \<Longrightarrow> has_hash (Some p) (xs @ ''...'' @ t) = has_hash (Some CHR ''.'') t"
proof (induction xs arbitrary: p)
  case Nil
  have "\<not> is_lower_hex CHR ''.''" by (simp add: is_lower_hex_def is_digit_def)
  then show ?case by (simp add: starts_hash_run)
next
  case (Cons x xs)
  then have "\<not> starts_hash (Some p) (x # xs @ ''...'' @ t)" by (simp add: starts_hash_run)
  with Cons hex_is_word show ?case by simp
qed

lemma has_hash_reset:
  assumes "\<not> has_hash p t" and "case t of [] \<Rightarrow> True | c # _ \<Rightarrow> \<not> is_word c"
  shows "\<not> has_hash q t"
proof (cases t)
  case (Cons c r)
  with assms have "\<not> is_lower_hex c" using hex_is_word by auto
  then have "\<not> starts_hash q (c # r)" by (simp add: starts_hash_run)
  with assms Cons show ?thesis by simp
qed simp

lemma redact_hashes_head: "case s of [] \<Rightarrow> True | c # _ \<Rightarrow> \<not> is_word c \<Longrightarrow>
    case redact_hashes prev s of [] \<Rightarrow> True | c # _ \<Rightarrow> \<not> is_word c"
proof (cases s)
  case (Cons c r)
  assume "case s of [] \<Rightarrow> True | c # _ \<Rightarrow> \<not> is_word c"
  with Cons have "\<not> starts_hash prev (c # r)" using hex_is_word by (auto simp: starts_hash_run)
  with Cons \<open>case s of [] \<Rightarrow> True | c # _ \<Rightarrow> \<not> is_word c\<close> show ?thesis by (simp add: redact_hashes_step)
qed simp

lemma redact_hashes_clean: "\<not> has_hash prev (redact_hashes prev s)"
proof (induction prev s rule: redact_hashes.induct)
  case (1 prev s)
  show ?case
  proof (cases "starts_hash prev s")
    case True
    obtain c r where s: "s = c # r" using True by (cases s) (auto simp: starts_hash_def)
    from "1.IH"(1) [OF s] True s have ih: "\<not> has_hash (Some (s ! 63)) (redact_hashes (Some (s ! 63)) (drop 64 s))" by simp
    have "case drop 64 s of [] \<Rightarrow> True | c # _ \<Rightarrow> \<not> is_word c" using True by (simp add: starts_hash_def)
    from has_hash_reset [OF ih redact_hashes_head [OF this]]
    have rest: "\<not> has_hash (Some CHR ''.'') (redact_hashes (Some (s ! 63)) (drop 64 s))" .
    obtain xs where t8: "take 8 s = c # xs" using s by simp
    with starts_hash_take8 [OF True] have hex: "is_lower_hex c" "\<forall>x \<in> set xs. is_lower_hex x" by auto
    have "redact_hashes prev s = c # xs @ ''...'' @ redact_hashes (Some (s ! 63)) (drop 64 s)"
      using redact_hashes_found [OF True] t8 by simp
    with redacted_not_at_front [of prev s] has_hash_hex_append [OF hex_is_word [OF hex(1)] hex(2)] rest
    show ?thesis by simp
  next
    case False
    show ?thesis
    proof (cases s)
      case (Cons c r)
      with False "1.IH"(2) [OF Cons] redacted_not_at_front [of prev s] show ?thesis
        by (simp add: redact_hashes_step)
    qed simp
  qed
qed

text \<open>No text that is written out after redaction holds a complete hash between word boundaries.\<close>

lemma redacted_has_no_hash: "\<not> has_hash None (redact_sensitive text)"
  by (simp add: redact_sensitive_def redact_hashes_clean)

end
