(* ===== verification/Adapter_Api.thy ===== *)
theory Adapter_Api
  imports Models Redaction
begin

text \<open>
  The settlement adapter boundary of \<open>src/hermes_payments/adapter.py\<close>: the result classes and
  the abstract class \<open>SettlementAdapter\<close>. An adapter is a record of its methods over a state
  \<open>'w\<close> of the outside world it acts on; a method may raise.
\<close>

record PrepareResult =
  pp_fee_sat :: int
  pp_prepared_hash :: string
  pp_rail :: Rail
  pp_prepared_payload :: bytes

record ExecuteResult =
  er_settlement_ref :: string
  er_amount_sat :: int
  er_fee_sat :: int
  er_rail :: Rail

record ReceiptVerifyResult =
  rv_verified :: bool
  rv_settlement_ref :: string
  rv_amount_sat :: int
  rv_fee_sat :: int
  rv_error :: "string option"

record ReconcileResult =
  rr_status :: string
  rr_settlement_ref :: string
  rr_amount_sat :: int
  rr_fee_sat :: int
  rr_rail :: "Rail option"
  rr_verified :: bool
  rr_error :: "string option"

text \<open>\<open>ReconcileResult(status=..., error=...)\<close> with the defaults of the class.\<close>

definition reconcile_default :: "string \<Rightarrow> ReconcileResult" where
  "reconcile_default status =
     \<lparr>rr_status = status, rr_settlement_ref = [], rr_amount_sat = 0, rr_fee_sat = 0,
      rr_rail = None, rr_verified = False, rr_error = None\<rparr>"

record 'w SettlementAdapter =
  sa_rail :: Rail
  sa_prepare :: "RailReceiveInstruction \<Rightarrow> int \<Rightarrow> int \<Rightarrow> 'w \<Rightarrow> (exn + PrepareResult) \<times> 'w"
  sa_execute :: "bytes \<Rightarrow> string \<Rightarrow> 'w \<Rightarrow> (exn + ExecuteResult) \<times> 'w"
  sa_verify_receipt :: "string \<Rightarrow> int \<Rightarrow> 'w \<Rightarrow> (exn + ReceiptVerifyResult) \<times> 'w"
  sa_verify_sender_settlement :: "string \<Rightarrow> int \<Rightarrow> 'w \<Rightarrow> (exn + ReceiptVerifyResult) \<times> 'w"
  sa_reconcile_settlement :: "bytes \<Rightarrow> string \<Rightarrow> int \<Rightarrow> 'w \<Rightarrow> (exn + ReconcileResult) \<times> 'w"

text \<open>The two methods with a default body: an adapter that overrides neither has these.\<close>

definition default_verify_sender_settlement ::
    "'w SettlementAdapter \<Rightarrow> string \<Rightarrow> int \<Rightarrow> 'w \<Rightarrow> (exn + ReceiptVerifyResult) \<times> 'w" where
  "default_verify_sender_settlement a settlement_ref expected_amount_sat w =
     sa_verify_receipt a settlement_ref expected_amount_sat w"

definition default_reconcile_settlement ::
    "bytes \<Rightarrow> string \<Rightarrow> int \<Rightarrow> 'w \<Rightarrow> (exn + ReconcileResult) \<times> 'w" where
  "default_reconcile_settlement prepared_payload prepared_hash expected_amount_sat w =
     (Inr ((reconcile_default ''UNKNOWN'')
        \<lparr>rr_error := Some ''adapter does not support settlement reconciliation''\<rparr>), w)"

end
