(* ===== verification/Idempotency.thy ===== *)
theory Idempotency
  imports Models
begin

text \<open>
  \<open>IdempotencyStore\<close> of \<open>src/hermes_payments/policy.py\<close>: the three kinds of replay records, the
  JSON file they are written to and read from. \<open>st_file\<close> is the content of the file at the
  store's path. A save writes a temporary file and replaces the old one, so it either
  installs the whole new content or, when the environment makes it fail, raises and leaves
  the old content; \<open>save_ok\<close> says which.
\<close>

record IdempotencyStore =
  st_path :: "string option"
  st_intents :: "string set"
  st_approvals :: "string set"
  st_receipts :: "(string \<times> string) list"
  st_file :: "string option"

section \<open>Load and save\<close>

definition store_json :: "IdempotencyStore \<Rightarrow> pyjson" where
  "store_json st = JObj [
     (''intents'', JList (map JStr (sorted_list_of_set (st_intents st)))),
     (''approvals'', JList (map JStr (sorted_list_of_set (st_approvals st)))),
     (''receipts'', JObj (map (\<lambda>(k, v). (k, JStr v)) (st_receipts st)))]"

definition store_save :: "bool \<Rightarrow> IdempotencyStore \<Rightarrow> (exn + unit) \<times> IdempotencyStore" where
  "store_save save_ok st =
     (if st_path st = None \<or> st_path st = Some [] then (Inr (), st)
      else if save_ok then (Inr (), st\<lparr>st_file := Some (json_dumps default_sorted (store_json st))\<rparr>)
      else (Inl (OSError ''store write failed''), st))"

text \<open>
  Reading a field: a list of strings, or a dictionary of strings; a file whose fields have
  another shape was not written by the store and is refused.
\<close>

fun as_str :: "pyjson \<Rightarrow> string option" where
  "as_str (JStr s) = Some s"
| "as_str _ = None"

fun as_str_list :: "pyjson \<Rightarrow> string list option" where
  "as_str_list (JList xs) = (if list_all (\<lambda>x. as_str x \<noteq> None) xs then Some (map (the \<circ> as_str) xs) else None)"
| "as_str_list _ = None"

fun as_str_dict :: "pyjson \<Rightarrow> (string \<times> string) list option" where
  "as_str_dict (JObj d) =
     (if list_all (\<lambda>(_, v). as_str v \<noteq> None) d then Some (map (\<lambda>(k, v). (k, the (as_str v))) d) else None)"
| "as_str_dict _ = None"

definition field_or :: "pyjson \<Rightarrow> string \<Rightarrow> (string \<times> pyjson) list \<Rightarrow> pyjson" where
  "field_or dflt k d = (case dict_get d k of Some v \<Rightarrow> v | None \<Rightarrow> dflt)"

definition empty_store :: "string option \<Rightarrow> string option \<Rightarrow> IdempotencyStore" where
  "empty_store path file =
     \<lparr>st_path = path, st_intents = {}, st_approvals = {}, st_receipts = [], st_file = file\<rparr>"

definition store_init :: "string option \<Rightarrow> string option \<Rightarrow> exn + IdempotencyStore" where
  "store_init path file =
     (let st = empty_store path file in
      if path = None \<or> path = Some [] then Inr st
      else case file of
        None \<Rightarrow> Inr st
      | Some txt \<Rightarrow>
          (case json_loads txt of
             None \<Rightarrow> Inl (ValueError ''store file is not JSON'')
           | Some (JObj data) \<Rightarrow>
               (case (as_str_list (field_or (JList []) ''intents'' data),
                      as_str_list (field_or (JList []) ''approvals'' data),
                      as_str_dict (field_or (JObj []) ''receipts'' data)) of
                  (Some is, Some as, Some rs) \<Rightarrow>
                    Inr (st\<lparr>st_intents := set is, st_approvals := set as, st_receipts := rs\<rparr>)
                | _ \<Rightarrow> Inl (TypeError ''store file has an unexpected shape''))
           | Some _ \<Rightarrow> Inl (AttributeError ''store file is not an object'')))"

section \<open>The three kinds of record\<close>

definition has_intent :: "IdempotencyStore \<Rightarrow> string \<Rightarrow> bool" where
  "has_intent st intent_id \<longleftrightarrow> intent_id \<in> st_intents st"

definition record_intent :: "bool \<Rightarrow> string \<Rightarrow> IdempotencyStore \<Rightarrow> (exn + unit) \<times> IdempotencyStore" where
  "record_intent save_ok intent_id st =
     store_save save_ok (st\<lparr>st_intents := insert intent_id (st_intents st)\<rparr>)"

type_synonym approval_triple = "string \<times> string \<times> string"

definition approval_key :: "approval_triple \<Rightarrow> string" where
  "approval_key = (\<lambda>(intent_id, quote_id, prepared_hash).
     intent_id @ '':'' @ quote_id @ '':'' @ prepared_hash)"

definition has_approval :: "IdempotencyStore \<Rightarrow> approval_triple \<Rightarrow> bool" where
  "has_approval st triple \<longleftrightarrow> approval_key triple \<in> st_approvals st"

definition record_approval :: "bool \<Rightarrow> approval_triple \<Rightarrow> IdempotencyStore \<Rightarrow> (exn + unit) \<times> IdempotencyStore" where
  "record_approval save_ok triple st =
     store_save save_ok (st\<lparr>st_approvals := insert (approval_key triple) (st_approvals st)\<rparr>)"

definition has_receipt :: "IdempotencyStore \<Rightarrow> string \<Rightarrow> bool" where
  "has_receipt st intent_id \<longleftrightarrow> intent_id \<in> fst ` set (st_receipts st)"

definition record_receipt :: "bool \<Rightarrow> string \<Rightarrow> string \<Rightarrow> IdempotencyStore \<Rightarrow> (exn + unit) \<times> IdempotencyStore" where
  "record_receipt save_ok intent_id settlement_ref st =
     store_save save_ok (st\<lparr>st_receipts := dict_set intent_id settlement_ref (st_receipts st)\<rparr>)"

definition get_receipt :: "IdempotencyStore \<Rightarrow> string \<Rightarrow> string option" where
  "get_receipt st intent_id = dict_get (st_receipts st) intent_id"

section \<open>The contract of a replay guard\<close>

text \<open>
  What the policy engine relies on: a record is found as soon as it is made, and making
  another one never hides it. \<open>mark\<close> is the state after the recording call, whether or not the
  write to disk succeeded.
\<close>

locale replay_guard =
  fixes seen :: "'s \<Rightarrow> 'k \<Rightarrow> bool"
    and mark :: "'k \<Rightarrow> 's \<Rightarrow> 's"
  assumes seen_mark: "seen (mark k s) k"
    and seen_mono: "seen s k \<Longrightarrow> seen (mark k' s) k"
begin

lemma seen_fold: "seen s k \<Longrightarrow> seen (fold mark ks s) k"
  by (induction ks arbitrary: s) (simp_all add: seen_mono)

lemma seen_fold_member: "k \<in> set ks \<Longrightarrow> seen (fold mark ks s) k"
proof (induction ks arbitrary: s)
  case (Cons k' ks)
  then show ?case using seen_fold [OF seen_mark] by (cases "k = k'") auto
qed simp

end

lemma store_save_fields [simp]:
  "st_path (snd (store_save b st)) = st_path st"
  "st_intents (snd (store_save b st)) = st_intents st"
  "st_approvals (snd (store_save b st)) = st_approvals st"
  "st_receipts (snd (store_save b st)) = st_receipts st"
  by (auto simp: store_save_def)

interpretation intents: replay_guard has_intent "\<lambda>k st. snd (record_intent b k st)" for b
  by unfold_locales (auto simp: has_intent_def record_intent_def)

interpretation approvals: replay_guard has_approval "\<lambda>k st. snd (record_approval b k st)" for b
  by unfold_locales (auto simp: has_approval_def record_approval_def)

interpretation receipts: replay_guard has_receipt "\<lambda>k st. snd (record_receipt b k ref st)" for b ref
  by unfold_locales (auto simp: has_receipt_def record_receipt_def dict_keys_set)

text \<open>Each recording call touches its own kind of record only.\<close>

lemma record_frames [frame_simps]:
  "has_approval (snd (record_intent b k st)) t = has_approval st t"
  "has_receipt (snd (record_intent b k st)) i = has_receipt st i"
  "has_intent (snd (record_approval b t st)) i = has_intent st i"
  "has_receipt (snd (record_approval b t st)) i = has_receipt st i"
  "has_intent (snd (record_receipt b k ref st)) i = has_intent st i"
  "has_approval (snd (record_receipt b k ref st)) t = has_approval st t"
  by (simp_all add: has_intent_def has_approval_def has_receipt_def record_intent_def
      record_approval_def record_receipt_def)

lemma has_receipt_record: "has_receipt (snd (record_receipt b k ref st)) i \<longleftrightarrow> i = k \<or> has_receipt st i"
  by (auto simp: has_receipt_def record_receipt_def dict_keys_set)

lemma has_approval_record:
  "has_approval (snd (record_approval b t st)) u \<longleftrightarrow> approval_key u = approval_key t \<or> has_approval st u"
  by (auto simp: has_approval_def record_approval_def)

section \<open>Well-formed stores\<close>

definition store_wf :: "IdempotencyStore \<Rightarrow> bool" where
  "store_wf st \<longleftrightarrow> finite (st_intents st) \<and> finite (st_approvals st) \<and> dict_wf (st_receipts st)"

lemma store_wf_save [simp]: "store_wf (snd (store_save b st)) = store_wf st"
  by (simp add: store_wf_def)

lemma store_wf_record:
  assumes "store_wf st"
  shows "store_wf (snd (record_intent b k st))" "store_wf (snd (record_approval b t st))"
    "store_wf (snd (record_receipt b k ref st))"
  using assms by (simp_all add: store_wf_def record_intent_def record_approval_def record_receipt_def)

lemma json_ok_store: "store_wf st \<Longrightarrow> json_ok (store_json st)"
  by (auto simp: store_json_def store_wf_def list_all_iff comp_def case_prod_beta')

lemma as_str_list_JStr [simp]: "as_str_list (JList (map JStr xs)) = Some xs"
  by (simp add: list_all_iff comp_def)

lemma as_str_dict_JStr [simp]: "as_str_dict (JObj (map (\<lambda>(k, v). (k, JStr v)) d)) = Some d"
  by (induction d) (auto split: if_splits)

lemma canon_JStr_dict:
  "canon opt (JObj (map (\<lambda>(k, v). (k, JStr v)) d)) = JObj (map (\<lambda>(k, v). (k, JStr v)) (dump_order opt d))"
proof -
  have "map (\<lambda>(k, v). (k, canon opt v)) (map (\<lambda>(k, v). (k, JStr v)) d) = map (\<lambda>(k, v). (k, JStr v)) d"
    by auto
  then show ?thesis by (simp only: canon.simps dump_order_map_snd)
qed

text \<open>What a freshly constructed store finds in a file that a save wrote.\<close>

lemma store_init_saved:
  assumes "store_wf st" and "st_path st = Some p" and "p \<noteq> []"
  shows "store_init (Some p) (Some (json_dumps default_sorted (store_json st))) =
    Inr \<lparr>st_path = Some p, st_intents = st_intents st, st_approvals = st_approvals st,
         st_receipts = dump_order default_sorted (st_receipts st),
         st_file = Some (json_dumps default_sorted (store_json st))\<rparr>"
proof -
  let ?c = "canon default_sorted"
  obtain d where d: "store_json st = JObj d" by (simp add: store_json_def)
  obtain data where data: "?c (store_json st) = JObj data" by (simp add: d)
  have "json_loads (json_dumps default_sorted (store_json st)) = Some (JObj data)"
    using json_roundtrip [OF opts_ok_in_use(3) json_ok_store [OF assms(1)]] data by simp
  moreover have get: "dict_get data k = map_option ?c (dict_get d k)" for k
    using dict_get_canon [of d default_sorted data k] json_ok_store [OF assms(1)] data d by simp
  have "field_or (JList []) ''intents'' data = JList (map JStr (sorted_list_of_set (st_intents st)))"
    "field_or (JList []) ''approvals'' data = JList (map JStr (sorted_list_of_set (st_approvals st)))"
    "field_or (JObj []) ''receipts'' data =
       JObj (map (\<lambda>(k, v). (k, JStr v)) (dump_order default_sorted (st_receipts st)))"
    using d by (auto simp: field_or_def get store_json_def canon_JStr_dict comp_def simp del: canon.simps(2))
  ultimately show ?thesis
    using assms by (simp add: store_init_def empty_store_def store_wf_def
        del: as_str_list.simps as_str_dict.simps json_dumps.simps)
qed

section \<open>The approval key\<close>

lemma append_sep_eq:
  "c \<notin> set a \<Longrightarrow> c \<notin> set b \<Longrightarrow> a @ c # x = b @ c # y \<longleftrightarrow> a = b \<and> x = y"
  by (induction a arbitrary: b) (case_tac b; auto)+

lemma append_sep_eq_last:
  assumes "c \<notin> set x" and "c \<notin> set y" and "a @ c # x = b @ c # y"
  shows "a = b \<and> x = y"
proof -
  have "rev x @ c # rev a = rev y @ c # rev b"
    using arg_cong [OF assms(3), of rev] by simp
  with assms(1,2) show ?thesis by (simp add: append_sep_eq)
qed

lemma approval_key_inj:
  assumes "CHR '':'' \<notin> set i" "CHR '':'' \<notin> set i'" "CHR '':'' \<notin> set h" "CHR '':'' \<notin> set h'"
    and "approval_key (i, q, h) = approval_key (i', q', h')"
  shows "i = i' \<and> q = q' \<and> h = h'"
  using assms by (auto simp: approval_key_def append_sep_eq dest: append_sep_eq_last)

section \<open>Properties\<close>

text \<open>Replay protection survives a restart: when a save returned normally, a store
  constructed later from the same path knows the same intents and approvals and returns
  the same settlement reference for every intent.\<close>

theorem store_survives_restart:
  assumes "store_wf st" and "st_path st = Some p" and "p \<noteq> []"
    and "store_save save_ok st = (Inr (), st')"
  shows "\<exists>st2. store_init (st_path st') (st_file st') = Inr st2
    \<and> st_intents st2 = st_intents st \<and> st_approvals st2 = st_approvals st
    \<and> get_receipt st2 = get_receipt st \<and> store_wf st2"
proof -
  from assms have "st_path st' = Some p" "st_file st' = Some (json_dumps default_sorted (store_json st))"
    by (auto simp: store_save_def split: if_splits)
  with store_init_saved [OF assms(1-3)] assms(1) show ?thesis
    by (auto simp: get_receipt_def store_wf_def dict_get_dump_order fun_eq_iff)
qed

definition sample_store :: IdempotencyStore where
  "sample_store = \<lparr>st_path = Some ''store.json'', st_intents = {''i1''}, st_approvals = {},
     st_receipts = [(''i1'', ''ref'')], st_file = None\<rparr>"

theorem store_survives_restart_witness:
  "\<exists>st2. store_init (Some ''store.json'') (Some (json_dumps default_sorted (store_json sample_store))) = Inr st2
    \<and> st_intents st2 = {''i1''} \<and> st_approvals st2 = {}
    \<and> get_receipt st2 = get_receipt sample_store \<and> store_wf st2"
  using store_survives_restart [of sample_store "''store.json''" True
      "sample_store\<lparr>st_file := Some (json_dumps default_sorted (store_json sample_store))\<rparr>"]
  by (simp add: store_wf_def store_save_def sample_store_def del: json_dumps.simps)

text \<open>A failed save raises, leaves the file as it was and keeps the record in memory, so the
  running process still refuses the replay.\<close>

theorem failed_save_keeps_file:
  assumes "store_save save_ok st = (Inl e, st')"
  shows "st' = st \<and> (\<exists>m. e = OSError m) \<and> has_receipt (snd (record_receipt False i ref st)) i
    \<and> st_file (snd (record_receipt False i ref st)) = st_file st"
  using assms receipts.seen_mark [of False i ref st]
  by (auto simp: store_save_def record_receipt_def split: if_splits)

theorem failed_save_keeps_file_witness:
  "sample_store = sample_store \<and> (\<exists>m. OSError ''store write failed'' = OSError m)
    \<and> has_receipt (snd (record_receipt False ''i2'' ''r2'' sample_store)) ''i2''
    \<and> st_file (snd (record_receipt False ''i2'' ''r2'' sample_store)) = st_file sample_store"
  by (rule failed_save_keeps_file [of False]) (simp add: store_save_def sample_store_def)

text \<open>Recording an approval makes exactly that triple a replay, as long as intent
  identifiers and prepared hashes hold no colon (both are hexadecimal digests in normal
  use); colons in quote identifiers are harmless.\<close>

theorem approval_replay_exact:
  assumes "CHR '':'' \<notin> set i" "CHR '':'' \<notin> set i'" "CHR '':'' \<notin> set h" "CHR '':'' \<notin> set h'"
  shows "has_approval (snd (record_approval b (i, q, h) st)) (i', q', h') \<longleftrightarrow>
    (i', q', h') = (i, q, h) \<or> has_approval st (i', q', h')"
proof -
  have "approval_key (i', q', h') = approval_key (i, q, h) \<longleftrightarrow> (i', q', h') = (i, q, h)"
    using approval_key_inj [OF assms(2,1,4,3), of q' q] by blast
  then show ?thesis by (simp only: has_approval_record)
qed

theorem approval_replay_exact_witness:
  "has_approval (snd (record_approval True (''ab'', ''q:1'', ''cd'') sample_store)) (''ab'', ''q'', ''cd'') \<longleftrightarrow>
    (''ab'', ''q'', ''cd'') = (''ab'', ''q:1'', ''cd'') \<or> has_approval sample_store (''ab'', ''q'', ''cd'')"
  by (rule approval_replay_exact) simp_all

text \<open>Without that condition the key is ambiguous: recording one approval makes a different
  triple look like a replay, because the three parts are joined with colons unescaped.\<close>

theorem approval_key_clash:
  "has_approval (snd (record_approval b (i, q @ '':'' @ r, h) st)) (i, q, r @ '':'' @ h)"
  by (simp add: has_approval_record approval_key_def)

end
