(* ===== verification/Audit_Log.thy ===== *)
theory Audit_Log
  imports Models
begin

text \<open>
  \<open>AuditLog\<close> of \<open>src/hermes_payments/policy.py\<close>: the append-only JSONL trail. \<open>al_file\<close> is the
  content of the file as its list of lines. An append writes one whole line or, when the
  environment makes the write fail, raises and writes nothing; \<open>Durable_Files\<close> has the lines that
  are cut off.
\<close>

record AuditLog =
  al_path :: "string option"
  al_seq :: int
  al_file :: "string list option"

abbreviation no_path :: "string option \<Rightarrow> bool" where
  "no_path p \<equiv> p = None \<or> p = Some []"

section \<open>Operations\<close>

text \<open>One line of the file contributes \<open>entry.get("seq", 0) + 1\<close>; blank lines are skipped.\<close>

definition line_next_seq :: "string \<Rightarrow> exn + int option" where
  "line_next_seq line =
     (let l = py_strip line in
      if l = [] then Inr None
      else case json_loads l of
        None \<Rightarrow> Inl (ValueError ''audit line is not JSON'')
      | Some (JObj entry) \<Rightarrow>
          (case py_index (case dict_get entry ''seq'' of Some v \<Rightarrow> v | None \<Rightarrow> JInt 0) of
             Some i \<Rightarrow> Inr (Some (i + 1))
           | None \<Rightarrow> Inl (TypeError ''audit seq is not an integer''))
      | Some _ \<Rightarrow> Inl (AttributeError ''audit line is not an object''))"

fun load_seq :: "int \<Rightarrow> string list \<Rightarrow> exn + int" where
  "load_seq seq [] = Inr seq"
| "load_seq seq (line # ls) =
     (case line_next_seq line of
        Inl e \<Rightarrow> Inl e
      | Inr None \<Rightarrow> load_seq seq ls
      | Inr (Some n) \<Rightarrow> load_seq (max seq n) ls)"

definition audit_init :: "string option \<Rightarrow> string list option \<Rightarrow> exn + AuditLog" where
  "audit_init path file =
     (let al = \<lparr>al_path = path, al_seq = 0, al_file = file\<rparr> in
      if no_path path then Inr al
      else case file of
        None \<Rightarrow> Inr al
      | Some ls \<Rightarrow> (case load_seq 0 ls of Inl e \<Rightarrow> Inl e | Inr n \<Rightarrow> Inr (al\<lparr>al_seq := n\<rparr>)))"

definition audit_entry :: "int \<Rightarrow> pyfloat \<Rightarrow> string \<Rightarrow> (string \<times> pyjson) list \<Rightarrow> (string \<times> pyjson) list" where
  "audit_entry seq ts event kwargs =
     fold (\<lambda>(k, v). dict_set k v) kwargs
       [(''seq'', JInt seq), (''ts'', JFloat ts), (''event'', JStr event)]"

definition audit_append ::
    "bool \<Rightarrow> pyfloat \<Rightarrow> string \<Rightarrow> (string \<times> pyjson) list \<Rightarrow> AuditLog \<Rightarrow> (exn + unit) \<times> AuditLog" where
  "audit_append write_ok ts event kwargs al =
     (let line = json_dumps default_sorted (JObj (audit_entry (al_seq al) ts event kwargs)) in
      if no_path (al_path al) then (Inr (), al\<lparr>al_seq := al_seq al + 1\<rparr>)
      else if write_ok then
        (Inr (), al\<lparr>al_file := Some ((case al_file al of None \<Rightarrow> [] | Some ls \<Rightarrow> ls) @ [line]),
                   al_seq := al_seq al + 1\<rparr>)
      else (Inl (OSError ''audit write failed''), al))"

fun read_lines :: "string list \<Rightarrow> exn + pyjson list" where
  "read_lines [] = Inr []"
| "read_lines (line # ls) =
     (let l = py_strip line in
      if l = [] then read_lines ls
      else case json_loads l of
        None \<Rightarrow> Inl (ValueError ''audit line is not JSON'')
      | Some v \<Rightarrow> (case read_lines ls of Inl e \<Rightarrow> Inl e | Inr vs \<Rightarrow> Inr (v # vs)))"

definition audit_entries :: "AuditLog \<Rightarrow> exn + pyjson list" where
  "audit_entries al =
     (if no_path (al_path al) then Inr []
      else case al_file al of None \<Rightarrow> Inr [] | Some ls \<Rightarrow> read_lines ls)"

section \<open>The file and the counter\<close>

text \<open>The sequence number of an entry.\<close>

definition entry_seq :: "pyjson \<Rightarrow> int option" where
  "entry_seq v = (case v of JObj d \<Rightarrow> (case dict_get d ''seq'' of Some (JInt i) \<Rightarrow> Some i | _ \<Rightarrow> None) | _ \<Rightarrow> None)"

text \<open>
  The invariant of a log: every line is an entry with a sequence number, the numbers of the
  file increase strictly, and all of them are below the counter.
\<close>

definition lines_wf :: "string list \<Rightarrow> int list \<Rightarrow> bool" where
  "lines_wf ls ns \<longleftrightarrow>
     list_all2 (\<lambda>l n. py_strip l = l \<and> l \<noteq> [] \<and>
       (\<exists>v. json_loads l = Some v \<and> entry_seq v = Some n)) ls ns"

definition audit_wf :: "AuditLog \<Rightarrow> bool" where
  "audit_wf al \<longleftrightarrow> no_path (al_path al) \<or>
     (\<exists>ns. lines_wf (case al_file al of None \<Rightarrow> [] | Some ls \<Rightarrow> ls) ns
        \<and> sorted_wrt (<) ns \<and> (\<forall>n \<in> set ns. 0 \<le> n \<and> n < al_seq al) \<and> 0 \<le> al_seq al)"

definition kwargs_ok :: "pyfloat \<Rightarrow> (string \<times> pyjson) list \<Rightarrow> bool" where
  "kwargs_ok ts kwargs \<longleftrightarrow> float_ok ts \<and> ''seq'' \<notin> fst ` set kwargs \<and> list_all (\<lambda>(_, v). json_ok v) kwargs"

lemma fold_dict_set_keeps:
  "k \<notin> fst ` set kvs \<Longrightarrow> dict_get (fold (\<lambda>(k, v). dict_set k v) kvs d) k = dict_get d k"
  by (induction kvs arbitrary: d) auto

lemma fold_dict_set_wf: "dict_wf d \<Longrightarrow> dict_wf (fold (\<lambda>(k, v). dict_set k v) kvs d)"
  by (induction kvs arbitrary: d) auto

lemma fold_dict_set_all:
  assumes "list_all (\<lambda>(_, v). P v) kvs" and "list_all (\<lambda>(_, v). P v) d"
  shows "list_all (\<lambda>(_, v). P v) (fold (\<lambda>(k, v). dict_set k v) kvs d)"
proof -
  have upd: "list_all (\<lambda>(_, v). P v) (dict_set k v d)" if "P v" "list_all (\<lambda>(_, v). P v) d" for k v d
    using that by (induction d) auto
  show ?thesis using assms by (induction kvs arbitrary: d) (auto intro: upd)
qed

lemma json_ok_audit_entry: "kwargs_ok ts kwargs \<Longrightarrow> json_ok (JObj (audit_entry seq ts event kwargs))"
  by (auto simp: audit_entry_def kwargs_ok_def fold_dict_set_wf fold_dict_set_all simp del: fold_simps)

text \<open>The text of an object has no blanks around it.\<close>

lemma strip_dumps_Obj: "py_strip (json_dumps opt (JObj d)) = json_dumps opt (JObj d)"
proof -
  have "json_dumps opt (JObj d) = CHR 0x7B # t @ [CHR 0x7D] \<Longrightarrow> ?thesis" for t
    by (simp add: py_strip_def is_space_def)
  then show ?thesis by (simp add: json_dumps_Obj del: json_dumps.simps)
qed

lemma dumps_Obj_nonempty: "json_dumps opt (JObj d) \<noteq> []"
  by (simp add: json_dumps_Obj del: json_dumps.simps)

lemma audit_line_wf:
  assumes "kwargs_ok ts kwargs"
  shows "\<exists>v. json_loads (json_dumps default_sorted (JObj (audit_entry n ts event kwargs))) = Some v
    \<and> entry_seq v = Some n"
proof -
  let ?e = "audit_entry n ts event kwargs"
  have ok: "json_ok (JObj ?e)" by (rule json_ok_audit_entry [OF assms])
  obtain d where d: "canon default_sorted (JObj ?e) = JObj d" by simp
  have "dict_get ?e ''seq'' = Some (JInt n)"
    using assms by (simp add: audit_entry_def kwargs_ok_def fold_dict_set_keeps del: fold_simps)
  then have "dict_get d ''seq'' = Some (JInt n)" using dict_get_canon [OF ok d] by simp
  with json_roundtrip [OF opts_ok_in_use(3) ok] d show ?thesis by (simp add: entry_seq_def)
qed

lemma load_seq_wf:
  assumes "lines_wf ls ns"
  shows "load_seq s ls = Inr (fold (\<lambda>n s. max s (n + 1)) ns s)"
  using assms
proof (induction ls arbitrary: ns s)
  case (Cons l ls)
  then obtain n ns' v where ns: "ns = n # ns'" "py_strip l = l" "l \<noteq> []" "json_loads l = Some v"
    "entry_seq v = Some n" "lines_wf ls ns'"
    by (auto simp: lines_wf_def list_all2_Cons1)
  then have "line_next_seq l = Inr (Some (n + 1))"
    by (auto simp: line_next_seq_def entry_seq_def split: pyjson.splits option.splits)
  with Cons.IH ns show ?case by simp
qed (simp add: lines_wf_def)

lemma fold_max_ge: "s \<le> fold (\<lambda>n s. max s (n + 1)) ns (s::int)"
  by (induction ns arbitrary: s) (auto intro: order_trans [OF max.cobounded1])

lemma fold_max_bound: "n \<in> set ns \<Longrightarrow> n < fold (\<lambda>n s. max s (n + 1)) ns (s::int)"
proof (induction ns arbitrary: s)
  case (Cons m ns)
  then show ?case
    using fold_max_ge [of "max s (m + 1)" ns] by auto
qed simp

lemma read_lines_wf:
  assumes "lines_wf ls ns"
  shows "\<exists>vs. read_lines ls = Inr vs \<and> map entry_seq vs = map Some ns"
  using assms
proof (induction ls arbitrary: ns)
  case (Cons l ls)
  then obtain n ns' v where "ns = n # ns'" "py_strip l = l" "l \<noteq> []" "json_loads l = Some v"
    "entry_seq v = Some n" "lines_wf ls ns'"
    by (auto simp: lines_wf_def list_all2_Cons1)
  with Cons.IH [of ns'] show ?case by auto
qed (simp add: lines_wf_def)

lemma audit_append_keeps_wf:
  assumes "audit_wf al" and "kwargs_ok ts kwargs"
  shows "audit_wf (snd (audit_append write_ok ts event kwargs al))"
proof (cases "no_path (al_path al) \<or> \<not> write_ok")
  case True
  with assms show ?thesis by (auto simp: audit_append_def audit_wf_def Let_def)
next
  case False
  let ?lines = "case al_file al of None \<Rightarrow> [] | Some ls \<Rightarrow> ls"
  let ?l = "json_dumps default_sorted (JObj (audit_entry (al_seq al) ts event kwargs))"
  from False assms(1) obtain ns where ns: "lines_wf ?lines ns" "sorted_wrt (<) ns"
    "\<forall>n \<in> set ns. 0 \<le> n \<and> n < al_seq al" "0 \<le> al_seq al"
    by (auto simp: audit_wf_def)
  have al': "snd (audit_append write_ok ts event kwargs al) =
      al\<lparr>al_file := Some (?lines @ [?l]), al_seq := al_seq al + 1\<rparr>"
    using False by (auto simp: audit_append_def Let_def simp del: json_dumps.simps)
  have "lines_wf [?l] [al_seq al]"
    using audit_line_wf [OF assms(2), of "al_seq al" event]
    by (simp add: lines_wf_def strip_dumps_Obj dumps_Obj_nonempty del: json_dumps.simps)
  then have "lines_wf (?lines @ [?l]) (ns @ [al_seq al])"
    using ns(1) unfolding lines_wf_def by (intro list_all2_appendI)
  moreover have "sorted_wrt (<) (ns @ [al_seq al])" using ns(2,3) by (simp add: sorted_wrt_append)
  ultimately show ?thesis
    using ns(3,4) unfolding audit_wf_def al'
    by (intro disjI2 exI [of _ "ns @ [al_seq al]"]) (auto simp del: json_dumps.simps)
qed

text \<open>A log constructed on the file of a well-formed one.\<close>

lemma audit_reload_wf:
  assumes "audit_wf al"
  shows "\<exists>al2. audit_init (al_path al) (al_file al) = Inr al2 \<and> audit_wf al2 \<and> al_file al2 = al_file al
    \<and> al_path al2 = al_path al"
proof (cases "no_path (al_path al)")
  case True
  then show ?thesis by (auto simp: audit_init_def audit_wf_def)
next
  case False
  with assms obtain ns where ns: "lines_wf (case al_file al of None \<Rightarrow> [] | Some ls \<Rightarrow> ls) ns"
    "sorted_wrt (<) ns" "\<forall>n \<in> set ns. 0 \<le> n \<and> n < al_seq al" by (auto simp: audit_wf_def)
  let ?n = "fold (\<lambda>n s. max s (n + 1)) ns (0::int)"
  have "\<forall>n \<in> set ns. 0 \<le> n \<and> n < ?n" using ns(3) fold_max_bound [of _ ns 0] by blast
  moreover have "audit_init (al_path al) (al_file al) =
    Inr \<lparr>al_path = al_path al, al_seq = ?n, al_file = al_file al\<rparr>"
    using False ns(1) load_seq_wf [OF ns(1), of 0]
    by (cases "al_file al") (auto simp: audit_init_def lines_wf_def)
  ultimately show ?thesis using ns(1,2) fold_max_ge [of 0 ns] by (auto simp: audit_wf_def)
qed

section \<open>Properties\<close>

text \<open>Appending keeps the log well-formed, and so does constructing a new \<open>AuditLog\<close> on the
  file: sequence numbers in the file stay strictly increasing across restarts.\<close>

theorem audit_append_wf:
  assumes "audit_wf al" and "kwargs_ok ts kwargs" and "audit_append write_ok ts event kwargs al = (r, al')"
  shows "audit_wf al' \<and> (\<exists>al2. audit_init (al_path al') (al_file al') = Inr al2 \<and> audit_wf al2)"
proof -
  have "audit_wf al'" using audit_append_keeps_wf [OF assms(1,2), of write_ok event] assms(3) by simp
  with audit_reload_wf show ?thesis by blast
qed

theorem audit_append_wf_witness:
  "audit_wf (snd (audit_append True (FFin False 0 0) ''submit'' []
      \<lparr>al_path = Some ''a.jsonl'', al_seq = 0, al_file = None\<rparr>))
    \<and> (\<exists>al2. audit_init (Some ''a.jsonl'') (al_file (snd (audit_append True (FFin False 0 0) ''submit'' []
      \<lparr>al_path = Some ''a.jsonl'', al_seq = 0, al_file = None\<rparr>))) = Inr al2 \<and> audit_wf al2)"
proof -
  let ?al = "\<lparr>al_path = Some ''a.jsonl'', al_seq = 0, al_file = None\<rparr>"
  have "audit_wf ?al" by (auto simp: audit_wf_def lines_wf_def)
  moreover have "float_ok (FFin False 0 0)" by code_simp
  then have "kwargs_ok (FFin False 0 0) []" by (simp add: kwargs_ok_def del: float_ok.simps)
  moreover have "al_path (snd (audit_append True (FFin False 0 0) ''submit'' [] ?al)) = Some ''a.jsonl''"
    by (simp add: audit_append_def Let_def del: json_dumps.simps)
  ultimately show ?thesis
    using audit_append_wf [of ?al "FFin False 0 0" "[]" True "''submit''"] by (metis surjective_pairing)
qed

end
