(* ===== verification/Orchestrator.thy ===== *)
theory Orchestrator
  imports State_Machine Adapter_Api Idempotency Audit_Log
begin

text \<open>
  The policy engine of \<open>src/hermes_payments/policy.py\<close>: \<open>PolicyError\<close> and its subclasses,
  \<open>IntentRecord\<close> and every method of \<open>PaymentOrchestrator\<close>. A method takes the engine's
  configuration, the environment of the call and the engine, and returns its result, or
  the exception it raises, with the engine it leaves behind: a mutation made before a
  \<open>raise\<close> stays, as in the code.
\<close>

section \<open>Errors, environment and state\<close>

text \<open>The last constructor is an exception that is not a \<open>PolicyError\<close> and passes through.\<close>

datatype policy_error =
    SubmissionRejected string | RecipientRejected string | ApprovalRejected string
  | StateError string | UnknownIntent string | Raised exn

text \<open>
  What a call meets: the clock, whether the write of the store file succeeds, and for an
  audit append (by event and intent) its timestamp and whether the write succeeds.
\<close>

record policy_env =
  env_now :: int
  env_store_ok :: bool
  env_ts :: "string \<Rightarrow> string \<Rightarrow> pyfloat"
  env_audit_ok :: "string \<Rightarrow> string \<Rightarrow> bool"

record IntentRecord =
  rec_intent :: PaymentIntent
  rec_state :: PaymentState
  rec_quote :: "PaymentQuote option"
  rec_prepared :: "PrepareResult option"
  rec_approval :: "PaymentApproval option"
  rec_receipt :: "PaymentReceipt option"
  rec_reconciliation :: "ReconcileResult option"
  rec_quote_expires_at :: int
  rec_expires_at :: int

record 'w orch_config =
  cf_adapter :: "'w SettlementAdapter"
  cf_recipient_allowlist :: "(string \<Rightarrow> bool) option"
  cf_rail_allowlist :: "(Rail \<Rightarrow> bool) option"

record 'w Orch =
  orch_store :: IdempotencyStore
  orch_audit :: AuditLog
  orch_intents :: "(string \<times> IntentRecord) list"
  orch_world :: 'w

type_synonym ('w, 'a) outcome = "(policy_error + 'a) \<times> 'w Orch"

text \<open>The constructor: the store and the log are loaded from their files.\<close>

definition orch_init ::
    "string option \<Rightarrow> string option \<Rightarrow> string option \<Rightarrow> string list option \<Rightarrow> 'w \<Rightarrow> exn + 'w Orch" where
  "orch_init store_path store_file audit_path audit_file w =
     (case store_init store_path store_file of
        Inl e \<Rightarrow> Inl e
      | Inr st \<Rightarrow>
          (case audit_init audit_path audit_file of
             Inl e \<Rightarrow> Inl e
           | Inr al \<Rightarrow> Inr \<lparr>orch_store = st, orch_audit = al, orch_intents = [], orch_world = w\<rparr>))"

section \<open>Helpers\<close>

definition get_record :: "string \<Rightarrow> 'w Orch \<Rightarrow> policy_error + IntentRecord" where
  "get_record intent_id orc =
     (case dict_get (orch_intents orc) intent_id of
        None \<Rightarrow> Inl (UnknownIntent (''intent '' @ intent_id @ '' is not tracked''))
      | Some rc \<Rightarrow> Inr rc)"

definition orch_state :: "string \<Rightarrow> 'w Orch \<Rightarrow> policy_error + PaymentState" where
  "orch_state intent_id orc =
     (case get_record intent_id orc of Inl e \<Rightarrow> Inl e | Inr rc \<Rightarrow> Inr (rec_state rc))"

definition get_intent :: "string \<Rightarrow> 'w Orch \<Rightarrow> PaymentIntent option" where
  "get_intent intent_id orc = map_option rec_intent (dict_get (orch_intents orc) intent_id)"

text \<open>\<open>rec.field = v\<close>: the record at a key of the dictionary is replaced.\<close>

definition put_record :: "string \<Rightarrow> IntentRecord \<Rightarrow> 'w Orch \<Rightarrow> 'w Orch" where
  "put_record k rc orc = orc\<lparr>orch_intents := dict_set k rc (orch_intents orc)\<rparr>"

definition check_intent_expired :: "policy_env \<Rightarrow> IntentRecord \<Rightarrow> policy_error option" where
  "check_intent_expired env rc =
     (if rec_expires_at rc \<noteq> 0 \<and> rec_expires_at rc < env_now env
      then Some (SubmissionRejected (''intent '' @ pi_id (rec_intent rc) @ '' has expired''))
      else None)"

definition check_quote_expired :: "policy_env \<Rightarrow> IntentRecord \<Rightarrow> policy_error option" where
  "check_quote_expired env rc =
     (if rec_quote_expires_at rc \<noteq> 0 \<and> rec_quote_expires_at rc < env_now env
      then Some (StateError (''quote for intent '' @ pi_id (rec_intent rc) @ '' has expired''))
      else None)"

definition validate_recipient :: "'w orch_config \<Rightarrow> AgentIdentity \<Rightarrow> policy_error option" where
  "validate_recipient cfg recipient =
     (case cf_recipient_allowlist cfg of
        None \<Rightarrow> None
      | Some allowed \<Rightarrow>
          if allowed (pubkey recipient) then None
          else Some (RecipientRejected (''recipient '' @ pubkey recipient @ '' is not in the allowlist'')))"

definition validate_rail :: "'w orch_config \<Rightarrow> Rail \<Rightarrow> policy_error option" where
  "validate_rail cfg rail =
     (case cf_rail_allowlist cfg of
        None \<Rightarrow> None
      | Some allowed \<Rightarrow>
          if allowed rail then None
          else Some (StateError (''rail '' @ Rail_value rail @ '' is not in the allowlist'')))"

text \<open>The first record in the state, in insertion order, with its key.\<close>

definition find_by_state :: "PaymentState \<Rightarrow> 'w Orch \<Rightarrow> policy_error + string \<times> IntentRecord" where
  "find_by_state state orc =
     (case filter (\<lambda>(_, r). rec_state r = state) (orch_intents orc) of
        [] \<Rightarrow>
          (let actual = map (\<lambda>(_, r). PaymentState_name (rec_state r)) (orch_intents orc) in
           Inl (StateError (''no intent in state '' @ PaymentState_name state @
             (if actual \<noteq> [] then '' - tracked intents are in states '' @ py_repr (JList (map JStr actual))
              else '' - cannot proceed''))))
      | m # _ \<Rightarrow> Inr m)"

text \<open>\<open>self._audit.append(event, intent_id=..., ...)\<close>, then the rest of the method.\<close>

definition audited ::
    "policy_env \<Rightarrow> string \<Rightarrow> string \<Rightarrow> (string \<times> pyjson) list \<Rightarrow> (policy_error + 'a) \<Rightarrow> 'w Orch \<Rightarrow> ('w, 'a) outcome" where
  "audited env event intent_id kwargs out orc =
     (case audit_append (env_audit_ok env event intent_id) (env_ts env event intent_id) event
             ((''intent_id'', JStr intent_id) # kwargs) (orch_audit orc) of
        (Inl e, al) \<Rightarrow> (Inl (Raised e), orc\<lparr>orch_audit := al\<rparr>)
      | (Inr _, al) \<Rightarrow> (out, orc\<lparr>orch_audit := al\<rparr>))"

abbreviation state_field :: "PaymentState \<Rightarrow> string \<times> pyjson" where
  "state_field s \<equiv> (''state'', JStr (PaymentState_value s))"

definition tr_error :: "TransitionResult \<Rightarrow> string" where
  "tr_error tr = (case error tr of Some e \<Rightarrow> e | None \<Rightarrow> ''None'')"

section \<open>Lifecycle methods\<close>

definition new_record :: "PaymentIntent \<Rightarrow> IntentRecord" where
  "new_record intent =
     \<lparr>rec_intent = intent, rec_state = DRAFT, rec_quote = None, rec_prepared = None,
      rec_approval = None, rec_receipt = None, rec_reconciliation = None,
      rec_quote_expires_at = 0, rec_expires_at = pi_expires_at intent\<rparr>"

definition submit :: "'w orch_config \<Rightarrow> policy_env \<Rightarrow> PaymentIntent \<Rightarrow> 'w Orch \<Rightarrow> ('w, unit) outcome" where
  "submit cfg env intent orc =
     (if has_intent (orch_store orc) (pi_id intent) then (Inr (), orc)
      else let rc = new_record intent in
      case check_intent_expired env rc of Some e \<Rightarrow> (Inl e, orc) | None \<Rightarrow>
      (case validate_recipient cfg (pi_recipient intent) of Some e \<Rightarrow> (Inl e, orc) | None \<Rightarrow>
       let tr = transition (rec_state rc) ''submit'' in
       if \<not> ok tr then (Inl (StateError (''cannot submit: '' @ tr_error tr)), orc)
       else
         let rc = rc\<lparr>rec_state := new_state tr\<rparr>;
             orc = put_record (pi_id intent) rc orc in
         case record_intent (env_store_ok env) (pi_id intent) (orch_store orc) of
           (Inl e, st) \<Rightarrow> (Inl (Raised e), orc\<lparr>orch_store := st\<rparr>)
         | (Inr _, st) \<Rightarrow>
             audited env ''submit'' (pi_id intent)
               [(''actor'', JStr (pubkey (pi_sender intent))), state_field (rec_state rc)]
               (Inr ()) (orc\<lparr>orch_store := st\<rparr>)))"

definition receive_quote :: "policy_env \<Rightarrow> PaymentQuote \<Rightarrow> 'w Orch \<Rightarrow> ('w, unit) outcome" where
  "receive_quote env quote orc =
     (case get_record (pq_intent_id quote) orc of Inl e \<Rightarrow> (Inl e, orc) | Inr rc \<Rightarrow>
      if pq_fee_sat quote > pi_max_fee_sat (rec_intent rc) then
        (Inl (SubmissionRejected (''quote fee '' @ show_int (pq_fee_sat quote) @
           '' exceeds max_fee_sat '' @ show_int (pi_max_fee_sat (rec_intent rc)))), orc)
      else if pq_expires_at quote < env_now env then
        (Inl (SubmissionRejected (''quote '' @ pq_quote_id quote @ '' has expired'')), orc)
      else
        let rc = rc\<lparr>rec_quote := Some quote, rec_quote_expires_at := pq_expires_at quote\<rparr>;
            tr = transition (rec_state rc) ''quote_received'' in
        if \<not> ok tr then
          (Inl (SubmissionRejected (''cannot receive quote: state is '' @
             PaymentState_value (rec_state rc) @ '': '' @ tr_error tr)),
           put_record (pq_intent_id quote) rc orc)
        else
          let rc = rc\<lparr>rec_state := new_state tr\<rparr> in
          audited env ''quote_received'' (pi_id (rec_intent rc))
            [(''quote_id'', JStr (pq_quote_id quote)), (''fee_sat'', JInt (pq_fee_sat quote)),
             state_field (rec_state rc)]
            (Inr ()) (put_record (pq_intent_id quote) rc orc))"

definition prepare :: "'w orch_config \<Rightarrow> policy_env \<Rightarrow> 'w Orch \<Rightarrow> ('w, PrepareResult) outcome" where
  "prepare cfg env orc =
     (case find_by_state QUOTED orc of Inl e \<Rightarrow> (Inl e, orc) | Inr (k, rc) \<Rightarrow>
      (case check_quote_expired env rc of Some e \<Rightarrow> (Inl e, orc) | None \<Rightarrow>
      (case validate_rail cfg (sa_rail (cf_adapter cfg)) of Some e \<Rightarrow> (Inl e, orc) | None \<Rightarrow>
       let tr = transition (rec_state rc) ''prepared'' in
       if \<not> ok tr then (Inl (StateError (''cannot transition to PREPARED: '' @ tr_error tr)), orc)
       else case rec_quote rc of None \<Rightarrow> (Inl (StateError ''prepare requires a quote''), orc) | Some quote \<Rightarrow>
       (case sa_prepare (cf_adapter cfg) (pq_receive_instruction quote)
               (pi_amount_sat (rec_intent rc)) (pi_max_fee_sat (rec_intent rc)) (orch_world orc) of
          (Inl e, w) \<Rightarrow>
            (Inl (if is_adapter_error e then StateError (''adapter prepare failed: '' @ exn_str e)
                  else Raised e), orc\<lparr>orch_world := w\<rparr>)
        | (Inr prep, w) \<Rightarrow>
            let orc = orc\<lparr>orch_world := w\<rparr> in
            if pp_fee_sat prep > pi_max_fee_sat (rec_intent rc) then
              (Inl (StateError (''adapter fee '' @ show_int (pp_fee_sat prep) @
                 '' exceeds max_fee_sat '' @ show_int (pi_max_fee_sat (rec_intent rc)))), orc)
            else case validate_rail cfg (pp_rail prep) of Some e \<Rightarrow> (Inl e, orc) | None \<Rightarrow>
              let rc = rc\<lparr>rec_prepared := Some prep, rec_state := new_state tr\<rparr> in
              audited env ''prepared'' (pi_id (rec_intent rc))
                [(''prepared_hash'', JStr (pp_prepared_hash prep)), (''fee_sat'', JInt (pp_fee_sat prep)),
                 state_field (rec_state rc)]
                (Inr prep) (put_record k rc orc)))))"

definition approve :: "policy_env \<Rightarrow> PaymentApproval \<Rightarrow> 'w Orch \<Rightarrow> ('w, unit) outcome" where
  "approve env approval orc =
     (case get_record (pa_intent_id approval) orc of Inl e \<Rightarrow> (Inl e, orc) | Inr rc \<Rightarrow>
      (case rec_quote rc of None \<Rightarrow> (Inl (StateError ''cannot approve: no quote exists''), orc) | Some quote \<Rightarrow>
       if pq_quote_id quote \<noteq> pa_quote_id approval then
         (Inl (ApprovalRejected (''approval quote_id '' @ pa_quote_id approval @
            '' does not match prepared quote '' @ pq_quote_id quote)), orc)
       else case rec_prepared rc of
         None \<Rightarrow> (Inl (StateError ''cannot approve: no prepared payload exists''), orc)
       | Some prep \<Rightarrow>
           if pp_prepared_hash prep \<noteq> pa_prepared_hash approval then
             (Inl (ApprovalRejected (''approval prepared_hash '' @ pa_prepared_hash approval @
                '' does not match prepared_hash '' @ pp_prepared_hash prep)), orc)
           else let triple = (pa_intent_id approval, pa_quote_id approval, pa_prepared_hash approval) in
           if has_approval (orch_store orc) triple then
             (Inl (ApprovalRejected ''approval triple already used: replay rejected''), orc)
           else if rec_state rc \<noteq> PREPARED then
             (Inl (StateError (''cannot approve: intent is in state '' @ PaymentState_name (rec_state rc) @
                '', expected PREPARED'')), orc)
           else case record_approval (env_store_ok env) triple (orch_store orc) of
             (Inl e, st) \<Rightarrow> (Inl (Raised e), orc\<lparr>orch_store := st\<rparr>)
           | (Inr _, st) \<Rightarrow>
               let orc = orc\<lparr>orch_store := st\<rparr>;
                   rc = rc\<lparr>rec_approval := Some approval\<rparr>;
                   tr = transition (rec_state rc) ''approved'' in
               if \<not> ok tr then
                 (Inl (StateError (''cannot transition to APPROVED: '' @ tr_error tr)),
                  put_record (pa_intent_id approval) rc orc)
               else
                 let rc = rc\<lparr>rec_state := new_state tr\<rparr> in
                 audited env ''approved'' (pi_id (rec_intent rc))
                   [(''quote_id'', JStr (pa_quote_id approval)),
                    (''prepared_hash'', JStr (pa_prepared_hash approval)),
                    (''approver'', JStr (pubkey (pa_approver approval))),
                    state_field (rec_state rc)]
                   (Inr ()) (put_record (pa_intent_id approval) rc orc)))"

text \<open>
  \<open>execute\<close> from the adapter's answer on: the receipt built on success, and the two handlers.
\<close>

definition build_receipt :: "int \<Rightarrow> IntentRecord \<Rightarrow> ExecuteResult \<Rightarrow> PaymentReceipt" where
  "build_receipt now rc er =
     (let receipt =
        \<lparr>pr_id = ''placeholder'', pr_intent_id = pi_id (rec_intent rc),
         pr_quote_id = (case rec_quote rc of Some q \<Rightarrow> pq_quote_id q | None \<Rightarrow> []),
         pr_recipient = pi_recipient (rec_intent rc), pr_settlement_ref = er_settlement_ref er,
         pr_amount_sat = pi_amount_sat (rec_intent rc), pr_fee_sat = er_fee_sat er,
         pr_rail = er_rail er, pr_settled_at = now, pr_created_at = now\<rparr>
      in receipt\<lparr>pr_id := compute_id (MReceipt receipt)\<rparr>)"

definition execute_failed ::
    "policy_env \<Rightarrow> string \<Rightarrow> IntentRecord \<Rightarrow> exn \<Rightarrow> 'w Orch \<Rightarrow> ('w, PaymentReceipt) outcome" where
  "execute_failed env k rc e orc =
     (if is_adapter_error e then
        let rc = rc\<lparr>rec_state := RECONCILIATION_REQUIRED\<rparr>;
            iid = pi_id (rec_intent rc);
            (event, text_head) =
              (case e of AmbiguousResult _ \<Rightarrow> (''adapter_ambiguous'', ''ambiguous settlement result for intent '')
               | _ \<Rightarrow> (''adapter_error'', ''adapter error during execution for intent ''))
        in audited env event iid [(''error'', JStr (exn_str e)), state_field (rec_state rc)]
             (Inl (StateError (text_head @ iid @ '': '' @ exn_str e @
                ''; transitioned to RECONCILIATION_REQUIRED - manual reconciliation required'')))
             (put_record k rc orc)
      else (Inl (Raised e), orc))"

definition execute_settled ::
    "policy_env \<Rightarrow> string \<Rightarrow> IntentRecord \<Rightarrow> ExecuteResult \<Rightarrow> 'w Orch \<Rightarrow> ('w, PaymentReceipt) outcome" where
  "execute_settled env k rc er orc =
     (let receipt = build_receipt (env_now env) rc er in
      if \<not> receipt_ok receipt then (Inl (Raised ValidationError), orc)
      else case record_receipt (env_store_ok env) (pr_intent_id receipt) (pr_settlement_ref receipt) (orch_store orc) of
        (Inl e, st) \<Rightarrow> (Inl (Raised e), orc\<lparr>orch_store := st\<rparr>)
      | (Inr _, st) \<Rightarrow>
          let orc = orc\<lparr>orch_store := st\<rparr>;
              rc = rc\<lparr>rec_receipt := Some receipt\<rparr>;
              final = transition (rec_state rc) ''settled'' in
          if \<not> ok final then
            (Inl (StateError (''cannot transition to SETTLED: '' @ tr_error final)), put_record k rc orc)
          else
            let rc = rc\<lparr>rec_state := new_state final\<rparr> in
            audited env ''settled'' (pi_id (rec_intent rc))
              [(''settlement_ref'', JStr (pr_settlement_ref receipt)),
               (''amount_sat'', JInt (pr_amount_sat receipt)), state_field (rec_state rc)]
              (Inr receipt) (put_record k rc orc))"

definition execute :: "'w orch_config \<Rightarrow> policy_env \<Rightarrow> 'w Orch \<Rightarrow> ('w, PaymentReceipt) outcome" where
  "execute cfg env orc =
     (case find_by_state APPROVED orc of Inl e \<Rightarrow> (Inl e, orc) | Inr (k, rc) \<Rightarrow>
      (case rec_prepared rc of None \<Rightarrow> (Inl (StateError ''cannot execute: no prepared payload''), orc) | Some prep \<Rightarrow>
       let tr = transition (rec_state rc) ''executing'' in
       if \<not> ok tr then (Inl (StateError (''cannot transition to EXECUTING: '' @ tr_error tr)), orc)
       else
         let rc = rc\<lparr>rec_state := new_state tr\<rparr> in
         case audited env ''executing'' (pi_id (rec_intent rc)) [state_field (rec_state rc)]
                (Inr ()) (put_record k rc orc) of
           (Inl e, orc) \<Rightarrow> (Inl e, orc)
         | (Inr _, orc) \<Rightarrow>
             (case sa_execute (cf_adapter cfg) (pp_prepared_payload prep) (pp_prepared_hash prep) (orch_world orc) of
                (Inl e, w) \<Rightarrow> execute_failed env k rc e (orc\<lparr>orch_world := w\<rparr>)
              | (Inr er, w) \<Rightarrow> execute_settled env k rc er (orc\<lparr>orch_world := w\<rparr>))))"

definition or_text :: "string option \<Rightarrow> string \<Rightarrow> string" where
  "or_text e dflt = (case e of Some (c # cs) \<Rightarrow> c # cs | _ \<Rightarrow> dflt)"

definition receive_receipt ::
    "'w orch_config \<Rightarrow> policy_env \<Rightarrow> PaymentReceipt \<Rightarrow> 'w Orch \<Rightarrow> ('w, PaymentReceipt) outcome" where
  "receive_receipt cfg env receipt orc =
     (case get_record (pr_intent_id receipt) orc of Inl e \<Rightarrow> (Inl e, orc) | Inr rc \<Rightarrow>
      let iid = pi_id (rec_intent rc) in
      if rec_state rc \<notin> {EXECUTING, RECONCILIATION_REQUIRED} then
        (Inl (StateError (''cannot receive receipt in state '' @ PaymentState_name (rec_state rc) @
           ''; expected EXECUTING or RECONCILIATION_REQUIRED'')), orc)
      else if has_receipt (orch_store orc) (pr_intent_id receipt) then
        (Inl (StateError (''receipt already recorded for intent '' @ pr_intent_id receipt)), orc)
      else if pr_amount_sat receipt \<noteq> pi_amount_sat (rec_intent rc) then
        audited env ''receipt_mismatch'' iid
          [(''expected_amount'', JInt (pi_amount_sat (rec_intent rc))),
           (''actual_amount'', JInt (pr_amount_sat receipt)), state_field (rec_state rc)]
          (Inl (StateError (''receipt amount '' @ show_int (pr_amount_sat receipt) @
             '' != intent amount '' @ show_int (pi_amount_sat (rec_intent rc))))) orc
      else if map_option pq_quote_id (rec_quote rc) \<noteq> Some (pr_quote_id receipt) then
        (Inl (StateError (''receipt quote_id '' @ pr_quote_id receipt @ '' does not match current quote '' @
           (case rec_quote rc of Some q \<Rightarrow> pq_quote_id q | None \<Rightarrow> ''none''))), orc)
      else case sa_verify_sender_settlement (cf_adapter cfg) (pr_settlement_ref receipt)
                  (pr_amount_sat receipt) (orch_world orc) of
        (Inl e, w) \<Rightarrow> (Inl (Raised e), orc\<lparr>orch_world := w\<rparr>)
      | (Inr verify, w) \<Rightarrow>
          let orc = orc\<lparr>orch_world := w\<rparr> in
          if \<not> rv_verified verify then
            audited env ''receipt_verification_failed'' iid
              [(''error'', JStr (or_text (rv_error verify) ''verification failed'')),
               state_field (rec_state rc)]
              (Inl (StateError (''receipt verification failed: '' @ or_text (rv_error verify) ''unknown''))) orc
          else
            let tr = transition (rec_state rc) ''receipt_received'' in
            if \<not> ok tr then
              (Inl (StateError (''cannot settle via receipt from state '' @
                 PaymentState_name (rec_state rc) @ '': '' @ tr_error tr)), orc)
            else case record_receipt (env_store_ok env) (pr_intent_id receipt)
                        (pr_settlement_ref receipt) (orch_store orc) of
              (Inl e, st) \<Rightarrow> (Inl (Raised e), orc\<lparr>orch_store := st\<rparr>)
            | (Inr _, st) \<Rightarrow>
                let rc = rc\<lparr>rec_receipt := Some receipt, rec_state := new_state tr\<rparr> in
                audited env ''receipt_confirmed'' iid
                  [(''settlement_ref'', JStr (pr_settlement_ref receipt)), state_field (rec_state rc)]
                  (Inr receipt) (put_record (pr_intent_id receipt) rc (orc\<lparr>orch_store := st\<rparr>)))"

definition confirm_settled :: "policy_env \<Rightarrow> string \<Rightarrow> 'w Orch \<Rightarrow> ('w, unit) outcome" where
  "confirm_settled env intent_id orc =
     (case get_record intent_id orc of Inl e \<Rightarrow> (Inl e, orc) | Inr rc \<Rightarrow>
      let tr = transition (rec_state rc) ''confirm_settled'' in
      if \<not> ok tr then
        (Inl (StateError (''cannot confirm_settled from state '' @ PaymentState_value (rec_state rc) @
           '': '' @ tr_error tr)), orc)
      else case record_receipt (env_store_ok env) intent_id (''manual:'' @ intent_id) (orch_store orc) of
        (Inl e, st) \<Rightarrow> (Inl (Raised e), orc\<lparr>orch_store := st\<rparr>)
      | (Inr _, st) \<Rightarrow>
          let rc = rc\<lparr>rec_state := new_state tr\<rparr> in
          audited env ''confirm_settled'' (pi_id (rec_intent rc)) [state_field (rec_state rc)]
            (Inr ()) (put_record intent_id rc (orc\<lparr>orch_store := st\<rparr>)))"

text \<open>\<open>except Exception\<close> catches whatever the adapter raises.\<close>

definition reconcile_settlement ::
    "'w orch_config \<Rightarrow> policy_env \<Rightarrow> string \<Rightarrow> 'w Orch \<Rightarrow> ('w, ReconcileResult) outcome" where
  "reconcile_settlement cfg env intent_id orc =
     (case get_record intent_id orc of Inl e \<Rightarrow> (Inl e, orc) | Inr rc \<Rightarrow>
      if rec_state rc \<noteq> RECONCILIATION_REQUIRED then
        (Inl (StateError (''cannot reconcile from state '' @ PaymentState_value (rec_state rc) @
           ''; expected RECONCILIATION_REQUIRED'')), orc)
      else case rec_prepared rc of
        None \<Rightarrow> (Inl (StateError ''cannot reconcile: no prepared payload''), orc)
      | Some prep \<Rightarrow>
          (case sa_reconcile_settlement (cf_adapter cfg) (pp_prepared_payload prep) (pp_prepared_hash prep)
                  (pi_amount_sat (rec_intent rc)) (orch_world orc) of (answer, w) \<Rightarrow>
             let result = (case answer of
                   Inr result \<Rightarrow> result
                 | Inl e \<Rightarrow> (reconcile_default ''UNKNOWN'')
                     \<lparr>rr_error := Some (''reconciliation query failed: '' @ redact_sensitive (exn_str e))\<rparr>);
                 rc = rc\<lparr>rec_reconciliation := Some result\<rparr>
             in audited env ''settlement_reconciled'' (pi_id (rec_intent rc))
                  [(''status'', JStr (rr_status result)), (''amount_sat'', JInt (rr_amount_sat result)),
                   (''fee_sat'', JInt (rr_fee_sat result)), state_field (rec_state rc)]
                  (Inr result) (put_record intent_id rc (orc\<lparr>orch_world := w\<rparr>))))"

definition cancel :: "policy_env \<Rightarrow> string \<Rightarrow> 'w Orch \<Rightarrow> ('w, unit) outcome" where
  "cancel env intent_id orc =
     (case get_record intent_id orc of Inl e \<Rightarrow> (Inl e, orc) | Inr rc \<Rightarrow>
      let tr = transition (rec_state rc) ''cancel'' in
      if \<not> ok tr then
        (Inl (StateError (''cannot cancel from state '' @ PaymentState_value (rec_state rc) @ '': '' @ tr_error tr)), orc)
      else
        let rc = rc\<lparr>rec_state := new_state tr\<rparr> in
        audited env ''cancelled'' (pi_id (rec_intent rc)) [state_field (rec_state rc)]
          (Inr ()) (put_record intent_id rc orc))"

definition reject :: "policy_env \<Rightarrow> string \<Rightarrow> 'w Orch \<Rightarrow> ('w, unit) outcome" where
  "reject env intent_id orc =
     (case get_record intent_id orc of Inl e \<Rightarrow> (Inl e, orc) | Inr rc \<Rightarrow>
      let tr = transition (rec_state rc) ''rejected'' in
      if \<not> ok tr then
        (Inl (StateError (''cannot reject from state '' @ PaymentState_value (rec_state rc) @ '': '' @ tr_error tr)), orc)
      else
        let rc = rc\<lparr>rec_state := new_state tr\<rparr> in
        audited env ''rejected'' (pi_id (rec_intent rc)) [state_field (rec_state rc)]
          (Inr ()) (put_record intent_id rc orc))"

section \<open>Expiry sweep\<close>

definition expired_intents :: "policy_env \<Rightarrow> string list option \<Rightarrow> 'w Orch \<Rightarrow> string list" where
  "expired_intents env intents_to_check orc =
     map fst (filter (\<lambda>(iid, rc).
       (case intents_to_check of None \<Rightarrow> True | Some ids \<Rightarrow> iid \<in> set ids)
       \<and> rec_state rc = EXECUTING \<and> rec_expires_at rc \<noteq> 0 \<and> rec_expires_at rc < env_now env)
       (orch_intents orc))"

fun expire_loop :: "policy_env \<Rightarrow> string list \<Rightarrow> 'w Orch \<Rightarrow> ('w, unit) outcome" where
  "expire_loop env [] orc = (Inr (), orc)"
| "expire_loop env (iid # iids) orc =
     (case dict_get (orch_intents orc) iid of
        None \<Rightarrow> (Inl (Raised (KeyError (str_repr iid))), orc)
      | Some rc \<Rightarrow>
          let tr = transition (rec_state rc) ''expired'' in
          if \<not> ok tr then expire_loop env iids orc
          else
            let rc = rc\<lparr>rec_state := new_state tr\<rparr> in
            case audited env ''expired_during_execution'' iid [state_field (rec_state rc)]
                   (Inr ()) (put_record iid rc orc) of
              (Inl e, orc) \<Rightarrow> (Inl e, orc)
            | (Inr _, orc) \<Rightarrow> expire_loop env iids orc)"

definition check_expired :: "policy_env \<Rightarrow> string list option \<Rightarrow> 'w Orch \<Rightarrow> ('w, string list) outcome" where
  "check_expired env intents_to_check orc =
     (let expired = expired_intents env intents_to_check orc in
      if expired = [] then (Inr [], orc)
      else case expire_loop env expired orc of
        (Inl e, orc) \<Rightarrow> (Inl e, orc)
      | (Inr _, orc) \<Rightarrow>
          (Inl (StateError (''intents expired during execution: '' @ py_repr (JList (map JStr expired)) @
             ''; transition to RECONCILIATION_REQUIRED required'')), orc))"

end
