(* ===== verification/Orchestrator_Spec.thy ===== *)
theory Orchestrator_Spec
  imports Orchestrator
begin

text \<open>
  An abstract specification of the policy engine, \<open>pstep\<close>: the atomic steps it may take, each
  with the guard that makes it admissible and nothing about messages, audit events or
  control flow. \<open>apply_op\<close> is the engine's public interface as one function, and the
  refinement lemma \<open>op_refines\<close> shows that every call, whatever it returns or raises, is a
  sequence of such steps. The safety theorems are proved over the specification.
\<close>

section \<open>The public interface as one function\<close>

datatype policy_op =
    Submit PaymentIntent | ReceiveQuote PaymentQuote | Prepare | Approve PaymentApproval | Execute
  | ReceiveReceipt PaymentReceipt | ConfirmSettled string | Reconcile string
  | Cancel string | Reject string | CheckExpired "string list option"

fun apply_op :: "'w orch_config \<Rightarrow> policy_env \<Rightarrow> policy_op \<Rightarrow> 'w Orch \<Rightarrow> 'w Orch" where
  "apply_op cfg env (Submit i) orc = snd (submit cfg env i orc)"
| "apply_op cfg env (ReceiveQuote q) orc = snd (receive_quote env q orc)"
| "apply_op cfg env Prepare orc = snd (prepare cfg env orc)"
| "apply_op cfg env (Approve a) orc = snd (approve env a orc)"
| "apply_op cfg env Execute orc = snd (execute cfg env orc)"
| "apply_op cfg env (ReceiveReceipt r) orc = snd (receive_receipt cfg env r orc)"
| "apply_op cfg env (ConfirmSettled k) orc = snd (confirm_settled env k orc)"
| "apply_op cfg env (Reconcile k) orc = snd (reconcile_settlement cfg env k orc)"
| "apply_op cfg env (Cancel k) orc = snd (cancel env k orc)"
| "apply_op cfg env (Reject k) orc = snd (reject env k orc)"
| "apply_op cfg env (CheckExpired ids) orc = snd (check_expired env ids orc)"

definition run_ops :: "'w orch_config \<Rightarrow> (policy_env \<times> policy_op) list \<Rightarrow> 'w Orch \<Rightarrow> 'w Orch" where
  "run_ops cfg ops orc = fold (\<lambda>(env, op). apply_op cfg env op) ops orc"

text \<open>The clock of Python gives floats whose text reads back as the same float.\<close>

definition env_ok :: "policy_env \<Rightarrow> bool" where
  "env_ok env \<longleftrightarrow> (\<forall>event iid. float_ok (env_ts env event iid))"

section \<open>The specification\<close>

text \<open>Triggers that need no evidence beyond the transition table.\<close>

definition free_triggers :: "string set" where
  "free_triggers = {''quote_received'', ''cancel'', ''rejected'', ''expired'', ''adapter_error''}"

definition rail_allowed :: "'w orch_config \<Rightarrow> Rail \<Rightarrow> bool" where
  "rail_allowed cfg r \<longleftrightarrow> (case cf_rail_allowlist cfg of None \<Rightarrow> True | Some f \<Rightarrow> f r)"

definition recipient_allowed :: "'w orch_config \<Rightarrow> AgentIdentity \<Rightarrow> bool" where
  "recipient_allowed cfg a \<longleftrightarrow> (case cf_recipient_allowlist cfg of None \<Rightarrow> True | Some f \<Rightarrow> f (pubkey a))"

inductive adapter_query :: "'w SettlementAdapter \<Rightarrow> 'w \<Rightarrow> 'w \<Rightarrow> bool" for ad where
  q_prepare: "adapter_query ad w (snd (sa_prepare ad instr amt fee w))"
| q_verify: "adapter_query ad w (snd (sa_verify_sender_settlement ad ref amt w))"
| q_receipt: "adapter_query ad w (snd (sa_verify_receipt ad ref amt w))"
| q_reconcile: "adapter_query ad w (snd (sa_reconcile_settlement ad payload hash amt w))"

definition approval_matches :: "PaymentApproval \<Rightarrow> string \<Rightarrow> IntentRecord \<Rightarrow> bool" where
  "approval_matches a k rc \<longleftrightarrow> pa_intent_id a = k
     \<and> map_option pq_quote_id (rec_quote rc) = Some (pa_quote_id a)
     \<and> map_option pp_prepared_hash (rec_prepared rc) = Some (pa_prepared_hash a)"

abbreviation approval_triple :: "PaymentApproval \<Rightarrow> approval_triple" where
  "approval_triple a \<equiv> (pa_intent_id a, pa_quote_id a, pa_prepared_hash a)"

inductive pstep :: "'w orch_config \<Rightarrow> 'w Orch \<Rightarrow> 'w Orch \<Rightarrow> bool" for cfg where
  ps_audit:
    "kwargs_ok ts kwargs \<Longrightarrow>
     pstep cfg orc (orc\<lparr>orch_audit := snd (audit_append b ts event kwargs (orch_audit orc))\<rparr>)"
| ps_query:
    "adapter_query (cf_adapter cfg) (orch_world orc) w \<Longrightarrow> pstep cfg orc (orc\<lparr>orch_world := w\<rparr>)"
| ps_track:
    "\<not> has_intent (orch_store orc) (pi_id i) \<Longrightarrow> recipient_allowed cfg (pi_recipient i) \<Longrightarrow>
     pstep cfg orc ((put_record (pi_id i) ((new_record i)\<lparr>rec_state := SUBMITTED\<rparr>) orc)
       \<lparr>orch_store := snd (record_intent b (pi_id i) (orch_store orc))\<rparr>)"
| ps_quote:
    "dict_get (orch_intents orc) k = Some rc \<Longrightarrow> pq_intent_id q = k \<Longrightarrow>
     pq_fee_sat q \<le> pi_max_fee_sat (rec_intent rc) \<Longrightarrow>
     pstep cfg orc (put_record k (rc\<lparr>rec_quote := Some q, rec_quote_expires_at := pq_expires_at q\<rparr>) orc)"
| ps_move:
    "dict_get (orch_intents orc) k = Some rc \<Longrightarrow> t \<in> free_triggers \<Longrightarrow> sm_step (rec_state rc) t s' \<Longrightarrow>
     (s' = QUOTED \<Longrightarrow> rec_quote rc \<noteq> None) \<Longrightarrow>
     pstep cfg orc (put_record k (rc\<lparr>rec_state := s'\<rparr>) orc)"
| ps_prepared:
    "dict_get (orch_intents orc) k = Some rc \<Longrightarrow> rec_state rc = QUOTED \<Longrightarrow> rec_quote rc = Some q \<Longrightarrow>
     sa_prepare (cf_adapter cfg) (pq_receive_instruction q) (pi_amount_sat (rec_intent rc))
       (pi_max_fee_sat (rec_intent rc)) (orch_world orc) = (Inr prep, w) \<Longrightarrow>
     pp_fee_sat prep \<le> pi_max_fee_sat (rec_intent rc) \<Longrightarrow> rail_allowed cfg (pp_rail prep) \<Longrightarrow>
     pstep cfg orc (put_record k (rc\<lparr>rec_prepared := Some prep, rec_state := PREPARED\<rparr>) (orc\<lparr>orch_world := w\<rparr>))"
| ps_approval_unsaved:
    "pstep cfg orc (orc\<lparr>orch_store := snd (record_approval b t (orch_store orc))\<rparr>)"
| ps_approved:
    "dict_get (orch_intents orc) k = Some rc \<Longrightarrow> rec_state rc = PREPARED \<Longrightarrow> approval_matches a k rc \<Longrightarrow>
     \<not> has_approval (orch_store orc) (approval_triple a) \<Longrightarrow>
     fst (record_approval b (approval_triple a) (orch_store orc)) = Inr () \<Longrightarrow>
     pstep cfg orc ((put_record k (rc\<lparr>rec_approval := Some a, rec_state := APPROVED\<rparr>) orc)
       \<lparr>orch_store := snd (record_approval b (approval_triple a) (orch_store orc))\<rparr>)"
| ps_executing:
    "dict_get (orch_intents orc) k = Some rc \<Longrightarrow> rec_state rc = APPROVED \<Longrightarrow>
     pstep cfg orc (put_record k (rc\<lparr>rec_state := EXECUTING\<rparr>) orc)"
| ps_dispatch:
    "dict_get (orch_intents orc) k = Some rc \<Longrightarrow> rec_state rc = APPROVED \<Longrightarrow> rec_prepared rc = Some p \<Longrightarrow>
     pstep cfg orc ((put_record k (rc\<lparr>rec_state := EXECUTING\<rparr>) orc)
       \<lparr>orch_world := snd (sa_execute (cf_adapter cfg) (pp_prepared_payload p) (pp_prepared_hash p) (orch_world orc))\<rparr>)"
| ps_receipt_unsaved:
    "dict_get (orch_intents orc) k = Some rc \<Longrightarrow> rec_state rc \<in> {EXECUTING, RECONCILIATION_REQUIRED} \<Longrightarrow>
     pstep cfg orc (orc\<lparr>orch_store := snd (record_receipt b k ref (orch_store orc))\<rparr>)"
| ps_settled:
    "dict_get (orch_intents orc) k = Some rc \<Longrightarrow> rec_state rc \<in> {EXECUTING, RECONCILIATION_REQUIRED} \<Longrightarrow>
     fst (record_receipt b k ref (orch_store orc)) = Inr () \<Longrightarrow>
     pstep cfg orc ((put_record k (rc\<lparr>rec_receipt := r, rec_state := SETTLED\<rparr>) orc)
       \<lparr>orch_store := snd (record_receipt b k ref (orch_store orc))\<rparr>)"
| ps_evidence:
    "dict_get (orch_intents orc) k = Some rc \<Longrightarrow>
     pstep cfg orc (put_record k (rc\<lparr>rec_reconciliation := Some res\<rparr>) orc)"

abbreviation psteps :: "'w orch_config \<Rightarrow> 'w Orch \<Rightarrow> 'w Orch \<Rightarrow> bool" where
  "psteps cfg \<equiv> (pstep cfg)\<^sup>*\<^sup>*"

section \<open>Frame lemmas\<close>

lemma put_record_simps [simp]:
  "orch_intents (put_record k rc orc) = dict_set k rc (orch_intents orc)"
  "orch_store (put_record k rc orc) = orch_store orc"
  "orch_audit (put_record k rc orc) = orch_audit orc"
  "orch_world (put_record k rc orc) = orch_world orc"
  "put_record k rc (put_record k rc' orc) = put_record k rc orc"
  "put_record k rc (orc\<lparr>orch_world := w\<rparr>) = (put_record k rc orc)\<lparr>orch_world := w\<rparr>"
  "put_record k rc (orc\<lparr>orch_store := st\<rparr>) = (put_record k rc orc)\<lparr>orch_store := st\<rparr>"
  "put_record k rc (orc\<lparr>orch_audit := al\<rparr>) = (put_record k rc orc)\<lparr>orch_audit := al\<rparr>"
  by (simp_all add: put_record_def)

definition kw_ok :: "(string \<times> pyjson) list \<Rightarrow> bool" where
  "kw_ok kw \<longleftrightarrow> ''seq'' \<notin> fst ` set kw \<and> list_all (\<lambda>(_, v). json_ok v) kw"

lemma world_audit_commute:
  "orc\<lparr>orch_audit := al, orch_world := w\<rparr> = orc\<lparr>orch_world := w, orch_audit := al\<rparr>"
  by simp

lemma audited_orch:
  "snd (audited env event iid kw out orc) =
     orc\<lparr>orch_audit := snd (audit_append (env_audit_ok env event iid) (env_ts env event iid) event
       ((''intent_id'', JStr iid) # kw) (orch_audit orc))\<rparr>"
  by (auto simp: audited_def split: prod.splits sum.splits)

lemma audited_frames [frame_simps]:
  "orch_store (snd (audited env event iid kw out orc)) = orch_store orc"
  "orch_intents (snd (audited env event iid kw out orc)) = orch_intents orc"
  "orch_world (snd (audited env event iid kw out orc)) = orch_world orc"
  by (simp_all add: audited_orch)

lemma psteps_audited:
  assumes "env_ok env" and "kw_ok kw" and "psteps cfg orc0 orc"
  shows "psteps cfg orc0 (snd (audited env event iid kw out orc))"
proof -
  have "kwargs_ok (env_ts env event iid) ((''intent_id'', JStr iid) # kw)"
    using assms(1,2) by (auto simp: env_ok_def kw_ok_def kwargs_ok_def)
  then have "pstep cfg orc (snd (audited env event iid kw out orc))"
    unfolding audited_orch by (rule ps_audit)
  with assms(3) show ?thesis by (rule rtranclp.rtrancl_into_rtrancl)
qed

text \<open>Tracked records are stored under their intent's identifier.\<close>

definition keyed :: "'w Orch \<Rightarrow> bool" where
  "keyed orc \<longleftrightarrow> dict_wf (orch_intents orc)
     \<and> (\<forall>k rc. dict_get (orch_intents orc) k = Some rc \<longrightarrow> pi_id (rec_intent rc) = k)"

lemma find_by_state_Inr:
  assumes "find_by_state s orc = Inr (k, rc)" and "keyed orc"
  shows "dict_get (orch_intents orc) k = Some rc \<and> rec_state rc = s \<and> pi_id (rec_intent rc) = k"
proof -
  from assms(1) have "(k, rc) \<in> set (filter (\<lambda>(_, r). rec_state r = s) (orch_intents orc))"
    unfolding find_by_state_def
    by (cases "filter (\<lambda>(_, r). rec_state r = s) (orch_intents orc)") (simp_all add: Let_def)
  then have "(k, rc) \<in> set (orch_intents orc)" "rec_state rc = s" by auto
  with assms(2) show ?thesis by (auto simp: keyed_def)
qed

lemma get_record_Inr: "get_record k orc = Inr rc \<longleftrightarrow> dict_get (orch_intents orc) k = Some rc"
  by (auto simp: get_record_def split: option.splits)

lemma transition_new_sm: "ok (transition s t) \<Longrightarrow> sm_step s t (new_state (transition s t))"
  by (rule sm_stepI)

lemma sm_step_to: 
  "sm_step s ''submit'' s' \<Longrightarrow> s = DRAFT \<and> s' = SUBMITTED"
  "sm_step s ''quote_received'' s' \<Longrightarrow> s = SUBMITTED \<and> s' = QUOTED"
  "sm_step s ''prepared'' s' \<Longrightarrow> s = QUOTED \<and> s' = PREPARED"
  "sm_step s ''approved'' s' \<Longrightarrow> s = PREPARED \<and> s' = APPROVED"
  "sm_step s ''executing'' s' \<Longrightarrow> s = APPROVED \<and> s' = EXECUTING"
  "sm_step s ''settled'' s' \<Longrightarrow> s = EXECUTING \<and> s' = SETTLED"
  "sm_step s ''receipt_received'' s' \<Longrightarrow> s \<in> {EXECUTING, RECONCILIATION_REQUIRED} \<and> s' = SETTLED"
  "sm_step s ''confirm_settled'' s' \<Longrightarrow> s = RECONCILIATION_REQUIRED \<and> s' = SETTLED"
  "sm_step s ''cancel'' s' \<Longrightarrow> s' = CANCELLED"
  "sm_step s ''rejected'' s' \<Longrightarrow> s' = REJECTED"
  "sm_step s ''expired'' s' \<Longrightarrow> s' \<in> {EXPIRED, RECONCILIATION_REQUIRED}"
  by (auto simp: sm_step_iff TRANSITIONS_def)

text \<open>The table at the triggers the methods use.\<close>

lemma transition_at [simp]:
  "transition DRAFT ''submit'' = \<lparr>ok = True, new_state = SUBMITTED, error = None\<rparr>"
  "transition SUBMITTED ''quote_received'' = \<lparr>ok = True, new_state = QUOTED, error = None\<rparr>"
  "transition QUOTED ''prepared'' = \<lparr>ok = True, new_state = PREPARED, error = None\<rparr>"
  "transition PREPARED ''approved'' = \<lparr>ok = True, new_state = APPROVED, error = None\<rparr>"
  "transition APPROVED ''executing'' = \<lparr>ok = True, new_state = EXECUTING, error = None\<rparr>"
  "transition EXECUTING ''settled'' = \<lparr>ok = True, new_state = SETTLED, error = None\<rparr>"
  "transition EXECUTING ''expired'' = \<lparr>ok = True, new_state = RECONCILIATION_REQUIRED, error = None\<rparr>"
  "transition EXECUTING ''receipt_received'' = \<lparr>ok = True, new_state = SETTLED, error = None\<rparr>"
  "transition RECONCILIATION_REQUIRED ''receipt_received'' = \<lparr>ok = True, new_state = SETTLED, error = None\<rparr>"
  "transition RECONCILIATION_REQUIRED ''confirm_settled'' = \<lparr>ok = True, new_state = SETTLED, error = None\<rparr>"
  by (simp_all add: transition_new_state TRANSITIONS_def)

section \<open>Refinement\<close>

lemma kw_ok_simps [simp]:
  "kw_ok []"
  "kw_ok ((k, v) # kw) \<longleftrightarrow> k \<noteq> ''seq'' \<and> json_ok v \<and> kw_ok kw"
  by (auto simp: kw_ok_def)

lemmas one_step = r_into_rtranclp [of "pstep cfg" for cfg]

lemma submit_refines:
  assumes "env_ok env"
  shows "psteps cfg orc (snd (submit cfg env i orc))"
proof -
  obtain res st where r: "record_intent (env_store_ok env) (pi_id i) (orch_store orc) = (res, st)" by force
  let ?orc = "(put_record (pi_id i) ((new_record i)\<lparr>rec_state := SUBMITTED\<rparr>) orc)\<lparr>orch_store := st\<rparr>"
  have step: "psteps cfg orc ?orc"
    if "\<not> has_intent (orch_store orc) (pi_id i)" "validate_recipient cfg (pi_recipient i) = None"
    using ps_track [OF that(1), of cfg "env_store_ok env"] that(2) r
    by (intro one_step)
      (auto simp: validate_recipient_def recipient_allowed_def split: option.splits if_splits)
  have [simp]: "rec_state (new_record i) = DRAFT" by (simp add: new_record_def)
  show ?thesis
    using step by (cases res) (auto simp: submit_def Let_def r intro!: psteps_audited assms split: option.splits)
qed

lemma receive_quote_refines:
  assumes "env_ok env"
  shows "psteps cfg orc (snd (receive_quote env q orc))"
proof (cases "get_record (pq_intent_id q) orc")
  case (Inr rc)
  let ?rc = "rc\<lparr>rec_quote := Some q, rec_quote_expires_at := pq_expires_at q\<rparr>"
  let ?orc = "put_record (pq_intent_id q) ?rc orc"
  from Inr have get: "dict_get (orch_intents orc) (pq_intent_id q) = Some rc" by (simp add: get_record_Inr)
  have quoted: "psteps cfg orc ?orc" if "pq_fee_sat q \<le> pi_max_fee_sat (rec_intent rc)"
    using ps_quote [OF get refl that] by (rule one_step)
  have moved: "psteps cfg orc (put_record (pq_intent_id q) (?rc\<lparr>rec_state := new_state tr\<rparr>) orc)"
    if "pq_fee_sat q \<le> pi_max_fee_sat (rec_intent rc)" "tr = transition (rec_state rc) ''quote_received''" "ok tr" for tr
  proof -
    have "pstep cfg ?orc (put_record (pq_intent_id q) (?rc\<lparr>rec_state := new_state tr\<rparr>) ?orc)"
      using that transition_new_sm
      by (intro ps_move [where t = "''quote_received''"]) (auto simp: free_triggers_def)
    with quoted that(1) show ?thesis by simp
  qed
  show ?thesis
    using quoted moved by (auto simp: receive_quote_def Inr Let_def not_less intro!: psteps_audited assms)
qed (simp add: receive_quote_def)

lemma validate_rail_None: "validate_rail cfg r = None \<longleftrightarrow> rail_allowed cfg r"
  by (auto simp: validate_rail_def rail_allowed_def split: option.splits)

lemma prepare_refines:
  assumes "env_ok env" and "keyed orc"
  shows "psteps cfg orc (snd (prepare cfg env orc))"
proof (cases "find_by_state QUOTED orc")
  case (Inr m)
  obtain k rc where m: "m = (k, rc)" by force
  note get = find_by_state_Inr [OF Inr [unfolded m] assms(2)]
  show ?thesis
  proof (cases "rec_quote rc")
    case (Some q)
    let ?call = "sa_prepare (cf_adapter cfg) (pq_receive_instruction q) (pi_amount_sat (rec_intent rc))
      (pi_max_fee_sat (rec_intent rc)) (orch_world orc)"
    obtain res w where call: "?call = (res, w)" by force
    have query: "psteps cfg orc (orc\<lparr>orch_world := w\<rparr>)"
      using ps_query [OF q_prepare] call by (metis one_step snd_conv)
    have prepared: "psteps cfg orc (put_record k (rc\<lparr>rec_prepared := Some prep, rec_state := PREPARED\<rparr>) (orc\<lparr>orch_world := w\<rparr>))"
      if "res = Inr prep" "pp_fee_sat prep \<le> pi_max_fee_sat (rec_intent rc)" "validate_rail cfg (pp_rail prep) = None" for prep
      using get Some call that by (intro one_step ps_prepared) (auto simp: validate_rail_None)
    show ?thesis
      using query prepared get
      by (cases res) (auto simp: prepare_def Inr m call Some Let_def not_less
          intro!: psteps_audited assms split: option.splits)
  qed (use get in \<open>simp add: prepare_def Inr m Let_def split: option.splits\<close>)
qed (simp add: prepare_def)

lemma approve_refines:
  assumes "env_ok env"
  shows "psteps cfg orc (snd (approve env a orc))"
proof -
  obtain res st where r: "record_approval (env_store_ok env) (approval_triple a) (orch_store orc) = (res, st)"
    by force
  have unsaved: "psteps cfg orc (orc\<lparr>orch_store := st\<rparr>)"
    using ps_approval_unsaved r by (metis one_step snd_conv)
  have approved: "psteps cfg orc ((put_record k (rc\<lparr>rec_approval := Some a, rec_state := APPROVED\<rparr>) orc)\<lparr>orch_store := st\<rparr>)"
    if "dict_get (orch_intents orc) k = Some rc" "rec_state rc = PREPARED" "approval_matches a k rc"
      "\<not> has_approval (orch_store orc) (approval_triple a)" "res = Inr ()" for k rc
    using ps_approved [OF that(1-4), of "env_store_ok env" cfg] r that(5) by (intro one_step) simp
  show ?thesis
    using unsaved approved
    by (cases res) (auto simp: approve_def Let_def r get_record_Inr approval_matches_def
        intro!: psteps_audited assms split: option.splits sum.splits)
qed

text \<open>The two continuations of \<open>execute\<close>, from a state in which the record is \<open>EXECUTING\<close>.\<close>

lemma execute_failed_refines:
  assumes "env_ok env" and "dict_get (orch_intents orc) k = Some rc" and "rec_state rc = EXECUTING"
  shows "psteps cfg orc (snd (execute_failed env k rc e orc))"
proof -
  have "sm_step EXECUTING ''adapter_error'' RECONCILIATION_REQUIRED"
    by (simp add: sm_step_iff TRANSITIONS_def)
  then have "psteps cfg orc (put_record k (rc\<lparr>rec_state := RECONCILIATION_REQUIRED\<rparr>) orc)"
    using assms(2,3) by (intro one_step ps_move [where t = "''adapter_error''"]) (auto simp: free_triggers_def)
  then show ?thesis
    by (auto simp: execute_failed_def Let_def intro!: psteps_audited assms(1) split: exn.splits)
qed

lemma build_receipt_simps [simp]:
  "pr_intent_id (build_receipt now rc er) = pi_id (rec_intent rc)"
  "pr_settlement_ref (build_receipt now rc er) = er_settlement_ref er"
  "pr_amount_sat (build_receipt now rc er) = pi_amount_sat (rec_intent rc)"
  "pr_fee_sat (build_receipt now rc er) = er_fee_sat er"
  "pr_recipient (build_receipt now rc er) = pi_recipient (rec_intent rc)"
  "pr_rail (build_receipt now rc er) = er_rail er"
  by (simp_all add: build_receipt_def Let_def)

lemma receipt_recorded_refines:
  assumes "dict_get (orch_intents orc) k = Some rc" and "rec_state rc \<in> {EXECUTING, RECONCILIATION_REQUIRED}"
    and "record_receipt b k ref (orch_store orc) = (res, st)"
  shows "psteps cfg orc (orc\<lparr>orch_store := st\<rparr>)"
    and "res = Inr () \<Longrightarrow>
      psteps cfg orc ((put_record k (rc\<lparr>rec_receipt := r, rec_state := SETTLED\<rparr>) orc)\<lparr>orch_store := st\<rparr>)"
  using ps_receipt_unsaved [OF assms(1,2), where cfg = cfg and b = b and ref = ref]
    ps_settled [OF assms(1,2), where cfg = cfg and r = r and b = b and ref = ref] assms(3)
  by (simp_all add: one_step)

lemma execute_settled_refines:
  assumes "env_ok env" and "dict_get (orch_intents orc) k = Some rc" and "rec_state rc = EXECUTING"
    and "pi_id (rec_intent rc) = k"
  shows "psteps cfg orc (snd (execute_settled env k rc er orc))"
proof -
  obtain res st where r:
    "record_receipt (env_store_ok env) (pi_id (rec_intent rc)) (er_settlement_ref er) (orch_store orc) = (res, st)"
    by force
  note steps = receipt_recorded_refines [OF assms(2) _ r [unfolded assms(4)]]
  show ?thesis
    using steps assms(3)
    by (cases res) (auto simp: execute_settled_def Let_def r assms(3) simp flip: assms(4) intro!: psteps_audited assms(1))
qed

lemma execute_refines:
  assumes "env_ok env" and "keyed orc"
  shows "psteps cfg orc (snd (execute cfg env orc))"
proof (cases "find_by_state APPROVED orc")
  case (Inr m)
  obtain k rc where m: "m = (k, rc)" by force
  note get = find_by_state_Inr [OF Inr [unfolded m] assms(2)]
  show ?thesis
  proof (cases "rec_prepared rc")
    case (Some p)
    let ?rc = "rc\<lparr>rec_state := EXECUTING\<rparr>"
    let ?log = "audited env ''executing'' (pi_id (rec_intent rc)) [state_field EXECUTING] (Inr ()) (put_record k ?rc orc)"
    obtain out orc1 where log: "?log = (out :: policy_error + unit, orc1)" by force
    have orc1: "orc1 = snd ?log" using log by simp
    have started: "psteps cfg orc orc1"
      using get unfolding orc1 by (intro psteps_audited assms one_step ps_executing) simp_all
    obtain res w where call: "sa_execute (cf_adapter cfg) (pp_prepared_payload p) (pp_prepared_hash p) (orch_world orc1) = (res, w)"
      by force
    let ?sent = "(put_record k ?rc orc)\<lparr>orch_world := w\<rparr>"
    have world: "orch_world orc1 = orch_world orc" by (simp add: orc1 frame_simps)
    have "psteps cfg orc ?sent"
      using ps_dispatch [of orc k rc p cfg] get Some call world by (intro one_step) simp
    then have "psteps cfg orc (snd (audited env ''executing'' (pi_id (rec_intent rc)) [state_field EXECUTING]
        (Inr () :: policy_error + unit) ?sent))"
      by (intro psteps_audited assms(1)) simp
    then have sent: "psteps cfg orc (orc1\<lparr>orch_world := w\<rparr>)" by (simp add: orc1 audited_orch world_audit_commute)
    have get1: "dict_get (orch_intents (orc1\<lparr>orch_world := w\<rparr>)) k = Some ?rc"
      by (simp add: orc1 frame_simps)
    have "psteps cfg orc (snd (execute_failed env k ?rc e (orc1\<lparr>orch_world := w\<rparr>)))" for e
      using sent execute_failed_refines [OF assms(1) get1, of cfg e] by (simp add: rtranclp_trans)
    moreover have "psteps cfg orc (snd (execute_settled env k ?rc er (orc1\<lparr>orch_world := w\<rparr>)))" for er
      using sent execute_settled_refines [OF assms(1) get1, of cfg er] get by (simp add: rtranclp_trans)
    ultimately show ?thesis
      using started get log by (cases out; cases res) (simp_all add: execute_def Inr m Some Let_def call)
  qed (simp add: execute_def Inr m)
qed (simp add: execute_def)

lemma receive_receipt_refines:
  assumes "env_ok env"
  shows "psteps cfg orc (snd (receive_receipt cfg env r orc))"
proof (cases "get_record (pr_intent_id r) orc")
  case (Inr rc)
  obtain res w where call: "sa_verify_sender_settlement (cf_adapter cfg) (pr_settlement_ref r) (pr_amount_sat r) (orch_world orc) = (res, w)"
    by force
  let ?orc = "orc\<lparr>orch_world := w\<rparr>"
  have query: "psteps cfg orc ?orc" using ps_query [OF q_verify] call by (metis one_step snd_conv)
  obtain res2 st where rr:
    "record_receipt (env_store_ok env) (pr_intent_id r) (pr_settlement_ref r) (orch_store orc) = (res2, st)" by force
  have got: "dict_get (orch_intents ?orc) (pr_intent_id r) = Some rc" using Inr by (simp add: get_record_Inr)
  have rr': "record_receipt (env_store_ok env) (pr_intent_id r) (pr_settlement_ref r) (orch_store ?orc) = (res2, st)"
    using rr by simp
  note steps = receipt_recorded_refines(1) [OF got] receipt_recorded_refines(2) [OF got]
  have steps': "psteps cfg orc (?orc\<lparr>orch_store := st\<rparr>)"
    "res2 = Inr () \<Longrightarrow> psteps cfg orc ((put_record (pr_intent_id r) (rc\<lparr>rec_receipt := Some r, rec_state := SETTLED\<rparr>) ?orc)\<lparr>orch_store := st\<rparr>)"
    if "rec_state rc \<in> {EXECUTING, RECONCILIATION_REQUIRED}"
    using rtranclp_trans [OF query steps(1) [OF that rr']] rtranclp_trans [OF query steps(2) [OF that rr']] by simp_all
  show ?thesis
  proof (cases "rec_state rc \<in> {EXECUTING, RECONCILIATION_REQUIRED}")
    case True
    then show ?thesis
      using query steps' rr call
      by (cases res; cases res2) (auto simp: receive_receipt_def Inr Let_def intro!: psteps_audited assms)
  qed (simp add: receive_receipt_def Inr Let_def)
qed (simp add: receive_receipt_def)

lemma confirm_settled_refines:
  assumes "env_ok env"
  shows "psteps cfg orc (snd (confirm_settled env k orc))"
proof (cases "get_record k orc")
  case (Inr rc)
  obtain res st where r: "record_receipt (env_store_ok env) k (''manual:'' @ k) (orch_store orc) = (res, st)" by force
  have get: "dict_get (orch_intents orc) k = Some rc" using Inr by (simp add: get_record_Inr)
  have "rec_state rc = RECONCILIATION_REQUIRED" if "ok (transition (rec_state rc) ''confirm_settled'')"
    using sm_step_to(8) [OF transition_new_sm [OF that]] by simp
  moreover have "rc\<lparr>rec_receipt := rec_receipt rc, rec_state := s\<rparr> = rc\<lparr>rec_state := s\<rparr>" for s by simp
  ultimately show ?thesis
    using receipt_recorded_refines(1) [OF get _ r, where cfg = cfg]
      receipt_recorded_refines(2) [OF get _ r, where cfg = cfg and r = "rec_receipt rc"]
    by (cases res) (auto simp: confirm_settled_def Inr Let_def r [simplified] intro!: psteps_audited assms)
qed (simp add: confirm_settled_def)

lemma reconcile_refines:
  assumes "env_ok env"
  shows "psteps cfg orc (snd (reconcile_settlement cfg env k orc))"
proof (cases "get_record k orc")
  case (Inr rc)
  have get: "dict_get (orch_intents orc) k = Some rc" using Inr by (simp add: get_record_Inr)
  show ?thesis
  proof (cases "rec_prepared rc")
    case (Some p)
    obtain res w where call: "sa_reconcile_settlement (cf_adapter cfg) (pp_prepared_payload p) (pp_prepared_hash p)
      (pi_amount_sat (rec_intent rc)) (orch_world orc) = (res, w)" by force
    have query: "psteps cfg orc (orc\<lparr>orch_world := w\<rparr>)"
      using ps_query [OF q_reconcile] call by (metis one_step snd_conv)
    have "psteps cfg orc (put_record k (rc\<lparr>rec_reconciliation := Some result\<rparr>) (orc\<lparr>orch_world := w\<rparr>))" for result
      using query by (rule rtranclp.rtrancl_into_rtrancl) (rule ps_evidence, simp add: get)
    then show ?thesis
      by (auto simp: reconcile_settlement_def Inr Some Let_def call intro!: psteps_audited assms)
  qed (simp add: reconcile_settlement_def Inr)
qed (simp add: reconcile_settlement_def)

text \<open>A method that only moves a record along a free trigger.\<close>

lemma move_refines:
  assumes "dict_get (orch_intents orc) k = Some rc" and "t \<in> {''cancel'', ''rejected'', ''expired''}"
    and "ok (transition (rec_state rc) t)"
  shows "psteps cfg orc (put_record k (rc\<lparr>rec_state := new_state (transition (rec_state rc) t)\<rparr>) orc)"
proof -
  have "sm_step (rec_state rc) t (new_state (transition (rec_state rc) t))" using assms(3) by (rule transition_new_sm)
  moreover from this assms(2) have "new_state (transition (rec_state rc) t) \<noteq> QUOTED"
    by (auto dest: sm_step_to)
  ultimately show ?thesis
    using assms(1,2) by (intro one_step ps_move [where t = t]) (auto simp: free_triggers_def)
qed

lemma cancel_refines: "env_ok env \<Longrightarrow> psteps cfg orc (snd (cancel env k orc))"
  by (auto simp: cancel_def Let_def get_record_Inr intro!: psteps_audited move_refines split: sum.splits)

lemma reject_refines: "env_ok env \<Longrightarrow> psteps cfg orc (snd (reject env k orc))"
  by (auto simp: reject_def Let_def get_record_Inr intro!: psteps_audited move_refines split: sum.splits)

lemma expire_loop_refines: "env_ok env \<Longrightarrow> psteps cfg orc (snd (expire_loop env ids orc))"
proof (induction ids arbitrary: orc)
  case (Cons iid iids)
  show ?case
  proof (cases "dict_get (orch_intents orc) iid")
    case (Some rc)
    let ?s = "new_state (transition (rec_state rc) ''expired'')"
    let ?log = "audited env ''expired_during_execution'' iid [state_field ?s] (Inr ())
      (put_record iid (rc\<lparr>rec_state := ?s\<rparr>) orc)"
    obtain out orc1 where log: "?log = (out :: policy_error + unit, orc1)" by force
    have orc1: "orc1 = snd ?log" using log by simp
    have "psteps cfg orc orc1" if "ok (transition (rec_state rc) ''expired'')"
      unfolding orc1 using Some that by (intro psteps_audited move_refines Cons.prems) auto
    then show ?thesis
      using Cons.IH [OF Cons.prems, of orc] Cons.IH [OF Cons.prems, of orc1] log
      by (cases out) (auto simp: Some Let_def intro: rtranclp_trans)
  qed simp
qed simp

lemma check_expired_refines: "env_ok env \<Longrightarrow> psteps cfg orc (snd (check_expired env ids orc))"
  using expire_loop_refines [of env cfg orc "expired_intents env ids orc"]
  by (auto simp: check_expired_def Let_def split: prod.splits sum.splits)

text \<open>Every public call refines the specification.\<close>

lemma op_refines:
  assumes "env_ok env" and "keyed orc"
  shows "psteps cfg orc (apply_op cfg env op orc)"
  using assms
  by (cases op) (simp_all add: submit_refines receive_quote_refines prepare_refines approve_refines
      execute_refines receive_receipt_refines confirm_settled_refines reconcile_refines
      cancel_refines reject_refines check_expired_refines)

end
