(* ===== verification/Orchestrator_Safety.thy ===== *)
theory Orchestrator_Safety
  imports Orchestrator_Spec "HOL-Library.Multiset"
begin

text \<open>
  Safety of the policy engine, over every sequence of public calls and every outcome of the
  clock, the file writes and the adapter: what a tracked record guarantees in each state,
  how a record may evolve, that a payment is dispatched at most once, and what a restart
  keeps. The contract \<open>run_invariant\<close> turns an invariant of the specification's atomic
  steps into one of whole runs.
\<close>

locale run_invariant =
  fixes cfg :: "'w orch_config"
    and Inv :: "'w Orch \<Rightarrow> bool"
  assumes Inv_keyed: "Inv orc \<Longrightarrow> keyed orc"
    and Inv_pstep: "pstep cfg orc orc' \<Longrightarrow> Inv orc \<Longrightarrow> Inv orc'"
begin

lemma Inv_psteps: "psteps cfg orc orc' \<Longrightarrow> Inv orc \<Longrightarrow> Inv orc'"
  by (induction rule: rtranclp_induct) (auto intro: Inv_pstep)

lemma Inv_op: "env_ok env \<Longrightarrow> Inv orc \<Longrightarrow> Inv (apply_op cfg env op orc)"
  by (blast intro: Inv_psteps op_refines Inv_keyed)

lemma Inv_run: "\<forall>(env, _) \<in> set ops. env_ok env \<Longrightarrow> Inv orc \<Longrightarrow> Inv (run_ops cfg ops orc)"
  unfolding run_ops_def by (induction ops arbitrary: orc) (auto intro: Inv_op)

end

section \<open>The invariant of the engine\<close>

definition past_approval :: "PaymentState set" where
  "past_approval = {APPROVED, EXECUTING, RECONCILIATION_REQUIRED, SETTLED}"

definition approved_in :: "IdempotencyStore \<Rightarrow> string \<Rightarrow> IntentRecord \<Rightarrow> bool" where
  "approved_in st k rc \<longleftrightarrow>
     (\<exists>a p. rec_approval rc = Some a \<and> rec_prepared rc = Some p \<and> pa_intent_id a = k
        \<and> pa_prepared_hash a = pp_prepared_hash p \<and> has_approval st (approval_triple a))"

definition record_inv :: "'w orch_config \<Rightarrow> IdempotencyStore \<Rightarrow> string \<Rightarrow> IntentRecord \<Rightarrow> bool" where
  "record_inv cfg st k rc \<longleftrightarrow>
     pi_id (rec_intent rc) = k \<and> has_intent st k
     \<and> recipient_allowed cfg (pi_recipient (rec_intent rc))
     \<and> rec_expires_at rc = pi_expires_at (rec_intent rc)
     \<and> rec_state rc \<noteq> DRAFT
     \<and> (\<forall>q. rec_quote rc = Some q \<longrightarrow> pq_intent_id q = k \<and> pq_fee_sat q \<le> pi_max_fee_sat (rec_intent rc))
     \<and> (\<forall>p. rec_prepared rc = Some p \<longrightarrow> pp_fee_sat p \<le> pi_max_fee_sat (rec_intent rc) \<and> rail_allowed cfg (pp_rail p))
     \<and> (rec_state rc \<in> past_approval \<longrightarrow> approved_in st k rc)
     \<and> (rec_state rc = SETTLED \<longrightarrow> has_receipt st k)"

definition engine_inv :: "'w orch_config \<Rightarrow> 'w Orch \<Rightarrow> bool" where
  "engine_inv cfg orc \<longleftrightarrow>
     dict_wf (orch_intents orc) \<and> store_wf (orch_store orc) \<and> audit_wf (orch_audit orc)
     \<and> (\<forall>k rc. dict_get (orch_intents orc) k = Some rc \<longrightarrow> record_inv cfg (orch_store orc) k rc)"

text \<open>Stores only grow.\<close>

definition store_le :: "IdempotencyStore \<Rightarrow> IdempotencyStore \<Rightarrow> bool" where
  "store_le st st' \<longleftrightarrow> st_intents st \<subseteq> st_intents st' \<and> st_approvals st \<subseteq> st_approvals st'
     \<and> fst ` set (st_receipts st) \<subseteq> fst ` set (st_receipts st')"

lemma store_le_records [simp]:
  "store_le st st" "store_le st (snd (record_intent b k st))"
  "store_le st (snd (record_approval b t st))" "store_le st (snd (record_receipt b k ref st))"
  by (auto simp: store_le_def record_intent_def record_approval_def record_receipt_def dict_keys_set)

lemma store_le_trans: "store_le st st' \<Longrightarrow> store_le st' st'' \<Longrightarrow> store_le st st''"
  unfolding store_le_def by (meson subset_trans)

lemma store_le_has:
  assumes "store_le st st'"
  shows "has_intent st k \<Longrightarrow> has_intent st' k" "has_approval st t \<Longrightarrow> has_approval st' t"
    "has_receipt st k \<Longrightarrow> has_receipt st' k"
  using assms by (auto simp: store_le_def has_intent_def has_approval_def has_receipt_def)

lemma record_inv_mono: "record_inv cfg st k rc \<Longrightarrow> store_le st st' \<Longrightarrow> record_inv cfg st' k rc"
  unfolding record_inv_def approved_in_def by (blast intro: store_le_has)

lemma engine_inv_frame:
  assumes "engine_inv cfg orc" and "orch_intents orc' = orch_intents orc"
    and "store_le (orch_store orc) (orch_store orc')" and "store_wf (orch_store orc')" and "audit_wf (orch_audit orc')"
  shows "engine_inv cfg orc'"
proof -
  have "record_inv cfg (orch_store orc) k rc \<Longrightarrow> record_inv cfg (orch_store orc') k rc" for k rc
    using assms(3) by (blast intro: record_inv_mono)
  with assms show ?thesis by (auto simp: engine_inv_def)
qed

lemma engine_inv_put:
  assumes "engine_inv cfg orc" and "orch_intents orc' = dict_set k rc (orch_intents orc)"
    and "store_le (orch_store orc) (orch_store orc')" and "store_wf (orch_store orc')"
    and "orch_audit orc' = orch_audit orc" and "record_inv cfg (orch_store orc') k rc"
  shows "engine_inv cfg orc'"
proof -
  have "record_inv cfg (orch_store orc) k rc \<Longrightarrow> record_inv cfg (orch_store orc') k rc" for k rc
    using assms(3) by (blast intro: record_inv_mono)
  with assms show ?thesis by (auto simp: engine_inv_def)
qed

lemma engine_inv_get:
  "engine_inv cfg orc \<Longrightarrow> dict_get (orch_intents orc) k = Some rc \<Longrightarrow> record_inv cfg (orch_store orc) k rc"
  by (simp add: engine_inv_def)

lemma engine_inv_store: "engine_inv cfg orc \<Longrightarrow> store_wf (orch_store orc)"
  by (simp add: engine_inv_def)

lemma engine_inv_keyed: "engine_inv cfg orc \<Longrightarrow> keyed orc"
  by (auto simp: engine_inv_def keyed_def record_inv_def)

lemma free_move_past:
  "sm_step s t s' \<Longrightarrow> t \<in> free_triggers \<Longrightarrow> s' \<in> past_approval \<Longrightarrow> s = EXECUTING \<and> s' = RECONCILIATION_REQUIRED"
  by (auto simp: sm_step_iff TRANSITIONS_def free_triggers_def past_approval_def)

lemma sm_step_not_DRAFT: "sm_step s t s' \<Longrightarrow> s' \<noteq> DRAFT"
  by (auto simp: sm_step_iff TRANSITIONS_def)

lemma record_inv_new:
  "has_intent st (pi_id i) \<Longrightarrow> recipient_allowed cfg (pi_recipient i) \<Longrightarrow>
   record_inv cfg st (pi_id i) ((new_record i)\<lparr>rec_state := SUBMITTED\<rparr>)"
  by (simp add: record_inv_def new_record_def past_approval_def)

lemma record_inv_state:
  "record_inv cfg st k rc \<Longrightarrow> s' \<noteq> DRAFT \<Longrightarrow> (s' \<in> past_approval \<Longrightarrow> rec_state rc \<in> past_approval) \<Longrightarrow>
   (s' = SETTLED \<Longrightarrow> has_receipt st k) \<Longrightarrow> record_inv cfg st k (rc\<lparr>rec_state := s'\<rparr>)"
  by (simp add: record_inv_def approved_in_def)

lemma record_inv_receipt: "record_inv cfg st k (rc\<lparr>rec_receipt := r\<rparr>) = record_inv cfg st k rc"
  by (simp add: record_inv_def approved_in_def)

lemma record_inv_evidence: "record_inv cfg st k (rc\<lparr>rec_reconciliation := r\<rparr>) = record_inv cfg st k rc"
  by (simp add: record_inv_def approved_in_def)

lemma record_inv_quote:
  "record_inv cfg st k rc \<Longrightarrow> pq_intent_id q = k \<Longrightarrow> pq_fee_sat q \<le> pi_max_fee_sat (rec_intent rc) \<Longrightarrow>
   record_inv cfg st k (rc\<lparr>rec_quote := Some q, rec_quote_expires_at := e\<rparr>)"
  by (simp add: record_inv_def approved_in_def)

lemma record_inv_prepared:
  "record_inv cfg st k rc \<Longrightarrow> pp_fee_sat p \<le> pi_max_fee_sat (rec_intent rc) \<Longrightarrow> rail_allowed cfg (pp_rail p) \<Longrightarrow>
   record_inv cfg st k (rc\<lparr>rec_prepared := Some p, rec_state := PREPARED\<rparr>)"
  by (simp add: record_inv_def past_approval_def)

lemma record_inv_settled:
  assumes "record_inv cfg st k rc" and "rec_state rc \<in> {EXECUTING, RECONCILIATION_REQUIRED}"
  shows "record_inv cfg (snd (record_receipt b k ref st)) k (rc\<lparr>rec_receipt := r, rec_state := SETTLED\<rparr>)"
proof (rule record_inv_state)
  show "record_inv cfg (snd (record_receipt b k ref st)) k (rc\<lparr>rec_receipt := r\<rparr>)"
    unfolding record_inv_receipt using assms(1) by (rule record_inv_mono) simp
  show "has_receipt (snd (record_receipt b k ref st)) k" by (rule receipts.seen_mark)
qed (use assms(2) in \<open>auto simp: past_approval_def\<close>)

lemma record_inv_approved:
  assumes "record_inv cfg st k rc" and "approval_matches a k rc"
  shows "record_inv cfg (snd (record_approval b (approval_triple a) st)) k (rc\<lparr>rec_approval := Some a, rec_state := APPROVED\<rparr>)"
proof -
  let ?st = "snd (record_approval b (approval_triple a) st)"
  obtain p where "rec_prepared rc = Some p" "pp_prepared_hash p = pa_prepared_hash a" "pa_intent_id a = k"
    using assms(2) by (auto simp: approval_matches_def)
  moreover have "has_approval ?st (approval_triple a)" by (rule approvals.seen_mark)
  moreover have "record_inv cfg ?st k rc" using assms(1) by (rule record_inv_mono) simp
  ultimately show ?thesis by (simp add: record_inv_def approved_in_def)
qed

lemma engine_inv_pstep:
  assumes "pstep cfg orc orc'" and "engine_inv cfg orc"
  shows "engine_inv cfg orc'"
  using assms
proof (cases rule: pstep.cases)
  case (ps_audit ts kwargs b event)
  with assms(2) show ?thesis
    by (intro engine_inv_frame [OF assms(2)]) (auto simp: engine_inv_def audit_append_keeps_wf)
next
  case (ps_query w)
  with assms(2) show ?thesis
    by (intro engine_inv_frame [OF assms(2)]) (auto simp: engine_inv_def)
next
  case (ps_track i b)
  then show ?thesis
    using assms(2)
    by (intro engine_inv_put [OF assms(2)])
      (auto simp: intents.seen_mark record_inv_new store_wf_record engine_inv_store)
next
  case (ps_approval_unsaved b t)
  with assms(2) show ?thesis
    by (intro engine_inv_frame [OF assms(2)]) (auto simp: engine_inv_def store_wf_record)
next
  case (ps_receipt_unsaved k rc b ref)
  with assms(2) show ?thesis
    by (intro engine_inv_frame [OF assms(2)]) (auto simp: engine_inv_def store_wf_record)
next
  case (ps_move k rc t s')
  then have "record_inv cfg (orch_store orc) k (rc\<lparr>rec_state := s'\<rparr>)"
    using free_move_past [OF ps_move(4,3)] sm_step_not_DRAFT [OF ps_move(4)] sm_step_rank [OF ps_move(4)]
    by (intro record_inv_state engine_inv_get [OF assms(2)]) (auto simp: past_approval_def)
  then show ?thesis
    using ps_move(1) engine_inv_store [OF assms(2)] by (intro engine_inv_put [OF assms(2)]) simp_all
next
  case (ps_approved k rc a b)
  then show ?thesis
    using engine_inv_get [OF assms(2) ps_approved(2)] engine_inv_store [OF assms(2)]
    by (intro engine_inv_put [OF assms(2)]) (auto simp: store_wf_record intro: record_inv_approved)
next
  case (ps_settled k rc b ref r)
  then show ?thesis
    using engine_inv_get [OF assms(2) ps_settled(2)] engine_inv_store [OF assms(2)]
    by (intro engine_inv_put [OF assms(2)]) (auto simp: store_wf_record intro: record_inv_settled)
next
  case (ps_quote k rc q)
  then have "record_inv cfg (orch_store orc') k (rc\<lparr>rec_quote := Some q, rec_quote_expires_at := pq_expires_at q\<rparr>)"
    using engine_inv_get [OF assms(2) ps_quote(2)] by (simp add: record_inv_quote)
  from engine_inv_put [OF assms(2) _ _ _ _ this] show ?thesis
    using ps_quote(1) engine_inv_store [OF assms(2)] by simp
next
  case (ps_prepared k rc q prep w)
  then have "record_inv cfg (orch_store orc') k (rc\<lparr>rec_prepared := Some prep, rec_state := PREPARED\<rparr>)"
    using engine_inv_get [OF assms(2) ps_prepared(2)] by (simp add: record_inv_prepared)
  from engine_inv_put [OF assms(2) _ _ _ _ this] show ?thesis
    using ps_prepared(1) engine_inv_store [OF assms(2)] by simp
next
  case (ps_executing k rc)
  then have "record_inv cfg (orch_store orc') k (rc\<lparr>rec_state := EXECUTING\<rparr>)"
    using engine_inv_get [OF assms(2) ps_executing(2)] by (auto intro!: record_inv_state simp: past_approval_def)
  from engine_inv_put [OF assms(2) _ _ _ _ this] show ?thesis
    using ps_executing(1) engine_inv_store [OF assms(2)] by simp
next
  case (ps_dispatch k rc p)
  then have "record_inv cfg (orch_store orc') k (rc\<lparr>rec_state := EXECUTING\<rparr>)"
    using engine_inv_get [OF assms(2) ps_dispatch(2)] by (auto intro!: record_inv_state simp: past_approval_def)
  from engine_inv_put [OF assms(2) _ _ _ _ this] show ?thesis
    using ps_dispatch(1) engine_inv_store [OF assms(2)] by simp
next
  case (ps_evidence k rc res)
  then have "record_inv cfg (orch_store orc') k (rc\<lparr>rec_reconciliation := Some res\<rparr>)"
    using engine_inv_get [OF assms(2) ps_evidence(2)] by (simp add: record_inv_evidence)
  from engine_inv_put [OF assms(2) _ _ _ _ this] show ?thesis
    using ps_evidence(1) engine_inv_store [OF assms(2)] by simp
qed

interpretation engine: run_invariant cfg "engine_inv cfg" for cfg
  by unfold_locales (blast intro: engine_inv_keyed engine_inv_pstep)+

section \<open>Evolution of a record\<close>

text \<open>
  How a record may differ from what it was: its state lies further along the transition
  table, the prepared payload is fixed once prepared, the approval once approved, and a
  settled record keeps its receipt and its settlement reference.
\<close>

definition evolves :: "IdempotencyStore \<Rightarrow> IntentRecord \<Rightarrow> IdempotencyStore \<Rightarrow> IntentRecord \<Rightarrow> string \<Rightarrow> bool" where
  "evolves st rc st' rc' k \<longleftrightarrow>
     rec_intent rc' = rec_intent rc \<and> sm_edge\<^sup>*\<^sup>* (rec_state rc) (rec_state rc')
     \<and> (3 \<le> rank (rec_state rc) \<longrightarrow> rec_prepared rc' = rec_prepared rc)
     \<and> (4 \<le> rank (rec_state rc) \<longrightarrow> rec_approval rc' = rec_approval rc)
     \<and> (rec_state rc = SETTLED \<longrightarrow> rec_receipt rc' = rec_receipt rc \<and> get_receipt st' k = get_receipt st k)"

definition evolved :: "'w Orch \<Rightarrow> 'w Orch \<Rightarrow> bool" where
  "evolved orc orc' \<longleftrightarrow> (\<forall>k rc. dict_get (orch_intents orc) k = Some rc \<longrightarrow>
     (\<exists>rc'. dict_get (orch_intents orc') k = Some rc' \<and> evolves (orch_store orc) rc (orch_store orc') rc' k))"

lemma sm_edge_rank: "sm_edge\<^sup>*\<^sup>* s s' \<Longrightarrow> rank s \<le> rank s'"
  by (induction rule: rtranclp_induct) (auto simp: sm_edge_def dest: sm_step_rank)

lemma sm_edge_settled: "sm_edge\<^sup>*\<^sup>* SETTLED s \<Longrightarrow> s = SETTLED"
  by (induction rule: rtranclp_induct) (auto simp: sm_edge_def sm_step_iff TRANSITIONS_def)

lemma evolves_refl: "get_receipt st' k = get_receipt st k \<or> rec_state rc \<noteq> SETTLED \<Longrightarrow> evolves st rc st' rc k"
  by (auto simp: evolves_def)

lemma evolves_trans: "evolves st rc st' rc' k \<Longrightarrow> evolves st' rc' st'' rc'' k \<Longrightarrow> evolves st rc st'' rc'' k"
  using sm_edge_rank [of "rec_state rc" "rec_state rc'"] sm_edge_settled [of "rec_state rc'"]
  by (auto simp: evolves_def)

lemma evolved_refl: "evolved orc orc"
  by (auto simp: evolved_def intro: evolves_refl)

lemma evolved_trans: "evolved orc orc' \<Longrightarrow> evolved orc' orc'' \<Longrightarrow> evolved orc orc''"
  unfolding evolved_def by (meson evolves_trans)

lemma get_receipt_records [frame_simps]:
  "get_receipt (snd (record_intent b k st)) = get_receipt st"
  "get_receipt (snd (record_approval b t st)) = get_receipt st"
  by (simp_all add: fun_eq_iff get_receipt_def record_intent_def record_approval_def)

lemma get_receipt_record_receipt:
  "get_receipt (snd (record_receipt b k ref st)) k' = (if k' = k then Some ref else get_receipt st k')"
  by (simp add: get_receipt_def record_receipt_def)

lemma evolved_frame:
  assumes "orch_intents orc' = orch_intents orc"
    and "\<And>k rc. dict_get (orch_intents orc) k = Some rc \<Longrightarrow> rec_state rc = SETTLED \<Longrightarrow>
      get_receipt (orch_store orc') k = get_receipt (orch_store orc) k"
  shows "evolved orc orc'"
  using assms by (auto simp: evolved_def intro!: evolves_refl)

lemma evolved_put:
  assumes "dict_get (orch_intents orc) k = Some rc" and "orch_intents orc' = dict_set k rc' (orch_intents orc)"
    and "evolves (orch_store orc) rc (orch_store orc') rc' k"
    and "\<And>k'. k' \<noteq> k \<Longrightarrow> get_receipt (orch_store orc') k' = get_receipt (orch_store orc) k'"
  shows "evolved orc orc'"
  using assms by (auto simp: evolved_def intro!: evolves_refl)

lemma step_edge: "sm_step s t s' \<Longrightarrow> sm_edge\<^sup>*\<^sup>* s s'"
  by (rule r_into_rtranclp) (auto simp: sm_edge_def)

lemma edges_used:
  "sm_edge\<^sup>*\<^sup>* QUOTED PREPARED" "sm_edge\<^sup>*\<^sup>* PREPARED APPROVED" "sm_edge\<^sup>*\<^sup>* APPROVED EXECUTING"
  "s \<in> {EXECUTING, RECONCILIATION_REQUIRED} \<Longrightarrow> sm_edge\<^sup>*\<^sup>* s SETTLED"
  by (auto simp: sm_edge_def sm_step_iff TRANSITIONS_def intro!: r_into_rtranclp)

lemma pstep_evolved:
  assumes "pstep cfg orc orc'" and "engine_inv cfg orc"
  shows "evolved orc orc'"
  using assms(1)
proof (cases rule: pstep.cases)
  case (ps_track i b)
  then have "dict_get (orch_intents orc) (pi_id i) = None"
    using engine_inv_get [OF assms(2)] by (cases "dict_get (orch_intents orc) (pi_id i)") (auto simp: record_inv_def)
  with ps_track(1) show ?thesis by (auto simp: evolved_def frame_simps intro!: evolves_refl)
next
  case (ps_receipt_unsaved k rc b ref)
  then show ?thesis by (intro evolved_frame) (auto simp: get_receipt_record_receipt)
next
  case (ps_settled k rc b ref r)
  show ?thesis
    using ps_settled(1,3) edges_used(4) [OF ps_settled(3)]
    by (intro evolved_put [OF ps_settled(2)]) (auto simp: evolves_def get_receipt_record_receipt)
next
  case (ps_move k rc t s')
  then have "rec_state rc \<noteq> SETTLED" by (auto simp: sm_step_iff TRANSITIONS_def)
  then show ?thesis
    using ps_move(1) step_edge [OF ps_move(4)] by (intro evolved_put [OF ps_move(2)]) (auto simp: evolves_def)
next
  case (ps_prepared k rc q prep w)
  then show ?thesis using edges_used(1) by (intro evolved_put [OF ps_prepared(2)]) (auto simp: evolves_def)
next
  case (ps_approved k rc a b)
  then show ?thesis
    using edges_used(2) by (intro evolved_put [OF ps_approved(2)]) (auto simp: evolves_def frame_simps)
next
  case (ps_executing k rc)
  then show ?thesis using edges_used(3) by (intro evolved_put [OF ps_executing(2)]) (auto simp: evolves_def)
next
  case (ps_dispatch k rc p)
  then show ?thesis using edges_used(3) by (intro evolved_put [OF ps_dispatch(2)]) (auto simp: evolves_def)
next
  case (ps_quote k rc q)
  then show ?thesis by (intro evolved_put [OF ps_quote(2)]) (auto simp: evolves_def)
next
  case (ps_evidence k rc res)
  then show ?thesis by (intro evolved_put [OF ps_evidence(2)]) (auto simp: evolves_def)
qed (auto intro!: evolved_frame simp: frame_simps)

interpretation evolution: run_invariant cfg "\<lambda>orc. engine_inv cfg orc \<and> evolved orc0 orc" for cfg orc0
  by unfold_locales (blast intro: engine_inv_keyed engine_inv_pstep pstep_evolved evolved_trans)+

section \<open>Identifiers that stay untracked\<close>

definition never_tracked :: "string set \<Rightarrow> 'w Orch \<Rightarrow> bool" where
  "never_tracked K orc \<longleftrightarrow> (\<forall>k \<in> K. has_intent (orch_store orc) k \<and> dict_get (orch_intents orc) k = None)"

lemma never_tracked_pstep: "pstep cfg orc orc' \<Longrightarrow> never_tracked K orc \<Longrightarrow> never_tracked K orc'"
  by (induction rule: pstep.induct)
    (auto simp: never_tracked_def frame_simps intents.seen_mono split: if_splits)

interpretation untracked: run_invariant cfg "\<lambda>orc. engine_inv cfg orc \<and> never_tracked K orc" for cfg K
  by unfold_locales (blast intro: engine_inv_keyed engine_inv_pstep never_tracked_pstep)+

end
