(* ===== verification/Dispatch.thy ===== *)
theory Dispatch
  imports Orchestrator_Safety
begin

text \<open>
  Accounting of the adapter's \<open>execute\<close> calls. \<open>logged\<close> wraps any adapter so that the world
  also carries the list of dispatched payloads; the engine runs unchanged on it. A
  \<open>session\<close> is any sequence of public calls and process restarts, where a restart drops the
  tracked records, reloads the store and the audit log from their files and keeps the
  world.
\<close>

section \<open>The logging adapter\<close>

type_synonym 'w logged_world = "'w \<times> (bytes \<times> string) list"

definition lift_call :: "('w \<Rightarrow> (exn + 'a) \<times> 'w) \<Rightarrow> 'w logged_world \<Rightarrow> (exn + 'a) \<times> 'w logged_world" where
  "lift_call f = (\<lambda>(w, log). let (r, w') = f w in (r, (w', log)))"

definition logged :: "'w SettlementAdapter \<Rightarrow> 'w logged_world SettlementAdapter" where
  "logged ad =
     \<lparr>sa_rail = sa_rail ad,
      sa_prepare = (\<lambda>instr amt fee. lift_call (sa_prepare ad instr amt fee)),
      sa_execute = (\<lambda>payload h (w, log). let (r, w') = sa_execute ad payload h w in (r, (w', log @ [(payload, h)]))),
      sa_verify_receipt = (\<lambda>ref amt. lift_call (sa_verify_receipt ad ref amt)),
      sa_verify_sender_settlement = (\<lambda>ref amt. lift_call (sa_verify_sender_settlement ad ref amt)),
      sa_reconcile_settlement = (\<lambda>payload h amt. lift_call (sa_reconcile_settlement ad payload h amt))\<rparr>"

definition logged_config ::
    "'w SettlementAdapter \<Rightarrow> (string \<Rightarrow> bool) option \<Rightarrow> (Rail \<Rightarrow> bool) option \<Rightarrow> 'w logged_world orch_config" where
  "logged_config ad recipients rails =
     \<lparr>cf_adapter = logged ad, cf_recipient_allowlist = recipients, cf_rail_allowlist = rails\<rparr>"

abbreviation dispatch_log :: "'w logged_world Orch \<Rightarrow> (bytes \<times> string) list" where
  "dispatch_log orc \<equiv> snd (orch_world orc)"

lemma lift_call_log [simp]: "snd (snd (lift_call f wl)) = snd wl"
  by (simp add: lift_call_def split: prod.splits)

lemma logged_query: "adapter_query (logged ad) wl wl' \<Longrightarrow> snd wl' = snd wl"
  by (induction rule: adapter_query.induct) (simp_all add: logged_def)

lemma logged_prepare_log: "sa_prepare (logged ad) instr amt fee wl = (r, wl') \<Longrightarrow> snd wl' = snd wl"
  using lift_call_log [of "sa_prepare ad instr amt fee" wl] by (simp add: logged_def)

lemma logged_execute_log: "snd (snd (sa_execute (logged ad) payload h wl)) = snd wl @ [(payload, h)]"
  by (simp add: logged_def split: prod.splits)

lemma logged_config_adapter [simp]: "cf_adapter (logged_config ad recipients rails) = logged ad"
  by (simp add: logged_config_def)

section \<open>Sums over the tracked records\<close>

definition record_sum :: "(IntentRecord \<Rightarrow> 'm::cancel_comm_monoid_add) \<Rightarrow> (string \<times> IntentRecord) list \<Rightarrow> 'm" where
  "record_sum f d = sum_list (map (f \<circ> snd) d)"

lemma record_sum_set:
  assumes "dict_wf d" and "dict_get d k = Some r"
  shows "record_sum f (dict_set k r' d) + f r = record_sum f d + f r'"
  using assms by (induction d) (auto simp: record_sum_def ac_simps split: if_splits)

lemma record_sum_new: "dict_get d k = None \<Longrightarrow> record_sum f (dict_set k r' d) = record_sum f d + f r'"
  by (induction d) (auto simp: record_sum_def ac_simps split: if_splits)

section \<open>Within one process\<close>

text \<open>The dispatches a record accounts for: its own prepared payload, once it is executing.\<close>

definition own_dispatch :: "IntentRecord \<Rightarrow> (bytes \<times> string) multiset" where
  "own_dispatch rc =
     (if rec_state rc \<in> {EXECUTING, RECONCILIATION_REQUIRED, SETTLED}
      then (case rec_prepared rc of Some p \<Rightarrow> {#(pp_prepared_payload p, pp_prepared_hash p)#} | None \<Rightarrow> {#})
      else {#})"

definition once_inv :: "'w logged_world Orch \<Rightarrow> bool" where
  "once_inv orc \<longleftrightarrow> mset (dispatch_log orc) \<subseteq># record_sum own_dispatch (orch_intents orc)"

lemma record_sum_mono:
  fixes f :: "IntentRecord \<Rightarrow> 'a multiset"
  assumes "dict_wf d" and "dict_get d k = Some r" and "f r \<subseteq># f r'"
  shows "record_sum f d \<subseteq># record_sum f (dict_set k r' d)"
proof -
  obtain m where m: "f r' = f r + m" using assms(3) by (metis subset_mset.le_iff_add)
  have "record_sum f (dict_set k r' d) = record_sum f d + m"
  proof -
    have "record_sum f (dict_set k r' d) + f r = (record_sum f d + m) + f r"
      using record_sum_set [OF assms(1,2), of f r'] by (simp add: m ac_simps)
    then show ?thesis by (rule add_right_imp_eq)
  qed
  then show ?thesis by simp
qed

lemma once_put:
  assumes "engine_inv cfg orc" and "once_inv orc" and "dict_get (orch_intents orc) k = Some rc"
    and "orch_intents orc' = dict_set k rc' (orch_intents orc)" and "dispatch_log orc' = dispatch_log orc"
    and "own_dispatch rc \<subseteq># own_dispatch rc'"
  shows "once_inv orc'"
  using record_sum_mono [OF _ assms(3,6)] assms(1,2,4,5)
  by (auto simp: once_inv_def engine_inv_def intro: subset_mset.order_trans)

lemma once_inv_pstep:
  assumes "pstep (logged_config ad recipients rails) orc orc'"
    and "engine_inv (logged_config ad recipients rails) orc" and "once_inv orc"
  shows "once_inv orc'"
  using assms(1)
proof (cases rule: pstep.cases)
  case (ps_query w)
  then show ?thesis using assms(3) logged_query [of ad "orch_world orc" w] by (simp add: once_inv_def)
next
  case (ps_track i b)
  then have "dict_get (orch_intents orc) (pi_id i) = None"
    using engine_inv_get [OF assms(2)] by (cases "dict_get (orch_intents orc) (pi_id i)") (auto simp: record_inv_def)
  with ps_track(1) assms(3) show ?thesis
    by (simp add: once_inv_def record_sum_new own_dispatch_def new_record_def)
next
  case (ps_move k rc t s')
  then show ?thesis
    by (intro once_put [OF assms(2,3) ps_move(2)])
      (auto simp: own_dispatch_def sm_step_iff TRANSITIONS_def free_triggers_def)
next
  case (ps_dispatch k rc p)
  let ?x = "(pp_prepared_payload p, pp_prepared_hash p)"
  have "record_sum own_dispatch (dict_set k (rc\<lparr>rec_state := EXECUTING\<rparr>) (orch_intents orc)) =
      record_sum own_dispatch (orch_intents orc) + {#?x#}"
    using record_sum_set [of "orch_intents orc" k rc own_dispatch "rc\<lparr>rec_state := EXECUTING\<rparr>"] ps_dispatch assms(2)
    by (simp add: own_dispatch_def engine_inv_def)
  with ps_dispatch(1) assms(3) show ?thesis
    by (simp add: once_inv_def logged_execute_log)
next
  case (ps_prepared k rc q prep w)
  then show ?thesis
    using logged_prepare_log [of ad _ _ _ "orch_world orc"]
    by (intro once_put [OF assms(2,3) ps_prepared(2)]) (auto simp: own_dispatch_def)
next
  case (ps_quote k rc q)
  then show ?thesis by (intro once_put [OF assms(2,3) ps_quote(2)]) (auto simp: own_dispatch_def)
next
  case (ps_approved k rc a b)
  then show ?thesis by (intro once_put [OF assms(2,3) ps_approved(2)]) (auto simp: own_dispatch_def)
next
  case (ps_executing k rc)
  then show ?thesis by (intro once_put [OF assms(2,3) ps_executing(2)]) (auto simp: own_dispatch_def)
next
  case (ps_settled k rc b ref r)
  then show ?thesis by (intro once_put [OF assms(2,3) ps_settled(2)]) (auto simp: own_dispatch_def)
next
  case (ps_evidence k rc res)
  then show ?thesis by (intro once_put [OF assms(2,3) ps_evidence(2)]) (auto simp: own_dispatch_def)
qed (use assms(3) in \<open>simp_all add: once_inv_def\<close>)

interpretation once: run_invariant "logged_config ad recipients rails"
    "\<lambda>orc. engine_inv (logged_config ad recipients rails) orc \<and> once_inv orc" for ad recipients rails
  by unfold_locales (blast intro: engine_inv_keyed engine_inv_pstep once_inv_pstep)+

end
