(* ===== verification/Engine_Demo.thy ===== *)
theory Engine_Demo
  imports Orchestrator_Spec
begin

text \<open>
  A concrete adapter, configuration and sequence of calls, on which the general theorems
  about the policy engine are evaluated.
\<close>

section \<open>A concrete session\<close>

text \<open>A small adapter and the calls that take one intent from submission to approval.\<close>

definition demo_adapter :: "nat SettlementAdapter" where
  "demo_adapter =
     \<lparr>sa_rail = LIGHTNING,
      sa_prepare = (\<lambda>instr amt fee w. (Inr \<lparr>pp_fee_sat = 1, pp_prepared_hash = ''h1'', pp_rail = LIGHTNING,
        pp_prepared_payload = ''tx''\<rparr>, w)),
      sa_execute = (\<lambda>payload h w. (Inr \<lparr>er_settlement_ref = ''r1'', er_amount_sat = 100, er_fee_sat = 1,
        er_rail = LIGHTNING\<rparr>, Suc w)),
      sa_verify_receipt = (\<lambda>ref amt w. (Inr \<lparr>rv_verified = True, rv_settlement_ref = ref, rv_amount_sat = amt,
        rv_fee_sat = 0, rv_error = None\<rparr>, w)),
      sa_verify_sender_settlement = (\<lambda>ref amt w. (Inr \<lparr>rv_verified = True, rv_settlement_ref = ref,
        rv_amount_sat = amt, rv_fee_sat = 0, rv_error = None\<rparr>, w)),
      sa_reconcile_settlement = (\<lambda>payload h amt. default_reconcile_settlement payload h amt)\<rparr>"

definition demo_config :: "nat orch_config" where
  "demo_config = \<lparr>cf_adapter = demo_adapter, cf_recipient_allowlist = Some (\<lambda>k. k = pubkey sample_bob),
     cf_rail_allowlist = None\<rparr>"

definition demo_env :: policy_env where
  "demo_env = \<lparr>env_now = 1000, env_store_ok = True, env_ts = (\<lambda>_ _. FFin False 0 0), env_audit_ok = (\<lambda>_ _. True)\<rparr>"

definition demo_intent :: PaymentIntent where
  "demo_intent = \<lparr>pi_id = ''i1'', pi_idempotency_key = ''key1'', pi_sender = sample_alice, pi_recipient = sample_bob,
     pi_amount_sat = 100, pi_purpose = ''test'', pi_max_fee_sat = 5, pi_expires_at = 2000, pi_created_at = 900\<rparr>"

definition demo_quote :: PaymentQuote where
  "demo_quote = \<lparr>pq_id = ''d1'', pq_intent_id = ''i1'', pq_quote_id = ''q1'', pq_recipient = sample_bob,
     pq_receive_instruction = \<lparr>ri_rail = LIGHTNING, ri_invoice = Some ''lnbcrt1''\<rparr>, pq_fee_sat = 1,
     pq_fee_constraint = FeeMax, pq_expires_at = 1500, pq_created_at = 950\<rparr>"

definition demo_approval :: PaymentApproval where
  "demo_approval = \<lparr>pa_id = ''a1'', pa_intent_id = ''i1'', pa_quote_id = ''q1'', pa_prepared_hash = ''h1'',
     pa_approver = sample_alice, pa_created_at = 960\<rparr>"

definition demo_start :: "nat Orch" where
  "demo_start = \<lparr>orch_store = empty_store (Some ''store.json'') None,
     orch_audit = \<lparr>al_path = None, al_seq = 0, al_file = None\<rparr>, orch_intents = [], orch_world = 0\<rparr>"

definition demo_calls :: "(policy_env \<times> policy_op) list" where
  "demo_calls = [(demo_env, Submit demo_intent), (demo_env, ReceiveQuote demo_quote), (demo_env, Prepare),
     (demo_env, Approve demo_approval)]"

lemma demo_env_ok: "env_ok demo_env" "\<forall>(env, _) \<in> set demo_calls. env_ok env"
proof -
  have "float_ok (FFin False 0 0)" by code_simp
  then show "env_ok demo_env" by (simp add: env_ok_def demo_env_def del: float_ok.simps)
  then show "\<forall>(env, _) \<in> set demo_calls. env_ok env" by (simp add: demo_calls_def)
qed

lemmas demo_defs = demo_adapter_def demo_config_def demo_env_def demo_intent_def demo_quote_def
  demo_approval_def demo_start_def empty_store_def

lemma audited_quiet:
  "al_path (orch_audit orc) = None \<Longrightarrow> audited env ev i kw out orc =
     (out, orc\<lparr>orch_audit := (orch_audit orc)\<lparr>al_seq := al_seq (orch_audit orc) + 1\<rparr>\<rparr>)"
  by (simp add: audited_def audit_append_def Let_def del: json_dumps.simps)

lemmas guard_defs = Let_def new_record_def has_intent_def has_approval_def has_receipt_def approval_key_def
  check_intent_expired_def validate_recipient_def check_quote_expired_def validate_rail_def
  find_by_state_def get_record_def record_intent_def record_approval_def record_receipt_def
  store_save_def put_record_def

text \<open>The record those calls lead to, and an engine that tracks it in a given state.\<close>

definition demo_record :: IntentRecord where
  "demo_record = (new_record demo_intent)\<lparr>rec_state := APPROVED, rec_quote := Some demo_quote,
     rec_prepared := Some \<lparr>pp_fee_sat = 1, pp_prepared_hash = ''h1'', pp_rail = LIGHTNING, pp_prepared_payload = ''tx''\<rparr>,
     rec_approval := Some demo_approval, rec_quote_expires_at := 1500\<rparr>"

definition demo_at :: "PaymentState \<Rightarrow> nat Orch" where
  "demo_at s = demo_start\<lparr>orch_intents := [(''i1'', demo_record\<lparr>rec_state := s\<rparr>)]\<rparr>"

lemma demo_at_simps [simp]:
  "dict_get (orch_intents (demo_at s)) ''i1'' = Some (demo_record\<lparr>rec_state := s\<rparr>)"
  "orch_store (demo_at s) = empty_store (Some ''store.json'') None"
  "find_by_state s (demo_at s) = Inr (''i1'', demo_record\<lparr>rec_state := s\<rparr>)"
  by (simp_all add: demo_at_def demo_start_def find_by_state_def)

end
