(* ===== verification/Sessions.thy ===== *)
theory Sessions
  imports Dispatch Engine_Demo
begin

text \<open>
  Crash and restart of the process that holds the engine: what the files keep, and the
  bound on dispatches that survives any number of restarts.
\<close>

section \<open>The store file\<close>

abbreviation durable :: "IdempotencyStore \<Rightarrow> bool" where
  "durable st \<equiv> \<not> no_path (st_path st)"

definition reload :: "IdempotencyStore \<Rightarrow> exn + IdempotencyStore" where
  "reload st = store_init (st_path st) (st_file st)"

text \<open>The file, if there is one, was written by a save of a smaller or equal store.\<close>

definition saved_ok :: "IdempotencyStore \<Rightarrow> bool" where
  "saved_ok st \<longleftrightarrow> (\<forall>content. st_file st = Some content \<longrightarrow>
     (\<exists>st0. store_wf st0 \<and> store_le st0 st \<and> content = json_dumps default_sorted (store_json st0)))"

definition saved_approvals :: "IdempotencyStore \<Rightarrow> string set" where
  "saved_approvals st = (case reload st of Inl _ \<Rightarrow> {} | Inr st0 \<Rightarrow> st_approvals st0)"

lemma store_json_path [simp]: "store_json (st\<lparr>st_path := p\<rparr>) = store_json st"
  by (simp add: store_json_def)

lemma store_init_dump:
  assumes "store_wf st" and "p \<noteq> []"
  shows "store_init (Some p) (Some (json_dumps default_sorted (store_json st))) =
    Inr \<lparr>st_path = Some p, st_intents = st_intents st, st_approvals = st_approvals st,
         st_receipts = dump_order default_sorted (st_receipts st),
         st_file = Some (json_dumps default_sorted (store_json st))\<rparr>"
  using store_init_saved [of "st\<lparr>st_path := Some p\<rparr>" p] assms by (simp add: store_wf_def del: json_dumps.simps)

lemma dump_order_keys: "fst ` set (dump_order opt d) = fst ` set d"
  by (simp add: dump_order_def)

lemma store_wf_init: "store_wf st \<Longrightarrow> store_wf
    \<lparr>st_path = p, st_intents = st_intents st, st_approvals = st_approvals st,
     st_receipts = dump_order opt (st_receipts st), st_file = f\<rparr>"
  by (auto simp: store_wf_def)

lemma reload_ok:
  assumes "durable st" and "saved_ok st"
  shows "\<exists>st2. reload st = Inr st2 \<and> store_wf st2 \<and> store_le st2 st \<and> saved_ok st2
    \<and> st_path st2 = st_path st \<and> st_file st2 = st_file st"
proof -
  from assms(1) obtain p where p: "st_path st = Some p" "p \<noteq> []" by auto
  show ?thesis
  proof (cases "st_file st")
    case None
    then show ?thesis
      by (auto simp: reload_def p store_init_def empty_store_def store_wf_def store_le_def saved_ok_def)
  next
    case (Some content)
    with assms(2) obtain st0 where st0: "store_wf st0" "store_le st0 st"
      "content = json_dumps default_sorted (store_json st0)" by (auto simp: saved_ok_def)
    let ?st2 = "\<lparr>st_path = Some p, st_intents = st_intents st0, st_approvals = st_approvals st0,
      st_receipts = dump_order default_sorted (st_receipts st0), st_file = Some content\<rparr>"
    have "reload st = Inr ?st2" using store_init_dump [OF st0(1) p(2)] by (simp add: reload_def p Some st0(3))
    moreover have "store_wf ?st2" using st0(1) by (rule store_wf_init)
    moreover have "store_le ?st2 st" using st0(2) by (simp add: store_le_def dump_order_keys)
    moreover have "saved_ok ?st2"
      using st0(1,3) by (auto simp: saved_ok_def store_le_def dump_order_keys intro!: exI [of _ st0])
    ultimately show ?thesis using p(1) Some by auto
  qed
qed

lemma saved_approvals_le: "durable st \<Longrightarrow> saved_ok st \<Longrightarrow> saved_approvals st \<subseteq> st_approvals st"
  using reload_ok [of st] by (auto simp: saved_approvals_def store_le_def)

text \<open>A save either leaves the file, or makes it describe the whole store.\<close>

lemma save_cases:
  assumes "durable st"
  obtains (failed) e where "store_save b st = (Inl e, st)"
  | (saved) "store_save b st = (Inr (), st\<lparr>st_file := Some (json_dumps default_sorted (store_json st))\<rparr>)"
  using assms by (cases b) (auto simp: store_save_def)

lemma save_keeps:
  assumes "durable st" and "saved_ok st" and "store_wf st'" and "store_le st st'"
    and "st_path st' = st_path st" and "st_file st' = st_file st"
  shows "saved_ok (snd (store_save b st'))"
    and "saved_approvals st \<subseteq> saved_approvals (snd (store_save b st'))"
    and "finite (saved_approvals (snd (store_save b st')))"
    and "fst (store_save b st') = Inr () \<Longrightarrow> saved_approvals (snd (store_save b st')) = st_approvals st'"
proof -
  have dur: "durable st'" using assms(1,5) by simp
  have old: "saved_ok st'" "saved_approvals st' = saved_approvals st"
    using assms(2,4,5,6) by (auto simp: saved_ok_def saved_approvals_def reload_def intro: store_le_trans)
  let ?st = "st'\<lparr>st_file := Some (json_dumps default_sorted (store_json st'))\<rparr>"
  obtain p where p: "st_path st' = Some p" "p \<noteq> []" using dur by auto
  have new: "saved_ok ?st" "saved_approvals ?st = st_approvals st'"
    using assms(3) store_init_dump [OF assms(3) p(2)]
    by (auto simp: saved_ok_def saved_approvals_def reload_def p store_le_def simp del: json_dumps.simps intro!: exI [of _ st'])
  have sub: "saved_approvals st \<subseteq> st_approvals st'"
    using saved_approvals_le [OF assms(1,2)] assms(4) by (auto simp: store_le_def)
  have fin: "finite (st_approvals st')" using assms(3) by (simp add: store_wf_def)
  show "saved_ok (snd (store_save b st'))" using old new by (cases rule: save_cases [OF dur, of b]) auto
  show "saved_approvals st \<subseteq> saved_approvals (snd (store_save b st'))"
    using old new sub by (cases rule: save_cases [OF dur, of b]) auto
  show "finite (saved_approvals (snd (store_save b st')))"
    using old new fin sub by (cases rule: save_cases [OF dur, of b]) (auto intro: finite_subset)
  show "fst (store_save b st') = Inr () \<Longrightarrow> saved_approvals (snd (store_save b st')) = st_approvals st'"
    using new by (cases rule: save_cases [OF dur, of b]) auto
qed

lemma record_keeps:
  assumes "durable st" and "saved_ok st" and "store_wf st"
    and "st' \<in> {snd (record_intent b k st), snd (record_approval b t st), snd (record_receipt b k ref st)}"
  shows "saved_ok st' \<and> saved_approvals st \<subseteq> saved_approvals st' \<and> finite (saved_approvals st') \<and> durable st'"
proof -
  have wf: "store_wf (st\<lparr>st_intents := insert k (st_intents st)\<rparr>)"
    "store_wf (st\<lparr>st_approvals := insert (approval_key t) (st_approvals st)\<rparr>)"
    "store_wf (st\<lparr>st_receipts := dict_set k ref (st_receipts st)\<rparr>)"
    using assms(3) by (simp_all add: store_wf_def)
  have le: "store_le st (st\<lparr>st_intents := insert k (st_intents st)\<rparr>)"
    "store_le st (st\<lparr>st_approvals := insert (approval_key t) (st_approvals st)\<rparr>)"
    "store_le st (st\<lparr>st_receipts := dict_set k ref (st_receipts st)\<rparr>)"
    by (auto simp: store_le_def dict_keys_set)
  show ?thesis
    using assms(4) save_keeps(1-3) [OF assms(1,2) wf(1) le(1), of b] save_keeps(1-3) [OF assms(1,2) wf(2) le(2), of b]
      save_keeps(1-3) [OF assms(1,2) wf(3) le(3), of b] assms(1)
    by (auto simp: record_intent_def record_approval_def record_receipt_def)
qed

lemma record_path [simp]:
  "st_path (snd (record_intent b k st)) = st_path st" "st_path (snd (record_approval b t st)) = st_path st"
  "st_path (snd (record_receipt b k ref st)) = st_path st"
  by (simp_all add: record_intent_def record_approval_def record_receipt_def)

lemma record_saved_ok:
  assumes "durable st" and "saved_ok st" and "store_wf st"
  shows "saved_ok (snd (record_intent b k st))" "saved_ok (snd (record_approval b t st))"
    "saved_ok (snd (record_receipt b k ref st))"
  using record_keeps [OF assms] by blast+

section \<open>The dispatch budget\<close>

definition pending :: "(string \<times> IntentRecord) list \<Rightarrow> nat" where
  "pending = record_sum (\<lambda>rc. of_bool (rec_state rc = APPROVED))"

definition budget_inv :: "'w logged_world Orch \<Rightarrow> bool" where
  "budget_inv orc \<longleftrightarrow> durable (orch_store orc) \<and> saved_ok (orch_store orc)
     \<and> length (dispatch_log orc) + pending (orch_intents orc) \<le> card (saved_approvals (orch_store orc))"

lemma pending_put:
  assumes "dict_wf d" and "dict_get d k = Some rc"
  shows "pending (dict_set k rc' d) + of_bool (rec_state rc = APPROVED) = pending d + of_bool (rec_state rc' = APPROVED)"
  unfolding pending_def by (rule record_sum_set [OF assms])

lemma budget_same_store:
  assumes "budget_inv orc" and "orch_store orc' = orch_store orc"
    and "length (dispatch_log orc') + pending (orch_intents orc') \<le> length (dispatch_log orc) + pending (orch_intents orc)"
  shows "budget_inv orc'"
  using assms by (simp add: budget_inv_def)

lemma budget_recorded:
  assumes "budget_inv orc" and "store_wf (orch_store orc)"
    and "orch_store orc' \<in> {snd (record_intent b k (orch_store orc)), snd (record_approval b t (orch_store orc)),
      snd (record_receipt b k ref (orch_store orc))}"
    and "dispatch_log orc' = dispatch_log orc" and "pending (orch_intents orc') \<le> pending (orch_intents orc)"
  shows "budget_inv orc'"
proof -
  from record_keeps [OF _ _ assms(2,3)] assms(1)
  have keep: "saved_ok (orch_store orc')" "durable (orch_store orc')"
    "saved_approvals (orch_store orc) \<subseteq> saved_approvals (orch_store orc')" "finite (saved_approvals (orch_store orc'))"
    by (auto simp: budget_inv_def)
  from card_mono [OF keep(4,3)] assms(1,4,5) keep(1,2) show ?thesis by (simp add: budget_inv_def)
qed

lemma budget_pstep:
  assumes "pstep (logged_config ad recipients rails) orc orc'"
    and "engine_inv (logged_config ad recipients rails) orc" and "budget_inv orc"
  shows "budget_inv orc'"
proof -
  have wf: "store_wf (orch_store orc)" "dict_wf (orch_intents orc)" using assms(2) by (simp_all add: engine_inv_def)
  note put = pending_put [OF wf(2)]
  from assms(1) show ?thesis
  proof (cases rule: pstep.cases)
    case (ps_audit ts kwargs b event)
    then show ?thesis using assms(3) by (simp add: budget_inv_def)
  next
    case (ps_query w)
    then show ?thesis using assms(3) logged_query [of ad "orch_world orc" w] by (simp add: budget_inv_def)
  next
    case (ps_track i b)
    then have "dict_get (orch_intents orc) (pi_id i) = None"
      using engine_inv_get [OF assms(2)] by (cases "dict_get (orch_intents orc) (pi_id i)") (auto simp: record_inv_def)
    with ps_track(1) show ?thesis
      by (intro budget_recorded [OF assms(3) wf(1)]) (auto simp: pending_def record_sum_new)
  next
    case (ps_quote k rc q)
    then show ?thesis
      using put [OF ps_quote(2), of "rc\<lparr>rec_quote := Some q, rec_quote_expires_at := pq_expires_at q\<rparr>"]
      by (intro budget_same_store [OF assms(3)]) auto
  next
    case (ps_move k rc t s')
    then have "s' \<noteq> APPROVED" by (auto simp: sm_step_iff TRANSITIONS_def free_triggers_def)
    then show ?thesis
      using put [OF ps_move(2), of "rc\<lparr>rec_state := s'\<rparr>"] ps_move(1) by (intro budget_same_store [OF assms(3)]) auto
  next
    case (ps_prepared k rc q prep w)
    then show ?thesis
      using put [OF ps_prepared(2), of "rc\<lparr>rec_prepared := Some prep, rec_state := PREPARED\<rparr>"]
        logged_prepare_log [of ad _ _ _ "orch_world orc"] by (intro budget_same_store [OF assms(3)]) auto
  next
    case (ps_approval_unsaved b t)
    then show ?thesis by (intro budget_recorded [OF assms(3) wf(1)]) auto
  next
    case (ps_approved k rc a b)
    let ?st = "orch_store orc" and ?key = "approval_key (approval_triple a)"
    let ?st' = "snd (record_approval b (approval_triple a) ?st)"
    have dur: "durable ?st" "saved_ok ?st" using assms(3) by (simp_all add: budget_inv_def)
    have new: "?key \<notin> st_approvals ?st" using ps_approved(5) by (simp add: has_approval_def)
    have keep: "saved_ok ?st'" "durable ?st'"
      using record_keeps [OF dur wf(1), of ?st' b _ "approval_triple a"] by auto
    have "store_wf (?st\<lparr>st_approvals := insert ?key (st_approvals ?st)\<rparr>)" using wf(1) by (simp add: store_wf_def)
    moreover have "store_le ?st (?st\<lparr>st_approvals := insert ?key (st_approvals ?st)\<rparr>)" by (auto simp: store_le_def)
    ultimately have "saved_approvals ?st' = insert ?key (st_approvals ?st)"
      using save_keeps(4) [OF dur, of "?st\<lparr>st_approvals := insert ?key (st_approvals ?st)\<rparr>" b] ps_approved(6)
      by (simp add: record_approval_def)
    moreover have "finite (st_approvals ?st)" using wf(1) by (simp add: store_wf_def)
    moreover from this have "card (saved_approvals ?st) \<le> card (st_approvals ?st)"
      by (rule card_mono) (rule saved_approvals_le [OF dur])
    ultimately have "card (saved_approvals ?st) + 1 \<le> card (saved_approvals ?st')" using new by simp
    moreover have "pending (orch_intents orc') = pending (orch_intents orc) + 1"
      using put [OF ps_approved(2), of "rc\<lparr>rec_approval := Some a, rec_state := APPROVED\<rparr>"] ps_approved by simp
    ultimately show ?thesis using assms(3) keep ps_approved(1) by (simp add: budget_inv_def)
  next
    case (ps_executing k rc)
    then show ?thesis
      using put [OF ps_executing(2), of "rc\<lparr>rec_state := EXECUTING\<rparr>"] by (intro budget_same_store [OF assms(3)]) auto
  next
    case (ps_dispatch k rc p)
    then show ?thesis
      using put [OF ps_dispatch(2), of "rc\<lparr>rec_state := EXECUTING\<rparr>"]
      by (intro budget_same_store [OF assms(3)]) (auto simp: logged_execute_log)
  next
    case (ps_receipt_unsaved k rc b ref)
    then show ?thesis by (intro budget_recorded [OF assms(3) wf(1)]) auto
  next
    case (ps_settled k rc b ref r)
    then show ?thesis
      using put [OF ps_settled(2), of "rc\<lparr>rec_receipt := r, rec_state := SETTLED\<rparr>"]
      by (intro budget_recorded [OF assms(3) wf(1)]) auto
  next
    case (ps_evidence k rc res)
    then show ?thesis
      using put [OF ps_evidence(2), of "rc\<lparr>rec_reconciliation := Some res\<rparr>"] by (intro budget_same_store [OF assms(3)]) auto
  qed
qed

interpretation budget: run_invariant "logged_config ad recipients rails"
    "\<lambda>orc. engine_inv (logged_config ad recipients rails) orc \<and> budget_inv orc" for ad recipients rails
  by unfold_locales (blast intro: engine_inv_keyed engine_inv_pstep budget_pstep)+

section \<open>Crashes and restarts\<close>

text \<open>The engine a new process constructs on the files of the old one.\<close>

definition restart :: "'w Orch \<Rightarrow> exn + 'w Orch" where
  "restart orc = orch_init (st_path (orch_store orc)) (st_file (orch_store orc))
     (al_path (orch_audit orc)) (al_file (orch_audit orc)) (orch_world orc)"

text \<open>
  \<open>s_crash\<close>: the process dies after some atomic steps, possibly in the middle of a call, and is
  started again.
\<close>

inductive session :: "'w orch_config \<Rightarrow> 'w Orch \<Rightarrow> 'w Orch \<Rightarrow> bool" for cfg orc0 where
  s_start: "session cfg orc0 orc0"
| s_call: "session cfg orc0 orc \<Longrightarrow> env_ok env \<Longrightarrow> session cfg orc0 (apply_op cfg env op orc)"
| s_crash: "session cfg orc0 orc \<Longrightarrow> psteps cfg orc orc1 \<Longrightarrow> restart orc1 = Inr orc2 \<Longrightarrow> session cfg orc0 orc2"

lemma restart_ok:
  assumes "engine_inv cfg orc" and "durable (orch_store orc)" and "saved_ok (orch_store orc)"
  shows "\<exists>orc2. restart orc = Inr orc2 \<and> engine_inv cfg orc2 \<and> orch_intents orc2 = []
    \<and> orch_world orc2 = orch_world orc \<and> reload (orch_store orc) = Inr (orch_store orc2)
    \<and> durable (orch_store orc2) \<and> saved_ok (orch_store orc2)
    \<and> saved_approvals (orch_store orc2) = saved_approvals (orch_store orc)"
proof -
  obtain st2 where st2: "reload (orch_store orc) = Inr st2" "store_wf st2" "saved_ok st2"
    "st_path st2 = st_path (orch_store orc)" "st_file st2 = st_file (orch_store orc)"
    using reload_ok [OF assms(2,3)] by blast
  have "audit_wf (orch_audit orc)" using assms(1) by (simp add: engine_inv_def)
  from audit_reload_wf [OF this] obtain al2 where
    al2: "audit_init (al_path (orch_audit orc)) (al_file (orch_audit orc)) = Inr al2" "audit_wf al2" by blast
  show ?thesis
    using st2 al2 assms(2)
    by (auto simp: restart_def orch_init_def reload_def [symmetric] engine_inv_def saved_approvals_def)
      (simp_all add: reload_def)
qed

interpretation durable: run_invariant cfg
    "\<lambda>orc. engine_inv cfg orc \<and> durable (orch_store orc) \<and> saved_ok (orch_store orc)" for cfg
proof unfold_locales
  fix orc orc' :: "'a Orch"
  assume step: "pstep cfg orc orc'"
    and inv: "engine_inv cfg orc \<and> durable (orch_store orc) \<and> saved_ok (orch_store orc)"
  have "durable (orch_store orc') \<and> saved_ok (orch_store orc')"
    using step inv record_saved_ok [of "orch_store orc"] engine_inv_store [of cfg orc]
    by (cases rule: pstep.cases) simp_all
  with step inv engine_inv_pstep
  show "engine_inv cfg orc' \<and> durable (orch_store orc') \<and> saved_ok (orch_store orc')" by blast
qed (blast intro: engine_inv_keyed)

text \<open>A process started on a path where there is no file yet.\<close>

definition started :: "string \<Rightarrow> string option \<Rightarrow> 'w \<Rightarrow> 'w Orch \<Rightarrow> bool" where
  "started p ap w orc \<longleftrightarrow> p \<noteq> [] \<and> orch_init (Some p) None ap None w = Inr orc"

lemma started_fields:
  assumes "started p ap w orc"
  shows "orc = \<lparr>orch_store = empty_store (Some p) None,
    orch_audit = \<lparr>al_path = ap, al_seq = 0, al_file = None\<rparr>, orch_intents = [], orch_world = w\<rparr>"
  using assms by (auto simp: started_def orch_init_def store_init_def audit_init_def Let_def split: if_splits)

lemma started_inv:
  assumes "started p ap w orc"
  shows "engine_inv cfg orc \<and> durable (orch_store orc) \<and> saved_ok (orch_store orc)"
  using assms unfolding started_fields [OF assms]
  by (auto simp: started_def engine_inv_def empty_store_def store_wf_def audit_wf_def lines_wf_def saved_ok_def)

lemma session_inv:
  assumes "session cfg orc0 orc" and "engine_inv cfg orc0 \<and> durable (orch_store orc0) \<and> saved_ok (orch_store orc0)"
  shows "engine_inv cfg orc \<and> durable (orch_store orc) \<and> saved_ok (orch_store orc)"
  using assms
proof (induction rule: session.induct)
  case (s_crash orc orc1 orc2)
  then show ?case using durable.Inv_psteps [OF s_crash.hyps(2)] restart_ok [of cfg orc1] by fastforce
qed (auto dest: durable.Inv_op)

lemma session_budget:
  assumes "session (logged_config ad recipients rails) orc0 orc"
    and "engine_inv (logged_config ad recipients rails) orc0 \<and> budget_inv orc0"
  shows "engine_inv (logged_config ad recipients rails) orc \<and> budget_inv orc"
  using assms
proof (induction rule: session.induct)
  case (s_crash orc orc1 orc2)
  then have inv1: "engine_inv (logged_config ad recipients rails) orc1" "budget_inv orc1"
    using budget.Inv_psteps [OF s_crash.hyps(2)] by blast+
  then have "durable (orch_store orc1)" "saved_ok (orch_store orc1)" by (simp_all add: budget_inv_def)
  from restart_ok [OF inv1(1) this] s_crash.hyps(3)
  have "engine_inv (logged_config ad recipients rails) orc2" "orch_intents orc2 = []" "orch_world orc2 = orch_world orc1"
    "durable (orch_store orc2)" "saved_ok (orch_store orc2)"
    "saved_approvals (orch_store orc2) = saved_approvals (orch_store orc1)" by auto
  with inv1(2) show ?case by (simp add: budget_inv_def pending_def record_sum_def)
qed (auto dest: budget.Inv_op)

lemma session_run:
  assumes "session cfg orc0 orc" and "\<forall>(env, _) \<in> set ops. env_ok env"
  shows "session cfg orc0 (run_ops cfg ops orc)"
  using assms by (induction ops arbitrary: orc) (auto simp: run_ops_def intro: s_call)

lemma demo_started: "started ''store.json'' None 0 demo_start"
  by (simp add: started_def demo_start_def orch_init_def store_init_def audit_init_def empty_store_def Let_def)

end
