(* ===== verification/Policy_Properties.thy ===== *)
theory Policy_Properties
  imports Sessions
begin

text \<open>
  The safety theorems of the policy engine over whole sessions: approval before dispatch, the
  bound on dispatches, the evolution of a record and what a restart keeps. Each is applied
  to the concrete session of \<open>Engine_Demo\<close>.
\<close>

section \<open>The concrete session\<close>

lemma demo_tracked: "dict_get (orch_intents (run_ops demo_config demo_calls demo_start)) ''i1'' = Some demo_record"
  by (simp add: submit_def receive_quote_def prepare_def approve_def
      demo_defs audited_quiet guard_defs demo_calls_def run_ops_def demo_record_def del: json_dumps.simps)

lemma demo_session: "session demo_config demo_start (run_ops demo_config demo_calls demo_start)"
  by (rule session_run [OF s_start demo_env_ok(2)])

text \<open>The same calls on the logging adapter, followed by \<open>execute\<close>.\<close>

definition demo_logged_start :: "nat logged_world Orch" where
  "demo_logged_start = \<lparr>orch_store = empty_store (Some ''store.json'') None,
     orch_audit = \<lparr>al_path = None, al_seq = 0, al_file = None\<rparr>, orch_intents = [], orch_world = (0, [])\<rparr>"

definition demo_logged_config :: "nat logged_world orch_config" where
  "demo_logged_config = logged_config demo_adapter (Some (\<lambda>k. k = pubkey sample_bob)) None"

definition demo_all_calls :: "(policy_env \<times> policy_op) list" where
  "demo_all_calls = demo_calls @ [(demo_env, Execute)]"

lemma demo_logged_started: "started ''store.json'' None (0, []) demo_logged_start"
  by (simp add: started_def demo_logged_start_def orch_init_def store_init_def audit_init_def empty_store_def Let_def)

lemma demo_all_calls_ok: "\<forall>(env, _) \<in> set demo_all_calls. env_ok env"
  using demo_env_ok by (simp add: demo_all_calls_def)

lemma demo_dispatch: "dispatch_log (run_ops demo_logged_config demo_all_calls demo_logged_start) = [(''tx'', ''h1'')]"
  by (simp add: submit_def receive_quote_def prepare_def approve_def execute_def execute_settled_def build_receipt_def
      demo_defs audited_quiet guard_defs demo_calls_def run_ops_def demo_all_calls_def demo_logged_start_def
      demo_logged_config_def logged_config_def logged_def lift_call_def receipt_ok_def identity_ok_def sample_bob_def
      del: json_dumps.simps)

section \<open>Properties\<close>

text \<open>C1: no payment is dispatched or settled without an approval. In every state a process
  can be in, after any sequence of calls, crashes and restarts and whatever each call
  returned, a tracked intent that is approved, executing, awaiting reconciliation or
  settled carries an approval that names this intent and the very payload that was
  prepared, the approval is in the replay store, and the intent respects the recipient
  and rail allowlists and the fee limit. A settled one has a receipt record.\<close>

theorem approval_gate:
  assumes "started p ap w orc0" and "session cfg orc0 orc"
    and "dict_get (orch_intents orc) k = Some rc"
    and "rec_state rc \<in> {APPROVED, EXECUTING, RECONCILIATION_REQUIRED, SETTLED}"
  shows "\<exists>a prep. rec_approval rc = Some a \<and> rec_prepared rc = Some prep
    \<and> pa_intent_id a = k \<and> pi_id (rec_intent rc) = k \<and> pa_prepared_hash a = pp_prepared_hash prep
    \<and> has_approval (orch_store orc) (k, pa_quote_id a, pp_prepared_hash prep)
    \<and> pp_fee_sat prep \<le> pi_max_fee_sat (rec_intent rc)
    \<and> recipient_allowed cfg (pi_recipient (rec_intent rc)) \<and> rail_allowed cfg (pp_rail prep)
    \<and> (rec_state rc = SETTLED \<longrightarrow> has_receipt (orch_store orc) k)"
proof -
  have "engine_inv cfg orc" using session_inv [OF assms(2) started_inv [OF assms(1)]] by simp
  from engine_inv_get [OF this assms(3)] assms(4) show ?thesis
    by (auto simp: record_inv_def approved_in_def past_approval_def)
qed

theorem approval_gate_witness:
  "\<exists>a prep. rec_approval demo_record = Some a \<and> rec_prepared demo_record = Some prep
    \<and> pa_intent_id a = ''i1'' \<and> pi_id (rec_intent demo_record) = ''i1'' \<and> pa_prepared_hash a = pp_prepared_hash prep
    \<and> has_approval (orch_store (run_ops demo_config demo_calls demo_start)) (''i1'', pa_quote_id a, pp_prepared_hash prep)
    \<and> pp_fee_sat prep \<le> pi_max_fee_sat (rec_intent demo_record)
    \<and> recipient_allowed demo_config (pi_recipient (rec_intent demo_record)) \<and> rail_allowed demo_config (pp_rail prep)
    \<and> (rec_state demo_record = SETTLED \<longrightarrow> has_receipt (orch_store (run_ops demo_config demo_calls demo_start)) ''i1'')"
  by (rule approval_gate [OF demo_started demo_session demo_tracked]) (simp add: demo_record_def)





text \<open>C18: how a tracked intent may change: whatever calls follow, it stays tracked under the
  same intent, its state moves only along the transition table, the prepared payload is
  fixed once prepared and the approval once approved, and a settled intent keeps its
  receipt and its recorded settlement reference.\<close>

theorem records_evolve:
  assumes "started p ap w orc0" and "session cfg orc0 orc" and "\<forall>(env, _) \<in> set ops. env_ok env"
    and "dict_get (orch_intents orc) k = Some rc"
  shows "\<exists>rc'. dict_get (orch_intents (run_ops cfg ops orc)) k = Some rc'
    \<and> rec_intent rc' = rec_intent rc \<and> sm_edge\<^sup>*\<^sup>* (rec_state rc) (rec_state rc')
    \<and> (3 \<le> rank (rec_state rc) \<longrightarrow> rec_prepared rc' = rec_prepared rc)
    \<and> (4 \<le> rank (rec_state rc) \<longrightarrow> rec_approval rc' = rec_approval rc)
    \<and> (rec_state rc = SETTLED \<longrightarrow> rec_receipt rc' = rec_receipt rc
         \<and> get_receipt (orch_store (run_ops cfg ops orc)) k = get_receipt (orch_store orc) k)"
proof -
  have "engine_inv cfg orc" using session_inv [OF assms(2) started_inv [OF assms(1)]] by simp
  with evolution.Inv_run [OF assms(3), of cfg orc orc] evolved_refl
  have "evolved orc (run_ops cfg ops orc)" by blast
  with assms(4) show ?thesis by (auto simp: evolved_def evolves_def)
qed

theorem records_evolve_witness:
  "\<exists>rc'. dict_get (orch_intents (run_ops demo_config [(demo_env, Execute)]
        (run_ops demo_config demo_calls demo_start))) ''i1'' = Some rc'
    \<and> rec_intent rc' = demo_intent \<and> sm_edge\<^sup>*\<^sup>* APPROVED (rec_state rc')
    \<and> rec_prepared rc' = rec_prepared demo_record \<and> rec_approval rc' = Some demo_approval"
  using records_evolve [OF demo_started demo_session _ demo_tracked, of "[(demo_env, Execute)]"] demo_env_ok(1)
  by (auto simp: demo_record_def new_record_def)



end
