(* ===== verification/Wavecli.thy ===== *)
theory Wavecli
  imports Adapter_Api
begin

text \<open>
  The wavecli side of \<open>src/hermes_payments/adapter.py\<close>: the command lines that are built, the
  executor seam with its subprocess and in-memory implementations, and the parsers of what
  the daemon answers. Answers are JSON values of any shape.
\<close>

section \<open>Command lines\<close>

definition default_rpc_server :: string where
  "default_rpc_server = ''localhost:10029''"

text \<open>\<open>rpc_server or "localhost:10029"\<close>, and the options both builders share.\<close>

definition rpc_server_or_default :: "string option \<Rightarrow> string" where
  "rpc_server_or_default s = (case s of Some r \<Rightarrow> if r = [] then default_rpc_server else r | None \<Rightarrow> default_rpc_server)"

definition common_options :: "string option \<Rightarrow> string \<Rightarrow> bool \<Rightarrow> bool \<Rightarrow> bool \<Rightarrow> string list" where
  "common_options rpc_server network no_tls no_macaroons json_output =
     [''wavecli'', ''--network'', network, ''--rpcserver'', rpc_server_or_default rpc_server]
     @ (if no_tls then [''--no-tls''] else []) @ (if no_macaroons then [''--no-macaroons''] else [])
     @ (if json_output then [''--json''] else [])"

definition build_raw_rpc_cmd ::
    "string \<Rightarrow> string \<Rightarrow> string \<Rightarrow> string option \<Rightarrow> string \<Rightarrow> bool \<Rightarrow> bool \<Rightarrow> bool \<Rightarrow> string option \<Rightarrow> string list" where
  "build_raw_rpc_cmd service rpc_method request_json rpc_server network no_tls no_macaroons json_output timeout =
     common_options rpc_server network no_tls no_macaroons json_output
     @ (case timeout of Some t \<Rightarrow> [''--timeout'', t] | None \<Rightarrow> [])
     @ [''dev'', service, rpc_method, ''--request-json'', request_json]"

definition build_wavecli_activity_cmd ::
    "string \<Rightarrow> string option \<Rightarrow> string \<Rightarrow> bool \<Rightarrow> bool \<Rightarrow> bool \<Rightarrow> string option \<Rightarrow> string list" where
  "build_wavecli_activity_cmd kind rpc_server network no_tls no_macaroons json_output inspect_id =
     common_options rpc_server network no_tls no_macaroons json_output @ [''activity'']
     @ (case inspect_id of
          Some i \<Rightarrow> if i = [] then [''--format'', ''json'', ''--kind'', kind] else [''inspect'', i]
        | None \<Rightarrow> [''--format'', ''json'', ''--kind'', kind])"

section \<open>Executors\<close>

text \<open>An executor runs a command line in a world \<open>'w\<close> and gives the parsed JSON of its output.\<close>

record 'w WavecliExecutor =
  we_run :: "string list \<Rightarrow> 'w \<Rightarrow> (exn + pyjson) \<times> 'w"

text \<open>
  What \<open>subprocess.run\<close> does with the command is outside the program: it finds no binary, runs
  out of time, raises something else, or gives an exit code with the two output texts.
\<close>

datatype process_outcome = NoBinary | TimedOut | ProcessError exn | Completed int string string

definition subprocess_result :: "int \<Rightarrow> process_outcome \<Rightarrow> exn + pyjson" where
  "subprocess_result timeout outcome =
     (case outcome of
        NoBinary \<Rightarrow> Inl (AdapterError ''wavecli binary not found; install wavecli'')
      | TimedOut \<Rightarrow> Inl (AdapterError (''wavecli timed out after '' @ show_int timeout @ ''s''))
      | ProcessError e \<Rightarrow> Inl e
      | Completed returncode stdout stderr \<Rightarrow>
          if returncode \<noteq> 0 then
            Inl (AdapterError (''wavecli exited with code '' @ show_int returncode @ '': '' @ redact_sensitive (py_strip stderr)))
          else if py_strip stdout = [] then Inl (AdapterError ''wavecli returned empty output'')
          else (case json_loads (py_strip stdout) of
              None \<Rightarrow> Inl (AdapterError ''wavecli returned invalid JSON'')
            | Some v \<Rightarrow> Inr v))"

definition subprocess_executor :: "(string list \<Rightarrow> int \<Rightarrow> 'w \<Rightarrow> process_outcome \<times> 'w) \<Rightarrow> 'w WavecliExecutor" where
  "subprocess_executor run =
     \<lparr>we_run = (\<lambda>cmd w. case run cmd 30 w of (outcome, w') \<Rightarrow> (subprocess_result 30 outcome, w'))\<rparr>"

record FakeWavecli =
  fw_responses :: "pyjson list"
  fw_calls :: "string list list"

definition fake_wavecli_init :: FakeWavecli where
  "fake_wavecli_init = \<lparr>fw_responses = [], fw_calls = []\<rparr>"

definition set_response :: "pyjson \<Rightarrow> FakeWavecli \<Rightarrow> FakeWavecli" where
  "set_response response fw = fw\<lparr>fw_responses := fw_responses fw @ [response]\<rparr>"

definition set_responses :: "pyjson list \<Rightarrow> FakeWavecli \<Rightarrow> FakeWavecli" where
  "set_responses responses fw = fw\<lparr>fw_responses := fw_responses fw @ responses\<rparr>"

definition fake_run :: "string list \<Rightarrow> FakeWavecli \<Rightarrow> (exn + pyjson) \<times> FakeWavecli" where
  "fake_run cmd fw =
     (let fw = fw\<lparr>fw_calls := fw_calls fw @ [cmd]\<rparr> in
      case fw_responses fw of
        [] \<Rightarrow> (Inl (AdapterError ''FakeWavecliExecutor: no response configured''), fw)
      | response # responses \<Rightarrow> (Inr response, fw\<lparr>fw_responses := responses\<rparr>))"

definition fake_last_call :: "FakeWavecli \<Rightarrow> string list option" where
  "fake_last_call fw = (if fw_calls fw = [] then None else Some (last (fw_calls fw)))"

definition fake_wavecli :: "FakeWavecli WavecliExecutor" where
  "fake_wavecli = \<lparr>we_run = fake_run\<rparr>"

section \<open>Values in answers\<close>

text \<open>Sequencing of computations that may raise.\<close>

definition bindE :: "exn + 'a \<Rightarrow> ('a \<Rightarrow> exn + 'b) \<Rightarrow> exn + 'b" where
  "bindE x f = (case x of Inl e \<Rightarrow> Inl e | Inr v \<Rightarrow> f v)"

lemma bindE_simps [simp]: "bindE (Inl e) f = Inl e" "bindE (Inr v) f = f v"
  by (simp_all add: bindE_def)

lemma bindE_Inr_iff: "bindE x f = Inr y \<longleftrightarrow> (\<exists>v. x = Inr v \<and> f v = Inr y)"
  by (cases x) auto

definition guardE :: "bool \<Rightarrow> exn \<Rightarrow> exn + unit" where
  "guardE ok e = (if ok then Inr () else Inl e)"

lemma guardE_simps [simp]: "guardE True e = Inr ()" "guardE False e = Inl e" "guardE ok e = Inr u \<longleftrightarrow> ok"
  by (simp_all add: guardE_def)

text \<open>\<open>d.get(key, default)\<close>.\<close>

definition get_or :: "pyjson \<Rightarrow> (string \<times> pyjson) list \<Rightarrow> string \<Rightarrow> pyjson" where
  "get_or v d k = (case dict_get d k of Some x \<Rightarrow> x | None \<Rightarrow> v)"

text \<open>
  \<open>_coerce_numeric\<close>: numbers but no Booleans, and texts of the forms \<open>[+-]?\d+\<close> and
  \<open>[+-]?(\d+\.\d*|\.\d+)\<close>.
\<close>

definition numeric_text :: "string \<Rightarrow> pyjson option" where
  "numeric_text text =
     (let (neg, b) = split_sign text; ip = takeWhile is_digit b; rest = dropWhile is_digit b in
      if b \<noteq> [] \<and> list_all is_digit b then Some (JInt (if neg then - int (read_nat b) else int (read_nat b)))
      else case rest of
        c # fp \<Rightarrow> if c = CHR ''.'' \<and> list_all is_digit fp \<and> (ip \<noteq> [] \<or> fp \<noteq> [])
                  then Some (JFloat (float_of_decimal neg (read_nat (ip @ fp)) (- int (length fp)))) else None
      | [] \<Rightarrow> None)"

fun coerce_numeric :: "string \<Rightarrow> pyjson \<Rightarrow> exn + pyjson" where
  "coerce_numeric field (JBool b) = Inl (AdapterError (''unexpected '' @ field @ '' type: bool''))"
| "coerce_numeric field (JInt i) = Inr (JInt i)"
| "coerce_numeric field (JFloat f) = Inr (JFloat f)"
| "coerce_numeric field (JStr s) =
     (case numeric_text (py_strip s) of Some v \<Rightarrow> Inr v
      | None \<Rightarrow> Inl (AdapterError (''unexpected '' @ field @ '' type: str'')))"
| "coerce_numeric field v = Inl (AdapterError (''unexpected '' @ field @ '' type: '' @ py_type_name v))"

definition numeric_field :: "(string \<times> pyjson) list \<Rightarrow> string \<Rightarrow> exn + pyjson" where
  "numeric_field d k = coerce_numeric k (get_or (JInt 0) d k)"

section \<open>Parsers\<close>

record Prepared =
  pre_send_intent_id :: pyjson
  pre_amount_sat :: int
  pre_expected_fee_sat :: int
  pre_fee_known :: bool
  pre_expected_total_outflow_sat :: int
  pre_total_outflow_known :: bool
  pre_rail :: string
  pre_payment_hash :: string
  pre_expires_at_unix :: int
  pre_quote_status :: pyjson

fun rail_label :: "pyjson \<Rightarrow> string" where
  "rail_label (JStr s) = py_replace ''SEND_RAIL_'' [] s"
| "rail_label v = py_str v"

definition parse_prepare_response :: "pyjson \<Rightarrow> exn + Prepared" where
  "parse_prepare_response answer =
     (case answer of
        JObj data \<Rightarrow>
          bindE (guardE (py_truthy (get_or (JStr []) data ''send_intent_id''))
            (AdapterError ''PrepareSend returned empty send_intent_id; cannot proceed without a valid intent token'')) (\<lambda>_.
          bindE (numeric_field data ''expires_at_unix'') (\<lambda>expires_at.
          bindE (numeric_field data ''expected_fee_sat'') (\<lambda>fee_sat.
          bindE (guardE (py_truthy (get_or (JBool False) data ''fee_known''))
            (AdapterError ''PrepareSend returned fee_known=false; fee must be known before policy approval'')) (\<lambda>_.
          bindE (numeric_field data ''expected_total_outflow_sat'') (\<lambda>total_outflow_sat.
          bindE (guardE (py_truthy (get_or (JBool False) data ''total_outflow_known''))
            (AdapterError ''PrepareSend returned total_outflow_known=false; total outflow must be known before policy approval'')) (\<lambda>_.
          bindE (case get_or (JStr []) data ''payment_hash'' of
              JStr (c # cs) \<Rightarrow> Inr (c # cs)
            | _ \<Rightarrow> Inl (AdapterError ''PrepareSend returned empty payment_hash; cannot bind a recipient receipt safely'')) (\<lambda>payment_hash.
          bindE (numeric_field data ''amount_sat'') (\<lambda>amount_sat.
          bindE (py_int amount_sat) (\<lambda>amount.
          bindE (py_int fee_sat) (\<lambda>fee.
          bindE (py_int total_outflow_sat) (\<lambda>total.
          bindE (py_int expires_at) (\<lambda>expires.
          Inr \<lparr>pre_send_intent_id = get_or (JStr []) data ''send_intent_id'', pre_amount_sat = amount,
               pre_expected_fee_sat = fee, pre_fee_known = True, pre_expected_total_outflow_sat = total,
               pre_total_outflow_known = True, pre_rail = rail_label (get_or (JStr []) data ''rail''),
               pre_payment_hash = payment_hash, pre_expires_at_unix = expires,
               pre_quote_status = get_or (JStr []) data ''quote_status''\<rparr>))))))))))))
      | v \<Rightarrow> Inl (AdapterError (''PrepareSend returned expected object, got '' @ py_type_name v)))"

text \<open>The payment hash of a wallet entry: at the top level, in \<open>progress\<close>, or in the invoice of
  \<open>request\<close>; each only where the outer value is an object and the hash is not empty.\<close>

fun as_dict :: "pyjson \<Rightarrow> (string \<times> pyjson) list" where
  "as_dict (JObj d) = d"
| "as_dict v = []"

definition hash_in :: "(string \<times> pyjson) list \<Rightarrow> string" where
  "hash_in d = (let ph = get_or (JStr []) d ''payment_hash'' in if py_truthy ph then py_str ph else [])"

definition extract_payment_hash :: "(string \<times> pyjson) list \<Rightarrow> string" where
  "extract_payment_hash entry =
     (if hash_in entry \<noteq> [] then hash_in entry
      else let progress = as_dict (get_or (JObj []) entry ''progress'') in
      if hash_in progress \<noteq> [] then hash_in progress
      else hash_in (as_dict (get_or (JObj []) (as_dict (get_or (JObj []) entry ''request'')) ''lightning_invoice'')))"

definition proto_status :: "int \<Rightarrow> string option" where
  "proto_status i = (if i = 0 then Some ''UNSPECIFIED'' else if i = 1 then Some ''PENDING''
     else if i = 2 then Some ''COMPLETE'' else if i = 3 then Some ''FAILED'' else None)"

definition send_status :: "pyjson \<Rightarrow> string" where
  "send_status status_raw =
     (case py_index status_raw of
        Some i \<Rightarrow> (case proto_status i of Some s \<Rightarrow> s | None \<Rightarrow> py_str status_raw)
      | None \<Rightarrow> (case status_raw of
            JStr s \<Rightarrow> py_replace ''ENTRY_STATUS_'' [] (py_upper s)
          | v \<Rightarrow> py_str v))"

record SendParsed =
  sp_entry_id :: pyjson
  sp_payment_hash :: pyjson
  sp_amount_sat :: int
  sp_fee_sat :: int
  sp_status :: string

definition parse_send_response :: "pyjson \<Rightarrow> exn + SendParsed" where
  "parse_send_response answer =
     (case answer of
        JObj data \<Rightarrow>
          (case get_or JNull data ''entry'' of
             JObj entry \<Rightarrow>
               (let entry_id = get_or (JStr []) entry ''id'' in
                bindE (guardE (py_truthy entry_id) (AdapterError ''SendResponse entry has empty id'')) (\<lambda>_.
                let payment_hash = (if extract_payment_hash entry \<noteq> [] then JStr (extract_payment_hash entry) else entry_id) in
                bindE (py_int (get_or (JInt 0) data ''actual_amount_sat'')) (\<lambda>actual.
                bindE (if actual = 0 then py_int (get_or (JInt 0) entry ''amount_sat'') else Inr actual) (\<lambda>amount_sat.
                let status = send_status (get_or (JStr ''UNSPECIFIED'') entry ''status'') in
                bindE (py_int (get_or (JInt 0) entry ''fee_sat'')) (\<lambda>fee_sat.
                Inr \<lparr>sp_entry_id = entry_id, sp_payment_hash = payment_hash, sp_amount_sat = amount_sat,
                     sp_fee_sat = fee_sat, sp_status = status\<rparr>)))))
           | v \<Rightarrow> Inl (AdapterError (''SendResponse missing '' @ str_repr ''entry'' @ '' dict; got '' @ py_type_name v)))
      | v \<Rightarrow> Inl (AdapterError (''Send returned expected object, got '' @ py_type_name v)))"

record ActivityEntry =
  ae_status :: string
  ae_amount_sat :: int
  ae_fee_sat :: int
  ae_payment_hash :: string

definition activity_status :: "pyjson \<Rightarrow> string" where
  "activity_status status = (case status of JStr s \<Rightarrow> py_replace ''ENTRY_STATUS_'' [] (py_upper s) | v \<Rightarrow> py_str v)"

definition parse_activity_entry :: "(string \<times> pyjson) list \<Rightarrow> exn + ActivityEntry" where
  "parse_activity_entry data =
     (let entry = (case dict_get data ''entry'' of Some (JObj d) \<Rightarrow> d | _ \<Rightarrow> data);
          status = activity_status (get_or (JStr ''UNSPECIFIED'') entry ''status'') in
      bindE (py_int (get_or (JInt 0) entry ''amount_sat'')) (\<lambda>amount_sat.
      bindE (py_int (get_or (JInt 0) entry ''fee_sat'')) (\<lambda>fee_sat.
      Inr \<lparr>ae_status = status, ae_amount_sat = amount_sat, ae_fee_sat = fee_sat,
           ae_payment_hash = extract_payment_hash entry\<rparr>)))"

text \<open>The entries that are objects, whichever envelope wavecli put them in.\<close>

fun dicts_of :: "pyjson list \<Rightarrow> (string \<times> pyjson) list list" where
  "dicts_of [] = []"
| "dicts_of (v # vs) = (case v of JObj d \<Rightarrow> d # dicts_of vs | _ \<Rightarrow> dicts_of vs)"

definition activity_entries :: "pyjson \<Rightarrow> (string \<times> pyjson) list list" where
  "activity_entries answer =
     (case answer of
        JList xs \<Rightarrow> dicts_of xs
      | JObj outer \<Rightarrow>
          (let data = (case dict_get outer ''activity'' of Some (JObj d) \<Rightarrow> d | _ \<Rightarrow> outer);
               candidate = get_or (get_or (get_or (JList []) data ''recent'') data ''items'') data ''entries'';
               candidate = (if \<not> py_truthy candidate
                            then (case dict_get data ''entry'' of Some (JObj d) \<Rightarrow> JList [JObj d] | _ \<Rightarrow> candidate) else candidate);
               candidate = (case candidate of JObj d \<Rightarrow> JList [JObj d] | _ \<Rightarrow> candidate)
           in (case candidate of JList xs \<Rightarrow> dicts_of xs | _ \<Rightarrow> []))
      | _ \<Rightarrow> [])"

end
