(* ===== verification/Wavelength.thy ===== *)
theory Wavelength
  imports Wavecli
begin

text \<open>
  The Wavelength Lightning adapter of \<open>src/hermes_payments/adapter.py\<close>. The executor runs
  commands in a world \<open>'w\<close>, whose clock \<open>wl_clock\<close> is what \<open>int(time.time())\<close> reads. Its five
  methods make it a \<open>SettlementAdapter\<close>.
\<close>

record 'w WavelengthAdapter =
  wl_executor :: "'w WavecliExecutor"
  wl_clock :: "'w \<Rightarrow> int"
  wl_rpc_server :: string
  wl_network :: string
  wl_no_tls :: bool
  wl_no_macaroons :: bool

definition wavelength_init ::
    "'w WavecliExecutor \<Rightarrow> ('w \<Rightarrow> int) \<Rightarrow> string \<Rightarrow> string \<Rightarrow> bool \<Rightarrow> bool \<Rightarrow> exn + 'w WavelengthAdapter" where
  "wavelength_init executor clock rpc_server network no_tls no_macaroons =
     (if network \<notin> {''regtest'', ''signet''} then
        Inl (ValueError (''WavelengthAdapter only supports regtest or signet; got '' @ [CHR 0x27] @ network @ [CHR 0x27] @
          ''. Never default to mainnet.''))
      else Inr \<lparr>wl_executor = executor, wl_clock = clock, wl_rpc_server = rpc_server, wl_network = network,
                wl_no_tls = no_tls, wl_no_macaroons = no_macaroons\<rparr>)"

definition raw_rpc_service :: string where
  "raw_rpc_service = ''wavewalletrpc.WalletService''"

definition rpc_cmd :: "'w WavelengthAdapter \<Rightarrow> string \<Rightarrow> string \<Rightarrow> string list" where
  "rpc_cmd wl rpc_method request_json =
     build_raw_rpc_cmd raw_rpc_service rpc_method request_json (Some (wl_rpc_server wl)) (wl_network wl)
       (wl_no_tls wl) (wl_no_macaroons wl) True None"

definition activity_cmd :: "'w WavelengthAdapter \<Rightarrow> string \<Rightarrow> string list" where
  "activity_cmd wl kind =
     build_wavecli_activity_cmd kind (Some (wl_rpc_server wl)) (wl_network wl) (wl_no_tls wl) (wl_no_macaroons wl) True None"

section \<open>prepare\<close>

definition prepare_request :: "string \<Rightarrow> int \<Rightarrow> string" where
  "prepare_request invoice max_fee_sat =
     json_dumps default_sorted (JObj [(''invoice'', JStr invoice), (''max_fee_sat'', JInt max_fee_sat)])"

definition check_preview :: "Prepared \<Rightarrow> int \<Rightarrow> int \<Rightarrow> int \<Rightarrow> exn + unit" where
  "check_preview prepared now amount_sat max_fee_sat =
     (if pre_expires_at_unix prepared \<le> now then Inl (AdapterError ''PrepareSend returned an expired intent'')
      else if pre_amount_sat prepared \<noteq> amount_sat then
        Inl (AdapterError (''PrepareSend amount '' @ show_int (pre_amount_sat prepared) @
          '' does not match quoted amount '' @ show_int amount_sat))
      else if max_fee_sat < pre_expected_fee_sat prepared then
        Inl (AdapterError (''raw PrepareSend fee '' @ show_int (pre_expected_fee_sat prepared) @
          '' exceeds max_fee_sat '' @ show_int max_fee_sat))
      else if pre_expected_total_outflow_sat prepared \<noteq> pre_amount_sat prepared + pre_expected_fee_sat prepared then
        Inl (AdapterError ''PrepareSend total outflow does not equal amount plus fee'')
      else Inr ())"

definition payload_json :: "Prepared \<Rightarrow> string \<Rightarrow> int \<Rightarrow> pyjson" where
  "payload_json prepared invoice max_fee_sat =
     JObj [(''send_intent_id'', pre_send_intent_id prepared), (''amount_sat'', JInt (pre_amount_sat prepared)),
           (''fee_sat'', JInt (pre_expected_fee_sat prepared)),
           (''total_outflow_sat'', JInt (pre_expected_total_outflow_sat prepared)),
           (''payment_hash'', JStr (pre_payment_hash prepared)), (''expires_at_unix'', JInt (pre_expires_at_unix prepared)),
           (''rail'', JStr (pre_rail prepared)), (''quote_status'', pre_quote_status prepared),
           (''invoice'', JStr invoice), (''max_fee_sat'', JInt max_fee_sat)]"

definition prepare_result :: "Prepared \<Rightarrow> string \<Rightarrow> int \<Rightarrow> PrepareResult" where
  "prepare_result prepared invoice max_fee_sat =
     (let prepared_payload = utf8_encode (json_dumps compact_sorted (payload_json prepared invoice max_fee_sat)) in
      \<lparr>pp_fee_sat = pre_expected_fee_sat prepared, pp_prepared_hash = compute_prepared_hash prepared_payload,
       pp_rail = LIGHTNING, pp_prepared_payload = prepared_payload\<rparr>)"

definition wl_prepare ::
    "'w WavelengthAdapter \<Rightarrow> RailReceiveInstruction \<Rightarrow> int \<Rightarrow> int \<Rightarrow> 'w \<Rightarrow> (exn + PrepareResult) \<times> 'w" where
  "wl_prepare wl receive_instruction amount_sat max_fee_sat w =
     (if ri_rail receive_instruction \<noteq> LIGHTNING then
        (Inl (AdapterError (''unsupported rail: '' @ Rail_value (ri_rail receive_instruction))), w)
      else case ri_invoice receive_instruction of
        None \<Rightarrow> (Inl (AdapterError ''no invoice in receive instruction''), w)
      | Some invoice \<Rightarrow>
          if invoice = [] then (Inl (AdapterError ''no invoice in receive instruction''), w)
          else
            case we_run (wl_executor wl) (rpc_cmd wl ''PrepareSend'' (prepare_request invoice max_fee_sat)) w of
              (Inl e, w') \<Rightarrow>
                if is_adapter_error e then (Inl e, w')
                else (Inl (AdapterError (''raw PrepareSend failed: '' @ redact_sensitive (exn_str e))), w')
            | (Inr answer, w') \<Rightarrow>
                (bindE (parse_prepare_response answer) (\<lambda>prepared.
                 bindE (check_preview prepared (wl_clock wl w') amount_sat max_fee_sat) (\<lambda>_.
                 Inr (prepare_result prepared invoice max_fee_sat))), w'))"

section \<open>execute\<close>

text \<open>\<open>redact_sensitive\<close> applied to a JSON value: a pattern substitution takes texts only.\<close>

fun redact_value :: "pyjson \<Rightarrow> exn + string" where
  "redact_value (JStr s) = Inr (redact_sensitive s)"
| "redact_value v = Inl (TypeError (''expected string or bytes-like object, got '' @ str_repr (py_type_name v)))"

text \<open>What \<open>execute\<close> makes of a parsed answer.\<close>

definition judge_send :: "(string \<times> pyjson) list \<Rightarrow> SendParsed \<Rightarrow> exn + ExecuteResult" where
  "judge_send payload result =
     (if sp_status result = ''FAILED'' then
        bindE (redact_value (sp_entry_id result)) (\<lambda>t. Inl (AdapterError (''raw Send returned FAILED: entry '' @ t)))
      else if sp_status result = ''PENDING'' then
        bindE (redact_value (sp_entry_id result)) (\<lambda>t.
          Inl (AmbiguousResult (''raw Send dispatched but status is PENDING (entry '' @ t @
            ''); settlement not confirmed - manual verification required'')))
      else if sp_status result \<noteq> ''COMPLETE'' then Inl (AmbiguousResult (''unknown send status: '' @ sp_status result))
      else if \<not> py_truthy (sp_payment_hash result) then
        Inl (AmbiguousResult ''raw Send returned no payment_hash; settlement status unknown'')
      else if \<not> py_eq (JInt (sp_amount_sat result)) (get_or JNull payload ''amount_sat'') then
        Inl (AmbiguousResult ''raw Send amount differs from the prepared preview'')
      else if \<not> py_eq (sp_entry_id result) (get_or JNull payload ''payment_hash'') then
        Inl (AmbiguousResult ''raw Send entry ID differs from the prepared payment hash'')
      else if \<not> py_eq (sp_payment_hash result) (get_or JNull payload ''payment_hash'') then
        Inl (AmbiguousResult ''raw Send payment hash differs from the prepared preview'')
      else Inr \<lparr>er_settlement_ref = py_str (sp_payment_hash result), er_amount_sat = sp_amount_sat result,
                er_fee_sat = sp_fee_sat result, er_rail = LIGHTNING\<rparr>)"

text \<open>The checks before dispatch; the send intent and the decoded payload when they pass.\<close>

definition dispatch_checks :: "bytes \<Rightarrow> string \<Rightarrow> int \<Rightarrow> exn + (pyjson \<times> (string \<times> pyjson) list)" where
  "dispatch_checks prepared_payload prepared_hash now =
     (if compute_prepared_hash prepared_payload \<noteq> prepared_hash then
        Inl (AdapterError (''prepared_payload does not match prepared_hash; execute called with tampered or wrong payload''))
      else case Option.bind (utf8_decode prepared_payload) json_loads of
        None \<Rightarrow> Inl (AdapterError ''cannot decode prepared payload'')
      | Some (JObj payload) \<Rightarrow>
          (let send_intent_id = get_or (JStr []) payload ''send_intent_id'' in
           if \<not> py_truthy send_intent_id then
             Inl (AdapterError ''prepared payload missing send_intent_id; cannot dispatch without a valid intent token'')
           else case py_index (get_or (JInt 0) payload ''expires_at_unix'') of
             Some expires_at \<Rightarrow>
               if expires_at \<le> now then
                 Inl (AdapterError ''prepared intent is missing, malformed, or expired; re-prepare before executing'')
               else Inr (send_intent_id, payload)
           | None \<Rightarrow> Inl (AdapterError ''prepared intent is missing, malformed, or expired; re-prepare before executing''))
      | Some v \<Rightarrow> Inl (AttributeError (str_repr (py_type_name v) @ '' object has no attribute '' @ str_repr ''get'')))"

definition send_request :: "pyjson \<Rightarrow> string" where
  "send_request send_intent_id = json_dumps default_sorted (JObj [(''send_intent_id'', send_intent_id)])"

definition wl_execute :: "'w WavelengthAdapter \<Rightarrow> bytes \<Rightarrow> string \<Rightarrow> 'w \<Rightarrow> (exn + ExecuteResult) \<times> 'w" where
  "wl_execute wl prepared_payload prepared_hash w =
     (case dispatch_checks prepared_payload prepared_hash (wl_clock wl w) of
        Inl e \<Rightarrow> (Inl e, w)
      | Inr (send_intent_id, payload) \<Rightarrow>
          (case we_run (wl_executor wl) (rpc_cmd wl ''Send'' (send_request send_intent_id)) w of
             (Inl e, w') \<Rightarrow> (Inl (AmbiguousResult (''raw Send outcome unknown: '' @ redact_sensitive (exn_str e))), w')
           | (Inr answer, w') \<Rightarrow> (bindE (parse_send_response answer) (judge_send payload), w')))"

section \<open>reconcile_settlement\<close>

definition unknown :: "string \<Rightarrow> string \<Rightarrow> ReconcileResult" where
  "unknown settlement_ref error =
     (reconcile_default ''UNKNOWN'')\<lparr>rr_settlement_ref := settlement_ref, rr_error := Some error\<rparr>"

definition judge_entry :: "string \<Rightarrow> int \<Rightarrow> ActivityEntry \<Rightarrow> ReconcileResult" where
  "judge_entry payment_hash expected_amount_sat parsed =
     (let observed_amount = \<bar>ae_amount_sat parsed\<bar>;
          found = (\<lambda>status verified error. \<lparr>rr_status = status, rr_settlement_ref = payment_hash, rr_amount_sat = observed_amount,
                     rr_fee_sat = ae_fee_sat parsed, rr_rail = Some LIGHTNING, rr_verified = verified, rr_error = error\<rparr>)
      in if observed_amount \<noteq> expected_amount_sat then
           (found ''UNKNOWN'' False (Some (''activity amount mismatch: expected '' @ show_int expected_amount_sat @ '', got '' @
              show_int observed_amount)))\<lparr>rr_rail := None\<rparr>
         else if ae_status parsed = ''COMPLETE'' then found ''COMPLETE'' True None
         else if ae_status parsed = ''PENDING'' then found ''PENDING'' False (Some ''matching sender activity is still PENDING'')
         else found ''UNKNOWN'' False (Some (''matching sender activity has status '' @ ae_status parsed)))"

fun reconcile_loop :: "string \<Rightarrow> int \<Rightarrow> (string \<times> pyjson) list list \<Rightarrow> exn + ReconcileResult" where
  "reconcile_loop payment_hash expected_amount_sat [] = Inr (unknown payment_hash ''no matching sender activity entry found'')"
| "reconcile_loop payment_hash expected_amount_sat (entry # entries) =
     (case parse_activity_entry entry of
        Inl e \<Rightarrow> if is_adapter_error e then reconcile_loop payment_hash expected_amount_sat entries else Inl e
      | Inr parsed \<Rightarrow>
          if ae_payment_hash parsed \<noteq> payment_hash then reconcile_loop payment_hash expected_amount_sat entries
          else Inr (judge_entry payment_hash expected_amount_sat parsed))"

definition query_sender_activity :: "'w WavelengthAdapter \<Rightarrow> string \<Rightarrow> int \<Rightarrow> 'w \<Rightarrow> (exn + ReconcileResult) \<times> 'w" where
  "query_sender_activity wl payment_hash expected_amount_sat w =
     (case we_run (wl_executor wl) (activity_cmd wl ''send'') w of
        (Inl e, w') \<Rightarrow>
          (Inr (unknown payment_hash ((if is_adapter_error e then ''cannot query sender activity: ''
             else ''sender activity query failed: '') @ redact_sensitive (exn_str e))), w')
      | (Inr answer, w') \<Rightarrow> (reconcile_loop payment_hash expected_amount_sat (activity_entries answer), w'))"

definition wl_reconcile_settlement ::
    "'w WavelengthAdapter \<Rightarrow> bytes \<Rightarrow> string \<Rightarrow> int \<Rightarrow> 'w \<Rightarrow> (exn + ReconcileResult) \<times> 'w" where
  "wl_reconcile_settlement wl prepared_payload prepared_hash expected_amount_sat w =
     (if compute_prepared_hash prepared_payload \<noteq> prepared_hash then
        (Inr (unknown [] ''prepared payload does not match prepared_hash''), w)
      else case Option.bind (utf8_decode prepared_payload) json_loads of
        None \<Rightarrow> (Inr (unknown [] ''cannot decode prepared payload''), w)
      | Some (JObj payload) \<Rightarrow>
          (case get_or (JStr []) payload ''payment_hash'' of
             JStr (c # cs) \<Rightarrow>
               (let payment_hash = c # cs in
                case py_int (get_or (JInt 0) payload ''amount_sat'') of
                  Inr amount_sat \<Rightarrow>
                    if amount_sat \<noteq> expected_amount_sat then
                      (Inr (unknown payment_hash ''prepared amount does not match the intent''), w)
                    else query_sender_activity wl payment_hash expected_amount_sat w
                | Inl (TypeError _) \<Rightarrow> (Inr (unknown payment_hash ''prepared payload has invalid amount_sat''), w)
                | Inl (ValueError _) \<Rightarrow> (Inr (unknown payment_hash ''prepared payload has invalid amount_sat''), w)
                | Inl e \<Rightarrow> (Inl e, w))
           | _ \<Rightarrow> (Inr (unknown [] ''prepared payload has no payment_hash''), w))
      | Some _ \<Rightarrow> (Inr (unknown [] ''prepared payload is not a JSON object''), w))"

section \<open>Verification of receipts\<close>

definition unverified :: "string \<Rightarrow> string \<Rightarrow> ReceiptVerifyResult" where
  "unverified settlement_ref error =
     \<lparr>rv_verified = False, rv_settlement_ref = settlement_ref, rv_amount_sat = 0, rv_fee_sat = 0, rv_error = Some error\<rparr>"

definition judge_receipt :: "string \<Rightarrow> string \<Rightarrow> int \<Rightarrow> ActivityEntry \<Rightarrow> ReceiptVerifyResult" where
  "judge_receipt kind settlement_ref expected_amount_sat parsed =
     (let amount_sat = (if kind = ''send'' then \<bar>ae_amount_sat parsed\<bar> else ae_amount_sat parsed);
          found = (\<lambda>verified error. \<lparr>rv_verified = verified, rv_settlement_ref = settlement_ref, rv_amount_sat = amount_sat,
                     rv_fee_sat = ae_fee_sat parsed, rv_error = error\<rparr>)
      in if ae_status parsed \<noteq> ''COMPLETE'' then
           found False (Some (''entry found but status is '' @ ae_status parsed @ ''; expected COMPLETE''))
         else if amount_sat \<noteq> expected_amount_sat then
           found False (Some (''amount mismatch: expected '' @ show_int expected_amount_sat @ '', got '' @ show_int amount_sat))
         else found True None)"

fun verify_loop :: "string \<Rightarrow> string \<Rightarrow> int \<Rightarrow> (string \<times> pyjson) list list \<Rightarrow> exn + ReceiptVerifyResult" where
  "verify_loop kind settlement_ref expected_amount_sat [] =
     Inr (unverified settlement_ref (''no activity entry found for settlement_ref '' @ take 8 settlement_ref @
       ''...; cannot verify receipt without source-grounded ID mapping (fail closed)''))"
| "verify_loop kind settlement_ref expected_amount_sat (entry # entries) =
     (case parse_activity_entry entry of
        Inl e \<Rightarrow> if is_adapter_error e then verify_loop kind settlement_ref expected_amount_sat entries else Inl e
      | Inr parsed \<Rightarrow>
          if ae_payment_hash parsed \<noteq> settlement_ref then verify_loop kind settlement_ref expected_amount_sat entries
          else Inr (judge_receipt kind settlement_ref expected_amount_sat parsed))"

definition verify_activity ::
    "'w WavelengthAdapter \<Rightarrow> string \<Rightarrow> string \<Rightarrow> int \<Rightarrow> 'w \<Rightarrow> (exn + ReceiptVerifyResult) \<times> 'w" where
  "verify_activity wl kind settlement_ref expected_amount_sat w =
     (case we_run (wl_executor wl) (activity_cmd wl kind) w of
        (Inl e, w') \<Rightarrow>
          (Inr (unverified settlement_ref ((if is_adapter_error e then ''cannot query activity: ''
             else ''activity query failed: '') @ redact_sensitive (exn_str e))), w')
      | (Inr answer, w') \<Rightarrow> (verify_loop kind settlement_ref expected_amount_sat (activity_entries answer), w'))"

definition wl_verify_receipt :: "'w WavelengthAdapter \<Rightarrow> string \<Rightarrow> int \<Rightarrow> 'w \<Rightarrow> (exn + ReceiptVerifyResult) \<times> 'w" where
  "wl_verify_receipt wl = verify_activity wl ''recv''"

definition wl_verify_sender_settlement :: "'w WavelengthAdapter \<Rightarrow> string \<Rightarrow> int \<Rightarrow> 'w \<Rightarrow> (exn + ReceiptVerifyResult) \<times> 'w" where
  "wl_verify_sender_settlement wl = verify_activity wl ''send''"

definition wavelength :: "'w WavelengthAdapter \<Rightarrow> 'w SettlementAdapter" where
  "wavelength wl =
     \<lparr>sa_rail = LIGHTNING, sa_prepare = wl_prepare wl, sa_execute = wl_execute wl, sa_verify_receipt = wl_verify_receipt wl,
      sa_verify_sender_settlement = wl_verify_sender_settlement wl, sa_reconcile_settlement = wl_reconcile_settlement wl\<rparr>"

end
