(* ===== verification/Wavelength_Properties.thy ===== *)
theory Wavelength_Properties
  imports Wavelength Json_Roundtrip
begin

text \<open>
  What the Wavelength adapter promises: which commands it runs, that an execution pays exactly
  the preview that was prepared, and that only a matching complete entry of the wallet's
  activity counts as evidence.
\<close>

section \<open>Which commands are run\<close>

text \<open>
  Two executors that agree on the commands in \<open>P\<close>: an operation that gives the same on both
  runs no command outside \<open>P\<close>.
\<close>

definition agree_on :: "(string list \<Rightarrow> bool) \<Rightarrow> 'w WavecliExecutor \<Rightarrow> 'w WavecliExecutor \<Rightarrow> bool" where
  "agree_on P ex ex' \<longleftrightarrow> (\<forall>cmd w. P cmd \<longrightarrow> we_run ex' cmd w = we_run ex cmd w)"

definition test_network_cmd :: "string list \<Rightarrow> bool" where
  "test_network_cmd cmd \<longleftrightarrow> take 3 cmd \<in> {[''wavecli'', ''--network'', ''regtest''], [''wavecli'', ''--network'', ''signet'']}"

definition activity_query :: "string list \<Rightarrow> bool" where
  "activity_query cmd \<longleftrightarrow> (\<exists>options kind. cmd = options @ [''activity'', ''--format'', ''json'', ''--kind'', kind] \<and> ''dev'' \<notin> set options
     \<and> kind \<in> {''send'', ''recv''})"

lemma swap_executor [simp]:
  "rpc_cmd (wl\<lparr>wl_executor := ex\<rparr>) = rpc_cmd wl" "activity_cmd (wl\<lparr>wl_executor := ex\<rparr>) = activity_cmd wl"
  by (simp_all add: rpc_cmd_def activity_cmd_def fun_eq_iff)

lemma agree_on_run: "agree_on P ex ex' \<Longrightarrow> P cmd \<Longrightarrow> we_run ex' cmd = we_run ex cmd"
  by (simp add: agree_on_def fun_eq_iff)

lemma cmds_on_network:
  "take 3 (rpc_cmd wl m r) = [''wavecli'', ''--network'', wl_network wl]"
  "take 3 (activity_cmd wl kind) = [''wavecli'', ''--network'', wl_network wl]"
  by (simp_all add: rpc_cmd_def activity_cmd_def build_raw_rpc_cmd_def build_wavecli_activity_cmd_def common_options_def)

lemma activity_cmd_query:
  assumes "wl_network wl \<noteq> ''dev''" "wl_rpc_server wl \<noteq> ''dev''" "kind \<in> {''send'', ''recv''}"
  shows "activity_query (activity_cmd wl kind)"
  unfolding activity_query_def
  by (rule exI [of _ "common_options (Some (wl_rpc_server wl)) (wl_network wl) (wl_no_tls wl) (wl_no_macaroons wl) True"], rule exI [of _ kind])
    (use assms in \<open>auto simp: activity_cmd_def build_wavecli_activity_cmd_def common_options_def rpc_server_or_default_def default_rpc_server_def\<close>)

lemma init_network: "wavelength_init ex clock server network tls mac = Inr wl \<Longrightarrow> wl_network wl \<in> {''regtest'', ''signet''}"
  by (auto simp: wavelength_init_def split: if_split_asm)

lemma activity_agree:
  assumes "agree_on P (wl_executor wl) ex" and "\<And>kind. kind \<in> {''send'', ''recv''} \<Longrightarrow> P (activity_cmd wl kind)"
  shows "wl_verify_receipt (wl\<lparr>wl_executor := ex\<rparr>) = wl_verify_receipt wl"
    and "wl_verify_sender_settlement (wl\<lparr>wl_executor := ex\<rparr>) = wl_verify_sender_settlement wl"
    and "wl_reconcile_settlement (wl\<lparr>wl_executor := ex\<rparr>) = wl_reconcile_settlement wl"
proof -
  have run: "we_run ex (activity_cmd wl kind) = we_run (wl_executor wl) (activity_cmd wl kind)" if "kind \<in> {''send'', ''recv''}" for kind
    using agree_on_run [OF assms(1) assms(2) [OF that]] .
  have verify: "verify_activity (wl\<lparr>wl_executor := ex\<rparr>) kind = verify_activity wl kind" if "kind \<in> {''send'', ''recv''}" for kind
    by (intro ext) (simp add: verify_activity_def run [OF that])
  then show "wl_verify_receipt (wl\<lparr>wl_executor := ex\<rparr>) = wl_verify_receipt wl"
    and "wl_verify_sender_settlement (wl\<lparr>wl_executor := ex\<rparr>) = wl_verify_sender_settlement wl"
    by (simp_all add: wl_verify_receipt_def wl_verify_sender_settlement_def)
  have "query_sender_activity (wl\<lparr>wl_executor := ex\<rparr>) = query_sender_activity wl"
    using run [of "''send''"] by (intro ext) (simp add: query_sender_activity_def)
  then show "wl_reconcile_settlement (wl\<lparr>wl_executor := ex\<rparr>) = wl_reconcile_settlement wl"
    by (intro ext) (simp only: wl_reconcile_settlement_def)
qed

lemma methods_agree:
  assumes "agree_on P (wl_executor wl) ex" and "\<And>m r. P (rpc_cmd wl m r)" and "\<And>kind. P (activity_cmd wl kind)"
  shows "wavelength (wl\<lparr>wl_executor := ex\<rparr>) = wavelength wl"
proof -
  have run: "we_run ex (rpc_cmd wl m r) = we_run (wl_executor wl) (rpc_cmd wl m r)" for m r
    using agree_on_run [OF assms(1) assms(2)] .
  have "wl_prepare (wl\<lparr>wl_executor := ex\<rparr>) = wl_prepare wl"
    by (intro ext) (simp add: wl_prepare_def run split: option.split sum.split prod.split)
  moreover have "wl_execute (wl\<lparr>wl_executor := ex\<rparr>) = wl_execute wl"
    by (intro ext) (simp add: wl_execute_def run split: sum.split prod.split)
  ultimately show ?thesis
    using activity_agree [OF assms(1,3)] by (simp add: wavelength_def)
qed

text \<open>An adapter that was constructed runs commands of the two test networks only. Whatever
  the executor would do with any other command makes no difference to any of its methods, and
  no other network can be configured.\<close>

theorem test_networks_only:
  assumes "wavelength_init executor clock rpc_server network no_tls no_macaroons = Inr wl"
    and "\<forall>cmd w. test_network_cmd cmd \<longrightarrow> we_run executor' cmd w = we_run executor cmd w"
  shows "network \<in> {''regtest'', ''signet''} \<and> wavelength (wl\<lparr>wl_executor := executor'\<rparr>) = wavelength wl"
proof -
  have wl: "wl_executor wl = executor" "wl_network wl = network" "network \<in> {''regtest'', ''signet''}"
    using assms(1) by (auto simp: wavelength_init_def split: if_split_asm)
  then have "agree_on test_network_cmd (wl_executor wl) executor'" using assms(2) by (simp add: agree_on_def)
  then show ?thesis using wl by (auto intro: methods_agree simp: test_network_cmd_def cmds_on_network)
qed

text \<open>Every other command reaches a daemon that would pay; the adapter's commands do not.\<close>

definition demo_wavelength :: "FakeWavecli WavelengthAdapter" where
  "demo_wavelength = \<lparr>wl_executor = fake_wavecli, wl_clock = (\<lambda>_. 100), wl_rpc_server = ''localhost:10029'',
     wl_network = ''regtest'', wl_no_tls = True, wl_no_macaroons = True\<rparr>"

theorem test_networks_only_witness:
  "wavelength (demo_wavelength\<lparr>wl_executor :=
     \<lparr>we_run = (\<lambda>cmd. if test_network_cmd cmd then fake_run cmd else (\<lambda>w. (Inr (JStr ''paid''), w)))\<rparr>\<rparr>) = wavelength demo_wavelength"
proof -
  have "wavelength_init fake_wavecli (\<lambda>_. 100) ''localhost:10029'' ''regtest'' True True = Inr demo_wavelength"
    by (simp add: wavelength_init_def demo_wavelength_def)
  from test_networks_only [OF this, of
      "\<lparr>we_run = (\<lambda>cmd. if test_network_cmd cmd then fake_run cmd else (\<lambda>w. (Inr (JStr ''paid''), w)))\<rparr>"]
  show ?thesis by (simp add: fake_wavecli_def)
qed

text \<open>Looking for evidence never moves money. Verifying a receipt on either side and reconciling a
  settlement run activity queries only: whatever the executor would do with any other
  command, a preparation or a send included, their results and their effect on the world stay
  the same.\<close>

theorem evidence_is_read_only:
  assumes "wavelength_init executor clock rpc_server network no_tls no_macaroons = Inr wl" and "rpc_server \<noteq> ''dev''"
    and "\<forall>cmd w. activity_query cmd \<longrightarrow> we_run executor' cmd w = we_run executor cmd w"
  shows "let wl' = wl\<lparr>wl_executor := executor'\<rparr> in
    wl_verify_receipt wl' = wl_verify_receipt wl \<and> wl_verify_sender_settlement wl' = wl_verify_sender_settlement wl
    \<and> wl_reconcile_settlement wl' = wl_reconcile_settlement wl"
proof -
  have wl: "wl_executor wl = executor" "wl_rpc_server wl = rpc_server" "wl_network wl \<noteq> ''dev''"
    using assms(1) by (auto simp: wavelength_init_def split: if_split_asm)
  then have agree: "agree_on activity_query (wl_executor wl) executor'" using assms(3) by (simp add: agree_on_def)
  have "activity_query (activity_cmd wl kind)" if "kind \<in> {''send'', ''recv''}" for kind
    using wl assms(2) that by (intro activity_cmd_query) auto
  from activity_agree [OF agree this] show ?thesis by (simp add: Let_def)
qed

theorem evidence_is_read_only_witness:
  "wl_reconcile_settlement (demo_wavelength\<lparr>wl_executor :=
     \<lparr>we_run = (\<lambda>cmd. if activity_query cmd then fake_run cmd else (\<lambda>w. (Inr (JStr ''paid''), w)))\<rparr>\<rparr>) =
   wl_reconcile_settlement demo_wavelength"
proof -
  have "wavelength_init fake_wavecli (\<lambda>_. 100) ''localhost:10029'' ''regtest'' True True = Inr demo_wavelength"
    by (simp add: wavelength_init_def demo_wavelength_def)
  from evidence_is_read_only [OF this, of
      "\<lparr>we_run = (\<lambda>cmd. if activity_query cmd then fake_run cmd else (\<lambda>w. (Inr (JStr ''paid''), w)))\<rparr>"]
  show ?thesis by (simp add: fake_wavecli_def Let_def)
qed

section \<open>Evidence\<close>

lemma parse_activity_error: "parse_activity_entry entry = Inl e \<Longrightarrow> \<not> is_adapter_error e"
proof -
  have no: "py_int v = Inl e \<Longrightarrow> \<not> is_adapter_error e" for v
    by (cases v rule: py_int.cases) (auto split: option.split_asm)
  show "parse_activity_entry entry = Inl e \<Longrightarrow> \<not> is_adapter_error e"
    by (auto simp: parse_activity_entry_def bindE_def Let_def split: sum.split_asm dest: no)
qed

text \<open>The first entry with the payment hash decides, and every entry before it was readable.\<close>

lemma reconcile_loop_Inr:
  assumes "reconcile_loop payment_hash expected entries = Inr r"
  shows "r = unknown payment_hash ''no matching sender activity entry found''
      \<and> (\<forall>entry \<in> set entries. \<exists>p. parse_activity_entry entry = Inr p \<and> ae_payment_hash p \<noteq> payment_hash)
    \<or> (\<exists>ys entry zs p. entries = ys @ entry # zs \<and> parse_activity_entry entry = Inr p \<and> ae_payment_hash p = payment_hash
       \<and> r = judge_entry payment_hash expected p
       \<and> (\<forall>entry' \<in> set ys. \<exists>p'. parse_activity_entry entry' = Inr p' \<and> ae_payment_hash p' \<noteq> payment_hash))"
  using assms
proof (induction entries)
  case (Cons entry entries)
  obtain p where p: "parse_activity_entry entry = Inr p"
    using Cons.prems parse_activity_error [of entry] by (cases "parse_activity_entry entry") auto
  show ?case
  proof (cases "ae_payment_hash p = payment_hash")
    case True
    with Cons.prems p have "r = judge_entry payment_hash expected p" by simp
    with p True show ?thesis
      by (intro disjI2, intro exI [of _ "[]"] exI [of _ entry] exI [of _ entries] exI [of _ p]) simp
  next
    case False
    with Cons.prems p have "reconcile_loop payment_hash expected entries = Inr r" by simp
    from Cons.IH [OF this] show ?thesis
    proof (elim disjE exE conjE)
      fix ys entry' zs p'
      assume "entries = ys @ entry' # zs" "parse_activity_entry entry' = Inr p'" "ae_payment_hash p' = payment_hash"
        "r = judge_entry payment_hash expected p'"
        "\<forall>x \<in> set ys. \<exists>q. parse_activity_entry x = Inr q \<and> ae_payment_hash q \<noteq> payment_hash"
      with p False show ?thesis by (intro disjI2 exI [of _ "entry # ys"]) auto
    qed (use p False in auto)
  qed
qed simp

lemma verify_loop_verified:
  "\<lbrakk>verify_loop kind settlement_ref expected entries = Inr r; rv_verified r\<rbrakk>
    \<Longrightarrow> rv_settlement_ref r = settlement_ref \<and> rv_amount_sat r = expected
      \<and> (\<exists>entry \<in> set entries. \<exists>p. parse_activity_entry entry = Inr p \<and> ae_payment_hash p = settlement_ref
         \<and> ae_status p = ''COMPLETE'' \<and> rv_fee_sat r = ae_fee_sat p
         \<and> (if kind = ''send'' then \<bar>ae_amount_sat p\<bar> else ae_amount_sat p) = expected)"
proof (induction entries)
  case (Cons entry entries)
  then obtain p where p: "parse_activity_entry entry = Inr p"
    using parse_activity_error [of entry] by (cases "parse_activity_entry entry") auto
  with Cons show ?case by (cases "ae_payment_hash p = settlement_ref") (auto simp: judge_receipt_def Let_def split: if_split_asm)
qed (auto simp: unverified_def)

text \<open>Only positive evidence counts. A receipt is verified, on the recipient's or the sender's
  side, only when the activity the wallet reports now holds a complete entry with exactly that
  payment hash and amount; every failure of the query is an answer that does not verify.\<close>

theorem verified_needs_evidence:
  assumes "kind = ''recv'' \<and> f = wl_verify_receipt wl \<or> kind = ''send'' \<and> f = wl_verify_sender_settlement wl"
    and "f settlement_ref expected w = (Inr r, w')" and "rv_verified r"
  shows "rv_settlement_ref r = settlement_ref \<and> rv_amount_sat r = expected
    \<and> (\<exists>answer entry p. we_run (wl_executor wl) (activity_cmd wl kind) w = (Inr answer, w')
         \<and> entry \<in> set (activity_entries answer) \<and> parse_activity_entry entry = Inr p
         \<and> ae_payment_hash p = settlement_ref \<and> ae_status p = ''COMPLETE'' \<and> rv_fee_sat r = ae_fee_sat p
         \<and> (if kind = ''send'' then \<bar>ae_amount_sat p\<bar> else ae_amount_sat p) = expected)"
proof -
  from assms(1,2) have call: "verify_activity wl kind settlement_ref expected w = (Inr r, w')"
    by (auto simp: wl_verify_receipt_def wl_verify_sender_settlement_def)
  obtain answer where run: "we_run (wl_executor wl) (activity_cmd wl kind) w = (Inr answer, w')"
    and loop: "verify_loop kind settlement_ref expected (activity_entries answer) = Inr r"
    using call assms(3) by (auto simp: verify_activity_def unverified_def split: prod.split_asm sum.split_asm)
  from verify_loop_verified [OF loop assms(3)] run show ?thesis by blast
qed

definition demo_entry :: "string \<Rightarrow> pyjson" where
  "demo_entry status = JObj [(''status'', JStr status), (''amount_sat'', JInt (- 1000)), (''fee_sat'', JInt 2),
     (''payment_hash'', JStr ''h1'')]"

definition demo_daemon :: "pyjson list \<Rightarrow> FakeWavecli" where
  "demo_daemon responses = set_responses responses fake_wavecli_init"

lemma demo_run: "we_run (wl_executor demo_wavelength) cmd (demo_daemon (v # vs)) =
    (Inr v, (demo_daemon vs)\<lparr>fw_calls := [cmd]\<rparr>)"
  by (simp add: demo_wavelength_def fake_wavecli_def fake_run_def demo_daemon_def set_responses_def fake_wavecli_init_def)

lemma parse_demo_entry:
  "parse_activity_entry [(''status'', JStr ''COMPLETE''), (''amount_sat'', JInt (- 1000)), (''fee_sat'', JInt 2),
     (''payment_hash'', JStr ''h1'')] = Inr \<lparr>ae_status = ''COMPLETE'', ae_amount_sat = - 1000, ae_fee_sat = 2, ae_payment_hash = ''h1''\<rparr>"
  by (simp add: parse_activity_entry_def get_or_def extract_payment_hash_def hash_in_def activity_status_def py_upper_def
      upper_char_def Let_def)

theorem verified_needs_evidence_witness:
  "rv_amount_sat (judge_receipt ''send'' ''h1'' 1000
     \<lparr>ae_status = ''COMPLETE'', ae_amount_sat = - 1000, ae_fee_sat = 2, ae_payment_hash = ''h1''\<rparr>) = 1000"
proof -
  let ?r = "judge_receipt ''send'' ''h1'' 1000 \<lparr>ae_status = ''COMPLETE'', ae_amount_sat = - 1000, ae_fee_sat = 2, ae_payment_hash = ''h1''\<rparr>"
  have "wl_verify_sender_settlement demo_wavelength ''h1'' 1000 (demo_daemon [JList [demo_entry ''COMPLETE'']]) =
      (Inr ?r, (demo_daemon [])\<lparr>fw_calls := [activity_cmd demo_wavelength ''send'']\<rparr>)"
    by (simp add: wl_verify_sender_settlement_def verify_activity_def demo_run activity_entries_def demo_entry_def
        parse_demo_entry)
  moreover have "rv_verified ?r" by (simp add: judge_receipt_def)
  ultimately show ?thesis using verified_needs_evidence [of "''send''" "wl_verify_sender_settlement demo_wavelength"] by blast
qed

text \<open>C22: a reconciliation is positive only on evidence. It reports a settlement as complete or
  pending only for a payload that has the approved hash and names the expected amount, when
  the first entry with the payload's payment hash that the wallet reports now has this status
  and this amount; verified means complete.\<close>

theorem reconcile_needs_evidence:
  assumes "wl_reconcile_settlement wl prepared_payload prepared_hash expected w = (Inr r, w')"
    and "rr_verified r \<or> rr_status r \<noteq> ''UNKNOWN''"
  shows "compute_prepared_hash prepared_payload = prepared_hash \<and> rr_amount_sat r = expected
    \<and> rr_status r \<in> {''COMPLETE'', ''PENDING''} \<and> (rr_verified r \<longleftrightarrow> rr_status r = ''COMPLETE'')
    \<and> (\<exists>content payload. utf8_decode prepared_payload = Some content \<and> json_loads content = Some (JObj payload)
         \<and> dict_get payload ''payment_hash'' = Some (JStr (rr_settlement_ref r))
         \<and> py_int (get_or (JInt 0) payload ''amount_sat'') = Inr expected)
    \<and> (\<exists>answer ys entry zs p. we_run (wl_executor wl) (activity_cmd wl ''send'') w = (Inr answer, w')
         \<and> activity_entries answer = ys @ entry # zs \<and> parse_activity_entry entry = Inr p
         \<and> ae_payment_hash p = rr_settlement_ref r \<and> \<bar>ae_amount_sat p\<bar> = expected \<and> ae_status p = rr_status r
         \<and> (\<forall>e \<in> set ys. \<exists>q. parse_activity_entry e = Inr q \<and> ae_payment_hash q \<noteq> rr_settlement_ref r))"
proof -
  have unk: "r \<noteq> unknown ref msg" for ref msg using assms(2) by (auto simp: unknown_def reconcile_default_def)
  have hash: "compute_prepared_hash prepared_payload = prepared_hash"
    using assms(1) unk by (auto simp: wl_reconcile_settlement_def split: if_split_asm)
  obtain v where v: "Option.bind (utf8_decode prepared_payload) json_loads = Some v"
    using assms(1) unk hash by (cases "Option.bind (utf8_decode prepared_payload) json_loads") (auto simp: wl_reconcile_settlement_def)
  obtain payload where payload: "v = JObj payload"
    using assms(1) unk hash v by (cases v) (auto simp: wl_reconcile_settlement_def)
  obtain c cs where ph: "get_or (JStr []) payload ''payment_hash'' = JStr (c # cs)"
    using assms(1) unk hash v payload
    by (auto simp: wl_reconcile_settlement_def split: pyjson.split_asm list.split_asm)
  have amount: "py_int (get_or (JInt 0) payload ''amount_sat'') = Inr expected"
    using assms(1) unk hash v payload ph
    by (auto simp: wl_reconcile_settlement_def Let_def split: sum.split_asm exn.split_asm if_split_asm)
  have query: "query_sender_activity wl (c # cs) expected w = (Inr r, w')"
    using assms(1) hash v payload ph amount by (simp add: wl_reconcile_settlement_def Let_def)
  obtain answer where run: "we_run (wl_executor wl) (activity_cmd wl ''send'') w = (Inr answer, w')"
    and loop: "reconcile_loop (c # cs) expected (activity_entries answer) = Inr r"
    using query unk by (auto simp: query_sender_activity_def split: prod.split_asm sum.split_asm)
  from reconcile_loop_Inr [OF loop] unk obtain ys entry zs p where found: "activity_entries answer = ys @ entry # zs"
    "parse_activity_entry entry = Inr p" "ae_payment_hash p = c # cs" "r = judge_entry (c # cs) expected p"
    "\<forall>e \<in> set ys. \<exists>q. parse_activity_entry e = Inr q \<and> ae_payment_hash q \<noteq> c # cs" by blast
  have r: "rr_settlement_ref r = c # cs" "rr_amount_sat r = expected" "rr_status r \<in> {''COMPLETE'', ''PENDING''}"
    "rr_verified r \<longleftrightarrow> rr_status r = ''COMPLETE''" "\<bar>ae_amount_sat p\<bar> = expected" "ae_status p = rr_status r"
    using assms(2) found(4) by (auto simp: judge_entry_def Let_def split: if_split_asm)
  have "dict_get payload ''payment_hash'' = Some (JStr (c # cs))"
    using ph by (auto simp: get_or_def split: option.split_asm)
  moreover obtain content where "utf8_decode prepared_payload = Some content" "json_loads content = Some (JObj payload)"
    using v payload by (cases "utf8_decode prepared_payload") auto
  ultimately have "\<exists>content payload. utf8_decode prepared_payload = Some content \<and> json_loads content = Some (JObj payload)
         \<and> dict_get payload ''payment_hash'' = Some (JStr (rr_settlement_ref r))
         \<and> py_int (get_or (JInt 0) payload ''amount_sat'') = Inr expected"
    using amount r(1) by (intro exI [of _ content] exI [of _ payload]) simp
  moreover have "\<exists>answer ys entry zs p. we_run (wl_executor wl) (activity_cmd wl ''send'') w = (Inr answer, w')
         \<and> activity_entries answer = ys @ entry # zs \<and> parse_activity_entry entry = Inr p
         \<and> ae_payment_hash p = rr_settlement_ref r \<and> \<bar>ae_amount_sat p\<bar> = expected \<and> ae_status p = rr_status r
         \<and> (\<forall>e \<in> set ys. \<exists>q. parse_activity_entry e = Inr q \<and> ae_payment_hash q \<noteq> rr_settlement_ref r)"
    using run found r
    by (intro exI [of _ answer] exI [of _ ys] exI [of _ entry] exI [of _ zs] exI [of _ p]) simp
  ultimately show ?thesis using hash r by simp
qed

section \<open>From preview to payment\<close>

definition payload_fields :: "Prepared \<Rightarrow> string \<Rightarrow> int \<Rightarrow> (string \<times> pyjson) list" where
  "payload_fields prepared invoice max_fee_sat = (case payload_json prepared invoice max_fee_sat of JObj d \<Rightarrow> d | _ \<Rightarrow> [])"

lemma payload_decodes:
  assumes "json_ok (pre_send_intent_id prepared)" and "json_ok (pre_quote_status prepared)"
  shows "\<exists>payload. Option.bind (utf8_decode (pp_prepared_payload (prepare_result prepared invoice max_fee))) json_loads = Some (JObj payload)
    \<and> get_or v payload ''send_intent_id'' = canon compact_sorted (pre_send_intent_id prepared)
    \<and> (\<forall>v. get_or v payload ''amount_sat'' = JInt (pre_amount_sat prepared))
    \<and> (\<forall>v. get_or v payload ''payment_hash'' = JStr (pre_payment_hash prepared))
    \<and> (\<forall>v. get_or v payload ''expires_at_unix'' = JInt (pre_expires_at_unix prepared))"
proof -
  let ?v = "payload_json prepared invoice max_fee" and ?d = "payload_fields prepared invoice max_fee"
  have d: "?v = JObj ?d" by (simp add: payload_fields_def payload_json_def)
  have ok: "json_ok ?v" using assms by (simp add: payload_json_def)
  obtain payload where payload: "canon compact_sorted ?v = JObj payload" using d by simp
  have decoded: "Option.bind (utf8_decode (pp_prepared_payload (prepare_result prepared invoice max_fee))) json_loads = Some (JObj payload)"
    using json_roundtrip [OF opts_ok_in_use(1) ok] payload by (simp add: prepare_result_def Let_def del: json_dumps.simps)
  have get: "dict_get payload k = map_option (canon compact_sorted) (dict_get ?d k)" for k
    using dict_get_canon [of ?d compact_sorted payload k] ok payload d by simp
  show ?thesis
    using decoded by (intro exI [of _ payload]) (simp add: get_or_def get payload_fields_def payload_json_def)
qed

lemma check_preview_Inr:
  "check_preview prepared now amount_sat max_fee_sat = Inr u \<longleftrightarrow>
    now < pre_expires_at_unix prepared \<and> pre_amount_sat prepared = amount_sat \<and> pre_expected_fee_sat prepared \<le> max_fee_sat
    \<and> pre_expected_total_outflow_sat prepared = pre_amount_sat prepared + pre_expected_fee_sat prepared"
  by (auto simp: check_preview_def)

lemma wl_prepare_Inr:
  assumes "wl_prepare wl ri amount_sat max_fee_sat w = (Inr pp, w')"
  shows "\<exists>invoice answer prepared. ri_rail ri = LIGHTNING \<and> ri_invoice ri = Some invoice \<and> invoice \<noteq> []
    \<and> we_run (wl_executor wl) (rpc_cmd wl ''PrepareSend'' (prepare_request invoice max_fee_sat)) w = (Inr answer, w')
    \<and> parse_prepare_response answer = Inr prepared \<and> check_preview prepared (wl_clock wl w') amount_sat max_fee_sat = Inr ()
    \<and> pp = prepare_result prepared invoice max_fee_sat"
proof (cases "ri_rail ri = LIGHTNING \<and> (\<exists>invoice. ri_invoice ri = Some invoice \<and> invoice \<noteq> [])")
  case True
  then obtain invoice where "ri_rail ri = LIGHTNING" "ri_invoice ri = Some invoice" "invoice \<noteq> []" by blast
  with assms show ?thesis
    by (auto simp: wl_prepare_def bindE_Inr_iff split: prod.split_asm sum.split_asm if_split_asm)
next
  case False
  with assms show ?thesis by (auto simp: wl_prepare_def split: if_split_asm option.split_asm)
qed

lemma parse_prepare_Inr:
  assumes "parse_prepare_response answer = Inr prepared"
  shows "\<exists>data. answer = JObj data \<and> pre_send_intent_id prepared = get_or (JStr []) data ''send_intent_id''
    \<and> py_truthy (pre_send_intent_id prepared) \<and> pre_quote_status prepared = get_or (JStr []) data ''quote_status''
    \<and> JStr (pre_payment_hash prepared) = get_or (JStr []) data ''payment_hash'' \<and> pre_payment_hash prepared \<noteq> []"
proof (cases answer)
  case (JObj data)
  with assms show ?thesis
    by (auto simp: parse_prepare_response_def bindE_Inr_iff split: pyjson.split_asm list.split_asm)
qed (use assms in \<open>auto simp: parse_prepare_response_def\<close>)

text \<open>C23: a preview that does not fit is never offered for approval. When \<open>prepare\<close> succeeds, it ran
  one \<open>PrepareSend\<close> for the invoice and the fee limit, and the daemon's preview names a send
  intent and a payment hash, is for exactly the quoted amount, costs at most the fee limit,
  adds up, and has not expired; the approved hash is the hash of the payload that holds it.\<close>

theorem prepare_bounds:
  assumes "wl_prepare wl receive_instruction amount_sat max_fee_sat w = (Inr pp, w')"
  shows "\<exists>invoice answer prepared.
    ri_rail receive_instruction = LIGHTNING \<and> ri_invoice receive_instruction = Some invoice
    \<and> we_run (wl_executor wl) (rpc_cmd wl ''PrepareSend'' (prepare_request invoice max_fee_sat)) w = (Inr answer, w')
    \<and> parse_prepare_response answer = Inr prepared \<and> py_truthy (pre_send_intent_id prepared) \<and> pre_payment_hash prepared \<noteq> []
    \<and> pre_amount_sat prepared = amount_sat \<and> pp_fee_sat pp = pre_expected_fee_sat prepared \<and> pp_fee_sat pp \<le> max_fee_sat
    \<and> pre_expected_total_outflow_sat prepared = amount_sat + pp_fee_sat pp
    \<and> wl_clock wl w' < pre_expires_at_unix prepared
    \<and> pp_prepared_hash pp = compute_prepared_hash (pp_prepared_payload pp)"
proof -
  from wl_prepare_Inr [OF assms] obtain invoice answer prepared where
    call: "ri_rail receive_instruction = LIGHTNING" "ri_invoice receive_instruction = Some invoice"
      "we_run (wl_executor wl) (rpc_cmd wl ''PrepareSend'' (prepare_request invoice max_fee_sat)) w = (Inr answer, w')"
    and parsed: "parse_prepare_response answer = Inr prepared"
    and ok: "check_preview prepared (wl_clock wl w') amount_sat max_fee_sat = Inr ()"
    and pp: "pp = prepare_result prepared invoice max_fee_sat" by blast
  from parse_prepare_Inr [OF parsed] have "py_truthy (pre_send_intent_id prepared)" "pre_payment_hash prepared \<noteq> []" by blast+
  with call parsed ok show ?thesis
    by (intro exI [of _ invoice] exI [of _ answer] exI [of _ prepared])
      (simp add: check_preview_Inr pp prepare_result_def Let_def)
qed

definition demo_preview :: "(string \<times> pyjson) list" where
  "demo_preview = [(''send_intent_id'', JStr ''tok''), (''amount_sat'', JStr ''1000''), (''expected_fee_sat'', JInt 2), (''fee_known'', JBool True),
     (''expected_total_outflow_sat'', JInt 1002), (''total_outflow_known'', JBool True), (''rail'', JStr ''SEND_RAIL_LIGHTNING''),
     (''payment_hash'', JStr ''h1''), (''expires_at_unix'', JInt 500)]"

definition demo_prepared :: Prepared where
  "demo_prepared = \<lparr>pre_send_intent_id = JStr ''tok'', pre_amount_sat = 1000, pre_expected_fee_sat = 2, pre_fee_known = True,
     pre_expected_total_outflow_sat = 1002, pre_total_outflow_known = True, pre_rail = ''LIGHTNING'', pre_payment_hash = ''h1'',
     pre_expires_at_unix = 500, pre_quote_status = JStr []\<rparr>"

lemma parse_demo_preview: "parse_prepare_response (JObj demo_preview) = Inr demo_prepared"
proof -
  have "numeric_field demo_preview ''amount_sat'' = Inr (JInt 1000)" by code_simp
  then show ?thesis
    by (simp add: parse_prepare_response_def demo_preview_def demo_prepared_def get_or_def numeric_field_def)
qed

definition demo_instruction :: RailReceiveInstruction where
  "demo_instruction = \<lparr>ri_rail = LIGHTNING, ri_invoice = Some ''lnbcrt1x''\<rparr>"

lemma demo_prepare:
  "wl_prepare demo_wavelength demo_instruction 1000 10 (demo_daemon (JObj demo_preview # rest)) =
    (Inr (prepare_result demo_prepared ''lnbcrt1x'' 10),
     (demo_daemon rest)\<lparr>fw_calls := [rpc_cmd demo_wavelength ''PrepareSend'' (prepare_request ''lnbcrt1x'' 10)]\<rparr>)"
proof -
  have "check_preview demo_prepared 100 1000 10 = Inr ()" by (simp add: check_preview_def demo_prepared_def)
  moreover have "wl_clock demo_wavelength w = 100" for w by (simp add: demo_wavelength_def)
  ultimately show ?thesis by (simp add: wl_prepare_def demo_instruction_def demo_run parse_demo_preview)
qed

theorem prepare_bounds_witness:
  "pp_fee_sat (prepare_result demo_prepared ''lnbcrt1x'' 10) \<le> 10"
  using prepare_bounds [OF demo_prepare [of "[]"]] by blast

lemma judge_send_Inr:
  assumes "judge_send payload sp = Inr er" and "get_or JNull payload ''amount_sat'' = JInt amount"
    and "get_or JNull payload ''payment_hash'' = JStr h"
  shows "sp_status sp = ''COMPLETE'' \<and> sp_entry_id sp = JStr h \<and> sp_payment_hash sp = JStr h \<and> sp_amount_sat sp = amount
    \<and> er = \<lparr>er_settlement_ref = h, er_amount_sat = amount, er_fee_sat = sp_fee_sat sp, er_rail = LIGHTNING\<rparr>"
proof -
  have err: "bindE x (\<lambda>t. Inl (f t)) \<noteq> Inr (er :: ExecuteResult)" for x :: "exn + string" and f by (cases x) auto
  from assms(1) err have st: "sp_status sp = ''COMPLETE''" by (auto simp: judge_send_def split: if_split_asm)
  with assms show ?thesis by (auto simp: judge_send_def simp del: py_eq.simps split: if_split_asm)
qed

lemma dispatch_prepared:
  assumes "json_ok (pre_send_intent_id prepared)" and "json_ok (pre_quote_status prepared)"
    and "py_truthy (canon compact_sorted (pre_send_intent_id prepared))" and "now < pre_expires_at_unix prepared"
  shows "\<exists>payload. (let pp = prepare_result prepared invoice max_fee in
      dispatch_checks (pp_prepared_payload pp) (pp_prepared_hash pp) now =
        Inr (canon compact_sorted (pre_send_intent_id prepared), payload))
    \<and> get_or JNull payload ''amount_sat'' = JInt (pre_amount_sat prepared)
    \<and> get_or JNull payload ''payment_hash'' = JStr (pre_payment_hash prepared)"
proof -
  let ?pp = "prepare_result prepared invoice max_fee"
  from payload_decodes [OF assms(1,2), of invoice max_fee "JStr []"] obtain payload where
    payload: "Option.bind (utf8_decode (pp_prepared_payload ?pp)) json_loads = Some (JObj payload)"
    "get_or (JStr []) payload ''send_intent_id'' = canon compact_sorted (pre_send_intent_id prepared)"
    "\<forall>v. get_or v payload ''amount_sat'' = JInt (pre_amount_sat prepared)"
    "\<forall>v. get_or v payload ''payment_hash'' = JStr (pre_payment_hash prepared)"
    "\<forall>v. get_or v payload ''expires_at_unix'' = JInt (pre_expires_at_unix prepared)" by blast
  have "pp_prepared_hash ?pp = compute_prepared_hash (pp_prepared_payload ?pp)" by (simp add: prepare_result_def Let_def)
  with payload assms(3,4) show ?thesis
    by (intro exI [of _ payload]) (simp add: dispatch_checks_def Let_def)
qed

text \<open>C17: what was prepared is what is paid. Executing the payload and hash that \<open>prepare\<close> returned,
  before the preview expires, runs exactly one command, the \<open>Send\<close> of the send intent the
  daemon had answered, and never prepares again. It succeeds only when the daemon reports this
  very payment as complete: the entry and payment hash of the preview and the quoted amount;
  the fee is the one the daemon reports.\<close>

theorem prepared_is_what_is_paid:
  assumes "wl_prepare wl receive_instruction amount_sat max_fee_sat w = (Inr pp, w1)"
    and "ri_invoice receive_instruction = Some invoice"
    and "we_run (wl_executor wl) (rpc_cmd wl ''PrepareSend'' (prepare_request invoice max_fee_sat)) w = (Inr (JObj preview), w1)"
    and "json_ok (JObj preview)" and "dict_get preview ''send_intent_id'' = Some (JStr token)"
    and "parse_prepare_response (JObj preview) = Inr prepared" and "wl_clock wl w2 < pre_expires_at_unix prepared"
  shows "let (out, w3) = wl_execute wl (pp_prepared_payload pp) (pp_prepared_hash pp) w2;
             (answer, w4) = we_run (wl_executor wl) (rpc_cmd wl ''Send'' (send_request (JStr token))) w2
    in w3 = w4 \<and> (\<forall>er. out = Inr er \<longrightarrow>
         er_amount_sat er = amount_sat \<and> er_settlement_ref er = pre_payment_hash prepared
         \<and> (\<exists>v sp. answer = Inr v \<and> parse_send_response v = Inr sp \<and> sp_status sp = ''COMPLETE''
              \<and> sp_entry_id sp = JStr (pre_payment_hash prepared) \<and> sp_amount_sat sp = amount_sat
              \<and> er_fee_sat er = sp_fee_sat sp))"
proof -
  from wl_prepare_Inr [OF assms(1)] assms(2,3,6)
  have pp: "pp = prepare_result prepared invoice max_fee_sat" and amount: "pre_amount_sat prepared = amount_sat"
    by (auto simp: check_preview_Inr)
  from parse_prepare_Inr [OF assms(6)] assms(5)
  have token: "pre_send_intent_id prepared = JStr token" "token \<noteq> []"
    and quote: "pre_quote_status prepared = get_or (JStr []) preview ''quote_status''" by (auto simp: get_or_def)
  have "json_ok (pre_quote_status prepared)"
    using assms(4) quote by (auto simp: get_or_def list_all_iff split: option.split dest!: map_of_SomeD)
  with token assms(7) dispatch_prepared [of prepared "wl_clock wl w2" invoice max_fee_sat]
  obtain payload where checks: "dispatch_checks (pp_prepared_payload pp) (pp_prepared_hash pp) (wl_clock wl w2) = Inr (JStr token, payload)"
    and data: "get_or JNull payload ''amount_sat'' = JInt amount_sat"
      "get_or JNull payload ''payment_hash'' = JStr (pre_payment_hash prepared)"
    by (auto simp: pp Let_def amount)
  obtain answer w4 where run: "we_run (wl_executor wl) (rpc_cmd wl ''Send'' (send_request (JStr token))) w2 = (answer, w4)" by force
  show ?thesis
  proof (cases answer)
    case (Inl e)
    with checks run show ?thesis by (simp add: wl_execute_def)
  next
    case (Inr v)
    show ?thesis
    proof (cases "parse_send_response v")
      case (Inl e)
      with Inr checks run show ?thesis by (simp add: wl_execute_def)
    next
      case parsed: (Inr sp)
      with Inr checks run judge_send_Inr [OF _ data, of sp] show ?thesis by (auto simp: wl_execute_def Let_def)
    qed
  qed
qed

definition demo_send :: "int \<Rightarrow> pyjson" where
  "demo_send fee = JObj [(''entry'', JObj [(''id'', JStr ''h1''), (''status'', JInt 2), (''fee_sat'', JInt fee)]), (''actual_amount_sat'', JInt 1000)]"

lemma parse_demo_send:
  "parse_send_response (demo_send fee) = Inr \<lparr>sp_entry_id = JStr ''h1'', sp_payment_hash = JStr ''h1'', sp_amount_sat = 1000,
     sp_fee_sat = fee, sp_status = ''COMPLETE''\<rparr>"
  by (simp add: parse_send_response_def demo_send_def get_or_def extract_payment_hash_def hash_in_def send_status_def
      proto_status_def Let_def)

lemma demo_preview_ok: "json_ok (JObj demo_preview)"
  by (simp add: demo_preview_def)

theorem prepared_is_what_is_paid_witness:
  "snd (wl_execute demo_wavelength (pp_prepared_payload (prepare_result demo_prepared ''lnbcrt1x'' 10))
       (pp_prepared_hash (prepare_result demo_prepared ''lnbcrt1x'' 10)) (demo_daemon [demo_send 2])) =
   (demo_daemon [])\<lparr>fw_calls := [rpc_cmd demo_wavelength ''Send'' (send_request (JStr ''tok''))]\<rparr>"
proof -
  have "dict_get demo_preview ''send_intent_id'' = Some (JStr ''tok'')" "ri_invoice demo_instruction = Some ''lnbcrt1x''"
    "wl_clock demo_wavelength (demo_daemon [demo_send 2]) < pre_expires_at_unix demo_prepared"
    by (simp_all add: demo_preview_def demo_instruction_def demo_wavelength_def demo_prepared_def)
  from prepared_is_what_is_paid [OF demo_prepare [of "[]"] this(2) _ demo_preview_ok this(1) parse_demo_preview this(3)]
  show ?thesis by (simp add: demo_run Let_def split: prod.splits)
qed

theorem reconcile_needs_evidence_witness:
  "rr_amount_sat (judge_entry ''h1'' 1000
     \<lparr>ae_status = ''COMPLETE'', ae_amount_sat = - 1000, ae_fee_sat = 2, ae_payment_hash = ''h1''\<rparr>) = 1000"
proof -
  let ?pp = "prepare_result demo_prepared ''lnbcrt1x'' 10"
  let ?r = "judge_entry ''h1'' 1000 \<lparr>ae_status = ''COMPLETE'', ae_amount_sat = - 1000, ae_fee_sat = 2, ae_payment_hash = ''h1''\<rparr>"
  from payload_decodes [of demo_prepared "''lnbcrt1x''" 10 JNull] obtain payload where
    payload: "Option.bind (utf8_decode (pp_prepared_payload ?pp)) json_loads = Some (JObj payload)"
    "\<forall>v. get_or v payload ''amount_sat'' = JInt 1000" "\<forall>v. get_or v payload ''payment_hash'' = JStr ''h1''"
    by (auto simp: demo_prepared_def)
  have "query_sender_activity demo_wavelength ''h1'' 1000 (demo_daemon [JList [demo_entry ''COMPLETE'']]) =
      (Inr ?r, (demo_daemon [])\<lparr>fw_calls := [activity_cmd demo_wavelength ''send'']\<rparr>)"
    by (simp add: query_sender_activity_def demo_run activity_entries_def demo_entry_def parse_demo_entry)
  with payload have call: "wl_reconcile_settlement demo_wavelength (pp_prepared_payload ?pp) (compute_prepared_hash (pp_prepared_payload ?pp)) 1000
      (demo_daemon [JList [demo_entry ''COMPLETE'']]) = (Inr ?r, (demo_daemon [])\<lparr>fw_calls := [activity_cmd demo_wavelength ''send'']\<rparr>)"
    by (simp add: wl_reconcile_settlement_def Let_def)
  have "rr_verified ?r \<or> rr_status ?r \<noteq> ''UNKNOWN''" by (simp add: judge_entry_def)
  from reconcile_needs_evidence [OF call this] show ?thesis by (rule conjunct1 [OF conjunct2])
qed

text \<open>The fee of the answer is not compared with the preview, so any fee at all is accepted.\<close>

lemma fee_limit_not_enforced:
  "fst (wl_execute demo_wavelength (pp_prepared_payload (prepare_result demo_prepared ''lnbcrt1x'' 10))
       (pp_prepared_hash (prepare_result demo_prepared ''lnbcrt1x'' 10)) (demo_daemon [demo_send fee])) =
   Inr \<lparr>er_settlement_ref = ''h1'', er_amount_sat = 1000, er_fee_sat = fee, er_rail = LIGHTNING\<rparr>"
proof -
  let ?pp = "prepare_result demo_prepared ''lnbcrt1x'' 10"
  from dispatch_prepared [of demo_prepared 100 "''lnbcrt1x''" 10] obtain payload where
    "dispatch_checks (pp_prepared_payload ?pp) (pp_prepared_hash ?pp) 100 = Inr (JStr ''tok'', payload)"
    "get_or JNull payload ''amount_sat'' = JInt 1000" "get_or JNull payload ''payment_hash'' = JStr ''h1''"
    by (auto simp: demo_prepared_def Let_def)
  moreover have "wl_clock demo_wavelength w = 100" for w by (simp add: demo_wavelength_def)
  ultimately show ?thesis by (simp add: wl_execute_def demo_run parse_demo_send judge_send_def)
qed

end
