(* ===== verification/Policy_Behaviour.thy ===== *)
theory Policy_Behaviour
  imports Sessions
begin

text \<open>
  What the single methods of the policy engine return and leave behind, branch by branch:
  \<open>submit\<close>, \<open>receive_quote\<close>, \<open>prepare\<close>, \<open>approve\<close>, \<open>execute\<close>, \<open>receive_receipt\<close>,
  \<open>confirm_settled\<close>, \<open>reconcile_settlement\<close> and the expiry sweep.
\<close>

definition audit_writable :: "policy_env \<Rightarrow> bool" where
  "audit_writable env \<longleftrightarrow> (\<forall>event iid. env_audit_ok env event iid)"

definition state_of :: "string \<Rightarrow> 'w Orch \<Rightarrow> PaymentState option" where
  "state_of k orc = map_option rec_state (dict_get (orch_intents orc) k)"

lemma audited_fst [simp]: "audit_writable env \<Longrightarrow> fst (audited env event iid kw out orc) = out"
  by (auto simp: audited_def audit_append_def audit_writable_def Let_def simp del: json_dumps.simps)

lemma audited_pair: "audit_writable env \<Longrightarrow> audited env event iid kw out orc =
    (out, orc\<lparr>orch_audit := snd (audit_append True (env_ts env event iid) event
       ((''intent_id'', JStr iid) # kw) (orch_audit orc))\<rparr>)"
  using audited_orch [of env event iid kw out orc] audited_fst [of env event iid kw out orc]
  by (simp add: audit_writable_def prod_eq_iff)

lemma demo_writable: "audit_writable demo_env"
  by (simp add: audit_writable_def demo_env_def)

lemma record_result:
  "fst (record_receipt True k ref st) = Inr ()" "fst (record_approval True t st) = Inr ()"
  "fst (record_intent True k st) = Inr ()"
  by (simp_all add: record_receipt_def record_approval_def record_intent_def store_save_def)

section \<open>Execution\<close>

text \<open>C20: what \<open>execute\<close> does with each answer of the adapter. An adapter error, ambiguous or not,
  parks the intent in \<open>RECONCILIATION_REQUIRED\<close> and is never retried; a success settles it
  with a receipt for the approved amount whose reference is recorded; but any other
  exception of the adapter, a result that does not validate as a receipt, and a failing
  store write leave it in \<open>EXECUTING\<close>.\<close>

theorem execute_outcomes:
  assumes "find_by_state APPROVED orc = Inr (k, rc)" and "rec_prepared rc = Some p" and "audit_writable env"
    and "sa_execute (cf_adapter cfg) (pp_prepared_payload p) (pp_prepared_hash p) (orch_world orc) = (res, w)"
  shows "case execute cfg env orc of (out, orc') \<Rightarrow> orch_world orc' = w \<and>
    (case res of
       Inl e \<Rightarrow> if is_adapter_error e
         then (\<exists>m. out = Inl (StateError m)) \<and> state_of k orc' = Some RECONCILIATION_REQUIRED \<and> orch_store orc' = orch_store orc
         else out = Inl (Raised e) \<and> state_of k orc' = Some EXECUTING \<and> orch_store orc' = orch_store orc
     | Inr er \<Rightarrow>
         let r = build_receipt (env_now env) rc er in
         if \<not> receipt_ok r then out = Inl (Raised ValidationError) \<and> state_of k orc' = Some EXECUTING
         else (case fst (record_receipt (env_store_ok env) (pi_id (rec_intent rc)) (er_settlement_ref er) (orch_store orc)) of
             Inl e \<Rightarrow> out = Inl (Raised e) \<and> state_of k orc' = Some EXECUTING
           | Inr _ \<Rightarrow> out = Inr r \<and> state_of k orc' = Some SETTLED
               \<and> pr_amount_sat r = pi_amount_sat (rec_intent rc)
               \<and> get_receipt (orch_store orc') (pi_id (rec_intent rc)) = Some (er_settlement_ref er)))"
proof -
  have st: "rec_state rc = APPROVED"
  proof -
    from assms(1) have "(k, rc) \<in> set (filter (\<lambda>(_, r). rec_state r = APPROVED) (orch_intents orc))"
      unfolding find_by_state_def
      by (cases "filter (\<lambda>(_, r). rec_state r = APPROVED) (orch_intents orc)") (simp_all add: Let_def)
    then show ?thesis by simp
  qed
  let ?rr = "record_receipt (env_store_ok env) (pi_id (rec_intent rc))"
  show ?thesis
  proof (cases res)
    case (Inl e)
    then show ?thesis
      using assms st by (auto simp: execute_def Let_def audited_pair frame_simps execute_failed_def state_of_def
          split: prod.splits exn.splits)
  next
    case (Inr er)
    obtain out st' where rr: "?rr (er_settlement_ref er) (orch_store orc) = (out, st')" by force
    then have "get_receipt st' (pi_id (rec_intent rc)) = Some (er_settlement_ref er)"
      using get_receipt_record_receipt [of "env_store_ok env" "pi_id (rec_intent rc)" "er_settlement_ref er" "orch_store orc"]
      by simp
    then show ?thesis
      using assms st Inr rr
      by (cases out) (auto simp: execute_def Let_def audited_pair frame_simps execute_settled_def state_of_def build_receipt_def
          split: prod.splits)
  qed
qed

theorem execute_outcomes_witness:
  "fst (execute demo_config demo_env (demo_at APPROVED)) = Inr (build_receipt 1000 (demo_record\<lparr>rec_state := APPROVED\<rparr>)
      \<lparr>er_settlement_ref = ''r1'', er_amount_sat = 100, er_fee_sat = 1, er_rail = LIGHTNING\<rparr>)
    \<and> state_of ''i1'' (snd (execute demo_config demo_env (demo_at APPROVED))) = Some SETTLED"
proof -
  let ?p = "\<lparr>pp_fee_sat = 1, pp_prepared_hash = ''h1'', pp_rail = LIGHTNING, pp_prepared_payload = ''tx''\<rparr>"
  let ?er = "\<lparr>er_settlement_ref = ''r1'', er_amount_sat = 100, er_fee_sat = 1, er_rail = LIGHTNING\<rparr>"
  have "sa_execute (cf_adapter demo_config) (pp_prepared_payload ?p) (pp_prepared_hash ?p) (orch_world (demo_at APPROVED))
      = (Inr ?er, 1)" by (simp add: demo_config_def demo_adapter_def demo_at_def demo_start_def)
  from execute_outcomes [OF demo_at_simps(3) _ demo_writable this] show ?thesis
    by (auto simp: Let_def demo_record_def new_record_def receipt_ok_def identity_ok_def build_receipt_def demo_env_def
        demo_intent_def sample_bob_def record_result split: prod.splits)
qed

section \<open>Submission and quotes\<close>

text \<open>\<open>submit\<close> tracks a new intent exactly when it is unexpired and its recipient is allowed,
  and is idempotent: once a submission returned normally, repeating it, at any later time
  and under any configuration, returns normally and changes nothing.\<close>

theorem submit_spec:
  assumes "audit_writable env" and "env_store_ok env" and "\<not> has_intent (orch_store orc) (pi_id i)"
  shows "(fst (submit cfg env i orc) = Inr () \<longleftrightarrow>
       (pi_expires_at i = 0 \<or> env_now env \<le> pi_expires_at i) \<and> recipient_allowed cfg (pi_recipient i))
    \<and> (fst (submit cfg env i orc) = Inr () \<longrightarrow>
       state_of (pi_id i) (snd (submit cfg env i orc)) = Some SUBMITTED
       \<and> (\<forall>cfg' env'. submit cfg' env' i (snd (submit cfg env i orc)) = (Inr (), snd (submit cfg env i orc))))
    \<and> (\<forall>e. fst (submit cfg env i orc) = Inl e \<longrightarrow> snd (submit cfg env i orc) = orc)"
proof -
  obtain out st where r: "record_intent True (pi_id i) (orch_store orc) = (out, st)" by force
  with record_result(3) [of "pi_id i" "orch_store orc"] intents.seen_mark [of True "pi_id i" "orch_store orc"]
  have "out = Inr ()" "has_intent st (pi_id i)" by auto
  with r have r: "record_intent True (pi_id i) (orch_store orc) = (Inr (), st)" and seen: "has_intent st (pi_id i)" by simp_all
  show ?thesis
    using assms r seen
    by (auto simp: submit_def Let_def check_intent_expired_def validate_recipient_def recipient_allowed_def new_record_def
        audited_pair state_of_def not_less split: option.splits)
qed

theorem submit_spec_witness:
  "fst (submit demo_config demo_env demo_intent demo_start) = Inr ()
    \<and> submit demo_config demo_env demo_intent (snd (submit demo_config demo_env demo_intent demo_start))
      = (Inr (), snd (submit demo_config demo_env demo_intent demo_start))"
  using submit_spec [OF demo_writable, of demo_start demo_intent demo_config]
  by (simp add: demo_env_def demo_start_def empty_store_def has_intent_def demo_intent_def demo_config_def recipient_allowed_def)

text \<open>A quote is accepted exactly when its intent is tracked and still \<open>SUBMITTED\<close>, its fee is
  within the intent's limit and it has not expired.\<close>

theorem receive_quote_accepts_iff:
  assumes "audit_writable env"
  shows "fst (receive_quote env q orc) = Inr () \<longleftrightarrow>
    (\<exists>rc. dict_get (orch_intents orc) (pq_intent_id q) = Some rc \<and> rec_state rc = SUBMITTED
       \<and> pq_fee_sat q \<le> pi_max_fee_sat (rec_intent rc) \<and> env_now env \<le> pq_expires_at q)"
proof -
  have "ok (transition s ''quote_received'') \<longleftrightarrow> s = SUBMITTED" for s
    by (cases s) (simp_all add: transition_ok_iff TRANSITIONS_def)
  then show ?thesis
    using assms by (auto simp: receive_quote_def get_record_def Let_def not_less split: option.splits)
qed

theorem receive_quote_accepts_iff_witness:
  "fst (receive_quote demo_env demo_quote (demo_at SUBMITTED)) = Inr ()"
proof -
  have "pq_intent_id demo_quote = ''i1''" by (simp add: demo_quote_def)
  then show ?thesis
    unfolding receive_quote_accepts_iff [OF demo_writable]
    by (simp add: demo_record_def new_record_def demo_quote_def demo_intent_def demo_env_def)
qed

text \<open>C38: a refused quote still rebinds. On an intent that is already prepared, a second quote
  within the fee limit and not expired is refused with \<open>SubmissionRejected\<close>, but the record
  keeps it: afterwards the approval of the quote that was prepared is refused, and an
  approval that names the refused quote together with the old prepared hash is accepted.\<close>

theorem refused_quote_rebinds:
  assumes "dict_get (orch_intents orc) k = Some rc" and "rec_state rc = PREPARED"
    and "rec_quote rc = Some q" and "rec_prepared rc = Some p"
    and "pq_intent_id q' = k" and "pq_fee_sat q' \<le> pi_max_fee_sat (rec_intent rc)"
    and "env_now env \<le> pq_expires_at q'" and "pq_quote_id q' \<noteq> pq_quote_id q"
    and "approval_triple a = (k, pq_quote_id q, pp_prepared_hash p)"
    and "approval_triple a' = (k, pq_quote_id q', pp_prepared_hash p)"
    and "\<not> has_approval (orch_store orc) (approval_triple a')"
    and "audit_writable env" and "env_store_ok env"
  shows "case receive_quote env q' orc of (out, orc') \<Rightarrow>
      (\<exists>m. out = Inl (SubmissionRejected m)) \<and> state_of k orc' = Some PREPARED
    \<and> (\<exists>m. approve env a orc' = (Inl (ApprovalRejected m), orc'))
    \<and> fst (approve env a' orc') = Inr () \<and> state_of k (snd (approve env a' orc')) = Some APPROVED"
proof -
  have refused: "\<not> ok (transition PREPARED ''quote_received'')" by (simp add: transition_ok_iff TRANSITIONS_def)
  let ?orc = "put_record k (rc\<lparr>rec_quote := Some q', rec_quote_expires_at := pq_expires_at q'\<rparr>) orc"
  have rq: "\<exists>m. receive_quote env q' orc = (Inl (SubmissionRejected m), ?orc)"
    using assms(1-8) refused by (auto simp: receive_quote_def get_record_def Let_def)
  obtain out st where r: "record_approval True (approval_triple a') (orch_store orc) = (out, st)" by force
  with record_result(2) [of "approval_triple a'" "orch_store orc"]
  have r: "record_approval True (k, pq_quote_id q', pp_prepared_hash p) (orch_store orc) = (Inr (), st)"
    using assms(10) by auto
  have "fst (approve env a' ?orc) = Inr () \<and> state_of k (snd (approve env a' ?orc)) = Some APPROVED"
    using assms(2,4,10-13) r
    by (simp add: approve_def get_record_def Let_def audited_pair state_of_def split: prod.splits)
  moreover have "\<exists>m. approve env a ?orc = (Inl (ApprovalRejected m), ?orc)"
    using assms(8,9) by (simp add: approve_def get_record_def)
  ultimately show ?thesis using rq assms(2) by (auto simp: state_of_def)
qed

theorem refused_quote_rebinds_witness:
  "let q' = demo_quote\<lparr>pq_quote_id := ''q2''\<rparr>; orc' = snd (receive_quote demo_env q' (demo_at PREPARED)) in
    (\<exists>m. approve demo_env demo_approval orc' = (Inl (ApprovalRejected m), orc'))
    \<and> fst (approve demo_env (demo_approval\<lparr>pa_quote_id := ''q2''\<rparr>) orc') = Inr ()"
proof -
  let ?rc = "demo_record\<lparr>rec_state := PREPARED\<rparr>" and ?q' = "demo_quote\<lparr>pq_quote_id := ''q2''\<rparr>"
    and ?a' = "demo_approval\<lparr>pa_quote_id := ''q2''\<rparr>"
    and ?p = "\<lparr>pp_fee_sat = 1, pp_prepared_hash = ''h1'', pp_rail = LIGHTNING, pp_prepared_payload = ''tx''\<rparr>"
  have "rec_quote ?rc = Some demo_quote" "rec_prepared ?rc = Some ?p" "pq_intent_id ?q' = ''i1''"
    "pq_fee_sat ?q' \<le> pi_max_fee_sat (rec_intent ?rc)" "env_now demo_env \<le> pq_expires_at ?q'"
    "pq_quote_id ?q' \<noteq> pq_quote_id demo_quote" "env_store_ok demo_env"
    "approval_triple demo_approval = (''i1'', pq_quote_id demo_quote, pp_prepared_hash ?p)"
    "approval_triple ?a' = (''i1'', pq_quote_id ?q', pp_prepared_hash ?p)"
    "\<not> has_approval (orch_store (demo_at PREPARED)) (approval_triple ?a')"
    by (simp_all add: demo_record_def new_record_def demo_quote_def demo_intent_def demo_env_def demo_approval_def
        empty_store_def has_approval_def)
  from refused_quote_rebinds [OF demo_at_simps(1) _ this(1-6) this(8-10) demo_writable this(7)]
  show ?thesis by (simp add: Let_def split: prod.splits)
qed

section \<open>Approval\<close>

text \<open>An approval is accepted exactly when the intent is tracked and \<open>PREPARED\<close>, the approval
  names its current quote and the hash of its prepared payload, and the triple was never
  used; accepting it moves the intent to \<open>APPROVED\<close> and makes the triple a replay. A
  refusal changes nothing.\<close>

theorem approve_spec:
  assumes "audit_writable env" and "env_store_ok env"
  shows "(fst (approve env a orc) = Inr () \<longleftrightarrow>
       (\<exists>rc. dict_get (orch_intents orc) (pa_intent_id a) = Some rc \<and> rec_state rc = PREPARED
          \<and> approval_matches a (pa_intent_id a) rc \<and> \<not> has_approval (orch_store orc) (approval_triple a)))
    \<and> (fst (approve env a orc) = Inr () \<longrightarrow>
       state_of (pa_intent_id a) (snd (approve env a orc)) = Some APPROVED
       \<and> has_approval (orch_store (snd (approve env a orc))) (approval_triple a)
       \<and> (\<exists>e. approve env a (snd (approve env a orc)) = (Inl e, snd (approve env a orc))))
    \<and> (\<forall>e. fst (approve env a orc) = Inl e \<longrightarrow> snd (approve env a orc) = orc)"
proof -
  obtain out st where r: "record_approval True (approval_triple a) (orch_store orc) = (out, st)" by force
  with record_result(2) [of "approval_triple a" "orch_store orc"]
    approvals.seen_mark [of True "approval_triple a" "orch_store orc"]
  have r: "record_approval True (approval_triple a) (orch_store orc) = (Inr (), st)"
    and seen: "has_approval st (approval_triple a)" by auto
  show ?thesis
    using assms r seen
    by (auto simp: approve_def get_record_def Let_def audited_pair state_of_def approval_matches_def split: option.splits)
qed

theorem approve_spec_witness:
  "fst (approve demo_env demo_approval (demo_at PREPARED)) = Inr ()
    \<and> state_of ''i1'' (snd (approve demo_env demo_approval (demo_at PREPARED))) = Some APPROVED"
proof -
  have "env_store_ok demo_env" by (simp add: demo_env_def)
  have i: "pa_intent_id demo_approval = ''i1''" by (simp add: demo_approval_def)
  have "approval_matches demo_approval ''i1'' (demo_record\<lparr>rec_state := PREPARED\<rparr>)"
    by (simp add: approval_matches_def demo_record_def demo_approval_def demo_quote_def new_record_def)
  moreover have "\<not> has_approval (orch_store (demo_at PREPARED)) (approval_triple demo_approval)"
    by (simp add: has_approval_def empty_store_def)
  ultimately show ?thesis
    using approve_spec [OF demo_writable \<open>env_store_ok demo_env\<close>, of demo_approval "demo_at PREPARED"] by (simp add: i)
qed

section \<open>Receipts and reconciliation\<close>

text \<open>An external receipt settles an intent exactly when the intent is executing or awaiting
  reconciliation, has no recorded receipt, the amount and the quote match, and the
  adapter finds the outgoing settlement on the sender's side; otherwise no record and no
  replay record changes.\<close>

theorem receive_receipt_settles_iff:
  assumes "audit_writable env" and "env_store_ok env" and "keyed orc"
    and "sa_verify_sender_settlement (cf_adapter cfg) (pr_settlement_ref r) (pr_amount_sat r) (orch_world orc) = (v, w)"
  shows "(fst (receive_receipt cfg env r orc) = Inr r \<longleftrightarrow>
       (\<exists>rc res. dict_get (orch_intents orc) (pr_intent_id r) = Some rc
          \<and> rec_state rc \<in> {EXECUTING, RECONCILIATION_REQUIRED}
          \<and> \<not> has_receipt (orch_store orc) (pr_intent_id r)
          \<and> pr_amount_sat r = pi_amount_sat (rec_intent rc)
          \<and> map_option pq_quote_id (rec_quote rc) = Some (pr_quote_id r)
          \<and> v = Inr res \<and> rv_verified res))
    \<and> (fst (receive_receipt cfg env r orc) = Inr r \<longrightarrow>
         state_of (pr_intent_id r) (snd (receive_receipt cfg env r orc)) = Some SETTLED
         \<and> get_receipt (orch_store (snd (receive_receipt cfg env r orc))) (pr_intent_id r) = Some (pr_settlement_ref r))
    \<and> (\<forall>e. fst (receive_receipt cfg env r orc) = Inl e \<longrightarrow>
         orch_intents (snd (receive_receipt cfg env r orc)) = orch_intents orc
         \<and> orch_store (snd (receive_receipt cfg env r orc)) = orch_store orc)"
proof -
  let ?rr = "record_receipt True (pr_intent_id r) (pr_settlement_ref r) (orch_store orc)"
  obtain out st where r: "?rr = (out, st)" by force
  with record_result(1) [of "pr_intent_id r" "pr_settlement_ref r" "orch_store orc"]
    get_receipt_record_receipt [of True "pr_intent_id r" "pr_settlement_ref r" "orch_store orc" "pr_intent_id r"]
  have r: "?rr = (Inr (), st)" and got: "get_receipt st (pr_intent_id r) = Some (pr_settlement_ref r)" by auto
  show ?thesis
  proof (cases "dict_get (orch_intents orc) (pr_intent_id r)")
    case (Some rc)
    show ?thesis
    proof (cases "pr_amount_sat r = pi_amount_sat (rec_intent rc)")
      case True
      with assms(4) have "sa_verify_sender_settlement (cf_adapter cfg) (pr_settlement_ref r)
        (pi_amount_sat (rec_intent rc)) (orch_world orc) = (v, w)" by simp
      then show ?thesis
        using assms(1,2) r got Some True
        by (cases v) (auto simp: receive_receipt_def get_record_def Let_def audited_pair state_of_def)
    qed (use assms(1) Some in \<open>auto simp: receive_receipt_def get_record_def Let_def audited_pair\<close>)
  qed (simp add: receive_receipt_def get_record_def)
qed

theorem receive_receipt_settles_iff_witness:
  "fst (receive_receipt demo_config demo_env (build_receipt 1000 demo_record
       \<lparr>er_settlement_ref = ''r9'', er_amount_sat = 100, er_fee_sat = 1, er_rail = LIGHTNING\<rparr>)
     (demo_at RECONCILIATION_REQUIRED)) =
   Inr (build_receipt 1000 demo_record
       \<lparr>er_settlement_ref = ''r9'', er_amount_sat = 100, er_fee_sat = 1, er_rail = LIGHTNING\<rparr>)"
proof -
  let ?r = "build_receipt 1000 demo_record \<lparr>er_settlement_ref = ''r9'', er_amount_sat = 100, er_fee_sat = 1, er_rail = LIGHTNING\<rparr>"
  have id: "pr_intent_id ?r = ''i1''" "pr_quote_id ?r = ''q1''"
    by (simp_all add: demo_record_def new_record_def demo_intent_def build_receipt_def Let_def demo_quote_def)
  have "keyed (demo_at RECONCILIATION_REQUIRED)"
    by (simp add: keyed_def demo_at_def demo_record_def new_record_def demo_intent_def)
  from receive_receipt_settles_iff [OF demo_writable _ this, of demo_config ?r] show ?thesis
    by (simp add: id demo_env_def demo_config_def demo_adapter_def)
      (simp add: demo_record_def new_record_def demo_quote_def has_receipt_def empty_store_def demo_intent_def)
qed

text \<open>A receipt whose record cannot be written is lost for the running process. The call raises
  and the intent stays in \<open>RECONCILIATION_REQUIRED\<close>, but presenting the receipt again is refused
  as already recorded, and a later \<open>confirm_settled\<close> succeeds and replaces the settlement
  reference by the manual marker.\<close>

theorem unsaved_receipt_cannot_be_retried:
  assumes "dict_get (orch_intents orc) k = Some rc" and "rec_state rc = RECONCILIATION_REQUIRED"
    and "pr_intent_id r = k" and "\<not> has_receipt (orch_store orc) k"
    and "pr_amount_sat r = pi_amount_sat (rec_intent rc)"
    and "map_option pq_quote_id (rec_quote rc) = Some (pr_quote_id r)"
    and "sa_verify_sender_settlement (cf_adapter cfg) (pr_settlement_ref r) (pr_amount_sat r) (orch_world orc) = (Inr v, w)"
    and "rv_verified v" and "durable (orch_store orc)" and "\<not> env_store_ok env" and "env_store_ok env'" and "audit_writable env'"
  shows "case receive_receipt cfg env r orc of (out, orc1) \<Rightarrow>
      (\<exists>m. out = Inl (Raised (OSError m))) \<and> state_of k orc1 = Some RECONCILIATION_REQUIRED
    \<and> (\<exists>m. receive_receipt cfg env' r orc1 = (Inl (StateError m), orc1))
    \<and> fst (confirm_settled env' k orc1) = Inr ()
    \<and> get_receipt (orch_store (snd (confirm_settled env' k orc1))) k = Some (''manual:'' @ k)"
proof -
  let ?st = "orch_store orc\<lparr>st_receipts := dict_set k (pr_settlement_ref r) (st_receipts (orch_store orc))\<rparr>"
  let ?orc = "orc\<lparr>orch_world := w, orch_store := ?st\<rparr>"
  have "record_receipt False k (pr_settlement_ref r) (orch_store orc) = (Inl (OSError ''store write failed''), ?st)"
    using assms(9) by (simp add: record_receipt_def store_save_def)
  moreover have "sa_verify_sender_settlement (cf_adapter cfg) (pr_settlement_ref r) (pi_amount_sat (rec_intent rc)) (orch_world orc) = (Inr v, w)"
    using assms(5,7) by simp
  ultimately have first: "receive_receipt cfg env r orc = (Inl (Raised (OSError ''store write failed'')), ?orc)"
    using assms(1-6,8,10) by (auto simp: receive_receipt_def get_record_def Let_def)
  have seen: "has_receipt ?st k" by (simp add: has_receipt_def dict_keys_set)
  have again: "\<exists>m. receive_receipt cfg env' r ?orc = (Inl (StateError m), ?orc)"
    using assms(1-3) seen by (auto simp: receive_receipt_def get_record_def Let_def)
  obtain out st where rr: "record_receipt True k (''manual:'' @ k) ?st = (out, st)" by force
  with record_result(1) [of k "''manual:'' @ k" ?st] get_receipt_record_receipt [of True k "''manual:'' @ k" ?st k]
  have rr: "record_receipt True k (''manual:'' @ k) ?st = (Inr (), st)" "get_receipt st k = Some (''manual:'' @ k)" by auto
  have "fst (confirm_settled env' k ?orc) = Inr () \<and> get_receipt (orch_store (snd (confirm_settled env' k ?orc))) k = Some (''manual:'' @ k)"
    using assms(1,2,11,12) rr by (simp add: confirm_settled_def get_record_def Let_def audited_pair)
  with first again assms(1,2) show ?thesis by (auto simp: state_of_def)
qed

theorem unsaved_receipt_cannot_be_retried_witness:
  "let r = build_receipt 1000 demo_record \<lparr>er_settlement_ref = ''r9'', er_amount_sat = 100, er_fee_sat = 1, er_rail = LIGHTNING\<rparr>;
       orc1 = snd (receive_receipt demo_config (demo_env\<lparr>env_store_ok := False\<rparr>) r (demo_at RECONCILIATION_REQUIRED))
   in (\<exists>m. receive_receipt demo_config demo_env r orc1 = (Inl (StateError m), orc1))
    \<and> get_receipt (orch_store (snd (confirm_settled demo_env ''i1'' orc1))) ''i1'' = Some ''manual:i1''"
proof -
  let ?r = "build_receipt 1000 demo_record \<lparr>er_settlement_ref = ''r9'', er_amount_sat = 100, er_fee_sat = 1, er_rail = LIGHTNING\<rparr>"
    and ?rc = "demo_record\<lparr>rec_state := RECONCILIATION_REQUIRED\<rparr>" and ?orc = "demo_at RECONCILIATION_REQUIRED"
    and ?v = "\<lparr>rv_verified = True, rv_settlement_ref = ''r9'', rv_amount_sat = 100, rv_fee_sat = 0, rv_error = None\<rparr>"
  have "rec_state ?rc = RECONCILIATION_REQUIRED" "pr_intent_id ?r = ''i1''" "\<not> has_receipt (orch_store ?orc) ''i1''"
    "pr_amount_sat ?r = pi_amount_sat (rec_intent ?rc)"
    "map_option pq_quote_id (rec_quote ?rc) = Some (pr_quote_id ?r)"
    "sa_verify_sender_settlement (cf_adapter demo_config) (pr_settlement_ref ?r) (pr_amount_sat ?r) (orch_world ?orc) = (Inr ?v, 0)"
    "rv_verified ?v" "durable (orch_store ?orc)" "\<not> env_store_ok (demo_env\<lparr>env_store_ok := False\<rparr>)" "env_store_ok demo_env"
    by (simp_all add: demo_record_def new_record_def demo_intent_def demo_quote_def build_receipt_def Let_def
        has_receipt_def empty_store_def demo_config_def demo_adapter_def demo_at_def demo_start_def demo_env_def)
  from unsaved_receipt_cannot_be_retried [OF demo_at_simps(1) this demo_writable]
  show ?thesis by (simp add: Let_def split: prod.splits)
qed

text \<open>\<open>reconcile_settlement\<close> never dispatches and never moves a record: on an intent in
  \<open>RECONCILIATION_REQUIRED\<close> it always returns a result, which is the adapter's answer, or
  \<open>UNKNOWN\<close> and unverified when the adapter raised anything at all; every state and the replay
  store stay as they were, so only a receipt or a manual confirmation settles the intent.\<close>

theorem reconcile_is_fail_closed:
  assumes "audit_writable env" and "dict_get (orch_intents orc) k = Some rc"
    and "rec_state rc = RECONCILIATION_REQUIRED" and "rec_prepared rc = Some p"
  shows "\<exists>res orc'. reconcile_settlement cfg env k orc = (Inr res, orc')
    \<and> (case sa_reconcile_settlement (cf_adapter cfg) (pp_prepared_payload p) (pp_prepared_hash p)
              (pi_amount_sat (rec_intent rc)) (orch_world orc) of
         (Inr answer, w) \<Rightarrow> res = answer \<and> orch_world orc' = w
       | (Inl e, w) \<Rightarrow> rr_status res = ''UNKNOWN'' \<and> \<not> rr_verified res \<and> orch_world orc' = w)
    \<and> (\<forall>k'. state_of k' orc' = state_of k' orc) \<and> orch_store orc' = orch_store orc"
  using assms
  by (auto simp: reconcile_settlement_def get_record_def Let_def audited_pair state_of_def reconcile_default_def
      split: prod.splits sum.splits)

theorem reconcile_is_fail_closed_witness:
  "\<exists>res orc'. reconcile_settlement demo_config demo_env ''i1'' (demo_at RECONCILIATION_REQUIRED) = (Inr res, orc')
    \<and> rr_status res = ''UNKNOWN'' \<and> state_of ''i1'' orc' = Some RECONCILIATION_REQUIRED"
proof -
  let ?p = "\<lparr>pp_fee_sat = 1, pp_prepared_hash = ''h1'', pp_rail = LIGHTNING, pp_prepared_payload = ''tx''\<rparr>"
  have "rec_prepared (demo_record\<lparr>rec_state := RECONCILIATION_REQUIRED\<rparr>) = Some ?p" by (simp add: demo_record_def)
  from reconcile_is_fail_closed [OF demo_writable demo_at_simps(1) _ this, of demo_config]
  obtain res orc' where r: "reconcile_settlement demo_config demo_env ''i1'' (demo_at RECONCILIATION_REQUIRED) = (Inr res, orc')"
    "rr_status res = ''UNKNOWN''" "\<forall>k'. state_of k' orc' = state_of k' (demo_at RECONCILIATION_REQUIRED)"
    by (auto simp: demo_config_def demo_adapter_def default_reconcile_settlement_def reconcile_default_def)
  moreover have "state_of ''i1'' (demo_at RECONCILIATION_REQUIRED) = Some RECONCILIATION_REQUIRED"
    by (simp add: state_of_def)
  ultimately show ?thesis by auto
qed

section \<open>Cancelling, rejecting and expiry\<close>

text \<open>An intent can be cancelled only before approval and rejected only between submission and
  execution; from any other state the call is refused and nothing changes. In particular
  neither ever touches an executing, ambiguous or settled payment.\<close>

theorem cancel_reject_spec:
  assumes "audit_writable env" and "dict_get (orch_intents orc) k = Some rc"
  shows "(fst (cancel env k orc) = Inr () \<longleftrightarrow> rec_state rc \<in> {DRAFT, SUBMITTED, QUOTED, PREPARED})
    \<and> (fst (reject env k orc) = Inr () \<longleftrightarrow> rec_state rc \<in> {SUBMITTED, QUOTED, PREPARED, APPROVED})
    \<and> (if rec_state rc \<in> {DRAFT, SUBMITTED, QUOTED, PREPARED} then state_of k (snd (cancel env k orc)) = Some CANCELLED
       else snd (cancel env k orc) = orc)
    \<and> (if rec_state rc \<in> {SUBMITTED, QUOTED, PREPARED, APPROVED} then state_of k (snd (reject env k orc)) = Some REJECTED
       else snd (reject env k orc) = orc)"
proof -
  have "ok (transition s ''cancel'') \<longleftrightarrow> s \<in> {DRAFT, SUBMITTED, QUOTED, PREPARED}"
    "ok (transition s ''rejected'') \<longleftrightarrow> s \<in> {SUBMITTED, QUOTED, PREPARED, APPROVED}" for s
    by (cases s; simp add: transition_ok_iff TRANSITIONS_def)+
  moreover have "ok (transition s ''cancel'') \<Longrightarrow> new_state (transition s ''cancel'') = CANCELLED"
    "ok (transition s ''rejected'') \<Longrightarrow> new_state (transition s ''rejected'') = REJECTED" for s
    by (auto dest: sm_stepI sm_step_to)
  ultimately show ?thesis
    using assms by (auto simp: cancel_def reject_def get_record_def Let_def audited_pair state_of_def)
qed

theorem cancel_reject_spec_witness:
  "fst (cancel demo_env ''i1'' (demo_at EXECUTING)) \<noteq> Inr () \<and> snd (reject demo_env ''i1'' (demo_at EXECUTING)) = demo_at EXECUTING"
  using cancel_reject_spec [OF demo_writable demo_at_simps(1) [of EXECUTING]] by simp

lemma expire_loop_states:
  assumes "audit_writable env" and "distinct ids" and "\<forall>k \<in> set ids. state_of k orc = Some EXECUTING"
  shows "fst (expire_loop env ids orc) = Inr ()
    \<and> (\<forall>k. state_of k (snd (expire_loop env ids orc)) = (if k \<in> set ids then Some RECONCILIATION_REQUIRED else state_of k orc))
    \<and> orch_store (snd (expire_loop env ids orc)) = orch_store orc \<and> orch_world (snd (expire_loop env ids orc)) = orch_world orc"
  using assms(2,3)
proof (induction ids arbitrary: orc)
  case (Cons k ids)
  from Cons.prems(2) obtain rc where rc: "dict_get (orch_intents orc) k = Some rc" "rec_state rc = EXECUTING"
    by (auto simp: state_of_def)
  let ?rc = "rc\<lparr>rec_state := RECONCILIATION_REQUIRED\<rparr>"
  let ?orc = "snd (audited env ''expired_during_execution'' k [state_field RECONCILIATION_REQUIRED]
    (Inr () :: policy_error + unit) (put_record k ?rc orc))"
  have states: "state_of k' ?orc = (if k' = k then Some RECONCILIATION_REQUIRED else state_of k' orc)" for k'
    by (simp add: state_of_def frame_simps)
  have "expire_loop env (k # ids) orc = expire_loop env ids ?orc"
    using rc assms(1) by (simp add: Let_def audited_pair)
  moreover have "\<forall>k' \<in> set ids. state_of k' ?orc = Some EXECUTING" using Cons.prems states by auto
  ultimately show ?case
    using Cons.IH [of ?orc] Cons.prems(1) states by (auto simp: frame_simps)
qed simp

text \<open>The expiry sweep moves exactly the checked intents that are executing past their
  expiry into \<open>RECONCILIATION_REQUIRED\<close> and then raises; when there is none it returns the
  empty list and changes nothing. No payment is dropped or failed by expiry.\<close>

theorem check_expired_spec:
  assumes "audit_writable env" and "keyed orc"
  shows "let due = {k. \<exists>rc. dict_get (orch_intents orc) k = Some rc \<and> rec_state rc = EXECUTING
               \<and> rec_expires_at rc \<noteq> 0 \<and> rec_expires_at rc < env_now env
               \<and> (case ids of None \<Rightarrow> True | Some l \<Rightarrow> k \<in> set l)};
             (out, orc') = check_expired env ids orc
         in if due = {} then out = Inr [] \<and> orc' = orc
            else (\<exists>m. out = Inl (StateError m))
              \<and> (\<forall>k. state_of k orc' = (if k \<in> due then Some RECONCILIATION_REQUIRED else state_of k orc))
              \<and> orch_store orc' = orch_store orc \<and> orch_world orc' = orch_world orc"
proof -
  let ?ex = "expired_intents env ids orc"
  let ?due = "{k. \<exists>rc. dict_get (orch_intents orc) k = Some rc \<and> rec_state rc = EXECUTING
               \<and> rec_expires_at rc \<noteq> 0 \<and> rec_expires_at rc < env_now env
               \<and> (case ids of None \<Rightarrow> True | Some l \<Rightarrow> k \<in> set l)}"
  have wf: "dict_wf (orch_intents orc)" using assms(2) by (simp add: keyed_def)
  have due: "set ?ex = ?due"
    using wf by (cases ids) (auto simp: expired_intents_def image_iff Bex_def)
  have dist: "distinct ?ex"
    unfolding expired_intents_def using wf by (induction "orch_intents orc") (simp_all add: distinct_map_filter)
  have "\<forall>k \<in> set ?ex. state_of k orc = Some EXECUTING" unfolding due by (auto simp: state_of_def)
  from expire_loop_states [OF assms(1) dist this] show ?thesis
    by (cases "expire_loop env ?ex orc") (auto simp: check_expired_def Let_def due [symmetric])
qed

theorem check_expired_spec_witness:
  "\<exists>m. fst (check_expired (demo_env\<lparr>env_now := 3000\<rparr>) None (demo_at EXECUTING)) = Inl (StateError m)"
proof -
  have "audit_writable (demo_env\<lparr>env_now := 3000\<rparr>)" using demo_writable by (simp add: audit_writable_def)
  moreover have "keyed (demo_at EXECUTING)"
    by (simp add: keyed_def demo_at_def demo_record_def new_record_def demo_intent_def)
  moreover have "{k. \<exists>rc. dict_get (orch_intents (demo_at EXECUTING)) k = Some rc \<and> rec_state rc = EXECUTING
      \<and> rec_expires_at rc \<noteq> 0 \<and> rec_expires_at rc < env_now (demo_env\<lparr>env_now := 3000\<rparr>)
      \<and> (case None of None \<Rightarrow> True | Some l \<Rightarrow> k \<in> set l)} = {''i1''}"
    by (auto simp: demo_at_def demo_start_def demo_record_def new_record_def demo_intent_def)
  ultimately show ?thesis
    using check_expired_spec [of "demo_env\<lparr>env_now := 3000\<rparr>" "demo_at EXECUTING" None]
    by (simp add: Let_def split: prod.splits)
qed

end
