(* ===== verification/Wavelength_Engine.thy ===== *)
theory Wavelength_Engine
  imports Wavelength_Properties Policy_Behaviour
begin

text \<open>
  The policy engine of \<open>policy.py\<close> running on the Wavelength adapter of \<open>adapter.py\<close>: what a
  settled intent says about the daemon, and what a malformed answer of the daemon does.
\<close>

lemma execute_Inr_settled:
  assumes "find_by_state APPROVED orc = Inr (k, rc)" and "rec_prepared rc = Some p" and "execute cfg env orc = (Inr r, orc')"
  shows "\<exists>er w. sa_execute (cf_adapter cfg) (pp_prepared_payload p) (pp_prepared_hash p) (orch_world orc) = (Inr er, w)
    \<and> orch_world orc' = w \<and> r = build_receipt (env_now env) rc er"
proof -
  let ?rc = "rc\<lparr>rec_state := new_state (transition (rec_state rc) ''executing'')\<rparr>"
  obtain out1 orc1 where aud: "audited env ''executing'' (pi_id (rec_intent ?rc)) [state_field (rec_state ?rc)] (Inr ()) (put_record k ?rc orc)
      = (out1, orc1)" by force
  have w1: "orch_world orc1 = orch_world orc"
    using audited_frames(3) [of env "''executing''" "pi_id (rec_intent ?rc)" "[state_field (rec_state ?rc)]" "Inr ()" "put_record k ?rc orc"] aud
    by (simp add: put_record_def)
  obtain res w where run: "sa_execute (cf_adapter cfg) (pp_prepared_payload p) (pp_prepared_hash p) (orch_world orc) = (res, w)" by force
  have no_fail: "execute_failed env k rc' e orc2 \<noteq> (Inr r, orc')" for rc' e orc2
    by (auto simp: execute_failed_def Let_def audited_def split: if_split_asm prod.split_asm sum.split_asm exn.split_asm)
  from assms aud w1 run have settled: "\<exists>er. res = Inr er \<and> execute_settled env k ?rc er (orc1\<lparr>orch_world := w\<rparr>) = (Inr r, orc')"
    by (cases out1; cases res) (auto simp: execute_def Let_def no_fail split: if_split_asm)
  then obtain er where er: "res = Inr er" "execute_settled env k ?rc er (orc1\<lparr>orch_world := w\<rparr>) = (Inr r, orc')" by blast
  have world: "orch_world orc' = w"
  proof -
    have "orch_world (snd (execute_settled env k ?rc er (orc1\<lparr>orch_world := w\<rparr>))) = w"
      by (auto simp: execute_settled_def Let_def frame_simps put_record_def split: prod.split sum.split)
    with er(2) show ?thesis by simp
  qed
  have "r = build_receipt (env_now env) ?rc er"
    using er(2) by (auto simp: execute_settled_def Let_def audited_def split: if_split_asm prod.split_asm sum.split_asm)
  then have "r = build_receipt (env_now env) rc er" by (simp add: build_receipt_def)
  with run er(1) world show ?thesis by blast
qed

lemma judge_send_accepts:
  assumes "judge_send payload sp = Inr er"
  shows "sp_status sp = ''COMPLETE'' \<and> py_eq (JInt (sp_amount_sat sp)) (get_or JNull payload ''amount_sat'')
    \<and> py_eq (sp_payment_hash sp) (get_or JNull payload ''payment_hash'')
    \<and> er_settlement_ref er = py_str (sp_payment_hash sp) \<and> er_fee_sat er = sp_fee_sat sp"
proof -
  have err: "bindE x (\<lambda>t. Inl (f t)) \<noteq> Inr (er :: ExecuteResult)" for x :: "exn + string" and f by (cases x) auto
  from assms err have "sp_status sp = ''COMPLETE''" by (auto simp: judge_send_def split: if_split_asm)
  with assms show ?thesis by (auto simp: judge_send_def simp del: py_eq.simps split: if_split_asm)
qed

text \<open>C15: with the Wavelength adapter, a receipt is issued only for a payment the daemon reports as
  complete. When executing an approved intent returns a receipt, the payload bound to the
  intent passed its checks, one \<open>Send\<close> of the payload's send intent was run, and the daemon
  answered with a complete entry whose amount and payment hash equal those of the payload; the
  receipt carries that hash as its reference and the fee of the answer.\<close>

theorem settled_means_paid:
  assumes "cf_adapter cfg = wavelength wl" and "find_by_state APPROVED orc = Inr (k, rc)" and "rec_prepared rc = Some p"
    and "execute cfg env orc = (Inr r, orc')"
  shows "\<exists>token payload answer sp.
    dispatch_checks (pp_prepared_payload p) (pp_prepared_hash p) (wl_clock wl (orch_world orc)) = Inr (token, payload)
    \<and> we_run (wl_executor wl) (rpc_cmd wl ''Send'' (send_request token)) (orch_world orc) = (Inr answer, orch_world orc')
    \<and> parse_send_response answer = Inr sp \<and> sp_status sp = ''COMPLETE''
    \<and> py_eq (JInt (sp_amount_sat sp)) (get_or JNull payload ''amount_sat'')
    \<and> py_eq (sp_payment_hash sp) (get_or JNull payload ''payment_hash'')
    \<and> pr_settlement_ref r = py_str (sp_payment_hash sp) \<and> pr_fee_sat r = sp_fee_sat sp
    \<and> pr_intent_id r = pi_id (rec_intent rc) \<and> pr_amount_sat r = pi_amount_sat (rec_intent rc)"
proof -
  from execute_Inr_settled [OF assms(2-4)] obtain er where
    run: "wl_execute wl (pp_prepared_payload p) (pp_prepared_hash p) (orch_world orc) = (Inr er, orch_world orc')"
    and r: "r = build_receipt (env_now env) rc er"
    by (auto simp: assms(1) wavelength_def)
  from run obtain token payload where
    checks: "dispatch_checks (pp_prepared_payload p) (pp_prepared_hash p) (wl_clock wl (orch_world orc)) = Inr (token, payload)"
    by (auto simp: wl_execute_def split: sum.split_asm)
  from run checks obtain answer where
    send: "we_run (wl_executor wl) (rpc_cmd wl ''Send'' (send_request token)) (orch_world orc) = (Inr answer, orch_world orc')"
    and judged: "bindE (parse_send_response answer) (judge_send payload) = Inr er"
    by (auto simp: wl_execute_def split: prod.split_asm sum.split_asm)
  from judged obtain sp where sp: "parse_send_response answer = Inr sp" "judge_send payload sp = Inr er"
    by (auto simp: bindE_Inr_iff)
  from judge_send_accepts [OF sp(2)] have "sp_status sp = ''COMPLETE''"
    "py_eq (JInt (sp_amount_sat sp)) (get_or JNull payload ''amount_sat'')"
    "py_eq (sp_payment_hash sp) (get_or JNull payload ''payment_hash'')"
    "er_settlement_ref er = py_str (sp_payment_hash sp)" "er_fee_sat er = sp_fee_sat sp" by blast+
  with checks send sp(1) r show ?thesis
    by (intro exI [of _ token] exI [of _ payload] exI [of _ answer] exI [of _ sp]) (simp add: build_receipt_def del: py_eq.simps)
qed

text \<open>An engine with the intent of the preview approved, on the in-memory daemon.\<close>

definition wave_record :: IntentRecord where
  "wave_record = (new_record sample_intent)\<lparr>rec_state := APPROVED, rec_prepared := Some (prepare_result demo_prepared ''lnbcrt1x'' 10)\<rparr>"

definition wave_config :: "FakeWavecli orch_config" where
  "wave_config = \<lparr>cf_adapter = wavelength demo_wavelength, cf_recipient_allowlist = None, cf_rail_allowlist = None\<rparr>"

definition wave_at :: "pyjson list \<Rightarrow> FakeWavecli Orch" where
  "wave_at responses = \<lparr>orch_store = empty_store (Some ''store.json'') None, orch_audit = \<lparr>al_path = None, al_seq = 0, al_file = None\<rparr>,
     orch_intents = [(''i1'', wave_record)], orch_world = demo_daemon responses\<rparr>"

lemma wave_at_simps [simp]:
  "find_by_state APPROVED (wave_at responses) = Inr (''i1'', wave_record)"
  "rec_prepared wave_record = Some (prepare_result demo_prepared ''lnbcrt1x'' 10)"
  "orch_world (wave_at responses) = demo_daemon responses"
  "cf_adapter wave_config = wavelength demo_wavelength"
  by (simp_all add: wave_at_def wave_record_def find_by_state_def wave_config_def)

lemma wave_execute:
  "\<exists>w. sa_execute (wavelength demo_wavelength) (pp_prepared_payload (prepare_result demo_prepared ''lnbcrt1x'' 10))
       (pp_prepared_hash (prepare_result demo_prepared ''lnbcrt1x'' 10)) (demo_daemon [demo_send fee]) =
     (Inr \<lparr>er_settlement_ref = ''h1'', er_amount_sat = 1000, er_fee_sat = fee, er_rail = LIGHTNING\<rparr>, w)"
  using fee_limit_not_enforced [of fee] by (simp add: wavelength_def) (metis prod.collapse)

lemma wave_settles:
  "0 \<le> fee \<Longrightarrow> \<exists>orc'. execute wave_config demo_env (wave_at [demo_send fee]) = (Inr (build_receipt 1000 wave_record
     \<lparr>er_settlement_ref = ''h1'', er_amount_sat = 1000, er_fee_sat = fee, er_rail = LIGHTNING\<rparr>), orc')"
proof -
  assume fee: "0 \<le> fee"
  let ?er = "\<lparr>er_settlement_ref = ''h1'', er_amount_sat = 1000, er_fee_sat = fee, er_rail = LIGHTNING\<rparr>"
  have "receipt_ok (build_receipt 1000 (wave_record\<lparr>rec_state := EXECUTING\<rparr>) ?er)"
    using fee by (simp add: receipt_ok_def build_receipt_def wave_record_def new_record_def sample_intent_def identity_ok_def
        sample_bob_def)
  moreover obtain w where "sa_execute (wavelength demo_wavelength) (pp_prepared_payload (prepare_result demo_prepared ''lnbcrt1x'' 10))
       (pp_prepared_hash (prepare_result demo_prepared ''lnbcrt1x'' 10)) (demo_daemon [demo_send fee]) = (Inr ?er, w)"
    using wave_execute by blast
  moreover have "rec_state wave_record = APPROVED" by (simp add: wave_record_def)
  moreover obtain st where
    "record_receipt True ''i1'' ''h1'' (empty_store (Some ''store.json'') None) = (Inr (), st)"
    using record_result(1) [of "''i1''" "''h1''" "empty_store (Some ''store.json'') None"] by (metis prod.collapse)
  moreover have "build_receipt t (wave_record\<lparr>rec_state := x\<rparr>) ?er = build_receipt t wave_record ?er" for t x
    by (simp add: build_receipt_def)
  moreover have "pr_intent_id (build_receipt t wave_record ?er) = ''i1''" "pr_settlement_ref (build_receipt t wave_record ?er) = ''h1''" for t
    by (simp_all add: build_receipt_def wave_record_def new_record_def sample_intent_def)
  moreover have "env_now demo_env = 1000" "env_store_ok demo_env" by (simp_all add: demo_env_def)
  moreover have "orch_store (wave_at rs) = empty_store (Some ''store.json'') None" for rs by (simp add: wave_at_def)
  ultimately have "fst (execute wave_config demo_env (wave_at [demo_send fee])) = Inr (build_receipt 1000 wave_record ?er)"
    by (auto simp: execute_def Let_def execute_settled_def audited_pair [OF demo_writable] frame_simps put_record_def)
  then show ?thesis by (metis prod.collapse)
qed

theorem settled_means_paid_witness:
  "\<exists>sp. parse_send_response (demo_send 7) = Inr sp \<and> sp_status sp = ''COMPLETE'' \<and> sp_fee_sat sp = 7"
proof -
  obtain orc' where run: "execute wave_config demo_env (wave_at [demo_send 7]) = (Inr (build_receipt 1000 wave_record
     \<lparr>er_settlement_ref = ''h1'', er_amount_sat = 1000, er_fee_sat = 7, er_rail = LIGHTNING\<rparr>), orc')"
    using wave_settles [of 7] by auto
  have fee: "pr_fee_sat (build_receipt 1000 wave_record
     \<lparr>er_settlement_ref = ''h1'', er_amount_sat = 1000, er_fee_sat = 7, er_rail = LIGHTNING\<rparr>) = 7" by (simp add: build_receipt_def)
  from settled_means_paid [OF wave_at_simps(4,1,2) run] obtain token answer sp where
    "we_run (wl_executor demo_wavelength) (rpc_cmd demo_wavelength ''Send'' (send_request token)) (demo_daemon [demo_send 7]) =
       (Inr answer, orch_world orc')"
    "parse_send_response answer = Inr sp" "sp_status sp = ''COMPLETE''" "sp_fee_sat sp = 7"
    by (auto simp only: wave_at_simps fee)
  then show ?thesis by (auto simp: demo_run)
qed

text \<open>C21: a malformed number in the daemon's answer strands the intent. When the \<open>Send\<close> of an
  approved intent is answered with an entry whose \<open>actual_amount_sat\<close> is a text that is no
  integer, the adapter raises \<open>ValueError\<close> instead of an adapter error, and the engine leaves
  the intent in \<open>EXECUTING\<close> although money may have moved, instead of requiring reconciliation.\<close>

theorem malformed_answer_strands_intent:
  assumes "cf_adapter cfg = wavelength wl" and "find_by_state APPROVED orc = Inr (k, rc)" and "rec_prepared rc = Some p"
    and "audit_writable env"
    and "dispatch_checks (pp_prepared_payload p) (pp_prepared_hash p) (wl_clock wl (orch_world orc)) = Inr (token, payload)"
    and "we_run (wl_executor wl) (rpc_cmd wl ''Send'' (send_request token)) (orch_world orc) = (Inr (JObj data), w)"
    and "dict_get data ''entry'' = Some (JObj entry)" and "py_truthy (get_or (JStr []) entry ''id'')"
    and "dict_get data ''actual_amount_sat'' = Some (JStr s)" and "read_int_text s = None"
  shows "(\<exists>msg. fst (execute cfg env orc) = Inl (Raised (ValueError msg)))
    \<and> state_of k (snd (execute cfg env orc)) = Some EXECUTING"
proof -
  have "\<exists>msg. parse_send_response (JObj data) = Inl (ValueError msg)"
    using assms(7-10) by (simp add: parse_send_response_def get_or_def Let_def)
  then obtain msg where "sa_execute (cf_adapter cfg) (pp_prepared_payload p) (pp_prepared_hash p) (orch_world orc) = (Inl (ValueError msg), w)"
    using assms(1,5,6) by (auto simp: wavelength_def wl_execute_def)
  moreover have "rec_state rc = APPROVED"
    using assms(2) by (auto simp: find_by_state_def split: list.split_asm dest!: filter_eq_ConsD)
  ultimately show ?thesis
    using assms(2-4) by (auto simp: execute_def Let_def audited_pair frame_simps execute_failed_def state_of_def put_record_def)
qed

theorem malformed_answer_strands_intent_witness:
  "let answer = JObj [(''entry'', JObj [(''id'', JStr ''h1'')]), (''actual_amount_sat'', JStr ''1000 sat'')] in
   state_of ''i1'' (snd (execute wave_config demo_env (wave_at [answer]))) = Some EXECUTING"
proof -
  let ?data = "[(''entry'', JObj [(''id'', JStr ''h1'')]), (''actual_amount_sat'', JStr ''1000 sat'')]"
  from dispatch_prepared [of demo_prepared 100 "''lnbcrt1x''" 10] obtain payload where
    checks: "dispatch_checks (pp_prepared_payload (prepare_result demo_prepared ''lnbcrt1x'' 10))
      (pp_prepared_hash (prepare_result demo_prepared ''lnbcrt1x'' 10)) 100 = Inr (JStr ''tok'', payload)"
    by (auto simp: demo_prepared_def Let_def)
  have "wl_clock demo_wavelength (orch_world (wave_at [JObj ?data])) = 100" by (simp add: demo_wavelength_def)
  note checks = checks [folded this]
  have "read_int_text ''1000 sat'' = None" by code_simp
  from malformed_answer_strands_intent [OF wave_at_simps(4,1,2) demo_writable checks, of ?data _ "[(''id'', JStr ''h1'')]", OF _ _ _ _ this]
  show ?thesis by (simp add: demo_run get_or_def Let_def)
qed

end
