(* ===== verification/Envelope.thy ===== *)
theory Envelope
  imports Models "HOL-Library.Monad_Syntax"
begin

text \<open>
  The wire format of \<open>src/hermes_payments/envelope.py\<close>: the versioned JSON envelope, its
  encoder and decoder, and the Nostr event shape around it. The schema validation and the
  JSON writer of pydantic are the record \<open>Pydantic\<close>, a parameter; \<open>pydantic_contract\<close> states
  the documented behaviour that the round trip relies on, and \<open>strict_pydantic\<close> is a
  concrete instance that meets it.
\<close>

definition WIRE_KIND :: int where
  "WIRE_KIND = 9"

definition PROTOCOL_ID :: string where
  "PROTOCOL_ID = ''hermes-payments''"

section \<open>The validation library\<close>

record Pydantic =
  py_intent :: "(string \<times> pyjson) list \<Rightarrow> PaymentIntent option"
  py_quote :: "(string \<times> pyjson) list \<Rightarrow> PaymentQuote option"
  py_receipt :: "(string \<times> pyjson) list \<Rightarrow> PaymentReceipt option"
  py_envelope_json :: "MessageKind \<Rightarrow> (string \<times> pyjson) list \<Rightarrow> string"

text \<open>The fields of \<open>PaymentEnvelope\<close> in the order of the class.\<close>

definition envelope_fields :: "MessageKind \<Rightarrow> (string \<times> pyjson) list \<Rightarrow> (string \<times> pyjson) list" where
  "envelope_fields kind payload = [
     (''protocol'', JStr ''hermes-payments''), (''version'', JStr ''1''),
     (''type'', JStr (MessageKind_value kind)), (''payload'', JObj payload)]"

fun message_ok :: "DomainMessage \<Rightarrow> bool" where
  "message_ok (MIntent i) = intent_ok i"
| "message_ok (MQuote q) = quote_ok q"
| "message_ok (MReceipt r) = receipt_ok r"
| "message_ok (MApproval a) = approval_ok a"

definition pydantic_contract :: "Pydantic \<Rightarrow> bool" where
  "pydantic_contract py \<longleftrightarrow>
     (\<forall>i. intent_ok i \<longrightarrow> py_intent py (intent_dump i) = Some i)
   \<and> (\<forall>q. quote_ok q \<longrightarrow> py_quote py (quote_dump q) = Some q)
   \<and> (\<forall>r. receipt_ok r \<longrightarrow> py_receipt py (receipt_dump r) = Some r)
   \<and> (\<forall>d i. py_intent py d = Some i \<longrightarrow> intent_ok i)
   \<and> (\<forall>d q. py_quote py d = Some q \<longrightarrow> quote_ok q)
   \<and> (\<forall>d r. py_receipt py d = Some r \<longrightarrow> receipt_ok r)
   \<and> (\<forall>kind m. json_loads (py_envelope_json py kind (model_dump m)) = Some (JObj (envelope_fields kind (model_dump m))))"

section \<open>Encoding and decoding\<close>

fun kind_for_model :: "DomainMessage \<Rightarrow> exn + MessageKind" where
  "kind_for_model (MIntent _) = Inr INTENT"
| "kind_for_model (MQuote _) = Inr QUOTE"
| "kind_for_model (MReceipt _) = Inr RECEIPT"
| "kind_for_model (MApproval _) = Inl (TypeError ''PaymentApproval is not a transportable payment message'')"

fun is_approval :: "DomainMessage \<Rightarrow> bool" where
  "is_approval (MApproval _) = True"
| "is_approval _ = False"

definition encode_content :: "Pydantic \<Rightarrow> DomainMessage \<Rightarrow> exn + string" where
  "encode_content py message =
     (if is_approval message then
        Inl (TypeError (''PaymentApproval must never be serialized or transmitted; ''
          @ ''it is strictly local human authorisation''))
      else case kind_for_model message of
        Inl e \<Rightarrow> Inl e
      | Inr kind \<Rightarrow> Inr (py_envelope_json py kind (model_dump message)))"

text \<open>\<open>_MODEL_MAP.get(type_str)\<close>: a list or a dictionary is no key of any dictionary.\<close>

fun hashable :: "pyjson \<Rightarrow> bool" where
  "hashable (JList _) = False"
| "hashable (JObj _) = False"
| "hashable _ = True"

definition model_for :: "Pydantic \<Rightarrow> pyjson \<Rightarrow> exn + ((string \<times> pyjson) list \<Rightarrow> DomainMessage option) option" where
  "model_for py type_str =
     (if \<not> hashable type_str then Inl (TypeError (''unhashable type: '' @ [CHR 0x27] @ py_type_name type_str @ [CHR 0x27]))
      else Inr (case type_str of
          JStr s \<Rightarrow> (case MessageKind_of_value s of
              None \<Rightarrow> None
            | Some INTENT \<Rightarrow> Some (map_option MIntent \<circ> py_intent py)
            | Some QUOTE \<Rightarrow> Some (map_option MQuote \<circ> py_quote py)
            | Some RECEIPT \<Rightarrow> Some (map_option MReceipt \<circ> py_receipt py))
        | _ \<Rightarrow> None))"

definition get_or_none :: "(string \<times> pyjson) list \<Rightarrow> string \<Rightarrow> pyjson" where
  "get_or_none d k = (case dict_get d k of Some v \<Rightarrow> v | None \<Rightarrow> JNull)"

definition decode_content :: "Pydantic \<Rightarrow> string \<Rightarrow> exn + DomainMessage" where
  "decode_content py content =
     (case json_loads content of
        None \<Rightarrow> Inl (ValueError ''content is not valid JSON'')
      | Some (JObj data) \<Rightarrow>
          (let protocol = get_or_none data ''protocol''; version = get_or_none data ''version'';
               type_str = get_or_none data ''type''; payload = get_or_none data ''payload'' in
           if \<not> py_eq protocol (JStr PROTOCOL_ID) then
             Inl (ValueError (''unknown protocol '' @ py_repr protocol @ ''; expected '' @ py_repr (JStr PROTOCOL_ID)))
           else if \<not> py_eq version (JStr ''1'') then
             Inl (ValueError (''unsupported protocol version '' @ py_repr version @ ''; expected '' @ py_repr (JStr ''1'')))
           else if type_str = JNull then Inl (ValueError (''envelope missing '' @ py_repr (JStr ''type'') @ '' field''))
           else case model_for py type_str of
             Inl e \<Rightarrow> Inl e
           | Inr None \<Rightarrow> Inl (ValueError (''unknown envelope type '' @ py_repr type_str))
           | Inr (Some validate) \<Rightarrow>
               (case payload of
                  JObj d \<Rightarrow> (case validate d of
                      None \<Rightarrow> Inl (ValueError (''payload validation failed for type '' @ py_repr type_str))
                    | Some m \<Rightarrow> Inr m)
                | _ \<Rightarrow> Inl (ValueError (''envelope missing or invalid '' @ py_repr (JStr ''payload'') @ '' field''))))
      | Some _ \<Rightarrow> Inl (ValueError ''content JSON is not an object''))"

section \<open>The Nostr event shape\<close>

record BuzzEnvelope =
  be_id :: string
  be_pubkey :: string
  be_kind :: int
  be_tags :: "string list list"
  be_content :: string
  be_sig :: string

fun message_id :: "DomainMessage \<Rightarrow> string" where
  "message_id (MIntent i) = pi_id i"
| "message_id (MQuote q) = pq_id q"
| "message_id (MReceipt r) = pr_id r"
| "message_id (MApproval a) = pa_id a"

text \<open>\<open>getattr(message, "intent_id", message.id)\<close>\<close>

fun message_intent_id :: "DomainMessage \<Rightarrow> string" where
  "message_intent_id (MIntent i) = pi_id i"
| "message_intent_id (MQuote q) = pq_intent_id q"
| "message_intent_id (MReceipt r) = pr_intent_id r"
| "message_intent_id (MApproval a) = pa_intent_id a"

definition build_tags :: "DomainMessage \<Rightarrow> string list list" where
  "build_tags message = [ [''protocol'', ''hermes-payments-v1''], [''intent'', message_intent_id message] ]"

definition payment_to_envelope :: "Pydantic \<Rightarrow> DomainMessage \<Rightarrow> string \<Rightarrow> string \<Rightarrow> string \<Rightarrow> exn + BuzzEnvelope" where
  "payment_to_envelope py message author_pubkey event_id event_sig =
     (case encode_content py message of
        Inl e \<Rightarrow> Inl e
      | Inr content \<Rightarrow>
          if length author_pubkey = 64 \<and> length event_sig = 128 then
            Inr \<lparr>be_id = event_id, be_pubkey = author_pubkey, be_kind = WIRE_KIND, be_tags = build_tags message,
                 be_content = content, be_sig = event_sig\<rparr>
          else Inl ValidationError)"

definition envelope_to_payment :: "Pydantic \<Rightarrow> BuzzEnvelope \<Rightarrow> exn + DomainMessage" where
  "envelope_to_payment py env =
     (if be_kind env \<noteq> WIRE_KIND then
        Inl (ValueError (''kind '' @ show_int (be_kind env) @ '' is not a payment kind; expected '' @ show_int WIRE_KIND))
      else decode_content py (be_content env))"

section \<open>A concrete validator\<close>

text \<open>
  Fields are read by name, unknown keys are ignored, defaulted fields may be missing and no
  value is converted to another type.
\<close>

definition str_field :: "(string \<times> pyjson) list \<Rightarrow> string \<Rightarrow> string option" where
  "str_field d k = (case dict_get d k of Some (JStr s) \<Rightarrow> Some s | _ \<Rightarrow> None)"

definition int_field :: "(string \<times> pyjson) list \<Rightarrow> string \<Rightarrow> int option" where
  "int_field d k = (case dict_get d k of Some (JInt i) \<Rightarrow> Some i | _ \<Rightarrow> None)"

definition obj_field :: "(string \<times> pyjson) list \<Rightarrow> string \<Rightarrow> (string \<times> pyjson) list option" where
  "obj_field d k = (case dict_get d k of Some (JObj o') \<Rightarrow> Some o' | _ \<Rightarrow> None)"

definition maybe_str_field :: "(string \<times> pyjson) list \<Rightarrow> string \<Rightarrow> string option option" where
  "maybe_str_field d k =
     (case dict_get d k of None \<Rightarrow> Some None | Some JNull \<Rightarrow> Some None | Some (JStr s) \<Rightarrow> Some (Some s) | _ \<Rightarrow> None)"

definition assert_opt :: "bool \<Rightarrow> unit option" where
  "assert_opt b = (if b then Some () else None)"

definition version_field :: "(string \<times> pyjson) list \<Rightarrow> unit option" where
  "version_field d = assert_opt (dict_get d ''protocol_version'' \<in> {None, Some (JStr PROTOCOL_VERSION)})"

definition identity_field :: "(string \<times> pyjson) list \<Rightarrow> string \<Rightarrow> AgentIdentity option" where
  "identity_field d k = do {
     a \<leftarrow> obj_field d k;
     pk \<leftarrow> str_field a ''pubkey'';
     relay \<leftarrow> maybe_str_field a ''relay_url'';
     Some \<lparr>pubkey = pk, relay_url = relay\<rparr> }"

definition rail_field :: "(string \<times> pyjson) list \<Rightarrow> string \<Rightarrow> Rail option" where
  "rail_field d k = do { v \<leftarrow> str_field d k; Rail_of_value v }"

definition constraint_field :: "(string \<times> pyjson) list \<Rightarrow> FeeConstraint option" where
  "constraint_field d =
     (case dict_get d ''fee_constraint'' of
        None \<Rightarrow> Some FeeMax
      | Some (JStr s) \<Rightarrow> (if s = ''exact'' then Some FeeExact else if s = ''max'' then Some FeeMax else None)
      | _ \<Rightarrow> None)"

definition strict_intent :: "(string \<times> pyjson) list \<Rightarrow> PaymentIntent option" where
  "strict_intent d = do {
     version_field d;
     i \<leftarrow> str_field d ''id''; key \<leftarrow> str_field d ''idempotency_key'';
     sender \<leftarrow> identity_field d ''sender''; recipient \<leftarrow> identity_field d ''recipient'';
     amount \<leftarrow> int_field d ''amount_sat''; purpose \<leftarrow> str_field d ''purpose'';
     max_fee \<leftarrow> int_field d ''max_fee_sat''; expires \<leftarrow> int_field d ''expires_at'';
     created \<leftarrow> int_field d ''created_at'';
     let m = \<lparr>pi_id = i, pi_idempotency_key = key, pi_sender = sender, pi_recipient = recipient, pi_amount_sat = amount,
        pi_purpose = purpose, pi_max_fee_sat = max_fee, pi_expires_at = expires, pi_created_at = created\<rparr>
     in do { assert_opt (intent_ok m); Some m } }"

definition strict_quote :: "(string \<times> pyjson) list \<Rightarrow> PaymentQuote option" where
  "strict_quote d = do {
     version_field d;
     i \<leftarrow> str_field d ''id''; intent_id \<leftarrow> str_field d ''intent_id''; quote_id \<leftarrow> str_field d ''quote_id'';
     recipient \<leftarrow> identity_field d ''recipient'';
     instr \<leftarrow> obj_field d ''receive_instruction'';
     rail \<leftarrow> rail_field instr ''rail''; invoice \<leftarrow> maybe_str_field instr ''invoice'';
     fee \<leftarrow> int_field d ''fee_sat''; constraint \<leftarrow> constraint_field d;
     expires \<leftarrow> int_field d ''expires_at''; created \<leftarrow> int_field d ''created_at'';
     let m = \<lparr>pq_id = i, pq_intent_id = intent_id, pq_quote_id = quote_id, pq_recipient = recipient,
        pq_receive_instruction = \<lparr>ri_rail = rail, ri_invoice = invoice\<rparr>, pq_fee_sat = fee,
        pq_fee_constraint = constraint, pq_expires_at = expires, pq_created_at = created\<rparr>
     in do { assert_opt (quote_ok m); Some m } }"

definition strict_receipt :: "(string \<times> pyjson) list \<Rightarrow> PaymentReceipt option" where
  "strict_receipt d = do {
     version_field d;
     i \<leftarrow> str_field d ''id''; intent_id \<leftarrow> str_field d ''intent_id''; quote_id \<leftarrow> str_field d ''quote_id'';
     recipient \<leftarrow> identity_field d ''recipient''; ref \<leftarrow> str_field d ''settlement_ref'';
     amount \<leftarrow> int_field d ''amount_sat''; fee \<leftarrow> int_field d ''fee_sat''; rail \<leftarrow> rail_field d ''rail'';
     settled \<leftarrow> int_field d ''settled_at''; created \<leftarrow> int_field d ''created_at'';
     let m = \<lparr>pr_id = i, pr_intent_id = intent_id, pr_quote_id = quote_id, pr_recipient = recipient,
        pr_settlement_ref = ref, pr_amount_sat = amount, pr_fee_sat = fee, pr_rail = rail,
        pr_settled_at = settled, pr_created_at = created\<rparr>
     in do { assert_opt (receipt_ok m); Some m } }"

definition compact_opts :: dump_opts where
  "compact_opts = \<lparr>d_sort = False, d_ascii = False, d_item = '','', d_key = '':''\<rparr>"

definition strict_pydantic :: Pydantic where
  "strict_pydantic = \<lparr>py_intent = strict_intent, py_quote = strict_quote, py_receipt = strict_receipt,
     py_envelope_json = (\<lambda>kind payload. json_dumps compact_opts (JObj (envelope_fields kind payload)))\<rparr>"

lemmas field_defs = str_field_def int_field_def obj_field_def maybe_str_field_def version_field_def
  identity_field_def rail_field_def constraint_field_def assert_opt_def

lemma identity_field_dump:
  "dict_get d k = Some (identity_dump a) \<Longrightarrow> identity_field d k = Some a"
  by (cases a; cases "relay_url a") (auto simp: field_defs identity_dump_def opt_field_def)

lemma strict_intent_dump:
  assumes "intent_ok i"
  shows "strict_intent (intent_dump i) = Some i"
proof -
  have "identity_field (intent_dump i) ''sender'' = Some (pi_sender i)"
    "identity_field (intent_dump i) ''recipient'' = Some (pi_recipient i)"
    by (rule identity_field_dump, simp add: intent_dump_def)+
  with assms show ?thesis
    by (cases i) (simp add: strict_intent_def field_defs(1,2,5,9) PROTOCOL_VERSION_def intent_dump_def Let_def)
qed

lemma strict_quote_dump:
  assumes "quote_ok q"
  shows "strict_quote (quote_dump q) = Some q"
proof -
  have "identity_field (quote_dump q) ''recipient'' = Some (pq_recipient q)"
    by (rule identity_field_dump) (simp add: quote_dump_def)
  moreover have "constraint_field (quote_dump q) = Some (pq_fee_constraint q)"
    by (cases "pq_fee_constraint q") (simp_all add: constraint_field_def quote_dump_def)
  moreover have "obj_field (quote_dump q) ''receive_instruction'' =
      Some ((''rail'', JStr (Rail_value (ri_rail (pq_receive_instruction q)))) # opt_field ''invoice'' (ri_invoice (pq_receive_instruction q)))"
    by (simp add: obj_field_def quote_dump_def instruction_dump_def)
  ultimately show ?thesis
    using assms
    by (cases q; cases "pq_receive_instruction q"; cases "ri_invoice (pq_receive_instruction q)")
      (simp_all add: strict_quote_def field_defs(1,2,4,5,7,9) PROTOCOL_VERSION_def quote_dump_def opt_field_def Let_def)
qed

lemma strict_receipt_dump:
  assumes "receipt_ok r"
  shows "strict_receipt (receipt_dump r) = Some r"
proof -
  have "identity_field (receipt_dump r) ''recipient'' = Some (pr_recipient r)"
    by (rule identity_field_dump) (simp add: receipt_dump_def)
  with assms show ?thesis
    by (cases r) (simp add: strict_receipt_def field_defs(1,2,5,7,9) PROTOCOL_VERSION_def receipt_dump_def Let_def)
qed

lemma strict_validated:
  "strict_intent d = Some i \<Longrightarrow> intent_ok i" "strict_quote d = Some q \<Longrightarrow> quote_ok q"
  "strict_receipt d = Some r \<Longrightarrow> receipt_ok r"
  by (auto simp: strict_intent_def strict_quote_def strict_receipt_def Let_def assert_opt_def
      bind_eq_Some_conv split: if_splits)

lemma canon_unsorted: "\<not> d_sort opt \<Longrightarrow> canon opt v = v"
  by (induction opt v rule: canon.induct) (auto simp: dump_order_def intro!: map_idI)

lemma envelope_json_ok: "json_ok (JObj (envelope_fields kind (model_dump m)))"
  using json_ok_dump [of m] by (simp add: envelope_fields_def)

lemma strict_envelope_json:
  "json_loads (json_dumps compact_opts (JObj (envelope_fields kind (model_dump m)))) =
     Some (JObj (envelope_fields kind (model_dump m)))"
proof -
  have "opts_ok compact_opts" by (simp add: opts_ok_def compact_opts_def)
  from json_roundtrip [OF this envelope_json_ok] canon_unsorted [of compact_opts] show ?thesis
    by (simp add: compact_opts_def del: json_dumps.simps canon.simps)
qed

lemma strict_contract: "pydantic_contract strict_pydantic"
  using strict_envelope_json
  by (auto simp: pydantic_contract_def strict_pydantic_def strict_intent_dump strict_quote_dump strict_receipt_dump
      simp del: json_dumps.simps dest: strict_validated)

section \<open>Properties\<close>

definition model_of :: "Pydantic \<Rightarrow> MessageKind \<Rightarrow> (string \<times> pyjson) list \<Rightarrow> DomainMessage option" where
  "model_of py k = (case k of INTENT \<Rightarrow> map_option MIntent \<circ> py_intent py
     | QUOTE \<Rightarrow> map_option MQuote \<circ> py_quote py | RECEIPT \<Rightarrow> map_option MReceipt \<circ> py_receipt py)"

lemma MessageKind_of_value_Some: "MessageKind_of_value s = Some k \<Longrightarrow> s = MessageKind_value k"
  unfolding MessageKind_of_value_def by (drule find_Some_in) simp

lemma model_for_Some:
  assumes "model_for py t = Inr (Some validate)"
  shows "\<exists>k. t = JStr (MessageKind_value k) \<and> validate = model_of py k"
proof (cases t)
  case (JStr s)
  with assms obtain k where k: "MessageKind_of_value s = Some k"
    by (cases "MessageKind_of_value s") (simp_all add: model_for_def)
  with JStr assms have "validate = model_of py k"
    by (cases k) (simp_all add: model_for_def model_of_def)
  with MessageKind_of_value_Some [OF k] JStr show ?thesis by blast
qed (use assms in \<open>simp_all add: model_for_def\<close>)

lemma decode_Inr:
  assumes "decode_content py content = Inr m"
  obtains data d where "json_loads content = Some (JObj data)"
    and "dict_get data ''protocol'' = Some (JStr PROTOCOL_ID)" and "dict_get data ''version'' = Some (JStr ''1'')"
    and "dict_get data ''payload'' = Some (JObj d)"
    and "(\<exists>i. m = MIntent i \<and> py_intent py d = Some i \<and> dict_get data ''type'' = Some (JStr ''payment_intent''))
       \<or> (\<exists>q. m = MQuote q \<and> py_quote py d = Some q \<and> dict_get data ''type'' = Some (JStr ''payment_quote''))
       \<or> (\<exists>r. m = MReceipt r \<and> py_receipt py d = Some r \<and> dict_get data ''type'' = Some (JStr ''payment_receipt''))"
proof -
  have none: "get_or_none data k = JStr v \<longleftrightarrow> dict_get data k = Some (JStr v)"
    "get_or_none data k = JObj o' \<longleftrightarrow> dict_get data k = Some (JObj o')" for data k v o'
    by (auto simp: get_or_none_def split: option.splits)
  from assms obtain data where data: "json_loads content = Some (JObj data)"
    by (auto simp: decode_content_def split: option.splits pyjson.splits)
  have body: "decode_content py content = Inr m \<Longrightarrow> get_or_none data ''protocol'' = JStr PROTOCOL_ID
      \<and> get_or_none data ''version'' = JStr ''1''"
    unfolding decode_content_def data Let_def by (simp split: if_split_asm)
  then have pv: "get_or_none data ''protocol'' = JStr PROTOCOL_ID" "get_or_none data ''version'' = JStr ''1''"
    using assms by blast+
  obtain f where f: "model_for py (get_or_none data ''type'') = Inr f"
    using assms unfolding decode_content_def data Let_def
    by (cases "model_for py (get_or_none data ''type'')") (auto split: if_split_asm)
  obtain validate where g: "f = Some validate"
    using assms f unfolding decode_content_def data Let_def by (cases f) (auto split: if_split_asm)
  obtain d where d: "get_or_none data ''payload'' = JObj d"
    using assms f g unfolding decode_content_def data Let_def
    by (cases "get_or_none data ''payload''") (auto split: if_split_asm)
  have "validate d = Some m"
    using assms f g d unfolding decode_content_def data Let_def
    by (cases "validate d") (simp_all split: if_split_asm)
  note v = pv f [unfolded g] d this
  from model_for_Some [OF v(3)] obtain k where "get_or_none data ''type'' = JStr (MessageKind_value k)"
    and "validate = model_of py k" by blast
  with v that [OF data] show thesis by (cases k) (auto simp: none model_of_def)
qed

definition sample_content :: string where
  "sample_content = json_dumps compact_opts (JObj (envelope_fields INTENT (intent_dump sample_intent)))"

lemma sample_ok: "message_ok (MIntent sample_intent)"
  by (simp add: intent_ok_def identity_ok_def sample_intent_def sample_alice_def sample_bob_def)

lemma sample_decodes: "decode_content strict_pydantic sample_content = Inr (MIntent sample_intent)"
proof -
  have "strict_intent (intent_dump sample_intent) = Some sample_intent"
    by (rule strict_intent_dump) (use sample_ok in simp)
  moreover have "json_loads (json_dumps compact_opts (JObj (envelope_fields INTENT (model_dump (MIntent sample_intent))))) =
      Some (JObj (envelope_fields INTENT (model_dump (MIntent sample_intent))))" by (rule strict_envelope_json)
  ultimately show ?thesis
    by (simp add: decode_content_def sample_content_def envelope_fields_def get_or_none_def model_for_def
        MessageKind_of_value_def PROTOCOL_ID_def Let_def strict_pydantic_def del: json_dumps.simps)
qed

text \<open>C28: what \<open>encode_content\<close> writes, \<open>decode_content\<close> reads back as the same message, for every
  intent, quote and receipt that satisfies its field constraints; an approval is refused by
  the encoder and no content whatsoever decodes to one.\<close>

theorem encode_decode_roundtrip:
  assumes "pydantic_contract py" and "message_ok m"
  shows "(if is_approval m then (\<exists>msg. encode_content py m = Inl (TypeError msg))
          else (\<exists>content. encode_content py m = Inr content \<and> decode_content py content = Inr m))
    \<and> (\<forall>content m'. decode_content py content = Inr m' \<longrightarrow> \<not> is_approval m')"
proof (intro conjI allI impI)
  have c: "json_loads (py_envelope_json py kind (model_dump m)) = Some (JObj (envelope_fields kind (model_dump m)))" for kind
    using assms(1) by (simp add: pydantic_contract_def)
  have v: "intent_ok i \<Longrightarrow> py_intent py (intent_dump i) = Some i" "quote_ok q \<Longrightarrow> py_quote py (quote_dump q) = Some q"
    "receipt_ok r \<Longrightarrow> py_receipt py (receipt_dump r) = Some r" for i q r
    using assms(1) by (simp_all add: pydantic_contract_def)
  note defs = encode_content_def decode_content_def envelope_fields_def get_or_none_def model_for_def
    MessageKind_of_value_def PROTOCOL_ID_def Let_def
  show "if is_approval m then (\<exists>msg. encode_content py m = Inl (TypeError msg))
    else (\<exists>content. encode_content py m = Inr content \<and> decode_content py content = Inr m)"
    using assms(2) c [of INTENT] c [of QUOTE] c [of RECEIPT] v
    by (cases m) (simp_all add: defs)
  show "\<not> is_approval m'" if "decode_content py content = Inr m'" for content m'
    using that by (elim decode_Inr) auto
qed

theorem encode_decode_roundtrip_witness:
  "\<exists>content. encode_content strict_pydantic (MIntent sample_intent) = Inr content
    \<and> decode_content strict_pydantic content = Inr (MIntent sample_intent)"
  using encode_decode_roundtrip [OF strict_contract sample_ok] by simp

text \<open>C29: nothing invalid gets through the decoder: a decoded message satisfies the field
  constraints of its class, and the content is a JSON object with this protocol, this
  version, the type of the message and a payload the validator accepted.\<close>

theorem decode_only_valid:
  assumes "pydantic_contract py" and "decode_content py content = Inr m"
  shows "message_ok m \<and> (\<exists>data d. json_loads content = Some (JObj data)
    \<and> dict_get data ''protocol'' = Some (JStr ''hermes-payments'') \<and> dict_get data ''version'' = Some (JStr ''1'')
    \<and> dict_get data ''payload'' = Some (JObj d)
    \<and> (case m of MIntent i \<Rightarrow> dict_get data ''type'' = Some (JStr ''payment_intent'') \<and> py_intent py d = Some i
        | MQuote q \<Rightarrow> dict_get data ''type'' = Some (JStr ''payment_quote'') \<and> py_quote py d = Some q
        | MReceipt r \<Rightarrow> dict_get data ''type'' = Some (JStr ''payment_receipt'') \<and> py_receipt py d = Some r
        | MApproval _ \<Rightarrow> False))"
  using assms(2)
proof (rule decode_Inr)
  fix data d
  assume "json_loads content = Some (JObj data)" "dict_get data ''protocol'' = Some (JStr PROTOCOL_ID)"
    "dict_get data ''version'' = Some (JStr ''1'')" "dict_get data ''payload'' = Some (JObj d)"
    "(\<exists>i. m = MIntent i \<and> py_intent py d = Some i \<and> dict_get data ''type'' = Some (JStr ''payment_intent''))
       \<or> (\<exists>q. m = MQuote q \<and> py_quote py d = Some q \<and> dict_get data ''type'' = Some (JStr ''payment_quote''))
       \<or> (\<exists>r. m = MReceipt r \<and> py_receipt py d = Some r \<and> dict_get data ''type'' = Some (JStr ''payment_receipt''))"
  then show ?thesis
    using assms(1) by (auto simp: pydantic_contract_def PROTOCOL_ID_def)
qed

theorem decode_only_valid_witness:
  "message_ok (MIntent sample_intent)"
  using decode_only_valid [OF strict_contract sample_decodes] by blast

text \<open>How the decoder fails. Every refusal is a \<open>ValueError\<close>, which its callers handle, with
  one exception: a content of this protocol and version whose \<open>type\<close> is a JSON array or
  object raises \<open>TypeError\<close>, because the value is looked up as a dictionary key unchecked.\<close>

theorem decode_errors:
  shows "(decode_content py content = Inl e \<longrightarrow> (\<exists>msg. e = ValueError msg)
      \<or> (\<exists>msg data t. e = TypeError msg \<and> json_loads content = Some (JObj data) \<and> dict_get data ''type'' = Some t \<and> \<not> hashable t))
    \<and> (json_loads content = Some (JObj data) \<and> dict_get data ''protocol'' = Some (JStr ''hermes-payments'')
        \<and> dict_get data ''version'' = Some (JStr ''1'') \<and> dict_get data ''type'' = Some t \<and> \<not> hashable t
       \<longrightarrow> (\<exists>msg. decode_content py content = Inl (TypeError msg)))"
proof (intro conjI impI)
  assume e: "decode_content py content = Inl e"
  show "(\<exists>msg. e = ValueError msg)
      \<or> (\<exists>msg data t. e = TypeError msg \<and> json_loads content = Some (JObj data) \<and> dict_get data ''type'' = Some t \<and> \<not> hashable t)"
  proof (cases "\<exists>data. json_loads content = Some (JObj data)")
    case True
    then obtain data where data: "json_loads content = Some (JObj data)" by blast
    show ?thesis
    proof (cases "hashable (get_or_none data ''type'')")
      case True
      with e data show ?thesis
        by (auto simp: decode_content_def model_for_def Let_def split: if_splits option.splits pyjson.splits)
    next
      case False
      then obtain t where t: "dict_get data ''type'' = Some t" "\<not> hashable t"
        by (auto simp: get_or_none_def split: option.splits)
      with e data show ?thesis
        by (auto simp: decode_content_def model_for_def get_or_none_def Let_def split: if_splits)
    qed
  next
    case False
    with e show ?thesis by (auto simp: decode_content_def split: option.splits pyjson.splits)
  qed
next
  assume "json_loads content = Some (JObj data) \<and> dict_get data ''protocol'' = Some (JStr ''hermes-payments'')
        \<and> dict_get data ''version'' = Some (JStr ''1'') \<and> dict_get data ''type'' = Some t \<and> \<not> hashable t"
  then show "\<exists>msg. decode_content py content = Inl (TypeError msg)"
    by (cases t) (simp_all add: decode_content_def get_or_none_def model_for_def PROTOCOL_ID_def)
qed

theorem decode_errors_witness:
  "\<exists>msg. decode_content strict_pydantic (json_dumps compact_opts (JObj [(''protocol'', JStr ''hermes-payments''),
     (''version'', JStr ''1''), (''type'', JList [])])) = Inl (TypeError msg)"
proof -
  let ?v = "JObj [(''protocol'', JStr ''hermes-payments''), (''version'', JStr ''1''), (''type'', JList [])]"
  have "json_loads (json_dumps compact_opts ?v) = Some ?v"
    using json_roundtrip [of compact_opts ?v] canon_unsorted [of compact_opts ?v]
    by (simp add: compact_opts_def opts_ok_def del: json_dumps.simps canon.simps)
  with decode_errors [of strict_pydantic "json_dumps compact_opts ?v" _ _ "JList []"]
  show ?thesis by (simp del: json_dumps.simps)
qed

end
