(* ===== verification/Peer_Transport.thy ===== *)
theory Peer_Transport
  imports Models
begin

text \<open>
  \<open>src/hermes_payments/peer_transport.py\<close>: peer messages and their authors, the transport
  interface, and the in-memory hub that delivers every message to all other peers in
  order. The locale \<open>peer_link\<close> is the contract a peer relies on, whatever carries its
  messages.
\<close>

record PeerMessage =
  pm_message_id :: string
  pm_message :: DomainMessage
  pm_author :: AgentIdentity
  pm_published_at :: int

fun message_author :: "DomainMessage \<Rightarrow> exn + AgentIdentity" where
  "message_author (MIntent i) = Inr (pi_sender i)"
| "message_author (MQuote q) = Inr (pq_recipient q)"
| "message_author (MReceipt r) = Inr (pr_recipient r)"
| "message_author (MApproval a) =
     Inl (PeerTransportError ''PaymentApproval is local-only and cannot cross a peer transport'')"

record 's PeerTransport =
  pt_send :: "DomainMessage \<Rightarrow> 's \<Rightarrow> (exn + string) \<times> 's"
  pt_receive :: "int option \<Rightarrow> 's \<Rightarrow> (exn + PeerMessage list) \<times> 's"

text \<open>What a peer collects by any sequence of sends and polls, failed calls included.\<close>

fun exchange :: "'s PeerTransport \<Rightarrow> (DomainMessage + int option) list \<Rightarrow> 's \<Rightarrow> PeerMessage list \<times> 's" where
  "exchange link [] s = ([], s)"
| "exchange link (Inl m # acts) s = exchange link acts (snd (pt_send link m s))"
| "exchange link (Inr l # acts) s =
     (case pt_receive link l s of
        (Inl _, s') \<Rightarrow> exchange link acts s'
      | (Inr ms, s') \<Rightarrow> let (ms', s'') = exchange link acts s' in (ms @ ms', s''))"

section \<open>The contract of a transport\<close>

text \<open>
  On a well-formed link: an approval is never sent, every received message carries the author
  its kind prescribes, and a limit bounds what one call hands out.
\<close>

locale peer_link =
  fixes link :: "'s PeerTransport"
    and well :: "'s \<Rightarrow> bool"
  assumes send_well: "well s \<Longrightarrow> well (snd (pt_send link m s))"
    and receive_well: "well s \<Longrightarrow> well (snd (pt_receive link l s))"
    and send_unauthored: "message_author m = Inl e \<Longrightarrow> \<exists>e'. pt_send link m s = (Inl e', s)"
    and receive_authored: "well s \<Longrightarrow> pt_receive link l s = (Inr ms, s') \<Longrightarrow> pm \<in> set ms \<Longrightarrow>
      message_author (pm_message pm) = Inr (pm_author pm)"
    and receive_limited: "pt_receive link (Some n) s = (Inr ms, s') \<Longrightarrow> 0 \<le> n \<and> length ms \<le> nat n"
begin

lemma exchange_authored:
  assumes "well s" and "pm \<in> set (fst (exchange link acts s))"
  shows "message_author (pm_message pm) = Inr (pm_author pm)"
  using assms
proof (induction acts arbitrary: s)
  case (Cons act acts)
  show ?case
  proof (cases act)
    case (Inl m)
    with Cons.prems Cons.IH [OF send_well] show ?thesis by simp
  next
    case (Inr l)
    obtain out s' where got: "pt_receive link l s = (out, s')" by force
    have "well s'" using receive_well [OF Cons.prems(1), of l] got by simp
    with Cons Inr got show ?thesis
      by (cases out) (auto split: prod.splits intro: receive_authored [OF Cons.prems(1)])
  qed
qed simp

lemma exchange_no_approval:
  "well s \<Longrightarrow> pm \<in> set (fst (exchange link acts s)) \<Longrightarrow> pm_message pm \<noteq> MApproval a"
  by (drule (1) exchange_authored) auto

end

section \<open>The in-memory hub\<close>

text \<open>\<open>hub_now\<close> is what the hub's clock shows.\<close>

record Hub =
  hub_now :: int
  hub_inboxes :: "(string \<times> PeerMessage list) list"
  hub_counter :: int

definition hub_init :: "int \<Rightarrow> Hub" where
  "hub_init now = \<lparr>hub_now = now, hub_inboxes = [], hub_counter = 0\<rparr>"

definition hub_connect :: "string \<Rightarrow> Hub \<Rightarrow> (exn + unit) \<times> Hub" where
  "hub_connect peer_id hub =
     (if peer_id = [] then (Inl (ValueError ''peer_id is required''), hub)
      else if dict_get (hub_inboxes hub) peer_id \<noteq> None then
        (Inl (ValueError (''peer_id already connected: '' @ peer_id)), hub)
      else (Inr (), hub\<lparr>hub_inboxes := dict_set peer_id [] (hub_inboxes hub)\<rparr>))"

definition hub_message_id :: "string \<Rightarrow> int \<Rightarrow> DomainMessage \<Rightarrow> string" where
  "hub_message_id peer_id counter message =
     sha256_hex (utf8_encode (peer_id @ '':'' @ show_int counter @ '':'' @ compute_id message))"

definition hub_send :: "string \<Rightarrow> AgentIdentity \<Rightarrow> DomainMessage \<Rightarrow> Hub \<Rightarrow> (exn + string) \<times> Hub" where
  "hub_send peer_id identity message hub =
     (case message_author message of
        Inl e \<Rightarrow> (Inl e, hub)
      | Inr author \<Rightarrow>
          if pubkey author \<noteq> pubkey identity then
            (Inl (PeerTransportError ''local peer is not the message author''), hub)
          else
            let message_id = hub_message_id peer_id (hub_counter hub) message;
                delivered = \<lparr>pm_message_id = message_id, pm_message = message, pm_author = author,
                             pm_published_at = hub_now hub\<rparr>;
                inboxes = map (\<lambda>(recipient_id, inbox).
                  (recipient_id, if recipient_id \<noteq> peer_id then inbox @ [delivered] else inbox)) (hub_inboxes hub)
            in (Inr message_id, hub\<lparr>hub_counter := hub_counter hub + 1, hub_inboxes := inboxes\<rparr>))"

definition hub_receive :: "string \<Rightarrow> int option \<Rightarrow> Hub \<Rightarrow> (exn + PeerMessage list) \<times> Hub" where
  "hub_receive peer_id limit hub =
     (if (case limit of Some n \<Rightarrow> n < 0 | None \<Rightarrow> False) then (Inl (ValueError ''limit must be zero or greater''), hub)
      else case dict_get (hub_inboxes hub) peer_id of
        None \<Rightarrow> (Inl (KeyError (str_repr peer_id)), hub)
      | Some inbox \<Rightarrow>
          if limit = Some 0 then (Inr [], hub)
          else
            let selected = (case limit of None \<Rightarrow> inbox | Some n \<Rightarrow> take (nat n) inbox) in
            (Inr selected, hub\<lparr>hub_inboxes := dict_set peer_id (drop (length selected) inbox) (hub_inboxes hub)\<rparr>))"

text \<open>\<open>InMemoryPeerTransport\<close>: one endpoint of the hub.\<close>

definition hub_endpoint :: "string \<Rightarrow> AgentIdentity \<Rightarrow> Hub PeerTransport" where
  "hub_endpoint peer_id identity = \<lparr>pt_send = hub_send peer_id identity, pt_receive = hub_receive peer_id\<rparr>"

section \<open>The hub meets the contract\<close>

definition hub_wf :: "Hub \<Rightarrow> bool" where
  "hub_wf hub \<longleftrightarrow> dict_wf (hub_inboxes hub) \<and> (\<forall>k inbox. dict_get (hub_inboxes hub) k = Some inbox \<longrightarrow>
     (\<forall>pm \<in> set inbox. message_author (pm_message pm) = Inr (pm_author pm)))"

lemma dict_get_map_inboxes:
  "dict_get (map (\<lambda>(k, v). (k, f k v)) d) k = map_option (f k) (dict_get d k)"
  by (induction d) auto

lemma hub_send_inbox:
  assumes "hub_send p identity m hub = (Inr mid, hub')"
  shows "\<exists>author. message_author m = Inr author \<and> pubkey author = pubkey identity
    \<and> mid = hub_message_id p (hub_counter hub) m
    \<and> (\<forall>q. dict_get (hub_inboxes hub') q = map_option (\<lambda>inbox. if q \<noteq> p
         then inbox @ [\<lparr>pm_message_id = mid, pm_message = m, pm_author = author, pm_published_at = hub_now hub\<rparr>]
         else inbox) (dict_get (hub_inboxes hub) q))
    \<and> map fst (hub_inboxes hub') = map fst (hub_inboxes hub) \<and> hub_counter hub' = hub_counter hub + 1"
  using assms by (auto simp: hub_send_def Let_def dict_get_map_inboxes split: sum.splits if_splits)

lemma hub_send_Inl: "hub_send p identity m hub = (Inl e, hub') \<Longrightarrow> hub' = hub"
  by (auto simp: hub_send_def Let_def split: sum.splits if_splits)

lemma hub_receive_Inl: "hub_receive p l hub = (Inl e, hub') \<Longrightarrow> hub' = hub"
  by (auto simp: hub_receive_def Let_def split: option.splits if_splits)

lemma take_drop_min: "take n xs @ drop (min (length xs) n) xs = xs"
  by (cases "n \<le> length xs") (simp_all add: min_def)

lemma hub_receive_Inr:
  assumes "hub_receive p l hub = (Inr ms, hub')"
  shows "\<exists>rest. dict_get (hub_inboxes hub) p = Some (ms @ rest)
    \<and> (\<forall>q. dict_get (hub_inboxes hub') q = (if q = p then Some rest else dict_get (hub_inboxes hub) q))
    \<and> (\<forall>n. l = Some n \<longrightarrow> 0 \<le> n \<and> length ms \<le> nat n) \<and> (l = None \<longrightarrow> rest = [])
    \<and> (dict_wf (hub_inboxes hub) \<longrightarrow> dict_wf (hub_inboxes hub'))"
  using assms by (auto simp: hub_receive_def Let_def take_drop_min split: option.splits if_splits)

lemma hub_wf_send: "hub_wf hub \<Longrightarrow> hub_wf (snd (hub_send p identity m hub))"
proof (cases "hub_send p identity m hub")
  case (Pair out hub')
  assume wf: "hub_wf hub"
  show ?thesis
  proof (cases out)
    case (Inl e)
    with Pair wf hub_send_Inl show ?thesis by fastforce
  next
    case (Inr mid)
    with Pair have "hub_send p identity m hub = (Inr mid, hub')" by simp
    from hub_send_inbox [OF this] wf Pair show ?thesis
      by (auto simp: hub_wf_def split: if_splits)
  qed
qed

lemma hub_wf_receive: "hub_wf hub \<Longrightarrow> hub_wf (snd (hub_receive p l hub))"
proof (cases "hub_receive p l hub")
  case (Pair out hub')
  assume wf: "hub_wf hub"
  show ?thesis
  proof (cases out)
    case (Inl e)
    with Pair wf hub_receive_Inl show ?thesis by fastforce
  next
    case (Inr ms)
    with Pair have "hub_receive p l hub = (Inr ms, hub')" by simp
    from hub_receive_Inr [OF this] obtain rest where old: "dict_get (hub_inboxes hub) p = Some (ms @ rest)"
      and new: "\<And>q. dict_get (hub_inboxes hub') q = (if q = p then Some rest else dict_get (hub_inboxes hub) q)"
      and dist: "dict_wf (hub_inboxes hub) \<longrightarrow> dict_wf (hub_inboxes hub')" by blast
    have authored: "dict_get (hub_inboxes hub) k = Some inbox \<Longrightarrow> pm \<in> set inbox \<Longrightarrow>
        message_author (pm_message pm) = Inr (pm_author pm)" for k inbox pm
      using wf unfolding hub_wf_def by blast
    have "dict_get (hub_inboxes hub') k = Some inbox \<Longrightarrow> pm \<in> set inbox \<Longrightarrow>
        message_author (pm_message pm) = Inr (pm_author pm)" for k inbox pm
      using authored [OF old, of pm] authored [of k inbox pm] new [of k] by (cases "k = p") simp_all
    with wf dist Pair show ?thesis unfolding hub_wf_def by simp
  qed
qed

interpretation hub: peer_link "hub_endpoint p identity" hub_wf for p identity
proof
  fix m e s
  show "message_author m = Inl e \<Longrightarrow> \<exists>e'. pt_send (hub_endpoint p identity) m s = (Inl e', s)"
    by (simp add: hub_endpoint_def hub_send_def)
next
  fix s l ms s' pm
  assume "hub_wf s" "pt_receive (hub_endpoint p identity) l s = (Inr ms, s')" "pm \<in> set ms"
  then show "message_author (pm_message pm) = Inr (pm_author pm)"
    using hub_receive_Inr [of p l s ms s'] by (auto simp: hub_endpoint_def hub_wf_def)
next
  fix n s ms s'
  assume "pt_receive (hub_endpoint p identity) (Some n) s = (Inr ms, s')"
  then show "0 \<le> n \<and> length ms \<le> nat n"
    using hub_receive_Inr [of p "Some n" s ms s'] by (auto simp: hub_endpoint_def)
qed (simp_all add: hub_endpoint_def hub_wf_send hub_wf_receive)

section \<open>Delivery\<close>

text \<open>
  A history of the hub: what endpoint \<open>q\<close> has been handed, and what the others have sent, by a
  sequence of operations of any peers.
\<close>

datatype hub_op = HConnect string | HSend string AgentIdentity DomainMessage | HReceive string "int option" | HTick int

fun hub_step :: "hub_op \<Rightarrow> Hub \<Rightarrow> Hub" where
  "hub_step (HConnect p) hub = snd (hub_connect p hub)"
| "hub_step (HSend p identity m) hub = snd (hub_send p identity m hub)"
| "hub_step (HReceive p l) hub = snd (hub_receive p l hub)"
| "hub_step (HTick now) hub = hub\<lparr>hub_now := now\<rparr>"

fun handed :: "string \<Rightarrow> hub_op \<Rightarrow> Hub \<Rightarrow> PeerMessage list" where
  "handed q (HReceive p l) hub = (if p = q then (case fst (hub_receive p l hub) of Inr ms \<Rightarrow> ms | Inl _ \<Rightarrow> []) else [])"
| "handed q _ hub = []"

fun sent_to :: "string \<Rightarrow> hub_op \<Rightarrow> Hub \<Rightarrow> PeerMessage list" where
  "sent_to q (HSend p identity m) hub =
     (case (hub_send p identity m hub, message_author m) of
        ((Inr mid, _), Inr author) \<Rightarrow> if p \<noteq> q
          then [\<lparr>pm_message_id = mid, pm_message = m, pm_author = author, pm_published_at = hub_now hub\<rparr>] else []
      | _ \<Rightarrow> [])"
| "sent_to q _ hub = []"

fun history :: "(string \<Rightarrow> hub_op \<Rightarrow> Hub \<Rightarrow> PeerMessage list) \<Rightarrow> string \<Rightarrow> hub_op list \<Rightarrow> Hub \<Rightarrow> PeerMessage list" where
  "history f q [] hub = []"
| "history f q (x # xs) hub = f q x hub @ history f q xs (hub_step x hub)"

definition inbox :: "string \<Rightarrow> Hub \<Rightarrow> PeerMessage list" where
  "inbox q hub = (case dict_get (hub_inboxes hub) q of Some ms \<Rightarrow> ms | None \<Rightarrow> [])"

lemma hub_step_delivery:
  assumes "dict_get (hub_inboxes hub) q = Some ms"
  shows "\<exists>ms'. dict_get (hub_inboxes (hub_step x hub)) q = Some ms' \<and> handed q x hub @ ms' = ms @ sent_to q x hub"
proof (cases x)
  case (HConnect p)
  then show ?thesis using assms by (auto simp: hub_connect_def)
next
  case (HTick now)
  then show ?thesis using assms by simp
next
  case (HSend p identity m)
  obtain out hub' where sent: "hub_send p identity m hub = (out, hub')" by force
  show ?thesis
  proof (cases out)
    case (Inl e)
    with HSend sent assms hub_send_Inl show ?thesis by fastforce
  next
    case (Inr mid)
    with sent have "hub_send p identity m hub = (Inr mid, hub')" by simp
    with hub_send_inbox [OF this] HSend assms show ?thesis by auto
  qed
next
  case (HReceive p l)
  obtain out hub' where got: "hub_receive p l hub = (out, hub')" by force
  show ?thesis
  proof (cases out)
    case (Inl e)
    with HReceive got assms hub_receive_Inl show ?thesis by fastforce
  next
    case (Inr ms')
    with got have "hub_receive p l hub = (Inr ms', hub')" by simp
    with hub_receive_Inr [OF this] HReceive assms show ?thesis by (auto simp del: map_of_eq_Some_iff)
  qed
qed

text \<open>The hub delivers exactly once and in order: whatever the peers do in whatever order,
  what a connected endpoint has been handed followed by what waits in its inbox is what
  waited at the start followed by everything the other endpoints sent, in sending order.\<close>

theorem hub_delivers_in_order:
  assumes "dict_get (hub_inboxes hub) q = Some ms"
  shows "history handed q xs hub @ inbox q (fold hub_step xs hub) = ms @ history sent_to q xs hub"
  using assms
proof (induction xs arbitrary: hub ms)
  case (Cons x xs)
  obtain ms' where step: "dict_get (hub_inboxes (hub_step x hub)) q = Some ms'"
    "handed q x hub @ ms' = ms @ sent_to q x hub"
    using hub_step_delivery [OF Cons.prems] by blast
  from Cons.IH [OF step(1)] step(2) show ?case by simp
qed (simp add: inbox_def)

theorem hub_delivers_in_order_witness:
  "history handed ''bob'' [HConnect ''alice'', HSend ''alice'' sample_alice (MIntent sample_intent), HReceive ''bob'' None]
     (snd (hub_connect ''bob'' (hub_init 7))) =
   [\<lparr>pm_message_id = hub_message_id ''alice'' 0 (MIntent sample_intent), pm_message = MIntent sample_intent,
     pm_author = sample_alice, pm_published_at = 7\<rparr>]"
proof -
  let ?xs = "[HConnect ''alice'', HSend ''alice'' sample_alice (MIntent sample_intent), HReceive ''bob'' None]"
    and ?hub = "snd (hub_connect ''bob'' (hub_init 7))"
  have "dict_get (hub_inboxes ?hub) ''bob'' = Some []" by (simp add: hub_connect_def hub_init_def)
  from hub_delivers_in_order [OF this, of ?xs]
  have "history handed ''bob'' ?xs ?hub @ inbox ''bob'' (fold hub_step ?xs ?hub) = history sent_to ''bob'' ?xs ?hub" by simp
  moreover have "inbox ''bob'' (fold hub_step ?xs ?hub) = []"
    by (simp add: hub_connect_def hub_init_def hub_send_def hub_receive_def inbox_def sample_intent_def Let_def)
  moreover have "history sent_to ''bob'' ?xs ?hub = [\<lparr>pm_message_id = hub_message_id ''alice'' 0 (MIntent sample_intent),
      pm_message = MIntent sample_intent, pm_author = sample_alice, pm_published_at = 7\<rparr>]"
    by (simp add: hub_connect_def hub_init_def hub_send_def sample_intent_def Let_def)
  ultimately show ?thesis by simp
qed

text \<open>Whatever a peer exchanges over the hub, every message it is handed names the author
  its kind prescribes, and none is an approval.\<close>

theorem hub_messages_authored:
  assumes "hub_wf hub" and "pm \<in> set (fst (exchange (hub_endpoint p identity) acts hub))"
  shows "message_author (pm_message pm) = Inr (pm_author pm) \<and> \<not> (\<exists>a. pm_message pm = MApproval a)"
  using hub.exchange_authored [OF assms] hub.exchange_no_approval [OF assms] by blast

theorem hub_messages_authored_witness:
  "let pm = \<lparr>pm_message_id = ''m'', pm_message = MIntent sample_intent, pm_author = sample_alice, pm_published_at = 7\<rparr> in
   message_author (pm_message pm) = Inr (pm_author pm) \<and> \<not> (\<exists>a. pm_message pm = MApproval a)"
proof -
  let ?pm = "\<lparr>pm_message_id = ''m'', pm_message = MIntent sample_intent, pm_author = sample_alice, pm_published_at = 7\<rparr>"
    and ?hub = "\<lambda>pm. \<lparr>hub_now = 7, hub_inboxes = [(''bob'', [pm])], hub_counter = 1\<rparr>"
  have "hub_wf (?hub ?pm)" by (auto simp: hub_wf_def sample_intent_def split: if_splits)
  moreover have "?pm \<in> set (fst (exchange (hub_endpoint ''bob'' sample_bob) [Inr None] (?hub ?pm)))"
    by (simp add: hub_endpoint_def hub_receive_def Let_def)
  ultimately show ?thesis unfolding Let_def by (rule hub_messages_authored)
qed

end
