(* ===== verification/Transport.thy ===== *)
theory Transport
  imports Envelope Peer_Transport
begin

text \<open>
  The Buzz transport of \<open>src/hermes_payments/transport.py\<close>: raw events, the executor interface
  and its in-memory implementation, the validation of received events, and the channel
  transport with its receive cursor. The buzz command line itself is behind the executor.
\<close>

section \<open>Events and executors\<close>

record RawBuzzEvent =
  rb_id :: string
  rb_pubkey :: string
  rb_kind :: int
  rb_content :: string
  rb_tags :: "string list list"
  rb_created_at :: int

record 'x BuzzExecutor =
  bx_send :: "string \<Rightarrow> string \<Rightarrow> 'x \<Rightarrow> (exn + string) \<times> 'x"
  bx_get :: "string \<Rightarrow> int list option \<Rightarrow> int option \<Rightarrow> int option \<Rightarrow> 'x \<Rightarrow> (exn + RawBuzzEvent list) \<times> 'x"

fun channel_from_tags :: "string list list \<Rightarrow> string" where
  "channel_from_tags [] = []"
| "channel_from_tags (tag # tags) =
     (case tag of a # b # _ \<Rightarrow> if a = ''h'' then b else channel_from_tags tags | _ \<Rightarrow> channel_from_tags tags)"

text \<open>\<open>FakeExecutor\<close>; \<open>fx_now\<close> is what \<open>int(time.time())\<close> gives.\<close>

record FakeExecutor =
  fx_sent :: "(string \<times> string) list"
  fx_events :: "RawBuzzEvent list"
  fx_next_id :: int
  fx_now :: int

definition fake_init :: "int \<Rightarrow> FakeExecutor" where
  "fake_init now = \<lparr>fx_sent = [], fx_events = [], fx_next_id = 0, fx_now = now\<rparr>"

definition fake_send :: "string \<Rightarrow> string \<Rightarrow> FakeExecutor \<Rightarrow> (exn + string) \<times> FakeExecutor" where
  "fake_send channel content fx =
     (let event_id = sha256_hex (utf8_encode (channel @ '':'' @ show_int (fx_next_id fx) @ '':'' @ content));
          event = \<lparr>rb_id = event_id, rb_pubkey = concat (replicate 32 ''aa''), rb_kind = 9, rb_content = content,
                   rb_tags = [ [''h'', channel] ], rb_created_at = fx_now fx\<rparr>
      in (Inr event_id, fx\<lparr>fx_next_id := fx_next_id fx + 1, fx_events := fx_events fx @ [event],
                           fx_sent := fx_sent fx @ [(channel, content)]\<rparr>))"

text \<open>Slicing with a negative bound drops from the end, as in Python.\<close>

definition py_take :: "int \<Rightarrow> 'a list \<Rightarrow> 'a list" where
  "py_take n xs = (if n < 0 then take (length xs - nat (- n)) xs else take (nat n) xs)"

definition fake_get ::
    "string \<Rightarrow> int list option \<Rightarrow> int option \<Rightarrow> int option \<Rightarrow> FakeExecutor \<Rightarrow> (exn + RawBuzzEvent list) \<times> FakeExecutor" where
  "fake_get channel kinds since limit fx =
     (let result = filter (\<lambda>e. channel_from_tags (rb_tags e) = channel) (fx_events fx);
          result = (case kinds of Some (k # ks) \<Rightarrow> filter (\<lambda>e. rb_kind e \<in> set (k # ks)) result | _ \<Rightarrow> result);
          result = (case since of Some t \<Rightarrow> filter (\<lambda>e. t \<le> rb_created_at e) result | None \<Rightarrow> result);
          result = (case limit of Some n \<Rightarrow> py_take n result | None \<Rightarrow> result)
      in (Inr result, fx))"

definition fake_inject :: "RawBuzzEvent \<Rightarrow> FakeExecutor \<Rightarrow> FakeExecutor" where
  "fake_inject event fx = fx\<lparr>fx_events := fx_events fx @ [event]\<rparr>"

definition fake_executor :: "FakeExecutor BuzzExecutor" where
  "fake_executor = \<lparr>bx_send = fake_send, bx_get = fake_get\<rparr>"

section \<open>Validation of received events\<close>

text \<open>\<open>message.expires_at\<close> where the class has the field.\<close>

fun expiry_of :: "DomainMessage \<Rightarrow> int option" where
  "expiry_of (MIntent i) = Some (pi_expires_at i)"
| "expiry_of (MQuote q) = Some (pq_expires_at q)"
| "expiry_of _ = None"

definition check_event_author :: "RawBuzzEvent \<Rightarrow> DomainMessage \<Rightarrow> exn option" where
  "check_event_author event message =
     (let check = (\<lambda>role author.
        if rb_pubkey event \<noteq> pubkey author
        then Some (EnvelopeValidationError (''event pubkey '' @ rb_pubkey event @ '' does not match '' @ role @ pubkey author))
        else None)
      in case message of
        MIntent i \<Rightarrow> check ''intent sender '' (pi_sender i)
      | MQuote q \<Rightarrow> check ''quote recipient '' (pq_recipient q)
      | MReceipt r \<Rightarrow> check ''receipt recipient '' (pr_recipient r)
      | MApproval _ \<Rightarrow> None)"

definition validate_received_event :: "Pydantic \<Rightarrow> string \<Rightarrow> int \<Rightarrow> RawBuzzEvent \<Rightarrow> exn + DomainMessage" where
  "validate_received_event py expected_channel now event =
     (if rb_kind event \<noteq> WIRE_KIND then
        Inl (EnvelopeValidationError (''kind '' @ show_int (rb_kind event) @ '' is not a payment kind; expected '' @ show_int WIRE_KIND))
      else if channel_from_tags (rb_tags event) \<noteq> expected_channel then
        Inl (EnvelopeValidationError (''h-tag channel '' @ str_repr (channel_from_tags (rb_tags event)) @
          '' does not match expected channel '' @ str_repr expected_channel))
      else case decode_content py (rb_content event) of
        Inl (ValueError m) \<Rightarrow> Inl (EnvelopeValidationError (''content validation failed: '' @ m))
      | Inl e \<Rightarrow> Inl e
      | Inr message \<Rightarrow>
          (case expiry_of message of
             Some t \<Rightarrow>
               if t \<noteq> 0 \<and> t < now then
                 Inl (EnvelopeValidationError (''message has expired (expires_at='' @ show_int t @ '', now='' @ show_int now @ '')''))
               else (case check_event_author event message of Some e \<Rightarrow> Inl e | None \<Rightarrow> Inr message)
           | None \<Rightarrow> (case check_event_author event message of Some e \<Rightarrow> Inl e | None \<Rightarrow> Inr message)))"

section \<open>The channel transport\<close>

record 'x buzz_config =
  bc_executor :: "'x BuzzExecutor"
  bc_py :: Pydantic
  bc_channel :: string
  bc_has_cursor :: bool
  bc_local_pubkey :: "string option"

text \<open>
  \<open>bt_cursor_file\<close> is the content of the file at the cursor path; \<open>bt_now\<close> and
  \<open>bt_cursor_writable\<close> are the clock and the file system as the call meets them.
\<close>

record 'x BuzzTransport =
  bt_seen :: "string set"
  bt_cursor_file :: "string option"
  bt_executor :: 'x
  bt_now :: int
  bt_cursor_writable :: bool

definition load_cursor :: "'x buzz_config \<Rightarrow> string option \<Rightarrow> exn + string set" where
  "load_cursor cfg file =
     (if \<not> bc_has_cursor cfg then Inr {}
      else case file of
        None \<Rightarrow> Inr {}
      | Some content \<Rightarrow>
          (case json_loads content of
             None \<Rightarrow> Inr {}
           | Some (JObj data) \<Rightarrow>
               (case (case dict_get data ''event_ids'' of Some v \<Rightarrow> v | None \<Rightarrow> JList []) of
                  JList ids \<Rightarrow> Inr (set (concat (map (\<lambda>v. case v of JStr event_id \<Rightarrow> [event_id] | _ \<Rightarrow> []) ids)))
                | _ \<Rightarrow> Inr {})
           | Some v \<Rightarrow> Inl (AttributeError (str_repr (py_type_name v) @ '' object has no attribute '' @ str_repr ''get''))))"

definition buzz_init :: "'x buzz_config \<Rightarrow> string option \<Rightarrow> int \<Rightarrow> 'x \<Rightarrow> exn + 'x BuzzTransport" where
  "buzz_init cfg file now x =
     (if bc_channel cfg = [] then Inl (ValueError ''channel UUID is required'')
      else case load_cursor cfg file of
        Inl e \<Rightarrow> Inl e
      | Inr seen \<Rightarrow> Inr \<lparr>bt_seen = seen, bt_cursor_file = file, bt_executor = x, bt_now = now, bt_cursor_writable = True\<rparr>)"

definition last_n :: "nat \<Rightarrow> 'a list \<Rightarrow> 'a list" where
  "last_n n xs = drop (length xs - n) xs"

definition cursor_json :: "string set \<Rightarrow> pyjson" where
  "cursor_json seen = JObj [(''event_ids'', JList (map JStr (last_n 10000 (sorted_list_of_set seen))))]"

definition save_cursor :: "'x buzz_config \<Rightarrow> 'x BuzzTransport \<Rightarrow> (exn + unit) \<times> 'x BuzzTransport" where
  "save_cursor cfg bt =
     (if \<not> bc_has_cursor cfg then (Inr (), bt)
      else if bt_cursor_writable bt then
        (Inr (), bt\<lparr>bt_cursor_file := Some (json_dumps default_sorted (cursor_json (bt_seen bt)))\<rparr>)
      else (Inl (OSError ''cursor write failed''), bt))"

definition buzz_send :: "'x buzz_config \<Rightarrow> DomainMessage \<Rightarrow> 'x BuzzTransport \<Rightarrow> (exn + string) \<times> 'x BuzzTransport" where
  "buzz_send cfg message bt =
     (case message_author message of
        Inl e \<Rightarrow> (Inl e, bt)
      | Inr _ \<Rightarrow>
          (case encode_content (bc_py cfg) message of
             Inl e \<Rightarrow> (Inl e, bt)
           | Inr content \<Rightarrow>
               (case bx_send (bc_executor cfg) (bc_channel cfg) content (bt_executor bt) of
                  (out, x) \<Rightarrow> (out, bt\<lparr>bt_executor := x\<rparr>))))"

text \<open>
  The loop over the fetched events: the messages collected so far, the identifiers seen, and
  whether the cursor changed. An \<open>EnvelopeValidationError\<close> skips the event; anything else
  that is raised leaves the loop.
\<close>

fun receive_loop ::
    "'x buzz_config \<Rightarrow> int \<Rightarrow> int option \<Rightarrow> RawBuzzEvent list \<Rightarrow> PeerMessage list \<Rightarrow> string set \<Rightarrow> bool
      \<Rightarrow> (exn + PeerMessage list) \<times> string set \<times> bool" where
  "receive_loop cfg now limit [] messages seen changed = (Inr messages, seen, changed)"
| "receive_loop cfg now limit (event # events) messages seen changed =
     (if rb_id event \<in> seen then receive_loop cfg now limit events messages seen changed
      else
        let seen = insert (rb_id event) seen in
        if bc_local_pubkey cfg = Some (rb_pubkey event) then receive_loop cfg now limit events messages seen True
        else case validate_received_event (bc_py cfg) (bc_channel cfg) now event of
          Inl (EnvelopeValidationError _) \<Rightarrow> receive_loop cfg now limit events messages seen True
        | Inl e \<Rightarrow> (Inl e, seen, True)
        | Inr message \<Rightarrow>
            (case message_author message of
               Inl e \<Rightarrow> (Inl e, seen, True)
             | Inr author \<Rightarrow>
                 let messages = messages @ [\<lparr>pm_message_id = rb_id event, pm_message = message, pm_author = author,
                                             pm_published_at = rb_created_at event\<rparr>] in
                 if (case limit of Some n \<Rightarrow> n \<le> int (length messages) | None \<Rightarrow> False)
                 then (Inr messages, seen, True)
                 else receive_loop cfg now limit events messages seen True))"

definition receive_peer_messages ::
    "'x buzz_config \<Rightarrow> int option \<Rightarrow> int option \<Rightarrow> 'x BuzzTransport \<Rightarrow> (exn + PeerMessage list) \<times> 'x BuzzTransport" where
  "receive_peer_messages cfg since limit bt =
     (if (case limit of Some n \<Rightarrow> n < 0 | None \<Rightarrow> False) then (Inl (ValueError ''limit must be zero or greater''), bt)
      else if limit = Some 0 then (Inr [], bt)
      else case bx_get (bc_executor cfg) (bc_channel cfg) (Some [WIRE_KIND]) since None (bt_executor bt) of
        (Inl e, x) \<Rightarrow> (Inl e, bt\<lparr>bt_executor := x\<rparr>)
      | (Inr raw_events, x) \<Rightarrow>
          (case receive_loop cfg (bt_now bt) limit raw_events [] (bt_seen bt) False of
             (out, seen, changed) \<Rightarrow>
               let bt = bt\<lparr>bt_executor := x, bt_seen := seen\<rparr> in
               (case out of
                  Inl e \<Rightarrow> (Inl e, bt)
                | Inr messages \<Rightarrow>
                    if changed then
                      (case save_cursor cfg bt of
                         (Inl e, bt) \<Rightarrow> (Inl e, bt)
                       | (Inr _, bt) \<Rightarrow> (Inr messages, bt))
                    else (Inr messages, bt))))"

definition buzz_receive :: "'x buzz_config \<Rightarrow> int option \<Rightarrow> 'x BuzzTransport \<Rightarrow> (exn + PeerMessage list) \<times> 'x BuzzTransport" where
  "buzz_receive cfg limit bt = receive_peer_messages cfg None limit bt"

definition receive_messages ::
    "'x buzz_config \<Rightarrow> int option \<Rightarrow> int option \<Rightarrow> 'x BuzzTransport \<Rightarrow> (exn + DomainMessage list) \<times> 'x BuzzTransport" where
  "receive_messages cfg since limit bt =
     (case receive_peer_messages cfg since limit bt of
        (Inl e, bt) \<Rightarrow> (Inl e, bt)
      | (Inr ms, bt) \<Rightarrow> (Inr (map pm_message ms), bt))"

definition buzz_link :: "'x buzz_config \<Rightarrow> 'x BuzzTransport PeerTransport" where
  "buzz_link cfg = \<lparr>pt_send = buzz_send cfg, pt_receive = buzz_receive cfg\<rparr>"

section \<open>What the loop hands out\<close>

text \<open>An event that passed every check, with the message it carries.\<close>

definition event_accepted :: "'x buzz_config \<Rightarrow> int \<Rightarrow> RawBuzzEvent \<Rightarrow> PeerMessage \<Rightarrow> bool" where
  "event_accepted cfg now event pm \<longleftrightarrow>
     bc_local_pubkey cfg \<noteq> Some (rb_pubkey event)
     \<and> validate_received_event (bc_py cfg) (bc_channel cfg) now event = Inr (pm_message pm)
     \<and> message_author (pm_message pm) = Inr (pm_author pm)
     \<and> pm_message_id pm = rb_id event \<and> pm_published_at pm = rb_created_at event"

lemma validate_accepts:
  assumes "validate_received_event py channel now event = Inr m"
  shows "rb_kind event = 9 \<and> channel_from_tags (rb_tags event) = channel \<and> decode_content py (rb_content event) = Inr m
    \<and> (\<forall>t. expiry_of m = Some t \<longrightarrow> t = 0 \<or> now \<le> t)
    \<and> (\<forall>a. message_author m = Inr a \<longrightarrow> pubkey a = rb_pubkey event)"
proof -
  have kc: "rb_kind event = 9" "channel_from_tags (rb_tags event) = channel"
    using assms by (auto simp: validate_received_event_def WIRE_KIND_def split: if_split_asm)
  obtain m' where d: "decode_content py (rb_content event) = Inr m'"
    using assms kc unfolding validate_received_event_def WIRE_KIND_def
    by (cases "decode_content py (rb_content event)") (auto split: exn.split_asm)
  show ?thesis
    using assms kc d unfolding validate_received_event_def WIRE_KIND_def
    by (cases m') (auto simp: check_event_author_def Let_def not_less split: if_split_asm)
qed

text \<open>
  One pass over a batch: the identifiers it marks, the messages it appends and the order in
  which they come.
\<close>

definition batch_post ::
    "'x buzz_config \<Rightarrow> int \<Rightarrow> RawBuzzEvent list \<Rightarrow> string set \<Rightarrow> string set \<Rightarrow> PeerMessage list \<Rightarrow> bool" where
  "batch_post cfg now events seen seen' new \<longleftrightarrow>
     seen \<subseteq> seen' \<and> seen' \<subseteq> seen \<union> rb_id ` set events
     \<and> distinct (map pm_message_id new) \<and> pm_message_id ` set new \<subseteq> seen' - seen
     \<and> (\<forall>pm \<in> set new. \<exists>event \<in> set events. event_accepted cfg now event pm)"

lemma batch_post_nil: "batch_post cfg now events seen seen []"
  by (auto simp: batch_post_def)

lemma batch_post_mark: "batch_post cfg now (event # events) seen (insert (rb_id event) seen) []"
  by (auto simp: batch_post_def)

lemma batch_post_one:
  "\<lbrakk>event_accepted cfg now event pm; rb_id event \<notin> seen\<rbrakk>
    \<Longrightarrow> batch_post cfg now (event # events) seen (insert (rb_id event) seen) [pm]"
  by (auto simp: batch_post_def event_accepted_def)

lemma batch_post_seen:
  "batch_post cfg now events seen seen' new \<Longrightarrow> batch_post cfg now (event # events) seen seen' new"
  by (auto simp: batch_post_def)

lemma batch_post_skip:
  "batch_post cfg now events (insert (rb_id event) seen) seen' new \<Longrightarrow> batch_post cfg now (event # events) seen seen' new"
  by (auto simp: batch_post_def)

lemma batch_post_take:
  assumes "event_accepted cfg now event pm" "rb_id event \<notin> seen"
    and "batch_post cfg now events (insert (rb_id event) seen) seen' new"
  shows "batch_post cfg now (event # events) seen seen' (pm # new)"
proof -
  have "pm_message_id pm = rb_id event" using assms(1) by (simp add: event_accepted_def)
  with assms show ?thesis unfolding batch_post_def by auto
qed

lemmas batch_post_intros = batch_post_nil batch_post_mark batch_post_one batch_post_seen batch_post_skip batch_post_take

lemma receive_loop_sound:
  assumes "receive_loop cfg now limit events messages seen changed = (out, seen', changed')"
  shows "\<exists>new. batch_post cfg now events seen seen' new \<and> (\<forall>ms. out = Inr ms \<longrightarrow> ms = messages @ new)"
  using assms
proof (induction events arbitrary: messages seen changed)
  case Nil
  then show ?case by (auto intro: batch_post_nil)
next
  case (Cons event events)
  note step = Cons.prems [unfolded receive_loop.simps Let_def]
  let ?seen = "insert (rb_id event) seen"
  consider (seen) "rb_id event \<in> seen"
    | (skip) "rb_id event \<notin> seen" "receive_loop cfg now limit events messages ?seen True = (out, seen', changed')"
    | (fail) e where "out = Inl e" "seen' = ?seen"
    | (one) pm where "rb_id event \<notin> seen" "event_accepted cfg now event pm" "out = Inr (messages @ [pm])" "seen' = ?seen"
    | (more) pm where "rb_id event \<notin> seen" "event_accepted cfg now event pm"
        "receive_loop cfg now limit events (messages @ [pm]) ?seen True = (out, seen', changed')"
  proof (cases "rb_id event \<in> seen \<or> bc_local_pubkey cfg = Some (rb_pubkey event)")
    case True
    then show ?thesis using step that(1,2) by (auto split: if_split_asm)
  next
    case False
    show ?thesis
    proof (cases "validate_received_event (bc_py cfg) (bc_channel cfg) now event")
      case (Inl e)
      then show ?thesis using step False that(2,3) by (cases e) auto
    next
      case (Inr message)
      show ?thesis
      proof (cases "message_author message")
        case Inl
        then show ?thesis using step False Inr that(3) by auto
      next
        case author: (Inr author)
        let ?pm = "\<lparr>pm_message_id = rb_id event, pm_message = message, pm_author = author, pm_published_at = rb_created_at event\<rparr>"
        have "event_accepted cfg now event ?pm" using False Inr author by (simp add: event_accepted_def)
        then show ?thesis using step False Inr author that(4) [of ?pm] that(5) [of ?pm] by (simp split: if_split_asm)
      qed
    qed
  qed
  then show ?case
  proof cases
    case seen
    with step have "receive_loop cfg now limit events messages seen changed = (out, seen', changed')" by simp
    from Cons.IH [OF this] show ?thesis by (blast intro: batch_post_seen)
  next
    case skip
    from Cons.IH [OF skip(2)] show ?thesis by (blast intro: batch_post_skip)
  next
    case fail
    then show ?thesis by (blast intro: batch_post_mark)
  next
    case one
    then show ?thesis by (blast intro: batch_post_one)
  next
    case more
    from Cons.IH [OF more(3)] obtain new where "batch_post cfg now events ?seen seen' new"
      "\<forall>ms. out = Inr ms \<longrightarrow> ms = (messages @ [pm]) @ new" by blast
    with more(1,2) show ?thesis by (intro exI [of _ "pm # new"]) (auto intro: batch_post_take)
  qed
qed

end
