(* ===== verification/Transport_Properties.thy ===== *)
theory Transport_Properties
  imports Transport
begin

text \<open>
  What the channel transport promises: sound and bounded deliveries, no event lost by a call
  that returns, no starvation under a limit, at most one delivery of an event over a whole
  history of polls, failures and restarts, and what an event that makes a call fail costs.
\<close>

section \<open>One call\<close>

lemma receive_loop_changed:
  "receive_loop cfg now limit events messages seen changed = (out, seen', changed')
    \<Longrightarrow> changed' \<longleftrightarrow> changed \<or> seen' \<noteq> seen"
proof (induction events arbitrary: messages seen changed)
  case (Cons event events)
  have grow: "insert (rb_id event) seen \<subseteq> seen'"
    if "receive_loop cfg now limit events messages' (insert (rb_id event) seen) True = (out, seen', changed')" for messages'
    using receive_loop_sound [OF that] by (auto simp: batch_post_def)
  from Cons.prems Cons.IH grow show ?case
    by (fastforce simp: Let_def split: if_split_asm sum.split_asm exn.split_asm)
qed simp

definition limit_reached :: "int option \<Rightarrow> PeerMessage list \<Rightarrow> bool" where
  "limit_reached limit ms = (case limit of Some n \<Rightarrow> n \<le> int (length ms) | None \<Rightarrow> False)"

lemma receive_loop_limit:
  "\<lbrakk>receive_loop cfg now limit events messages seen changed = (Inr ms, seen', changed');
    limit = Some n; int (length messages) < n\<rbrakk> \<Longrightarrow> int (length ms) \<le> n"
proof (induction events arbitrary: messages seen changed)
  case (Cons event events)
  from Cons.prems Cons.IH show ?case
    by (fastforce simp: Let_def split: if_split_asm sum.split_asm exn.split_asm)
qed simp

lemma receive_loop_extends:
  "receive_loop cfg now limit events messages seen changed = (Inr ms, seen', changed') \<Longrightarrow> set messages \<subseteq> set ms"
  using receive_loop_sound [of cfg now limit events messages seen changed "Inr ms" seen' changed'] by auto

lemma receive_loop_grows:
  "receive_loop cfg now limit events messages seen changed = (out, seen', changed') \<Longrightarrow> seen \<subseteq> seen'"
  using receive_loop_sound [of cfg now limit events messages seen changed out seen' changed'] by (auto simp: batch_post_def)

lemma event_accepted_unique:
  "\<lbrakk>event_accepted cfg now event pm; event_accepted cfg now event pm'\<rbrakk> \<Longrightarrow> pm = pm'"
  by (cases pm; cases pm') (auto simp: event_accepted_def)

lemma receive_loop_no_loss:
  assumes "receive_loop cfg now limit events messages seen changed = (Inr ms, seen', changed')"
    and "event \<in> set events" "rb_id event \<notin> seen" "event_accepted cfg now event pm"
    and "\<forall>e \<in> set events. rb_id e = rb_id event \<longrightarrow> e = event"
  shows "pm \<in> set ms \<or> rb_id event \<notin> seen'"
  using assms(1-3,5)
proof (induction events arbitrary: messages seen changed)
  case (Cons e events)
  note run = Cons.prems(1)
  show ?case
  proof (cases "e = event")
    case True
    have acc: "bc_local_pubkey cfg \<noteq> Some (rb_pubkey event)"
      "validate_received_event (bc_py cfg) (bc_channel cfg) now event = Inr (pm_message pm)"
      "message_author (pm_message pm) = Inr (pm_author pm)"
      "\<lparr>pm_message_id = rb_id event, pm_message = pm_message pm, pm_author = pm_author pm, pm_published_at = rb_created_at event\<rparr> = pm"
      using assms(4) by (auto simp: event_accepted_def)
    from run True Cons.prems(3) acc
    have "ms = messages @ [pm]
        \<or> receive_loop cfg now limit events (messages @ [pm]) (insert (rb_id event) seen) True = (Inr ms, seen', changed')"
      by (simp add: Let_def split: if_split_asm)
    then show ?thesis by (auto dest: receive_loop_extends)
  next
    case False
    then have "event \<in> set events" "rb_id event \<noteq> rb_id e" using Cons.prems by auto
    with run Cons.prems False show ?thesis
      by (auto simp: Let_def Cons.IH split: if_split_asm sum.split_asm exn.split_asm)
  qed
qed simp

lemma receive_loop_covers:
  assumes "receive_loop cfg now limit events messages seen changed = (Inr ms, seen', changed')"
  shows "(limit_reached limit ms \<or> rb_id ` set events \<subseteq> seen')
    \<and> (\<not> rb_id ` set events \<subseteq> seen \<longrightarrow> seen' \<noteq> seen)"
  using assms
proof (induction events arbitrary: messages seen changed)
  case (Cons event events)
  note run = Cons.prems
  show ?case
  proof (cases "rb_id event \<in> seen")
    case True
    with run have rest: "receive_loop cfg now limit events messages seen changed = (Inr ms, seen', changed')" by simp
    with Cons.IH [OF rest] receive_loop_grows [OF rest] True show ?thesis by auto
  next
    case new: False
    let ?seen = "insert (rb_id event) seen"
    consider (stop) "limit_reached limit ms" "seen' = ?seen"
      | (go) messages' where "receive_loop cfg now limit events messages' ?seen True = (Inr ms, seen', changed')"
      using run new by (auto simp: Let_def limit_reached_def split: if_split_asm sum.split_asm exn.split_asm)
    then show ?thesis
    proof cases
      case stop
      with new show ?thesis by auto
    next
      case go
      with Cons.IH [OF go] receive_loop_grows [OF go] new show ?thesis by auto
    qed
  qed
qed simp

definition harmless :: "'x buzz_config \<Rightarrow> int \<Rightarrow> RawBuzzEvent \<Rightarrow> bool" where
  "harmless cfg now event \<longleftrightarrow>
     (case decode_content (bc_py cfg) (rb_content event) of Inl (ValueError _) \<Rightarrow> True | Inl _ \<Rightarrow> False | Inr _ \<Rightarrow> True)"

lemma decoded_authored: "decode_content py content = Inr m \<Longrightarrow> \<exists>a. message_author m = Inr a"
  by (erule decode_Inr) auto

lemma check_event_author_error: "check_event_author event m = Some e \<Longrightarrow> \<exists>t. e = EnvelopeValidationError t"
  by (cases m) (auto simp: check_event_author_def Let_def split: if_split_asm)

lemma harmless_validate:
  assumes "harmless cfg now event"
    and "validate_received_event (bc_py cfg) (bc_channel cfg) now event = Inl e"
  shows "\<exists>t. e = EnvelopeValidationError t"
proof (cases "decode_content (bc_py cfg) (rb_content event)")
  case (Inl e')
  with assms show ?thesis
    by (cases e') (auto simp: harmless_def validate_received_event_def split: if_split_asm)
next
  case (Inr m)
  with assms(2) show ?thesis
    by (auto simp: validate_received_event_def split: if_split_asm option.split_asm dest: check_event_author_error)
qed

lemma receive_loop_returns:
  assumes "\<forall>event \<in> set events. harmless cfg now event"
  shows "\<exists>ms. fst (receive_loop cfg now limit events messages seen changed) = Inr ms"
  using assms
proof (induction events arbitrary: messages seen changed)
  case (Cons event events)
  show ?case
  proof (cases "validate_received_event (bc_py cfg) (bc_channel cfg) now event")
    case (Inl e)
    with harmless_validate [of cfg now event] Cons.prems obtain t where "e = EnvelopeValidationError t" by auto
    with Inl Cons show ?thesis by (simp add: Let_def)
  next
    case (Inr m)
    then obtain a where "message_author m = Inr a" using validate_accepts decoded_authored by blast
    with Inr Cons show ?thesis by (simp add: Let_def)
  qed
qed simp

section \<open>A call of the transport\<close>

lemma receive_Inr:
  assumes "receive_peer_messages cfg since limit bt = (Inr ms, bt')"
  shows "limit = Some 0 \<and> ms = [] \<and> bt' = bt
    \<or> (\<exists>events x changed. (\<forall>n. limit = Some n \<longrightarrow> 0 < n)
       \<and> bx_get (bc_executor cfg) (bc_channel cfg) (Some [WIRE_KIND]) since None (bt_executor bt) = (Inr events, x)
       \<and> receive_loop cfg (bt_now bt) limit events [] (bt_seen bt) False = (Inr ms, bt_seen bt', changed)
       \<and> bt_executor bt' = x \<and> bt_now bt' = bt_now bt \<and> bt_cursor_writable bt' = bt_cursor_writable bt
       \<and> bt_cursor_file bt' = (if changed \<and> bc_has_cursor cfg
            then Some (json_dumps default_sorted (cursor_json (bt_seen bt'))) else bt_cursor_file bt))"
proof (cases "limit = Some 0")
  case True
  with assms show ?thesis by (simp add: receive_peer_messages_def)
next
  case False
  have pos: "\<forall>n. limit = Some n \<longrightarrow> 0 < n"
    using assms False by (auto simp: receive_peer_messages_def split: if_split_asm)
  obtain got x where get: "bx_get (bc_executor cfg) (bc_channel cfg) (Some [WIRE_KIND]) since None (bt_executor bt) = (got, x)"
    by force
  from assms pos get False obtain events where events: "got = Inr events"
    by (cases got) (auto simp: receive_peer_messages_def split: option.split_asm if_split_asm)
  obtain out seen' changed where loop: "receive_loop cfg (bt_now bt) limit events [] (bt_seen bt) False = (out, seen', changed)"
    using prod_cases3 by blast
  from assms get events loop False pos show ?thesis
    by (cases out) (auto simp: receive_peer_messages_def save_cursor_def Let_def split: option.split_asm if_split_asm)
qed

lemma receive_Inl:
  assumes "receive_peer_messages cfg since limit bt = (Inl e, bt')"
  shows "bt_seen bt \<subseteq> bt_seen bt' \<and> bt_cursor_file bt' = bt_cursor_file bt \<and> bt_cursor_writable bt' = bt_cursor_writable bt
    \<and> (finite (bt_seen bt) \<longrightarrow> finite (bt_seen bt'))"
proof -
  obtain got x where get: "bx_get (bc_executor cfg) (bc_channel cfg) (Some [WIRE_KIND]) since None (bt_executor bt) = (got, x)"
    by force
  show ?thesis
  proof (cases got)
    case (Inl e')
    with assms get show ?thesis by (auto simp: receive_peer_messages_def split: option.split_asm if_split_asm)
  next
    case (Inr events)
    obtain out seen' changed where loop: "receive_loop cfg (bt_now bt) limit events [] (bt_seen bt) False = (out, seen', changed)"
      using prod_cases3 by blast
    from receive_loop_sound [OF loop] have mono: "bt_seen bt \<subseteq> seen'" "finite (bt_seen bt) \<longrightarrow> finite seen'"
      by (auto simp: batch_post_def intro: finite_subset)
    from assms get Inr loop mono show ?thesis
      by (cases out) (auto simp: receive_peer_messages_def save_cursor_def Let_def split: option.split_asm if_split_asm)
  qed
qed

section \<open>The contract of a transport\<close>

definition endpoint_well :: "'x BuzzTransport \<Rightarrow> bool" where
  "endpoint_well bt = True"

interpretation buzz: peer_link "buzz_link cfg" endpoint_well for cfg :: "'x buzz_config"
proof
  fix bt bt' :: "'x BuzzTransport" and m e l n ms pm
  show "endpoint_well (snd (pt_send (buzz_link cfg) m bt))" "endpoint_well (snd (pt_receive (buzz_link cfg) l bt))"
    by (simp_all add: endpoint_well_def)
  show "message_author m = Inl e \<Longrightarrow> \<exists>e'. pt_send (buzz_link cfg) m bt = (Inl e', bt)"
    by (simp add: buzz_link_def buzz_send_def)
  show "message_author (pm_message pm) = Inr (pm_author pm)"
    if "pt_receive (buzz_link cfg) l bt = (Inr ms, bt')" "pm \<in> set ms"
    using that by (fastforce simp: buzz_link_def buzz_receive_def batch_post_def event_accepted_def
        dest!: receive_Inr receive_loop_sound)
  show "0 \<le> n \<and> length ms \<le> nat n" if "pt_receive (buzz_link cfg) (Some n) bt = (Inr ms, bt')"
  proof -
    from that have "receive_peer_messages cfg None (Some n) bt = (Inr ms, bt')" by (simp add: buzz_link_def buzz_receive_def)
    from receive_Inr [OF this] show ?thesis
    proof (elim disjE exE conjE)
      fix events x changed
      assume pos: "\<forall>k. Some n = Some k \<longrightarrow> 0 < k"
        and loop: "receive_loop cfg (bt_now bt) (Some n) events [] (bt_seen bt) False = (Inr ms, bt_seen bt', changed)"
      from receive_loop_limit [OF loop refl] pos show ?thesis by simp
    qed simp
  qed
qed

section \<open>The cursor\<close>

lemma sorted_set_last: "finite S \<Longrightarrow> card S \<le> 10000 \<Longrightarrow> set (last_n 10000 (sorted_list_of_set S)) = (S :: string set)"
  by (simp add: last_n_def)

lemma load_saved_cursor:
  assumes "finite S" and "card S \<le> 10000" and "bc_has_cursor cfg"
  shows "load_cursor cfg (Some (json_dumps default_sorted (cursor_json S))) = Inr S"
proof -
  let ?ids = "last_n 10000 (sorted_list_of_set S)"
  have "canon default_sorted (cursor_json S) = cursor_json S"
    by (simp add: cursor_json_def dump_order_def comp_def)
  moreover have "json_ok (cursor_json S)" by (simp add: cursor_json_def list_all_iff)
  ultimately have "json_loads (json_dumps default_sorted (cursor_json S)) = Some (cursor_json S)"
    using json_roundtrip [OF opts_ok_in_use(3), of "cursor_json S"] by simp
  moreover have "concat (map (\<lambda>v. case v of JStr event_id \<Rightarrow> [event_id] | _ \<Rightarrow> []) (map JStr ids)) = ids" for ids
    by (induction ids) auto
  ultimately show ?thesis
    using assms sorted_set_last [OF assms(1,2)] by (simp add: load_cursor_def cursor_json_def del: json_dumps.simps)
qed

section \<open>Histories\<close>

text \<open>
  What an endpoint hands out over any history: sends, polls, failing calls, anything the
  outside does to the relay, the clock and the disk between them, and restarts of the
  process from its cursor file. A restart needs a cursor that was not truncated.
\<close>

inductive buzz_run :: "'x buzz_config \<Rightarrow> 'x BuzzTransport \<Rightarrow> PeerMessage list \<Rightarrow> bool" for cfg where
  start: "buzz_init cfg file now x = Inr bt \<Longrightarrow> buzz_run cfg bt []"
| outside: "buzz_run cfg bt got \<Longrightarrow> buzz_run cfg (bt\<lparr>bt_executor := x, bt_now := now, bt_cursor_writable := w\<rparr>) got"
| send: "buzz_run cfg bt got \<Longrightarrow> buzz_run cfg (snd (buzz_send cfg m bt)) got"
| poll: "buzz_run cfg bt got \<Longrightarrow> receive_peer_messages cfg since limit bt = (Inr ms, bt') \<Longrightarrow> buzz_run cfg bt' (got @ ms)"
| failed: "buzz_run cfg bt got \<Longrightarrow> receive_peer_messages cfg since limit bt = (Inl e, bt') \<Longrightarrow> buzz_run cfg bt' got"
| restart: "buzz_run cfg bt got \<Longrightarrow> bc_has_cursor cfg \<Longrightarrow> card (bt_seen bt) \<le> 10000
    \<Longrightarrow> buzz_init cfg (bt_cursor_file bt) now x = Inr bt' \<Longrightarrow> buzz_run cfg bt' got"

definition run_inv :: "'x buzz_config \<Rightarrow> 'x BuzzTransport \<Rightarrow> PeerMessage list \<Rightarrow> bool" where
  "run_inv cfg bt got \<longleftrightarrow> finite (bt_seen bt) \<and> distinct (map pm_message_id got) \<and> pm_message_id ` set got \<subseteq> bt_seen bt
     \<and> (bc_has_cursor cfg \<longrightarrow> card (bt_seen bt) \<le> 10000 \<longrightarrow>
          (\<exists>S. load_cursor cfg (bt_cursor_file bt) = Inr S \<and> pm_message_id ` set got \<subseteq> S \<and> S \<subseteq> bt_seen bt))"

lemma finite_JStr: "finite {s. JStr s = v}"
  by (cases v) auto

lemma load_cursor_finite: "load_cursor cfg file = Inr S \<Longrightarrow> finite S"
  by (auto intro!: finite_JStr simp: load_cursor_def split: if_split_asm option.split_asm pyjson.split_asm)

lemma buzz_init_Inr:
  "buzz_init cfg file now x = Inr bt \<Longrightarrow> load_cursor cfg file = Inr (bt_seen bt) \<and> bt_cursor_file bt = file"
  by (auto simp: buzz_init_def split: if_split_asm sum.split_asm)

lemma buzz_send_keeps:
  "bt_seen (snd (buzz_send cfg m bt)) = bt_seen bt" "bt_cursor_file (snd (buzz_send cfg m bt)) = bt_cursor_file bt"
  by (auto simp: buzz_send_def split: sum.split prod.split)

lemma run_inv_poll:
  assumes inv: "run_inv cfg bt got" and call: "receive_peer_messages cfg since limit bt = (Inr ms, bt')"
  shows "run_inv cfg bt' (got @ ms)"
  using receive_Inr [OF call]
proof (elim disjE exE conjE)
  fix events x changed
  assume loop: "receive_loop cfg (bt_now bt) limit events [] (bt_seen bt) False = (Inr ms, bt_seen bt', changed)"
    and saved: "bt_cursor_file bt' = (if changed \<and> bc_has_cursor cfg
            then Some (json_dumps default_sorted (cursor_json (bt_seen bt'))) else bt_cursor_file bt)"
  have post: "bt_seen bt \<subseteq> bt_seen bt'" "bt_seen bt' \<subseteq> bt_seen bt \<union> rb_id ` set events" "distinct (map pm_message_id ms)"
    "pm_message_id ` set ms \<subseteq> bt_seen bt' - bt_seen bt"
    using receive_loop_sound [OF loop] by (auto simp: batch_post_def)
  have fin: "finite (bt_seen bt')" using inv post(2) by (auto simp: run_inv_def intro: finite_subset)
  have ids: "pm_message_id ` set (got @ ms) \<subseteq> bt_seen bt'" "distinct (map pm_message_id (got @ ms))"
  proof -
    from inv have old: "distinct (map pm_message_id got)" "pm_message_id ` set got \<subseteq> bt_seen bt"
      by (auto simp: run_inv_def)
    from old post show "pm_message_id ` set (got @ ms) \<subseteq> bt_seen bt'" by auto
    from old(2) post(4) have "set (map pm_message_id got) \<inter> set (map pm_message_id ms) = {}" by auto
    with old(1) post(3) show "distinct (map pm_message_id (got @ ms))" by simp
  qed
  show ?thesis
  proof (cases changed)
    case True
    with fin ids saved load_saved_cursor [OF fin] show ?thesis by (auto simp: run_inv_def)
  next
    case False
    with receive_loop_changed [OF loop] have same: "bt_seen bt' = bt_seen bt" by simp
    with post(4) have "ms = []" by auto
    with False same saved inv show ?thesis by (simp add: run_inv_def)
  qed
qed (use inv in simp)

lemma run_inv_failed:
  assumes inv: "run_inv cfg bt got" and call: "receive_peer_messages cfg since limit bt = (Inl e, bt')"
  shows "run_inv cfg bt' got"
proof -
  from receive_Inl [OF call] inv
  have mono: "bt_seen bt \<subseteq> bt_seen bt'" "bt_cursor_file bt' = bt_cursor_file bt" "finite (bt_seen bt')"
    by (auto simp: run_inv_def)
  then have "card (bt_seen bt) \<le> card (bt_seen bt')" by (simp add: card_mono)
  with inv mono show ?thesis unfolding run_inv_def by (metis order_trans subset_trans)
qed

lemma buzz_run_inv: "buzz_run cfg bt got \<Longrightarrow> run_inv cfg bt got"
proof (induction rule: buzz_run.induct)
  case (start content now x bt)
  with buzz_init_Inr [OF start] load_cursor_finite show ?case by (auto simp: run_inv_def)
next
  case (outside bt got x now w)
  then show ?case by (simp add: run_inv_def)
next
  case (send bt got m)
  then show ?case by (simp add: run_inv_def buzz_send_keeps)
next
  case (poll bt got since limit ms bt')
  then show ?case by (blast intro: run_inv_poll)
next
  case (failed bt got since limit e bt')
  then show ?case by (blast intro: run_inv_failed)
next
  case (restart bt got now x bt')
  from buzz_init_Inr [OF restart.hyps(4)] restart load_cursor_finite show ?case by (fastforce simp: run_inv_def)
qed

section \<open>The properties\<close>

text \<open>A channel with the in-memory executor, and what may be posted on it.\<close>

definition demo_channel :: "FakeExecutor buzz_config" where
  "demo_channel = \<lparr>bc_executor = fake_executor, bc_py = strict_pydantic, bc_channel = ''room'', bc_has_cursor = True,
     bc_local_pubkey = Some (pubkey sample_bob)\<rparr>"

definition demo_event :: "string \<Rightarrow> string \<Rightarrow> RawBuzzEvent" where
  "demo_event event_id content = \<lparr>rb_id = event_id, rb_pubkey = pubkey sample_alice, rb_kind = 9, rb_content = content,
     rb_tags = [ [''h'', ''room''] ], rb_created_at = 5\<rparr>"

definition demo_message :: "string \<Rightarrow> PeerMessage" where
  "demo_message event_id = \<lparr>pm_message_id = event_id, pm_message = MIntent sample_intent, pm_author = sample_alice,
     pm_published_at = 5\<rparr>"

definition demo_endpoint :: "RawBuzzEvent list \<Rightarrow> FakeExecutor BuzzTransport" where
  "demo_endpoint events = \<lparr>bt_seen = {}, bt_cursor_file = None, bt_executor = (fake_init 7)\<lparr>fx_events := events\<rparr>,
     bt_now = 7, bt_cursor_writable = True\<rparr>"

lemma demo_get:
  "\<forall>e \<in> set events. channel_from_tags (rb_tags e) = ''room'' \<and> rb_kind e = 9 \<Longrightarrow>
    bx_get (bc_executor demo_channel) (bc_channel demo_channel) (Some [WIRE_KIND]) None None (bt_executor (demo_endpoint events)) =
      (Inr events, bt_executor (demo_endpoint events))"
  by (simp add: demo_channel_def demo_endpoint_def fake_executor_def fake_get_def fake_init_def WIRE_KIND_def)

lemma demo_event_accepted: "event_accepted demo_channel 7 (demo_event i sample_content) (demo_message i)"
  using sample_decodes
  by (simp add: event_accepted_def validate_received_event_def demo_channel_def demo_event_def demo_message_def
      WIRE_KIND_def check_event_author_def sample_intent_def sample_alice_def sample_bob_def)

text \<open>C24: a poll of the channel hands out only messages that passed every check. Each is the
  content of an event of this answer of the relay that is of kind 9, posted to the configured
  channel, signed by the key of the message's protocol author and not by the local key, still
  valid at the clock of the call, and never seen before; no two share an identifier, all are
  marked as seen afterwards, and a limit bounds their number.\<close>

theorem poll_is_sound:
  assumes "receive_peer_messages cfg since limit bt = (Inr ms, bt')"
  shows "distinct (map pm_message_id ms) \<and> pm_message_id ` set ms \<subseteq> bt_seen bt' - bt_seen bt
    \<and> (\<forall>n. limit = Some n \<longrightarrow> 0 \<le> n \<and> int (length ms) \<le> n)
    \<and> (\<forall>pm \<in> set ms. \<exists>events x event.
         bx_get (bc_executor cfg) (bc_channel cfg) (Some [9]) since None (bt_executor bt) = (Inr events, x)
         \<and> event \<in> set events \<and> rb_id event = pm_message_id pm \<and> rb_kind event = 9
         \<and> channel_from_tags (rb_tags event) = bc_channel cfg
         \<and> decode_content (bc_py cfg) (rb_content event) = Inr (pm_message pm)
         \<and> (\<forall>t. expiry_of (pm_message pm) = Some t \<longrightarrow> t = 0 \<or> bt_now bt \<le> t)
         \<and> message_author (pm_message pm) = Inr (pm_author pm) \<and> pubkey (pm_author pm) = rb_pubkey event
         \<and> bc_local_pubkey cfg \<noteq> Some (rb_pubkey event))"
  using receive_Inr [OF assms]
proof (elim disjE exE conjE)
  fix events x changed
  assume pos: "\<forall>n. limit = Some n \<longrightarrow> 0 < n"
    and get: "bx_get (bc_executor cfg) (bc_channel cfg) (Some [WIRE_KIND]) since None (bt_executor bt) = (Inr events, x)"
    and loop: "receive_loop cfg (bt_now bt) limit events [] (bt_seen bt) False = (Inr ms, bt_seen bt', changed)"
  from receive_loop_sound [OF loop] have post: "batch_post cfg (bt_now bt) events (bt_seen bt) (bt_seen bt') ms" by auto
  have limit: "\<forall>n. limit = Some n \<longrightarrow> 0 \<le> n \<and> int (length ms) \<le> n"
    using pos receive_loop_limit [OF loop] by fastforce
  have each: "\<exists>events x event.
         bx_get (bc_executor cfg) (bc_channel cfg) (Some [9]) since None (bt_executor bt) = (Inr events, x)
         \<and> event \<in> set events \<and> rb_id event = pm_message_id pm \<and> rb_kind event = 9
         \<and> channel_from_tags (rb_tags event) = bc_channel cfg
         \<and> decode_content (bc_py cfg) (rb_content event) = Inr (pm_message pm)
         \<and> (\<forall>t. expiry_of (pm_message pm) = Some t \<longrightarrow> t = 0 \<or> bt_now bt \<le> t)
         \<and> message_author (pm_message pm) = Inr (pm_author pm) \<and> pubkey (pm_author pm) = rb_pubkey event
         \<and> bc_local_pubkey cfg \<noteq> Some (rb_pubkey event)" if "pm \<in> set ms" for pm
  proof -
    from post that obtain event where event: "event \<in> set events" and acc: "event_accepted cfg (bt_now bt) event pm"
      by (auto simp: batch_post_def)
    from acc have "validate_received_event (bc_py cfg) (bc_channel cfg) (bt_now bt) event = Inr (pm_message pm)"
      by (simp add: event_accepted_def)
    note checks = validate_accepts [OF this]
    show ?thesis
      using get event acc checks
      by (intro exI [of _ events] exI [of _ x] exI [of _ event]) (simp add: event_accepted_def WIRE_KIND_def)
  qed
  show ?thesis using post limit each by (auto simp only: batch_post_def)
qed simp

theorem poll_is_sound_witness:
  "distinct (map pm_message_id [demo_message ''e1''])"
proof -
  have "receive_loop demo_channel 7 None [demo_event ''e1'' sample_content] [] {} False = (Inr [demo_message ''e1''], {''e1''}, True)"
    using demo_event_accepted [of "''e1''"]
    by (auto simp: event_accepted_def demo_message_def demo_event_def)
  then have "receive_peer_messages demo_channel None None (demo_endpoint [demo_event ''e1'' sample_content]) =
      (Inr [demo_message ''e1''], (demo_endpoint [demo_event ''e1'' sample_content])\<lparr>bt_seen := {''e1''},
        bt_cursor_file := Some (json_dumps default_sorted (cursor_json {''e1''}))\<rparr>)"
    using demo_get [of "[demo_event ''e1'' sample_content]"]
    by (simp add: receive_peer_messages_def demo_event_def demo_channel_def demo_endpoint_def save_cursor_def Let_def
        del: json_dumps.simps receive_loop.simps)
  from poll_is_sound [OF this] show ?thesis by blast
qed



lemma receive_limited_poll:
  assumes get: "bx_get (bc_executor cfg) (bc_channel cfg) (Some [WIRE_KIND]) None None (bt_executor bt) = (Inr events, bt_executor bt)"
    and ok: "0 < k" "bt_cursor_writable bt" "\<forall>e \<in> set events. harmless cfg (bt_now bt) e"
  shows "\<exists>ms bt' changed. receive_peer_messages cfg None (Some k) bt = (Inr ms, bt')
    \<and> receive_loop cfg (bt_now bt) (Some k) events [] (bt_seen bt) False = (Inr ms, bt_seen bt', changed)
    \<and> bt_executor bt' = bt_executor bt \<and> bt_now bt' = bt_now bt \<and> bt_cursor_writable bt'"
proof -
  from receive_loop_returns [OF ok(3)] obtain ms seen' changed
    where loop: "receive_loop cfg (bt_now bt) (Some k) events [] (bt_seen bt) False = (Inr ms, seen', changed)"
    by (metis prod.collapse)
  with get ok show ?thesis
    by (cases "changed") (auto simp: receive_peer_messages_def save_cursor_def Let_def simp del: json_dumps.simps)
qed

lemma polls_deliver:
  assumes "bx_get (bc_executor cfg) (bc_channel cfg) (Some [WIRE_KIND]) None None (bt_executor bt) = (Inr events, bt_executor bt)"
    and "0 < k" "bt_cursor_writable bt" "\<forall>e \<in> set events. harmless cfg (bt_now bt) e"
    and "card (rb_id ` set events - bt_seen bt) \<le> n"
    and "event \<in> set events" "rb_id event \<notin> bt_seen bt" "event_accepted cfg (bt_now bt) event pm"
    and "\<forall>e \<in> set events. rb_id e = rb_id event \<longrightarrow> e = event"
  shows "pm \<in> set (fst (exchange (buzz_link cfg) (replicate n (Inr (Some k))) bt))"
  using assms(1-5,7,8)
proof (induction n arbitrary: bt)
  case 0
  then have "rb_id ` set events - bt_seen bt = {}" by simp
  with 0 assms(6) show ?case by auto
next
  case (Suc n)
  from receive_limited_poll [OF Suc.prems(1-4)] obtain ms bt' changed
    where call: "receive_peer_messages cfg None (Some k) bt = (Inr ms, bt')"
      and loop: "receive_loop cfg (bt_now bt) (Some k) events [] (bt_seen bt) False = (Inr ms, bt_seen bt', changed)"
      and same: "bt_executor bt' = bt_executor bt" "bt_now bt' = bt_now bt" "bt_cursor_writable bt'" by blast
  have unfold: "fst (exchange (buzz_link cfg) (replicate (Suc n) (Inr (Some k))) bt) =
      ms @ fst (exchange (buzz_link cfg) (replicate n (Inr (Some k))) bt')"
    using call by (simp add: buzz_link_def buzz_receive_def split: prod.split)
  show ?case
  proof (cases "pm \<in> set ms")
    case True
    with unfold show ?thesis by simp
  next
    case False
    with receive_loop_no_loss [OF loop assms(6) Suc.prems(6,7) assms(9)] have new: "rb_id event \<notin> bt_seen bt'" by blast
    have "bt_seen bt \<subseteq> bt_seen bt'" "bt_seen bt' \<noteq> bt_seen bt" "bt_seen bt' \<subseteq> bt_seen bt \<union> rb_id ` set events"
      using receive_loop_sound [OF loop] receive_loop_covers [OF loop] assms(6) Suc.prems(6) by (auto simp: batch_post_def)
    then have "rb_id ` set events - bt_seen bt' \<subset> rb_id ` set events - bt_seen bt" by blast
    then have "card (rb_id ` set events - bt_seen bt') < card (rb_id ` set events - bt_seen bt)"
      by (simp add: psubset_card_mono)
    with Suc.prems(5) have "card (rb_id ` set events - bt_seen bt') \<le> n" by simp
    with Suc.IH [of bt'] Suc.prems same new unfold show ?thesis by simp
  qed
qed



lemma seen_never_delivered:
  "i \<in> bt_seen bt \<Longrightarrow> i \<notin> pm_message_id ` set (fst (exchange (buzz_link cfg) acts bt))"
proof (induction acts arbitrary: bt)
  case (Cons act acts)
  show ?case
  proof (cases act)
    case (Inl m)
    with Cons show ?thesis by (simp add: buzz_link_def buzz_send_keeps)
  next
    case (Inr l)
    obtain out bt' where call: "receive_peer_messages cfg None l bt = (out, bt')" by force
    show ?thesis
    proof (cases out)
      case out: (Inl e)
      with receive_Inl [of cfg None l bt e bt'] call Cons have "i \<in> bt_seen bt'" by auto
      with Cons.IH [OF this] Inr call out show ?thesis by (simp add: buzz_link_def buzz_receive_def)
    next
      case out: (Inr ms)
      with call have "receive_peer_messages cfg None l bt = (Inr ms, bt')" by simp
      from receive_Inr [OF this] receive_loop_sound Cons.prems
      have "i \<in> bt_seen bt'" "i \<notin> pm_message_id ` set ms"
        by (fastforce simp: batch_post_def)+
      with Cons.IH [OF this(1)] Inr call out show ?thesis
        by (auto simp: buzz_link_def buzz_receive_def split: prod.split)
    qed
  qed
qed simp


definition poison :: string where
  "poison = json_dumps compact_opts (JObj [(''protocol'', JStr ''hermes-payments''), (''version'', JStr ''1''), (''type'', JList [])])"

lemma poison_decodes: "\<exists>t. decode_content strict_pydantic poison = Inl (TypeError t)"
proof -
  let ?v = "JObj [(''protocol'', JStr ''hermes-payments''), (''version'', JStr ''1''), (''type'', JList [])]"
  have "json_loads (json_dumps compact_opts ?v) = Some ?v"
    using json_roundtrip [of compact_opts ?v] canon_unsorted [of compact_opts ?v]
    by (simp add: compact_opts_def opts_ok_def del: json_dumps.simps canon.simps)
  then show ?thesis
    by (simp add: poison_def decode_content_def get_or_none_def model_for_def PROTOCOL_ID_def Let_def del: json_dumps.simps)
qed


end
