(* ===== verification/Peer.thy ===== *)
theory Peer
  imports Peer_Transport Engine_Demo
begin

text \<open>
  \<open>HermesPeer\<close> of \<open>src/hermes_payments/peer.py\<close>: the endpoint that composes the local policy
  engine with an injected transport. The transport is any record of the interface
  \<open>PeerTransport\<close> over its own state \<open>'s\<close>.
\<close>

text \<open>What a method of the peer can raise: an exception of the peer or its transport, or one
  that the policy engine raised.\<close>

datatype peer_error = PeerExn exn | PeerPolicy policy_error

record ('w, 's) HermesPeer =
  hp_identity :: AgentIdentity
  hp_transport :: 's
  hp_orchestrator :: "'w Orch"

type_synonym ('w, 's, 'a) peer_outcome = "(peer_error + 'a) \<times> ('w, 's) HermesPeer"

section \<open>Operations\<close>

definition require_local_author :: "('w, 's) HermesPeer \<Rightarrow> DomainMessage \<Rightarrow> exn option" where
  "require_local_author peer message =
     (case message_author message of
        Inl e \<Rightarrow> Some e
      | Inr author \<Rightarrow>
          if pubkey author \<noteq> pubkey (hp_identity peer)
          then Some (PeerProtocolError ''local peer is not the message author'') else None)"

definition require_local_recipient :: "('w, 's) HermesPeer \<Rightarrow> PaymentIntent \<Rightarrow> exn option" where
  "require_local_recipient peer intent =
     (if pubkey (pi_recipient intent) \<noteq> pubkey (hp_identity peer)
      then Some (PeerProtocolError ''message recipient is not local'') else None)"

definition via_transport :: "((exn + 'a) \<times> 's) \<Rightarrow> ('w, 's) HermesPeer \<Rightarrow> ('w, 's, 'a) peer_outcome" where
  "via_transport call peer =
     (case call of (out, s) \<Rightarrow>
        (case out of Inl e \<Rightarrow> Inl (PeerExn e) | Inr v \<Rightarrow> Inr v, peer\<lparr>hp_transport := s\<rparr>))"

definition via_orchestrator :: "('w, 'a) outcome \<Rightarrow> ('w, 's) HermesPeer \<Rightarrow> ('w, 's, 'a) peer_outcome" where
  "via_orchestrator call peer =
     (case call of (out, orc) \<Rightarrow>
        (case out of Inl e \<Rightarrow> Inl (PeerPolicy e) | Inr v \<Rightarrow> Inr v, peer\<lparr>hp_orchestrator := orc\<rparr>))"

definition peer_send :: "'s PeerTransport \<Rightarrow> DomainMessage \<Rightarrow> ('w, 's) HermesPeer \<Rightarrow> ('w, 's, string) peer_outcome" where
  "peer_send link message peer =
     (case require_local_author peer message of
        Some e \<Rightarrow> (Inl (PeerExn e), peer)
      | None \<Rightarrow> via_transport (pt_send link message (hp_transport peer)) peer)"

definition peer_receive ::
    "'s PeerTransport \<Rightarrow> int option \<Rightarrow> ('w, 's) HermesPeer \<Rightarrow> ('w, 's, PeerMessage list) peer_outcome" where
  "peer_receive link limit peer = via_transport (pt_receive link limit (hp_transport peer)) peer"

definition submit_intent ::
    "'w orch_config \<Rightarrow> policy_env \<Rightarrow> 's PeerTransport \<Rightarrow> PaymentIntent \<Rightarrow> ('w, 's) HermesPeer
      \<Rightarrow> ('w, 's, string) peer_outcome" where
  "submit_intent cfg env link intent peer =
     (case require_local_author peer (MIntent intent) of
        Some e \<Rightarrow> (Inl (PeerExn e), peer)
      | None \<Rightarrow>
          (case via_orchestrator (submit cfg env intent (hp_orchestrator peer)) peer of
             (Inl e, peer) \<Rightarrow> (Inl e, peer)
           | (Inr _, peer) \<Rightarrow> via_transport (pt_send link (MIntent intent) (hp_transport peer)) peer))"

definition accept_intent ::
    "'w orch_config \<Rightarrow> policy_env \<Rightarrow> PaymentIntent \<Rightarrow> ('w, 's) HermesPeer \<Rightarrow> ('w, 's, unit) peer_outcome" where
  "accept_intent cfg env intent peer =
     (case require_local_recipient peer intent of
        Some e \<Rightarrow> (Inl (PeerExn e), peer)
      | None \<Rightarrow> via_orchestrator (submit cfg env intent (hp_orchestrator peer)) peer)"

definition publish_quote :: "'s PeerTransport \<Rightarrow> PaymentQuote \<Rightarrow> ('w, 's) HermesPeer \<Rightarrow> ('w, 's, string) peer_outcome" where
  "publish_quote link quote peer = peer_send link (MQuote quote) peer"

definition accept_quote :: "policy_env \<Rightarrow> PaymentQuote \<Rightarrow> ('w, 's) HermesPeer \<Rightarrow> ('w, 's, unit) peer_outcome" where
  "accept_quote env quote peer =
     (case get_intent (pq_intent_id quote) (hp_orchestrator peer) of
        Some intent \<Rightarrow>
          if pubkey (pq_recipient quote) \<noteq> pubkey (pi_recipient intent)
          then (Inl (PeerExn (PeerProtocolError ''quote recipient does not match the intent'')), peer)
          else via_orchestrator (receive_quote env quote (hp_orchestrator peer)) peer
      | None \<Rightarrow> via_orchestrator (receive_quote env quote (hp_orchestrator peer)) peer)"

definition publish_receipt :: "'s PeerTransport \<Rightarrow> PaymentReceipt \<Rightarrow> ('w, 's) HermesPeer \<Rightarrow> ('w, 's, string) peer_outcome" where
  "publish_receipt link receipt peer = peer_send link (MReceipt receipt) peer"

definition accept_receipt ::
    "'w orch_config \<Rightarrow> policy_env \<Rightarrow> PaymentReceipt \<Rightarrow> ('w, 's) HermesPeer \<Rightarrow> ('w, 's, PaymentReceipt) peer_outcome" where
  "accept_receipt cfg env receipt peer =
     (case get_intent (pr_intent_id receipt) (hp_orchestrator peer) of
        Some intent \<Rightarrow>
          if pubkey (pr_recipient receipt) \<noteq> pubkey (pi_recipient intent)
          then (Inl (PeerExn (PeerProtocolError ''receipt recipient does not match the intent'')), peer)
          else via_orchestrator (receive_receipt cfg env receipt (hp_orchestrator peer)) peer
      | None \<Rightarrow> via_orchestrator (receive_receipt cfg env receipt (hp_orchestrator peer)) peer)"

section \<open>Properties\<close>

lemma via_orchestrator_orch [simp]: "hp_orchestrator (snd (via_orchestrator call peer)) = snd call"
  by (simp add: via_orchestrator_def split: prod.splits)

lemma via_orchestrator_transport [simp]: "hp_transport (snd (via_orchestrator call peer)) = hp_transport peer"
  by (simp add: via_orchestrator_def split: prod.splits)

lemma via_transport_orch [simp]: "hp_orchestrator (snd (via_transport call peer)) = hp_orchestrator peer"
  by (simp add: via_transport_def split: prod.splits)


definition demo_peer :: "(nat, Hub) HermesPeer" where
  "demo_peer = \<lparr>hp_identity = sample_alice, hp_transport = snd (hub_connect ''alice'' (hub_init 7)),
     hp_orchestrator = demo_at SUBMITTED\<rparr>"


lemma audited_store: "audited env event k kw out orc = (out', orc') \<Longrightarrow> orch_store orc' = orch_store orc"
  using audited_frames(1) [of env event k kw out orc] by simp

text \<open>Whatever the circumstances, a submission that returned normally is a no-op from then on.\<close>

lemma submit_again:
  assumes "submit cfg env i orc = (Inr (), orc')"
  shows "submit cfg' env' i orc' = (Inr (), orc')"
proof -
  have "has_intent (orch_store orc') (pi_id i)"
  proof (cases "has_intent (orch_store orc) (pi_id i)")
    case True
    with assms show ?thesis by (simp add: submit_def)
  next
    case False
    obtain out st where r: "record_intent (env_store_ok env) (pi_id i) (orch_store orc) = (out, st)" by force
    have "has_intent st (pi_id i)" using intents.seen_mark [of "env_store_ok env" "pi_id i" "orch_store orc"] r by simp
    moreover have "orch_store orc' = st"
    proof -
      show ?thesis
        using assms False r
        by (cases out) (auto simp: submit_def Let_def dest: audited_store split: option.splits if_splits)
    qed
    ultimately show ?thesis by simp
  qed
  then show ?thesis by (simp add: submit_def)
qed

text \<open>Roles and retries. A peer publishes only messages it authored and accepts only intents
  addressed to it; sending and receiving never touch the policy engine; and a submission
  that got past the policy engine, but whose publication failed, can be repeated: the
  second call leaves the policy engine as it is and publishes the intent.\<close>

theorem peer_roles:
  shows "(fst (peer_send link m peer) = Inr mid \<longrightarrow>
        (\<exists>author. message_author m = Inr author \<and> pubkey author = pubkey (hp_identity peer)))
    \<and> (fst (accept_intent cfg env i peer) = Inr () \<longrightarrow> pubkey (pi_recipient i) = pubkey (hp_identity peer))
    \<and> hp_orchestrator (snd (peer_send link m peer)) = hp_orchestrator peer
    \<and> hp_orchestrator (snd (peer_receive link l peer)) = hp_orchestrator peer
    \<and> (fst (submit cfg env i (hp_orchestrator peer)) = Inr () \<and> pubkey (pi_sender i) = pubkey (hp_identity peer) \<longrightarrow>
        (let peer1 = snd (submit_intent cfg env link i peer) in
         submit_intent cfg env' link i peer1 = via_transport (pt_send link (MIntent i) (hp_transport peer1)) peer1))"
proof (intro conjI impI)
  show "fst (peer_send link m peer) = Inr mid \<Longrightarrow>
      \<exists>author. message_author m = Inr author \<and> pubkey author = pubkey (hp_identity peer)"
    by (auto simp: peer_send_def require_local_author_def split: sum.splits if_splits)
  show "fst (accept_intent cfg env i peer) = Inr () \<Longrightarrow> pubkey (pi_recipient i) = pubkey (hp_identity peer)"
    by (auto simp: accept_intent_def require_local_recipient_def split: if_splits)
  show "hp_orchestrator (snd (peer_send link m peer)) = hp_orchestrator peer"
    by (simp add: peer_send_def split: option.splits)
  show "hp_orchestrator (snd (peer_receive link l peer)) = hp_orchestrator peer"
    by (simp add: peer_receive_def)
  assume "fst (submit cfg env i (hp_orchestrator peer)) = Inr () \<and> pubkey (pi_sender i) = pubkey (hp_identity peer)"
  then obtain orc where first: "submit cfg env i (hp_orchestrator peer) = (Inr (), orc)"
    and me: "pubkey (pi_sender i) = pubkey (hp_identity peer)" by (metis prod.collapse)
  let ?peer1 = "snd (submit_intent cfg env link i peer)"
  have "?peer1 = snd (via_transport (pt_send link (MIntent i) (hp_transport peer)) (peer\<lparr>hp_orchestrator := orc\<rparr>))"
    using first me by (simp add: submit_intent_def require_local_author_def via_orchestrator_def)
  then have "hp_orchestrator ?peer1 = orc" "hp_identity ?peer1 = hp_identity peer"
    by (simp_all add: via_transport_def split: prod.splits)
  moreover from this have "via_orchestrator (submit cfg env' i (hp_orchestrator ?peer1)) ?peer1 = (Inr (), ?peer1)"
    using submit_again [OF first, of cfg env'] by (simp add: via_orchestrator_def)
  ultimately have "submit_intent cfg env' link i ?peer1 = via_transport (pt_send link (MIntent i) (hp_transport ?peer1)) ?peer1"
    unfolding submit_intent_def [of cfg env' link i ?peer1] using me by (simp add: require_local_author_def)
  then show "let peer1 = snd (submit_intent cfg env link i peer) in
      submit_intent cfg env' link i peer1 = via_transport (pt_send link (MIntent i) (hp_transport peer1)) peer1"
    by (simp add: Let_def)
qed

theorem peer_roles_witness:
  "let link = hub_endpoint ''alice'' sample_alice; peer = demo_peer\<lparr>hp_orchestrator := demo_start\<rparr>;
       peer1 = snd (submit_intent demo_config demo_env link demo_intent peer)
   in submit_intent demo_config demo_env link demo_intent peer1 =
        via_transport (pt_send link (MIntent demo_intent) (hp_transport peer1)) peer1"
proof -
  have "fst (submit demo_config demo_env demo_intent demo_start) = Inr ()"
    by (simp add: submit_def demo_defs audited_quiet guard_defs del: json_dumps.simps)
  moreover have "pubkey (pi_sender demo_intent) = pubkey (hp_identity (demo_peer\<lparr>hp_orchestrator := demo_start\<rparr>))"
    by (simp add: demo_intent_def demo_peer_def)
  ultimately show ?thesis
    using peer_roles [of "hub_endpoint ''alice'' sample_alice" _ "demo_peer\<lparr>hp_orchestrator := demo_start\<rparr>" _ demo_config
        demo_env demo_intent] by (simp add: Let_def)
qed

end
