(* ===== verification/Process_Codec.thy ===== *)
theory Process_Codec
  imports Envelope Orchestrator
begin

text \<open>
  The data formats of \<open>examples/two_hermes_regtest/process.py\<close>: operator commands on a JSONL
  stream, display-safe output, and the snapshot file from which a process restarts. The
  validation library is a parameter, as for envelopes.
\<close>

section \<open>Commands\<close>

datatype process_error = ProtocolError string | FromPolicy policy_error | ProcessRaised exn

text \<open>\<open>ProcessProtocolError\<close> is a \<open>ValueError\<close>.\<close>

definition redacted_identifier :: "string \<Rightarrow> string" where
  "redacted_identifier value = (if length value \<le> 8 then value else take 8 value @ ''...'')"

record JsonlCommand =
  jc_name :: string
  jc_arguments :: "(string \<times> pyjson) list"

definition known_commands :: "string list" where
  "known_commands = [''status'', ''receive'', ''submit_intent'', ''accept_intent'', ''publish_quote'', ''accept_quote'',
     ''prepare'', ''approve'', ''execute'', ''publish_receipt'', ''verify_publish_receipt'', ''accept_receipt'',
     ''recover'', ''submit_quote_local'']"

definition parse_command :: "string \<Rightarrow> process_error + JsonlCommand" where
  "parse_command line =
     (case json_loads line of
        Some (JObj data) \<Rightarrow>
          (case dict_get data ''command'' of
             Some (JStr name) \<Rightarrow>
               if name = [] then Inl (ProtocolError ''command name is required'')
               else if name \<notin> set known_commands then Inl (ProtocolError (''unknown command: '' @ name))
               else Inr \<lparr>jc_name = name, jc_arguments = filter (\<lambda>(key, _). key \<noteq> ''command'') data\<rparr>
           | _ \<Rightarrow> Inl (ProtocolError ''command name is required''))
      | _ \<Rightarrow> Inl (ProtocolError ''command must be valid JSON object''))"

text \<open>\<open>{"command": name, **arguments}\<close>: a key of the arguments replaces what is there.\<close>

definition dict_merge :: "(string \<times> pyjson) list \<Rightarrow> (string \<times> pyjson) list \<Rightarrow> (string \<times> pyjson) list" where
  "dict_merge d updates = fold (\<lambda>(k, v). dict_set k v) updates d"

definition command_to_json :: "JsonlCommand \<Rightarrow> string" where
  "command_to_json c = json_dumps compact_sorted (JObj (dict_merge [(''command'', JStr (jc_name c))] (jc_arguments c)))"

section \<open>Display-safe output\<close>

definition message_class :: "DomainMessage \<Rightarrow> string" where
  "message_class m = (case m of MIntent _ \<Rightarrow> ''PaymentIntent'' | MQuote _ \<Rightarrow> ''PaymentQuote'' | MReceipt _ \<Rightarrow> ''PaymentReceipt''
     | MApproval _ \<Rightarrow> ''PaymentApproval'')"

definition opt_json :: "('a \<Rightarrow> pyjson) \<Rightarrow> 'a option \<Rightarrow> pyjson" where
  "opt_json f v = (case v of Some x \<Rightarrow> f x | None \<Rightarrow> JNull)"

definition state_count_summary :: "'w Orch \<Rightarrow> (string \<times> pyjson) list" where
  "state_count_summary orc =
     fold (\<lambda>(_, rc) counts.
         let s = PaymentState_value (rec_state rc);
             n = (case dict_get counts s of Some (JInt n) \<Rightarrow> n | _ \<Rightarrow> 0)
         in dict_set s (JInt (n + 1)) counts) (orch_intents orc) []"

definition serialize_reconciliation :: "ReconcileResult option \<Rightarrow> pyjson" where
  "serialize_reconciliation = opt_json (\<lambda>result. JObj
     [(''status'', JStr (rr_status result)), (''settlement_ref'', JStr (redacted_identifier (rr_settlement_ref result))),
      (''amount_sat'', JInt (rr_amount_sat result)), (''fee_sat'', JInt (rr_fee_sat result)),
      (''rail'', opt_json (\<lambda>r. JStr (Rail_value r)) (rr_rail result)), (''verified'', JBool (rr_verified result)),
      (''error'', case rr_error result of Some (c # cs) \<Rightarrow> JStr (redact_sensitive (c # cs)) | _ \<Rightarrow> JNull)])"

section \<open>Base 64\<close>

definition b64_char :: "nat \<Rightarrow> char" where
  "b64_char n = char_of (if n < 26 then n + 65 else if n < 52 then n + 71 else if n < 62 then n - 4 else if n = 62 then 43 else 47 :: nat)"

definition b64_val :: "char \<Rightarrow> nat option" where
  "b64_val c =
     (let n = of_char c :: nat in
      if 65 \<le> n \<and> n \<le> 90 then Some (n - 65) else if 97 \<le> n \<and> n \<le> 122 then Some (n - 71)
      else if 48 \<le> n \<and> n \<le> 57 then Some (n + 4) else if n = 43 then Some 62 else if n = 47 then Some 63 else None)"

fun b64encode :: "bytes \<Rightarrow> string" where
  "b64encode (a # b # c # rest) =
     (let n = (of_char a * 256 + of_char b) * 256 + of_char c :: nat in
      [b64_char (n div 262144), b64_char (n div 4096 mod 64), b64_char (n div 64 mod 64), b64_char (n mod 64)] @ b64encode rest)"
| "b64encode [a, b] =
     (let n = (of_char a * 256 + of_char b) * 4 :: nat in [b64_char (n div 4096), b64_char (n div 64 mod 64), b64_char (n mod 64), CHR ''=''])"
| "b64encode [a] = (let n = of_char a * 16 :: nat in [b64_char (n div 64), b64_char (n mod 64), CHR ''='', CHR ''=''])"
| "b64encode [] = []"

text \<open>
  \<open>base64.b64decode(s, validate=True)\<close>: groups of four digits, the last one padded. Python
  releases differ on a text with surplus padding, which is an error here.
\<close>

fun b64decode :: "string \<Rightarrow> bytes option" where
  "b64decode [] = Some []"
| "b64decode (w # x # y # z # rest) =
     (case (b64_val w, b64_val x) of
        (Some p, Some q) \<Rightarrow>
          if y = CHR ''='' then (if z = CHR ''='' \<and> rest = [] then Some [char_of ((p * 64 + q) div 16)] else None)
          else (case b64_val y of
              None \<Rightarrow> None
            | Some r \<Rightarrow>
                if z = CHR ''='' then
                  (if rest = [] then let n = ((p * 64 + q) * 64 + r) div 4 in Some [char_of (n div 256), char_of (n mod 256)] else None)
                else (case b64_val z of
                    None \<Rightarrow> None
                  | Some s \<Rightarrow> let n = ((p * 64 + q) * 64 + r) * 64 + s in
                      map_option (\<lambda>bs. char_of (n div 65536) # char_of (n div 256 mod 256) # char_of (n mod 256) # bs) (b64decode rest)))
      | _ \<Rightarrow> None)"
| "b64decode _ = None"

lemma b64_char_simps [simp]:
  assumes "n < 64"
  shows "b64_val (b64_char n) = Some n" "b64_char n \<noteq> CHR ''=''"
proof -
  have "(of_char (b64_char n) :: nat) =
      (if n < 26 then n + 65 else if n < 52 then n + 71 else if n < 62 then n - 4 else if n = 62 then 43 else 47)"
    using assms by (auto simp: b64_char_def)
  then show "b64_val (b64_char n) = Some n" "b64_char n \<noteq> CHR ''=''"
    using assms by (auto simp: b64_val_def Let_def split: if_split_asm)
qed

lemma digits_64: "((n div 262144 * 64 + n div 4096 mod 64) * 64 + n div 64 mod 64) * 64 + n mod 64 = (n :: nat)"
proof -
  have "n div 4096 = n div 64 div 64" "n div 262144 = n div 64 div 64 div 64" by (simp_all add: div_mult2_eq [symmetric])
  then show ?thesis by (simp only: div_mult_mod_eq)
qed

lemma b64_group3:
  assumes "n < 16777216"
  shows "b64decode ([b64_char (n div 262144), b64_char (n div 4096 mod 64), b64_char (n div 64 mod 64), b64_char (n mod 64)] @ rest) =
    map_option (\<lambda>bs. char_of (n div 65536) # char_of (n div 256 mod 256) # char_of (n mod 256) # bs) (b64decode rest)"
proof -
  have "n div 262144 < 64" using assms by (simp add: less_mult_imp_div_less)
  then show ?thesis using digits_64 [of n] by (simp add: Let_def)
qed

lemma b64_group2:
  assumes "m < 65536"
  shows "b64decode [b64_char (m * 4 div 4096), b64_char (m * 4 div 64 mod 64), b64_char (m * 4 mod 64), CHR ''=''] =
    Some [char_of (m div 256), char_of (m mod 256)]"
proof -
  define k where "k = m * 4"
  have "k div 4096 = k div 64 div 64" by (simp add: div_mult2_eq [symmetric])
  then have "(k div 4096 * 64 + k div 64 mod 64) * 64 + k mod 64 = k" by (simp only: div_mult_mod_eq)
  moreover have "k div 4096 < 64" "k div 4 = m" using assms by (simp_all add: k_def less_mult_imp_div_less)
  ultimately show ?thesis unfolding k_def [symmetric] by (simp add: Let_def)
qed

lemma b64_group1:
  assumes "m < 256"
  shows "b64decode [b64_char (m * 16 div 64), b64_char (m * 16 mod 64), CHR ''='', CHR ''=''] = Some [char_of m]"
proof -
  define k where "k = m * 16"
  have "k div 64 * 64 + k mod 64 = k" by (simp only: div_mult_mod_eq)
  moreover have "k div 64 < 64" "k div 16 = m" using assms by (simp_all add: k_def less_mult_imp_div_less)
  ultimately show ?thesis unfolding k_def [symmetric] by (simp add: Let_def)
qed

lemma b64_roundtrip [simp]: "b64decode (b64encode bs) = Some bs"
proof (induction bs rule: b64encode.induct)
  case (1 a b c rest)
  define x y z :: nat where "x = of_char a" and "y = of_char b" and "z = of_char c"
  have lt: "x < 256" "y < 256" "z < 256" using code_lt_256 by (simp_all add: x_def y_def z_def)
  have ch: "char_of x = a" "char_of y = b" "char_of z = c" by (simp_all add: x_def y_def z_def)
  define n where "n = (x * 256 + y) * 256 + z"
  have "n mod 256 = z" using lt(3) by (simp only: n_def mod_mult_self3 mod_less)
  moreover have byte: "n div 256 = x * 256 + y" using lt(3) by (simp add: n_def)
  moreover have "(x * 256 + y) mod 256 = y" "(x * 256 + y) div 256 = x" using lt(2) by simp_all
  moreover have "n div 65536 = n div 256 div 256" by (simp add: div_mult2_eq [symmetric])
  ultimately have n: "n div 65536 = x" "n div 256 mod 256 = y" "n mod 256 = z" by simp_all
  have "n < 16777216" using lt by (simp add: n_def)
  note group = b64_group3 [OF this, of "b64encode rest"]
  show ?case
    unfolding b64encode.simps Let_def x_def [symmetric] y_def [symmetric] z_def [symmetric] n_def [symmetric] group
    using 1 n ch by simp
next
  case (2 a b)
  define x y :: nat where "x = of_char a" and "y = of_char b"
  have lt: "x < 256" "y < 256" using code_lt_256 by (simp_all add: x_def y_def)
  have "x * 256 + y < 65536" using lt by simp
  note group = b64_group2 [OF this]
  have "(x * 256 + y) mod 256 = y" "(x * 256 + y) div 256 = x" using lt(2) by simp_all
  then show ?case
    unfolding b64encode.simps Let_def x_def [symmetric] y_def [symmetric] group by (simp add: x_def y_def)
next
  case (3 a)
  define x :: nat where "x = of_char a"
  have "x < 256" using code_lt_256 by (simp add: x_def)
  note group = b64_group1 [OF this]
  show ?case unfolding b64encode.simps Let_def x_def [symmetric] group by (simp add: x_def)
qed simp

end
