(* ===== verification/Process_Snapshot.thy ===== *)
theory Process_Snapshot
  imports Process_Codec Peer_Transport
begin

text \<open>
  The process snapshot of \<open>examples/two_hermes_regtest/process.py\<close>: the JSON that
  \<open>_snapshot_state\<close> writes and the reading of it in \<open>_maybe_recover\<close>. The file is its text.
\<close>

section \<open>The validation library\<close>

text \<open>\<open>model_validate\<close> of the four message classes and of identities, on any JSON value.\<close>

record Validators =
  va_intent :: "pyjson \<Rightarrow> PaymentIntent option"
  va_quote :: "pyjson \<Rightarrow> PaymentQuote option"
  va_approval :: "pyjson \<Rightarrow> PaymentApproval option"
  va_receipt :: "pyjson \<Rightarrow> PaymentReceipt option"
  va_identity :: "pyjson \<Rightarrow> AgentIdentity option"

text \<open>Validation accepts what \<open>model_dump\<close> gave, with its keys in sorted order, and only valid messages.\<close>

definition validators_contract :: "Validators \<Rightarrow> bool" where
  "validators_contract va \<longleftrightarrow>
     (\<forall>i. intent_ok i \<longrightarrow> va_intent va (canon default_sorted (JObj (intent_dump i))) = Some i)
   \<and> (\<forall>q. quote_ok q \<longrightarrow> va_quote va (canon default_sorted (JObj (quote_dump q))) = Some q)
   \<and> (\<forall>a. approval_ok a \<longrightarrow> va_approval va (canon default_sorted (JObj (approval_dump a))) = Some a)
   \<and> (\<forall>r. receipt_ok r \<longrightarrow> va_receipt va (canon default_sorted (JObj (receipt_dump r))) = Some r)
   \<and> (\<forall>a. identity_ok a \<longrightarrow> va_identity va (canon default_sorted (identity_dump a)) = Some a)"

section \<open>Writing\<close>

definition prepared_json :: "PrepareResult \<Rightarrow> pyjson" where
  "prepared_json prepared = JObj
     [(''fee_sat'', JInt (pp_fee_sat prepared)), (''prepared_hash'', JStr (pp_prepared_hash prepared)),
      (''rail'', JStr (Rail_value (pp_rail prepared))), (''prepared_payload'', JStr (b64encode (pp_prepared_payload prepared)))]"

definition reconciliation_json :: "ReconcileResult \<Rightarrow> pyjson" where
  "reconciliation_json r = JObj
     [(''status'', JStr (rr_status r)), (''settlement_ref'', JStr (rr_settlement_ref r)), (''amount_sat'', JInt (rr_amount_sat r)),
      (''fee_sat'', JInt (rr_fee_sat r)), (''rail'', opt_json (\<lambda>x. JStr (Rail_value x)) (rr_rail r)),
      (''verified'', JBool (rr_verified r)), (''error'', opt_json JStr (rr_error r))]"

definition record_json :: "IntentRecord \<Rightarrow> pyjson" where
  "record_json rc = JObj
     [(''state'', JStr (PaymentState_value (rec_state rc))), (''intent'', JObj (intent_dump (rec_intent rc))),
      (''quote'', opt_json (\<lambda>q. JObj (quote_dump q)) (rec_quote rc)), (''prepared'', opt_json prepared_json (rec_prepared rc)),
      (''approval'', opt_json (\<lambda>a. JObj (approval_dump a)) (rec_approval rc)),
      (''receipt'', opt_json (\<lambda>r. JObj (receipt_dump r)) (rec_receipt rc)),
      (''reconciliation'', opt_json reconciliation_json (rec_reconciliation rc))]"

definition inbox_json :: "PeerMessage \<Rightarrow> pyjson" where
  "inbox_json pm = JObj
     [(''message_id'', JStr (pm_message_id pm)), (''type'', JStr (message_class (pm_message pm))),
      (''message'', JObj (model_dump (pm_message pm))), (''author'', identity_dump (pm_author pm)),
      (''published_at'', JInt (pm_published_at pm))]"

definition snapshot_json :: "(string \<times> IntentRecord) list \<Rightarrow> PeerMessage list \<Rightarrow> pyjson" where
  "snapshot_json intents received = JObj
     [(''version'', JInt 3), (''records'', JObj (map (\<lambda>(k, rc). (k, record_json rc)) intents)),
      (''inbox'', JList (map inbox_json received))]"

section \<open>Reading\<close>

definition bindP :: "'e + 'a \<Rightarrow> ('a \<Rightarrow> 'e + 'b) \<Rightarrow> 'e + 'b" where
  "bindP x f = (case x of Inl e \<Rightarrow> Inl e | Inr v \<Rightarrow> f v)"

lemma bindP_simps [simp]: "bindP (Inl e) f = Inl e" "bindP (Inr v) f = f v"
  by (simp_all add: bindP_def)

text \<open>A value of a type the class does not declare; the record types here cannot hold it.\<close>

definition untyped :: process_error where
  "untyped = ProcessRaised (OtherError ''a snapshot value has an undeclared type'')"

definition field_of :: "(string \<times> pyjson) list \<Rightarrow> string \<Rightarrow> pyjson" where
  "field_of d k = (case dict_get d k of Some v \<Rightarrow> v | None \<Rightarrow> JNull)"

definition validate_with :: "(pyjson \<Rightarrow> 'a option) \<Rightarrow> pyjson \<Rightarrow> process_error + 'a" where
  "validate_with f v = (case f v of Some x \<Rightarrow> Inr x | None \<Rightarrow> Inl (ProcessRaised ValidationError))"

text \<open>\<open>if data.get(key): ... validate(data[key])\<close>.\<close>

definition optional_field :: "(pyjson \<Rightarrow> process_error + 'a) \<Rightarrow> (string \<times> pyjson) list \<Rightarrow> string \<Rightarrow> process_error + 'a option" where
  "optional_field f d k = (if py_truthy (field_of d k) then bindP (f (field_of d k)) (\<lambda>x. Inr (Some x)) else Inr None)"

text \<open>\<open>int(d[key])\<close> and \<open>Rail(d[key])\<close> where key, type and value errors become \<open>bad\<close>.\<close>

definition int_or :: "process_error \<Rightarrow> pyjson option \<Rightarrow> process_error + int" where
  "int_or bad v =
     (case v of
        None \<Rightarrow> Inl bad
      | Some x \<Rightarrow> (case py_int x of Inr i \<Rightarrow> Inr i | Inl (OverflowError m) \<Rightarrow> Inl (ProcessRaised (OverflowError m)) | Inl _ \<Rightarrow> Inl bad))"

definition rail_or :: "process_error \<Rightarrow> pyjson option \<Rightarrow> process_error + Rail" where
  "rail_or bad v = (case v of Some (JStr s) \<Rightarrow> (case Rail_of_value s of Some r \<Rightarrow> Inr r | None \<Rightarrow> Inl bad) | _ \<Rightarrow> Inl bad)"

definition read_prepared :: "string \<Rightarrow> pyjson \<Rightarrow> process_error + PrepareResult" where
  "read_prepared intent_id v =
     (let bad = ProtocolError (''invalid prepared state for '' @ redacted_identifier intent_id) in
      case v of
        JObj d \<Rightarrow>
          bindP (case dict_get d ''prepared_payload'' of
              Some (JStr s) \<Rightarrow> (case b64decode s of Some payload \<Rightarrow> Inr payload | None \<Rightarrow> Inl bad)
            | _ \<Rightarrow> Inl bad) (\<lambda>payload.
          bindP (int_or bad (dict_get d ''fee_sat'')) (\<lambda>fee_sat.
          case dict_get d ''prepared_hash'' of
            None \<Rightarrow> Inl bad
          | Some h \<Rightarrow>
              bindP (rail_or bad (dict_get d ''rail'')) (\<lambda>rail.
              case h of JStr s \<Rightarrow> Inr \<lparr>pp_fee_sat = fee_sat, pp_prepared_hash = s, pp_rail = rail, pp_prepared_payload = payload\<rparr>
                | _ \<Rightarrow> Inl untyped)))
      | _ \<Rightarrow> Inl bad)"

definition read_reconciliation :: "string \<Rightarrow> pyjson \<Rightarrow> process_error + ReconcileResult" where
  "read_reconciliation intent_id v =
     (let bad = ProtocolError (''invalid reconciliation state for '' @ redacted_identifier intent_id) in
      case v of
        JObj d \<Rightarrow>
          (case dict_get d ''status'' of
             None \<Rightarrow> Inl bad
           | Some status \<Rightarrow>
               bindP (int_or bad (Some (case dict_get d ''amount_sat'' of Some x \<Rightarrow> x | None \<Rightarrow> JInt 0))) (\<lambda>amount_sat.
               bindP (int_or bad (Some (case dict_get d ''fee_sat'' of Some x \<Rightarrow> x | None \<Rightarrow> JInt 0))) (\<lambda>fee_sat.
               bindP (if py_truthy (field_of d ''rail'') then bindP (rail_or bad (dict_get d ''rail'')) (\<lambda>r. Inr (Some r)) else Inr None) (\<lambda>rail.
               bindP (case field_of d ''error'' of JNull \<Rightarrow> Inr None | JStr s \<Rightarrow> Inr (Some s) | _ \<Rightarrow> Inl untyped) (\<lambda>error.
               Inr \<lparr>rr_status = py_str status,
                    rr_settlement_ref = (case dict_get d ''settlement_ref'' of Some x \<Rightarrow> py_str x | None \<Rightarrow> []),
                    rr_amount_sat = amount_sat, rr_fee_sat = fee_sat, rr_rail = rail,
                    rr_verified = py_truthy (field_of d ''verified''), rr_error = error\<rparr>)))))
      | _ \<Rightarrow> Inl bad)"

definition read_state :: "pyjson option \<Rightarrow> process_error + PaymentState" where
  "read_state v =
     (case v of
        None \<Rightarrow> Inl (ProcessRaised (KeyError (str_repr ''state'')))
      | Some (JStr s) \<Rightarrow> (case PaymentState_of_value s of Some st \<Rightarrow> Inr st
          | None \<Rightarrow> Inl (ProcessRaised (ValueError (str_repr s @ '' is not a valid PaymentState''))))
      | Some x \<Rightarrow> Inl (ProcessRaised (ValueError (py_repr x @ '' is not a valid PaymentState''))))"

definition read_expiry :: "pyjson \<Rightarrow> process_error + int" where
  "read_expiry v =
     (case v of
        JObj d \<Rightarrow> (case py_int (case dict_get d ''expires_at'' of Some x \<Rightarrow> x | None \<Rightarrow> JInt 0) of
            Inr i \<Rightarrow> Inr i | Inl e \<Rightarrow> Inl (ProcessRaised e))
      | _ \<Rightarrow> Inl (ProcessRaised (AttributeError (str_repr (py_type_name v) @ '' object has no attribute '' @ str_repr ''get''))))"

text \<open>One entry of \<open>records\<close>; \<open>None\<close> where the loop skips it.\<close>

definition read_record :: "Validators \<Rightarrow> string \<Rightarrow> pyjson \<Rightarrow> process_error + IntentRecord option" where
  "read_record va intent_id v =
     (case v of
        JObj d \<Rightarrow>
          if \<not> py_truthy (field_of d ''intent'') then Inr None
          else
            bindP (validate_with (va_intent va) (field_of d ''intent'')) (\<lambda>intent.
            bindP (read_state (dict_get d ''state'')) (\<lambda>state.
            bindP (read_expiry (field_of d ''intent'')) (\<lambda>expires_at.
            bindP (optional_field (validate_with (va_quote va)) d ''quote'') (\<lambda>quote.
            bindP (optional_field (read_prepared intent_id) d ''prepared'') (\<lambda>prepared.
            bindP (optional_field (validate_with (va_approval va)) d ''approval'') (\<lambda>approval.
            bindP (optional_field (validate_with (va_receipt va)) d ''receipt'') (\<lambda>receipt.
            bindP (optional_field (read_reconciliation intent_id) d ''reconciliation'') (\<lambda>reconciliation.
            Inr (Some \<lparr>rec_intent = intent, rec_state = state, rec_quote = quote, rec_prepared = prepared,
                 rec_approval = approval, rec_receipt = receipt, rec_reconciliation = reconciliation,
                 rec_quote_expires_at = (case quote of Some q \<Rightarrow> pq_expires_at q | None \<Rightarrow> 0), rec_expires_at = expires_at\<rparr>)))))))))
      | _ \<Rightarrow> Inr None)"

definition read_inbox_item :: "Validators \<Rightarrow> pyjson \<Rightarrow> process_error + PeerMessage" where
  "read_inbox_item va v =
     (let bad = ProtocolError ''invalid process inbox snapshot'' in
      case v of
        JObj d \<Rightarrow>
          bindP (case (dict_get d ''type'', dict_get d ''message'') of
              (Some (JStr t), Some m) \<Rightarrow>
                if t = ''PaymentIntent'' then (case va_intent va m of Some i \<Rightarrow> Inr (MIntent i) | None \<Rightarrow> Inl bad)
                else if t = ''PaymentQuote'' then (case va_quote va m of Some q \<Rightarrow> Inr (MQuote q) | None \<Rightarrow> Inl bad)
                else if t = ''PaymentReceipt'' then (case va_receipt va m of Some r \<Rightarrow> Inr (MReceipt r) | None \<Rightarrow> Inl bad)
                else Inl bad
            | _ \<Rightarrow> Inl bad) (\<lambda>message.
          case (dict_get d ''message_id'', dict_get d ''author'') of
            (Some i, Some a) \<Rightarrow>
              (case va_identity va a of
                 None \<Rightarrow> Inl bad
               | Some author \<Rightarrow>
                   bindP (int_or bad (dict_get d ''published_at'')) (\<lambda>published_at.
                   case i of JStr s \<Rightarrow> Inr \<lparr>pm_message_id = s, pm_message = message, pm_author = author, pm_published_at = published_at\<rparr>
                     | _ \<Rightarrow> Inl untyped))
          | _ \<Rightarrow> Inl bad)
      | _ \<Rightarrow> Inl bad)"

section \<open>What was written is read back\<close>

lemma canon_get:
  assumes "v = JObj fs" and "json_ok v" and "canon default_sorted v = JObj d"
  shows "dict_get d k = map_option (canon default_sorted) (dict_get fs k)"
  using dict_get_canon [of fs default_sorted d k] assms by simp

lemma canon_JObj: "v = JObj fs \<Longrightarrow> \<exists>d. canon default_sorted v = JObj d"
  by simp

lemma canon_truthy: "py_truthy (canon opt (JObj fs)) \<longleftrightarrow> fs \<noteq> []"
  by (simp add: dump_order_def) (metis length_0_conv length_map length_sort)

lemma dumps_ok [simp]:
  "json_ok (JObj (intent_dump i))" "json_ok (JObj (quote_dump q))" "json_ok (JObj (approval_dump a))" "json_ok (JObj (receipt_dump r))"
  "json_ok (instruction_dump ri)"
  by (auto simp: dump_defs instruction_dump_def opt_field_def split: option.splits)

lemmas dumps_wf [simp] = dumps_ok [simplified]

lemma dumps_not_Nil [simp]: "intent_dump i \<noteq> []" "quote_dump q \<noteq> []" "approval_dump a \<noteq> []" "receipt_dump r \<noteq> []"
  by (simp_all add: dump_defs)

lemma opt_json_ok: "(\<And>x. v = Some x \<Longrightarrow> json_ok (f x)) \<Longrightarrow> json_ok (opt_json f v)"
  by (cases v) (simp_all add: opt_json_def)

lemma prepared_json_ok [simp]: "json_ok (prepared_json p)"
  by (simp add: prepared_json_def)

lemma reconciliation_json_ok [simp]: "json_ok (reconciliation_json r)"
  by (simp add: reconciliation_json_def opt_json_def split: option.splits)

lemma record_json_ok [simp]: "json_ok (record_json rc)"
  by (simp add: record_json_def opt_json_ok)

lemma read_prepared_json: "read_prepared k (canon default_sorted (prepared_json p)) = Inr p"
proof -
  note fields = prepared_json_def [of p]
  from canon_JObj [OF fields] obtain d where d1: "canon default_sorted (prepared_json p) = JObj d" by blast
  note d = d1 canon_get [OF fields _ d1]
  show ?thesis unfolding d(1) by (simp add: read_prepared_def d(2) int_or_def rail_or_def Let_def)
qed

lemma read_reconciliation_json: "read_reconciliation k (canon default_sorted (reconciliation_json r)) = Inr r"
proof -
  note fields = reconciliation_json_def [of r]
  from canon_JObj [OF fields] obtain d where d1: "canon default_sorted (reconciliation_json r) = JObj d" by blast
  note d = d1 canon_get [OF fields _ d1]
  have "Rail_value x \<noteq> []" for x by (cases x) simp
  then show ?thesis unfolding d(1)
    by (cases "rr_rail r"; cases "rr_error r")
      (simp_all add: read_reconciliation_def d(2) field_of_def int_or_def rail_or_def opt_json_def Let_def)
qed

definition record_ok :: "IntentRecord \<Rightarrow> bool" where
  "record_ok rc \<longleftrightarrow> intent_ok (rec_intent rc) \<and> (\<forall>q. rec_quote rc = Some q \<longrightarrow> quote_ok q)
     \<and> (\<forall>a. rec_approval rc = Some a \<longrightarrow> approval_ok a) \<and> (\<forall>r. rec_receipt rc = Some r \<longrightarrow> receipt_ok r)
     \<and> rec_expires_at rc = pi_expires_at (rec_intent rc)
     \<and> rec_quote_expires_at rc = (case rec_quote rc of Some q \<Rightarrow> pq_expires_at q | None \<Rightarrow> 0)"

lemma optional_field_json:
  assumes "field_of d k = canon default_sorted (opt_json f v)"
    and "\<And>x. v = Some x \<Longrightarrow> g (canon default_sorted (f x)) = Inr x \<and> py_truthy (canon default_sorted (f x))"
  shows "optional_field g d k = Inr v"
  using assms by (cases v) (simp_all add: optional_field_def opt_json_def)

lemma prepared_truthy: "py_truthy (canon default_sorted (prepared_json p))"
  unfolding prepared_json_def canon_truthy by simp

lemma reconciliation_truthy: "py_truthy (canon default_sorted (reconciliation_json r))"
  unfolding reconciliation_json_def canon_truthy by simp

lemma read_record_json:
  assumes "validators_contract va" and "record_ok rc"
  shows "read_record va k (canon default_sorted (record_json rc)) = Inr (Some rc)"
proof -
  let ?fs = "[(''state'', JStr (PaymentState_value (rec_state rc))), (''intent'', JObj (intent_dump (rec_intent rc))),
      (''quote'', opt_json (\<lambda>q. JObj (quote_dump q)) (rec_quote rc)), (''prepared'', opt_json prepared_json (rec_prepared rc)),
      (''approval'', opt_json (\<lambda>a. JObj (approval_dump a)) (rec_approval rc)),
      (''receipt'', opt_json (\<lambda>r. JObj (receipt_dump r)) (rec_receipt rc)),
      (''reconciliation'', opt_json reconciliation_json (rec_reconciliation rc))]"
  note fields = record_json_def [of rc]
  from canon_JObj [OF fields] obtain d where d1: "canon default_sorted (record_json rc) = JObj d" by blast
  note d = d1 canon_get [OF fields _ d1]
  have field: "field_of d k = canon default_sorted (case dict_get ?fs k of Some v \<Rightarrow> v | None \<Rightarrow> JNull)" for k
    by (cases "dict_get ?fs k") (simp_all add: field_of_def d(2))
  have va: "validate_with (va_intent va) (canon default_sorted (JObj (intent_dump x))) = Inr x" if "intent_ok x" for x
    using assms(1) that by (simp add: validate_with_def validators_contract_def del: canon.simps)
  have quote: "optional_field (validate_with (va_quote va)) d ''quote'' = Inr (rec_quote rc)"
    by (rule optional_field_json [where f = "\<lambda>q. JObj (quote_dump q)"])
      (use assms in \<open>auto simp: field validate_with_def validators_contract_def record_ok_def canon_truthy simp del: canon.simps\<close>)
  have approval: "optional_field (validate_with (va_approval va)) d ''approval'' = Inr (rec_approval rc)"
    by (rule optional_field_json [where f = "\<lambda>q. JObj (approval_dump q)"])
      (use assms in \<open>auto simp: field validate_with_def validators_contract_def record_ok_def canon_truthy simp del: canon.simps\<close>)
  have receipt: "optional_field (validate_with (va_receipt va)) d ''receipt'' = Inr (rec_receipt rc)"
    by (rule optional_field_json [where f = "\<lambda>q. JObj (receipt_dump q)"])
      (use assms in \<open>auto simp: field validate_with_def validators_contract_def record_ok_def canon_truthy simp del: canon.simps\<close>)
  have prepared: "optional_field (read_prepared k) d ''prepared'' = Inr (rec_prepared rc)"
    by (rule optional_field_json [where f = prepared_json]) (simp_all add: field read_prepared_json prepared_truthy del: canon.simps)
  have reconciliation: "optional_field (read_reconciliation k) d ''reconciliation'' = Inr (rec_reconciliation rc)"
    by (rule optional_field_json [where f = reconciliation_json])
      (simp_all add: field read_reconciliation_json reconciliation_truthy del: canon.simps)
  obtain di where di1: "canon default_sorted (JObj (intent_dump (rec_intent rc))) = JObj di" by simp
  note di = di1 canon_get [OF refl dumps_ok(1) di1]
  have expiry: "read_expiry (JObj di) = Inr (pi_expires_at (rec_intent rc))"
    by (simp add: read_expiry_def di(2) intent_dump_def)
  have intent: "field_of d ''intent'' = JObj di" using di(1) by (simp add: field del: canon.simps)
  have "di \<noteq> []" using canon_truthy [of default_sorted "intent_dump (rec_intent rc)"] di(1) by auto
  moreover have "validate_with (va_intent va) (JObj di) = Inr (rec_intent rc)"
    using va assms(2) by (simp add: record_ok_def flip: di(1) del: canon.simps)
  moreover have "read_state (dict_get d ''state'') = Inr (rec_state rc)" by (simp add: read_state_def d(2))
  ultimately show ?thesis
    unfolding d(1) using assms(2) by (simp add: read_record_def intent expiry quote prepared approval receipt reconciliation record_ok_def)
qed

end
