(* ===== verification/Process.thy ===== *)
theory Process
  imports Process_Snapshot Peer
begin

text \<open>
  The durable process of \<open>examples/two_hermes_regtest/process.py\<close>: a peer with its engine, the
  inbox, the snapshot file, and recovery from it when the process starts. A call meets the
  environment of the engine and a disk that takes the snapshot or not.
\<close>

section \<open>State\<close>

record process_env =
  pe_policy :: policy_env
  pe_snapshot_ok :: bool

record ('w, 's) HermesProcess =
  hr_peer :: "('w, 's) HermesPeer"
  hr_inbox :: "PeerMessage list"
  hr_inbox_ids :: "string set"
  hr_snapshot :: "string option"

abbreviation hr_engine :: "('w, 's) HermesProcess \<Rightarrow> 'w Orch" where
  "hr_engine hr \<equiv> hp_orchestrator (hr_peer hr)"

definition set_engine :: "'w Orch \<Rightarrow> ('w, 's) HermesProcess \<Rightarrow> ('w, 's) HermesProcess" where
  "set_engine orc hr = hr\<lparr>hr_peer := (hr_peer hr)\<lparr>hp_orchestrator := orc\<rparr>\<rparr>"

lemma set_engine_simps [simp]:
  "hr_engine (set_engine orc hr) = orc" "hr_inbox (set_engine orc hr) = hr_inbox hr"
  "hr_inbox_ids (set_engine orc hr) = hr_inbox_ids hr" "hr_snapshot (set_engine orc hr) = hr_snapshot hr"
  by (simp_all add: set_engine_def)

section \<open>The snapshot\<close>

definition snapshot_text :: "'w Orch \<Rightarrow> PeerMessage list \<Rightarrow> string" where
  "snapshot_text orc received = json_dumps default_sorted (snapshot_json (orch_intents orc) received)"

definition snapshot_state :: "bool \<Rightarrow> ('w, 's) HermesProcess \<Rightarrow> (process_error + unit) \<times> ('w, 's) HermesProcess" where
  "snapshot_state disk_ok hr =
     (if disk_ok then (Inr (), hr\<lparr>hr_snapshot := Some (snapshot_text (hr_engine hr) (hr_inbox hr))\<rparr>)
      else (Inl (ProcessRaised (OSError ''snapshot write failed'')), hr))"

definition load_snapshot :: "string option \<Rightarrow> process_error + pyjson" where
  "load_snapshot file =
     (case file of
        None \<Rightarrow> Inr (JObj [])
      | Some content \<Rightarrow> (case json_loads content of Some v \<Rightarrow> Inr v
          | None \<Rightarrow> Inl (ProcessRaised (ValueError ''the snapshot is not valid JSON''))))"

section \<open>Recovery\<close>

text \<open>\<open>IntentRecord\<close>s from the snapshot enter the engine one by one.\<close>

definition demote :: "policy_env \<Rightarrow> string \<Rightarrow> IntentRecord \<Rightarrow> 'w Orch \<Rightarrow> ('w, IntentRecord) outcome" where
  "demote env intent_id rc orc =
     (if rec_state rc = EXECUTING then
        let rc = rc\<lparr>rec_state := RECONCILIATION_REQUIRED\<rparr>
        in audited env ''recovered_executing'' intent_id [state_field (rec_state rc)] (Inr rc) orc
      else (Inr rc, orc))"

fun recover_records ::
    "Validators \<Rightarrow> 'w orch_config \<Rightarrow> policy_env \<Rightarrow> bool \<Rightarrow> (string \<times> pyjson) list \<Rightarrow> 'w Orch \<Rightarrow> (process_error + unit) \<times> 'w Orch" where
  "recover_records va cfg env reconcile [] orc = (Inr (), orc)"
| "recover_records va cfg env reconcile ((intent_id, v) # records) orc =
     (case read_record va intent_id v of
        Inl e \<Rightarrow> (Inl e, orc)
      | Inr None \<Rightarrow> recover_records va cfg env reconcile records orc
      | Inr (Some rc) \<Rightarrow>
          (case demote env intent_id rc orc of
             (Inl e, orc) \<Rightarrow> (Inl (FromPolicy e), orc)
           | (Inr rc, orc) \<Rightarrow>
               let orc = put_record intent_id rc orc in
               if reconcile \<and> rec_state rc = RECONCILIATION_REQUIRED then
                 (case reconcile_settlement cfg env intent_id orc of
                    (Inl e, orc) \<Rightarrow> (Inl (FromPolicy e), orc)
                  | (Inr _, orc) \<Rightarrow> recover_records va cfg env reconcile records orc)
               else recover_records va cfg env reconcile records orc))"

fun recover_inbox ::
    "Validators \<Rightarrow> pyjson list \<Rightarrow> PeerMessage list \<Rightarrow> string set \<Rightarrow> (process_error + unit) \<times> PeerMessage list \<times> string set" where
  "recover_inbox va [] received ids = (Inr (), received, ids)"
| "recover_inbox va (item # items) received ids =
     (case read_inbox_item va item of
        Inl e \<Rightarrow> (Inl e, received, ids)
      | Inr pm \<Rightarrow>
          if pm_message_id pm \<notin> ids then recover_inbox va items (received @ [pm]) (insert (pm_message_id pm) ids)
          else recover_inbox va items received ids)"

text \<open>The inbox of a snapshot; anything but a list is skipped.\<close>

definition snapshot_inbox :: "(string \<times> pyjson) list \<Rightarrow> pyjson list" where
  "snapshot_inbox snapshot = (case dict_get snapshot ''inbox'' of Some (JList items) \<Rightarrow> items | _ \<Rightarrow> [])"

definition maybe_recover ::
    "Validators \<Rightarrow> 'w orch_config \<Rightarrow> process_env \<Rightarrow> bool \<Rightarrow> ('w, 's) HermesProcess \<Rightarrow> (process_error + unit) \<times> ('w, 's) HermesProcess" where
  "maybe_recover va cfg pe reconcile hr =
     (case load_snapshot (hr_snapshot hr) of
        Inl e \<Rightarrow> (Inl e, hr)
      | Inr (JObj snapshot) \<Rightarrow>
          (case (case dict_get snapshot ''records'' of Some v \<Rightarrow> v | None \<Rightarrow> JObj snapshot) of
             JObj records \<Rightarrow>
               (case recover_records va cfg (pe_policy pe) reconcile records (hr_engine hr) of
                  (Inl e, orc) \<Rightarrow> (Inl e, set_engine orc hr)
                | (Inr _, orc) \<Rightarrow>
                    let hr = set_engine orc hr in
                    (case recover_inbox va (snapshot_inbox snapshot) (hr_inbox hr) (hr_inbox_ids hr) of
                       (out, received, ids) \<Rightarrow>
                         let hr = hr\<lparr>hr_inbox := received, hr_inbox_ids := ids\<rparr> in
                         (case out of
                            Inl e \<Rightarrow> (Inl e, hr)
                          | Inr _ \<Rightarrow> if records \<noteq> [] then snapshot_state (pe_snapshot_ok pe) hr else (Inr (), hr))))
           | _ \<Rightarrow> (Inl (ProtocolError ''process state snapshot has invalid records''), hr))
      | Inr v \<Rightarrow> (Inl (ProcessRaised (AttributeError (str_repr (py_type_name v) @ '' object has no attribute '' @ str_repr ''get''))), hr))"

text \<open>
  The constructor: the engine is built on the store and audit files, then the snapshot is
  recovered. \<open>w\<close> and \<open>t\<close> are the outside world and the transport as they are at that moment.
\<close>

definition process_init ::
    "Validators \<Rightarrow> 'w orch_config \<Rightarrow> process_env \<Rightarrow> AgentIdentity \<Rightarrow> string option \<Rightarrow> string option \<Rightarrow> string option \<Rightarrow> string list option
      \<Rightarrow> string option \<Rightarrow> 's \<Rightarrow> 'w \<Rightarrow> (process_error + unit) \<times> ('w, 's) HermesProcess option" where
  "process_init va cfg pe identity store_path store_file audit_path audit_file snapshot t w =
     (case orch_init store_path store_file audit_path audit_file w of
        Inl e \<Rightarrow> (Inl (ProcessRaised e), None)
      | Inr orc \<Rightarrow>
          (case maybe_recover va cfg pe True
                  \<lparr>hr_peer = \<lparr>hp_identity = identity, hp_transport = t, hp_orchestrator = orc\<rparr>,
                   hr_inbox = [], hr_inbox_ids = {}, hr_snapshot = snapshot\<rparr> of
             (out, hr) \<Rightarrow> (out, Some hr)))"

section \<open>Recovery never resumes an execution\<close>

lemma reconcile_settlement_frame:
  assumes "reconcile_settlement cfg env k orc = (Inr res, orc')"
  shows "\<exists>rc. dict_get (orch_intents orc) k = Some rc \<and> rec_state rc = RECONCILIATION_REQUIRED
    \<and> orch_intents orc' = dict_set k (rc\<lparr>rec_reconciliation := Some res\<rparr>) (orch_intents orc) \<and> orch_store orc' = orch_store orc"
proof -
  obtain rc p where rc: "dict_get (orch_intents orc) k = Some rc" "rec_state rc = RECONCILIATION_REQUIRED" "rec_prepared rc = Some p"
    using assms by (auto simp: reconcile_settlement_def get_record_def split: option.split_asm if_split_asm)
  obtain answer w where "sa_reconcile_settlement (cf_adapter cfg) (pp_prepared_payload p) (pp_prepared_hash p)
      (pi_amount_sat (rec_intent rc)) (orch_world orc) = (answer, w)" by force
  with assms rc show ?thesis
    by (auto simp: reconcile_settlement_def get_record_def Let_def audited_def put_record_def split: prod.split_asm sum.split_asm)
qed

definition recovered :: "IntentRecord \<Rightarrow> bool" where
  "recovered rc \<longleftrightarrow> rec_state rc \<noteq> EXECUTING \<and> (rec_state rc = RECONCILIATION_REQUIRED \<longrightarrow> rec_reconciliation rc \<noteq> None)"

lemma demote_Inr:
  assumes "demote env k rc orc = (Inr rc', orc')"
  shows "rc' = (if rec_state rc = EXECUTING then rc\<lparr>rec_state := RECONCILIATION_REQUIRED\<rparr> else rc) \<and> orch_intents orc' = orch_intents orc
    \<and> orch_store orc' = orch_store orc \<and> orch_world orc' = orch_world orc \<and> (rec_state rc \<noteq> EXECUTING \<longrightarrow> orc' = orc)"
  using assms by (auto simp: demote_def audited_def Let_def split: if_split_asm prod.split_asm sum.split_asm)

definition all_recovered :: "'w Orch \<Rightarrow> bool" where
  "all_recovered orc \<longleftrightarrow> (\<forall>k rc. dict_get (orch_intents orc) k = Some rc \<longrightarrow> recovered rc)"

lemma recover_records_recovered:
  "\<lbrakk>recover_records va cfg env True records orc = (Inr u, orc'); all_recovered orc\<rbrakk> \<Longrightarrow> all_recovered orc'"
proof (induction records arbitrary: orc)
  case (Cons item records)
  obtain k v where item: "item = (k, v)" by force
  obtain r where r: "read_record va k v = Inr r" using Cons.prems item by (auto split: sum.split_asm)
  show ?case
  proof (cases r)
    case None
    with Cons item r show ?thesis by simp
  next
    case (Some rc)
    obtain rc' orc1 where d: "demote env k rc orc = (Inr rc', orc1)"
      using Cons.prems item r Some by (auto split: prod.split_asm sum.split_asm)
    note d' = demote_Inr [OF d]
    have kept: "dict_get (orch_intents (put_record k rc' orc1)) j = Some x \<Longrightarrow> j \<noteq> k \<Longrightarrow> recovered x" for j x
      using d' Cons.prems(2) by (simp add: put_record_def all_recovered_def)
    show ?thesis
    proof (cases "rec_state rc' = RECONCILIATION_REQUIRED")
      case True
      then obtain res orc2 where rec: "reconcile_settlement cfg env k (put_record k rc' orc1) = (Inr res, orc2)"
        using Cons.prems item r Some d by (auto simp: Let_def split: prod.split_asm sum.split_asm)
      with Cons.prems item r Some d True have rest: "recover_records va cfg env True records orc2 = (Inr u, orc')"
        by (simp add: Let_def)
      from reconcile_settlement_frame [OF rec] kept have "all_recovered orc2"
        by (auto simp: all_recovered_def recovered_def put_record_def split: if_split_asm)
      from Cons.IH [OF rest this] show ?thesis .
    next
      case False
      with Cons.prems item r Some d have rest: "recover_records va cfg env True records (put_record k rc' orc1) = (Inr u, orc')"
        by (simp add: Let_def)
      have "recovered rc'" using False d' by (auto simp: recovered_def split: if_split_asm)
      with kept have "all_recovered (put_record k rc' orc1)"
        by (auto simp: all_recovered_def put_record_def split: if_split_asm)
      from Cons.IH [OF rest this] show ?thesis .
    qed
  qed
qed auto

lemma maybe_recover_Inr:
  assumes "maybe_recover va cfg pe reconcile hr = (Inr u, hr')"
  shows "\<exists>snapshot records. load_snapshot (hr_snapshot hr) = Inr (JObj snapshot)
    \<and> (case dict_get snapshot ''records'' of Some v \<Rightarrow> v | None \<Rightarrow> JObj snapshot) = JObj records
    \<and> recover_records va cfg (pe_policy pe) reconcile records (hr_engine hr) = (Inr (), hr_engine hr')"
proof -
  obtain v where v: "load_snapshot (hr_snapshot hr) = Inr v"
    using assms by (cases "load_snapshot (hr_snapshot hr)") (auto simp: maybe_recover_def)
  obtain snapshot where snapshot: "v = JObj snapshot" using assms v by (cases v) (auto simp: maybe_recover_def)
  let ?r = "case dict_get snapshot ''records'' of Some v \<Rightarrow> v | None \<Rightarrow> JObj snapshot"
  obtain records where records: "?r = JObj records" using assms v snapshot by (cases ?r) (auto simp: maybe_recover_def)
  obtain out orc where run: "recover_records va cfg (pe_policy pe) reconcile records (hr_engine hr) = (out, orc)" by force
  with assms v snapshot records have ok: "out = Inr ()" by (cases out) (auto simp: maybe_recover_def)
  obtain out2 received ids where box: "recover_inbox va (snapshot_inbox snapshot) (hr_inbox hr) (hr_inbox_ids hr) = (out2, received, ids)"
    by (rule prod_cases3)
  have "hr_engine hr' = orc"
    using assms v snapshot records run ok box
    by (cases out2) (auto simp: maybe_recover_def Let_def snapshot_state_def split: if_split_asm)
  with v snapshot records run ok show ?thesis by blast
qed


end
