(* ===== verification/Process_Config.thy ===== *)
theory Process_Config
  imports Process Complex_Main
begin

text \<open>
  The configuration of a process and the small JSONL boundary \<open>JsonlProcess\<close> of
  \<open>examples/two_hermes_regtest/process.py\<close>, with what they use of Python's paths and floats.
  A path is the text that \<open>str\<close> gives for it.
\<close>

section \<open>Paths\<close>

fun split_on :: "char \<Rightarrow> string \<Rightarrow> string list" where
  "split_on c [] = [[]]"
| "split_on c (x # xs) =
     (if x = c then [] # split_on c xs
      else case split_on c xs of [] \<Rightarrow> [[x]] | y # ys \<Rightarrow> (x # y) # ys)"

text \<open>\<open>str(Path(s))\<close>: empty and dot segments vanish; exactly two leading slashes stay.\<close>

definition py_path :: "string \<Rightarrow> string" where
  "py_path s =
     (let slash = (if take 2 s = ''//'' \<and> take 3 s \<noteq> ''///'' then ''//'' else if take 1 s = ''/'' then ''/'' else []);
          p = slash @ join ''/'' (filter (\<lambda>part. part \<noteq> [] \<and> part \<noteq> ''.'') (split_on (CHR ''/'') s))
      in if p = [] then ''.'' else p)"

text \<open>\<open>Path(root) / name\<close> for a relative name.\<close>

definition path_join :: "string \<Rightarrow> string \<Rightarrow> string" where
  "path_join dir name = (if dir \<noteq> [] \<and> last dir = CHR ''/'' then dir @ name else py_path (dir @ ''/'' @ name))"

section \<open>Configuration\<close>

record ProcessConfig =
  pc_role :: string
  pc_identity :: AgentIdentity
  pc_channel :: string
  pc_state_root :: string
  pc_network :: string
  pc_buzz_bin :: string
  pc_audit_path :: string
  pc_store_path :: string
  pc_approver :: "AgentIdentity option"

text \<open>The validators of the class, then \<open>model_post_init\<close>; paths are given by their text.\<close>

definition process_config ::
    "string \<Rightarrow> AgentIdentity \<Rightarrow> string \<Rightarrow> string option \<Rightarrow> string \<Rightarrow> string \<Rightarrow> string option \<Rightarrow> string option
      \<Rightarrow> AgentIdentity option \<Rightarrow> exn + ProcessConfig" where
  "process_config role identity channel state_root network buzz_bin audit_path store_path approver =
     (let blank = (case state_root of None \<Rightarrow> True | Some r \<Rightarrow> py_strip r \<in> {[], ''.''}) in
      if role \<notin> {''alice'', ''bob''} \<or> network \<notin> {''regtest'', ''signet''} \<or> py_strip channel = [] \<or> blank
      then Inl ValidationError
      else let dir = py_path (the state_root) in
        Inr \<lparr>pc_role = role, pc_identity = identity, pc_channel = channel, pc_state_root = dir, pc_network = network,
             pc_buzz_bin = buzz_bin,
             pc_audit_path = (case audit_path of Some p \<Rightarrow> py_path p | None \<Rightarrow> path_join dir ''audit.jsonl''),
             pc_store_path = (case store_path of Some p \<Rightarrow> py_path p | None \<Rightarrow> path_join dir ''store.json''),
             pc_approver = approver\<rparr>)"

text \<open>\<open>HermesRegtestProcess(config=..., ...)\<close> with what the files at the configured paths hold.\<close>

definition process_start ::
    "Validators \<Rightarrow> 'w orch_config \<Rightarrow> process_env \<Rightarrow> ProcessConfig \<Rightarrow> string option \<Rightarrow> string list option \<Rightarrow> string option
      \<Rightarrow> 's \<Rightarrow> 'w \<Rightarrow> (process_error + unit) \<times> ('w, 's) HermesProcess option" where
  "process_start va cfg pe pc store_file audit_file snapshot t w =
     process_init va cfg pe (pc_identity pc) (Some (pc_store_path pc)) store_file (Some (pc_audit_path pc)) audit_file snapshot t w"

text \<open>Without a \<open>clock\<close> argument a process takes every time for zero.\<close>

definition default_clock :: int where
  "default_clock = 0"

definition process_now :: "int option \<Rightarrow> int" where
  "process_now clock = (case clock of Some now \<Rightarrow> now | None \<Rightarrow> default_clock)"

section \<open>Status and the JSONL boundary\<close>

definition status_fields :: "ProcessConfig \<Rightarrow> (string \<times> pyjson) list" where
  "status_fields pc =
     [(''role'', JStr (pc_role pc)), (''network'', JStr (pc_network pc)), (''channel'', JStr (pc_channel pc)),
      (''state_root'', JStr (pc_state_root pc))]"

text \<open>\<open>json.dumps({"event": name, **result}, ...)\<close>.\<close>

definition event_line :: "string \<Rightarrow> (string \<times> pyjson) list \<Rightarrow> string" where
  "event_line name result = json_dumps compact_sorted (JObj (dict_merge [(''event'', JStr name)] result))"

text \<open>\<open>JsonlProcess\<close>: the injected handlers act on a state of their own.\<close>

type_synonym 's jsonl_handler = "(string \<times> pyjson) list \<Rightarrow> 's \<Rightarrow> (process_error + pyjson) \<times> 's"

record 's JsonlProcess =
  jp_config :: ProcessConfig
  jp_receive :: "'s jsonl_handler option"
  jp_recover :: "'s jsonl_handler option"

definition jsonl_handle_line :: "'s JsonlProcess \<Rightarrow> string \<Rightarrow> 's \<Rightarrow> (process_error + string) \<times> 's" where
  "jsonl_handle_line jp line s =
     (case parse_command line of
        Inl e \<Rightarrow> (Inl e, s)
      | Inr c \<Rightarrow>
          if jc_name c = ''status'' then (Inr (event_line ''status'' (status_fields (jp_config jp))), s)
          else if jc_name c \<noteq> ''receive'' \<and> jc_name c \<noteq> ''recover'' then
            (Inl (ProcessRaised (KeyError (str_repr (jc_name c)))), s)
          else case (if jc_name c = ''receive'' then jp_receive jp else jp_recover jp) of
            None \<Rightarrow> (Inl (ProtocolError (jc_name c @ '' handler is not configured'')), s)
          | Some handler \<Rightarrow>
              (case handler (jc_arguments c) s of
                 (Inl e, s) \<Rightarrow> (Inl e, s)
               | (Inr (JObj result), s) \<Rightarrow> (Inr (event_line (jc_name c) result), s)
               | (Inr _, s) \<Rightarrow> (Inl (ProtocolError (jc_name c @ '' handler must return an object'')), s)))"

section \<open>Floats\<close>

text \<open>\<open>float(x)\<close>; an underscore of a text stands between two digits.\<close>

fun float_marks :: "string \<Rightarrow> string option" where
  "float_marks (c # d # r) =
     (if d = CHR ''_'' then
        (case r of e # _ \<Rightarrow> if is_digit c \<and> is_digit e then map_option (Cons c) (float_marks r) else None | [] \<Rightarrow> None)
      else if c = CHR ''_'' then None else map_option (Cons c) (float_marks (d # r)))"
| "float_marks [c] = (if c = CHR ''_'' then None else Some [c])"
| "float_marks [] = Some []"

definition read_float_text :: "string \<Rightarrow> pyfloat option" where
  "read_float_text s =
     (case float_marks (py_strip s) of
        None \<Rightarrow> None
      | Some t \<Rightarrow>
          let (neg, b) = split_sign t;
              word = py_upper b;
              ip = takeWhile is_digit b;
              r = dropWhile is_digit b;
              (fp, r2) = (if take 1 r = ''.'' then (takeWhile is_digit (drop 1 r), dropWhile is_digit (drop 1 r)) else ([], r));
              (xp, r3) = exp_part r2
          in if word = ''INF'' \<or> word = ''INFINITY'' then Some (FInf neg)
             else if word = ''NAN'' then Some FNan
             else if ip @ fp = [] \<or> r3 \<noteq> [] then None
             else Some (float_of_decimal neg (read_nat (ip @ fp)) ((case xp of Some x \<Rightarrow> x | None \<Rightarrow> 0) - int (length fp))))"

fun py_float :: "pyjson \<Rightarrow> exn + pyfloat" where
  "py_float (JBool b) = Inr (float_of_ratio False (if b then 1 else 0) 1)"
| "py_float (JInt i) =
     (case float_of_ratio (i < 0) (nat \<bar>i\<bar>) 1 of
        FInf _ \<Rightarrow> Inl (OverflowError ''int too large to convert to float'')
      | f \<Rightarrow> Inr f)"
| "py_float (JFloat f) = Inr f"
| "py_float (JStr s) =
     (case read_float_text s of Some f \<Rightarrow> Inr f | None \<Rightarrow> Inl (ValueError (''could not convert string to float: '' @ str_repr s)))"
| "py_float v =
     Inl (TypeError (''float() argument must be a string or a real number, not '' @ [CHR 0x27] @ py_type_name v @ [CHR 0x27]))"

definition float_rat :: "bool \<Rightarrow> nat \<Rightarrow> int \<Rightarrow> rat" where
  "float_rat neg m e =
     (let a = (if 0 \<le> e then of_nat (m * 2 ^ nat e) else of_nat m / of_nat (2 ^ nat (- e))) in if neg then - a else a)"

fun float_le :: "pyfloat \<Rightarrow> pyfloat \<Rightarrow> bool" where
  "float_le (FFin a m e) (FFin b n f) = (float_rat a m e \<le> float_rat b n f)"
| "float_le (FInf a) (FInf b) = (a \<or> \<not> b)"
| "float_le (FInf a) (FFin _ _ _) = a"
| "float_le (FFin _ _ _) (FInf b) = (\<not> b)"
| "float_le _ _ = False"

fun float_sub :: "pyfloat \<Rightarrow> pyfloat \<Rightarrow> pyfloat" where
  "float_sub (FFin a m e) (FFin b n f) =
     (let (p, q) = quotient_of (float_rat a m e - float_rat b n f) in float_of_ratio (p < 0) (nat \<bar>p\<bar>) (nat q))"
| "float_sub (FInf a) (FInf b) = (if a = b then FNan else FInf a)"
| "float_sub (FInf a) (FFin _ _ _) = FInf a"
| "float_sub (FFin _ _ _) (FInf b) = FInf (\<not> b)"
| "float_sub _ _ = FNan"

text \<open>\<open>round(x, 3)\<close>.\<close>

fun float_round3 :: "pyfloat \<Rightarrow> pyfloat" where
  "float_round3 (FFin neg m e) = (let (p, q) = ratio_of m e in float_of_ratio neg (round_half_even (p * 1000) q) 1000)"
| "float_round3 f = f"

end
