(* ===== verification/Process_Commands.thy ===== *)
theory Process_Commands
  imports Process_Config
begin

text \<open>
  The command handlers of \<open>HermesRegtestProcess\<close> in \<open>examples/two_hermes_regtest/process.py\<close>
  and \<open>handle_line\<close>, which runs one of them and writes the snapshot whether or not it raised.
  A handler takes the arguments of the command and returns the fields of its reply, or the
  exception it raises, with the process it leaves behind.
\<close>

type_synonym fields = "(string \<times> pyjson) list"
type_synonym ('w, 's, 'a) process_outcome = "(process_error + 'a) \<times> ('w, 's) HermesProcess"

text \<open>
  What a command meets: the validation library, the adapter and allowlists, the clock and the
  disk, the transport, the configuration, and the successive readings of \<open>time.monotonic\<close>.
\<close>

record ('w, 's) process_ctx =
  px_validators :: Validators
  px_orch :: "'w orch_config"
  px_env :: process_env
  px_link :: "'s PeerTransport"
  px_config :: ProcessConfig
  px_clock :: "nat \<Rightarrow> pyfloat"

section \<open>Sequencing\<close>

definition andthen :: "(process_error + 'a) \<times> 'p \<Rightarrow> ('a \<Rightarrow> 'p \<Rightarrow> (process_error + 'b) \<times> 'p) \<Rightarrow> (process_error + 'b) \<times> 'p" where
  "andthen call f = (case call of (Inl e, p) \<Rightarrow> (Inl e, p) | (Inr v, p) \<Rightarrow> f v p)"

lemma andthen_simps [simp]: "andthen (Inl e, p) f = (Inl e, p)" "andthen (Inr v, p) f = f v p"
  by (simp_all add: andthen_def)

lemma snd_andthen: "snd (andthen call f) = (case fst call of Inl e \<Rightarrow> snd call | Inr v \<Rightarrow> snd (f v (snd call)))"
  by (cases call) (simp add: andthen_def split: sum.splits)

definition on_peer :: "('w, 's, 'a) peer_outcome \<Rightarrow> ('w, 's) HermesProcess \<Rightarrow> ('w, 's, 'a) process_outcome" where
  "on_peer call hr =
     (case call of (out, peer) \<Rightarrow>
        (case out of Inl (PeerExn e) \<Rightarrow> Inl (ProcessRaised e) | Inl (PeerPolicy e) \<Rightarrow> Inl (FromPolicy e) | Inr v \<Rightarrow> Inr v,
         hr\<lparr>hr_peer := peer\<rparr>))"

definition on_engine :: "('w, 'a) outcome \<Rightarrow> ('w, 's) HermesProcess \<Rightarrow> ('w, 's, 'a) process_outcome" where
  "on_engine call hr =
     (case call of (out, orc) \<Rightarrow> (case out of Inl e \<Rightarrow> Inl (FromPolicy e) | Inr v \<Rightarrow> Inr v, set_engine orc hr))"

text \<open>\<open>args[key]\<close>.\<close>

definition argument :: "fields \<Rightarrow> string \<Rightarrow> process_error + pyjson" where
  "argument args key = (case dict_get args key of Some v \<Rightarrow> Inr v | None \<Rightarrow> Inl (ProcessRaised (KeyError (str_repr key))))"

text \<open>The reply of a handler that ends with the state of an intent.\<close>

definition state_reply :: "string \<Rightarrow> (string \<Rightarrow> fields) \<Rightarrow> ('w, 's) HermesProcess \<Rightarrow> ('w, 's, fields) process_outcome" where
  "state_reply intent_id reply hr =
     (case orch_state intent_id (hr_engine hr) of
        Inl e \<Rightarrow> (Inl (FromPolicy e), hr)
      | Inr s \<Rightarrow> (Inr (reply (PaymentState_value s)), hr))"

abbreviation short :: "string \<Rightarrow> pyjson" where
  "short v \<equiv> JStr (redacted_identifier v)"

section \<open>The inbox\<close>

definition domain_id :: "DomainMessage \<Rightarrow> string" where
  "domain_id m = (case m of MIntent i \<Rightarrow> pi_id i | MQuote q \<Rightarrow> pq_id q | MReceipt r \<Rightarrow> pr_id r | MApproval a \<Rightarrow> pa_id a)"

definition serialize_message :: "DomainMessage \<Rightarrow> process_error + fields" where
  "serialize_message m =
     (case message_author m of
        Inl e \<Rightarrow> Inl (ProcessRaised e)
      | Inr author \<Rightarrow>
          Inr ([(''type'', JStr (message_class m)), (''id'', short (domain_id m)), (''protocol_version'', JStr PROTOCOL_VERSION),
                (''author'', short (pubkey author))] @
               (case m of
                  MIntent i \<Rightarrow> [(''intent_id'', short (pi_id i)), (''amount_sat'', JInt (pi_amount_sat i))]
                | MQuote q \<Rightarrow> [(''intent_id'', short (pq_intent_id q))]
                | MReceipt r \<Rightarrow> [(''intent_id'', short (pr_intent_id r))]
                | MApproval _ \<Rightarrow> [])))"

fun summaries :: "PeerMessage list \<Rightarrow> process_error + pyjson list" where
  "summaries [] = Inr []"
| "summaries (pm # pms) =
     bindP (serialize_message (pm_message pm)) (\<lambda>summary.
     bindP (summaries pms) (\<lambda>rest.
     Inr (JObj (dict_merge [(''message_id'', short (pm_message_id pm))] summary) # rest)))"

fun collect_new :: "PeerMessage list \<Rightarrow> ('w, 's) HermesProcess \<Rightarrow> PeerMessage list \<times> ('w, 's) HermesProcess" where
  "collect_new [] hr = ([], hr)"
| "collect_new (pm # pms) hr =
     (if pm_message_id pm \<in> hr_inbox_ids hr then collect_new pms hr
      else case collect_new pms (hr\<lparr>hr_inbox_ids := insert (pm_message_id pm) (hr_inbox_ids hr), hr_inbox := hr_inbox hr @ [pm]\<rparr>) of
        (messages, hr) \<Rightarrow> (pm # messages, hr))"

definition find_inbox_message :: "pyjson \<Rightarrow> ('w, 's) HermesProcess \<Rightarrow> process_error + PeerMessage" where
  "find_inbox_message redacted_id hr =
     (case find (\<lambda>pm. py_eq (short (pm_message_id pm)) redacted_id) (hr_inbox hr) of
        Some pm \<Rightarrow> Inr pm
      | None \<Rightarrow> Inl (ProtocolError (''message '' @ py_str redacted_id @ '' not found in inbox'')))"

definition receive_limit :: "fields \<Rightarrow> process_error + int option" where
  "receive_limit args =
     (case field_of args ''limit'' of
        JNull \<Rightarrow> Inr None
      | v \<Rightarrow> (case py_int v of Inl e \<Rightarrow> Inl (ProcessRaised e) | Inr limit \<Rightarrow> Inr (Some limit)))"

section \<open>Handlers\<close>

definition handle_status :: "('w, 's) process_ctx \<Rightarrow> fields \<Rightarrow> ('w, 's) HermesProcess \<Rightarrow> ('w, 's, fields) process_outcome" where
  "handle_status px args hr =
     (Inr (status_fields (px_config px) @ [(''state_count'', JObj (state_count_summary (hr_engine hr)))]), hr)"

definition handle_receive :: "('w, 's) process_ctx \<Rightarrow> fields \<Rightarrow> ('w, 's) HermesProcess \<Rightarrow> ('w, 's, fields) process_outcome" where
  "handle_receive px args hr =
     andthen (receive_limit args, hr) (\<lambda>limit hr.
     andthen (on_peer (peer_receive (px_link px) limit (hr_peer hr)) hr) (\<lambda>received hr.
     case collect_new received hr of (messages, hr) \<Rightarrow>
       andthen (summaries messages, hr) (\<lambda>items hr.
       (Inr [(''messages'', JList items), (''inbox_size'', JInt (int (length (hr_inbox hr))))], hr))))"

definition handle_submit_intent :: "('w, 's) process_ctx \<Rightarrow> fields \<Rightarrow> ('w, 's) HermesProcess \<Rightarrow> ('w, 's, fields) process_outcome" where
  "handle_submit_intent px args hr =
     andthen (bindP (argument args ''intent'') (validate_with (va_intent (px_validators px))), hr) (\<lambda>intent hr.
     andthen (on_peer (submit_intent (px_orch px) (pe_policy (px_env px)) (px_link px) intent (hr_peer hr)) hr) (\<lambda>message_id hr.
     state_reply (pi_id intent) (\<lambda>s. [(''intent_id'', short (pi_id intent)), (''message_id'', short message_id), (''state'', JStr s)]) hr))"

definition handle_accept_intent :: "('w, 's) process_ctx \<Rightarrow> fields \<Rightarrow> ('w, 's) HermesProcess \<Rightarrow> ('w, 's, fields) process_outcome" where
  "handle_accept_intent px args hr =
     andthen (bindP (argument args ''message_id'') (\<lambda>i. find_inbox_message i hr), hr) (\<lambda>msg hr.
     case pm_message msg of
       MIntent intent \<Rightarrow>
         andthen (on_peer (accept_intent (px_orch px) (pe_policy (px_env px)) intent (hr_peer hr)) hr) (\<lambda>_ hr.
         state_reply (pi_id intent) (\<lambda>s. [(''intent_id'', short (pi_id intent)), (''state'', JStr s)]) hr)
     | _ \<Rightarrow> (Inl (ProtocolError ''message is not a PaymentIntent''), hr))"

definition handle_publish_quote :: "('w, 's) process_ctx \<Rightarrow> fields \<Rightarrow> ('w, 's) HermesProcess \<Rightarrow> ('w, 's, fields) process_outcome" where
  "handle_publish_quote px args hr =
     andthen (bindP (argument args ''quote'') (validate_with (va_quote (px_validators px))), hr) (\<lambda>quote hr.
     andthen (on_peer (publish_quote (px_link px) quote (hr_peer hr)) hr) (\<lambda>message_id hr.
     state_reply (pq_intent_id quote)
       (\<lambda>s. [(''quote_id'', short (pq_quote_id quote)), (''message_id'', short message_id), (''state'', JStr s)]) hr))"

definition handle_accept_quote :: "('w, 's) process_ctx \<Rightarrow> fields \<Rightarrow> ('w, 's) HermesProcess \<Rightarrow> ('w, 's, fields) process_outcome" where
  "handle_accept_quote px args hr =
     andthen (bindP (argument args ''message_id'') (\<lambda>i. find_inbox_message i hr), hr) (\<lambda>msg hr.
     case pm_message msg of
       MQuote quote \<Rightarrow>
         andthen (on_peer (accept_quote (pe_policy (px_env px)) quote (hr_peer hr)) hr) (\<lambda>_ hr.
         state_reply (pq_intent_id quote) (\<lambda>s. [(''intent_id'', short (pq_intent_id quote)), (''state'', JStr s)]) hr)
     | _ \<Rightarrow> (Inl (ProtocolError ''message is not a PaymentQuote''), hr))"

definition handle_submit_quote_local :: "('w, 's) process_ctx \<Rightarrow> fields \<Rightarrow> ('w, 's) HermesProcess \<Rightarrow> ('w, 's, fields) process_outcome" where
  "handle_submit_quote_local px args hr =
     andthen (bindP (argument args ''quote'') (validate_with (va_quote (px_validators px))), hr) (\<lambda>quote hr.
     andthen (on_engine (receive_quote (pe_policy (px_env px)) quote (hr_engine hr)) hr) (\<lambda>_ hr.
     state_reply (pq_intent_id quote) (\<lambda>s. [(''quote_id'', short (pq_quote_id quote)), (''state'', JStr s)]) hr))"

definition handle_prepare :: "('w, 's) process_ctx \<Rightarrow> fields \<Rightarrow> ('w, 's) HermesProcess \<Rightarrow> ('w, 's, fields) process_outcome" where
  "handle_prepare px args hr =
     andthen (on_engine (prepare (px_orch px) (pe_policy (px_env px)) (hr_engine hr)) hr) (\<lambda>prepared hr.
     (Inr [(''fee_sat'', JInt (pp_fee_sat prepared)), (''prepared_hash'', short (pp_prepared_hash prepared)),
           (''rail'', JStr (Rail_value (pp_rail prepared)))], hr))"

text \<open>The displayed prefix of the prepared hash stands for the hash of the named intent.\<close>

definition tracked :: "pyjson \<Rightarrow> 'w Orch \<Rightarrow> process_error + IntentRecord option" where
  "tracked intent_id orc =
     (if \<not> hashable intent_id then
        Inl (ProcessRaised (TypeError (''unhashable type: '' @ [CHR 0x27] @ py_type_name intent_id @ [CHR 0x27])))
      else Inr (case intent_id of JStr k \<Rightarrow> dict_get (orch_intents orc) k | _ \<Rightarrow> None))"

definition resolve_hash :: "IntentRecord option \<Rightarrow> pyjson \<Rightarrow> pyjson" where
  "resolve_hash rc prepared_hash =
     (case rc of
        Some rc \<Rightarrow>
          (case rec_prepared rc of
             Some prepared \<Rightarrow>
               if py_eq prepared_hash (short (pp_prepared_hash prepared)) then JStr (pp_prepared_hash prepared) else prepared_hash
           | None \<Rightarrow> prepared_hash)
      | None \<Rightarrow> prepared_hash)"

definition new_approval :: "AgentIdentity \<Rightarrow> int \<Rightarrow> pyjson \<Rightarrow> pyjson \<Rightarrow> pyjson \<Rightarrow> process_error + PaymentApproval" where
  "new_approval approver now intent_id quote_id prepared_hash =
     (case (intent_id, quote_id, prepared_hash) of
        (JStr i, JStr q, JStr h) \<Rightarrow>
          let approval = \<lparr>pa_id = ''placeholder'', pa_intent_id = i, pa_quote_id = q, pa_prepared_hash = h,
                pa_approver = approver, pa_created_at = now\<rparr>
          in Inr (approval\<lparr>pa_id := compute_id (MApproval approval)\<rparr>)
      | _ \<Rightarrow> Inl (ProcessRaised ValidationError))"

definition handle_approve :: "('w, 's) process_ctx \<Rightarrow> fields \<Rightarrow> ('w, 's) HermesProcess \<Rightarrow> ('w, 's, fields) process_outcome" where
  "handle_approve px args hr =
     (case pc_approver (px_config px) of
        None \<Rightarrow> (Inl (ProtocolError ''approver identity is not configured''), hr)
      | Some approver \<Rightarrow>
          let env = pe_policy (px_env px) in
          andthen (bindP (argument args ''intent_id'') (\<lambda>intent_id.
                   bindP (argument args ''prepared_hash'') (\<lambda>prepared_hash.
                   bindP (tracked intent_id (hr_engine hr)) (\<lambda>rc.
                   bindP (argument args ''quote_id'') (\<lambda>quote_id.
                   new_approval approver (env_now env) intent_id quote_id (resolve_hash rc prepared_hash))))), hr) (\<lambda>approval hr.
          andthen (on_engine (approve env approval (hr_engine hr)) hr) (\<lambda>_ hr.
          state_reply (pa_intent_id approval)
            (\<lambda>s. [(''intent_id'', short (pa_intent_id approval)), (''quote_id'', short (pa_quote_id approval)),
                  (''prepared_hash'', short (pa_prepared_hash approval)), (''state'', JStr s)]) hr)))"

definition handle_execute :: "('w, 's) process_ctx \<Rightarrow> fields \<Rightarrow> ('w, 's) HermesProcess \<Rightarrow> ('w, 's, fields) process_outcome" where
  "handle_execute px args hr =
     andthen (on_engine (execute (px_orch px) (pe_policy (px_env px)) (hr_engine hr)) hr) (\<lambda>receipt hr.
     state_reply (pr_intent_id receipt)
       (\<lambda>s. [(''state'', JStr s), (''settlement_ref'', short (pr_settlement_ref receipt)),
             (''amount_sat'', JInt (pr_amount_sat receipt)), (''fee_sat'', JInt (pr_fee_sat receipt))]) hr)"

definition handle_publish_receipt :: "('w, 's) process_ctx \<Rightarrow> fields \<Rightarrow> ('w, 's) HermesProcess \<Rightarrow> ('w, 's, fields) process_outcome" where
  "handle_publish_receipt px args hr =
     andthen (bindP (argument args ''receipt'') (validate_with (va_receipt (px_validators px))), hr) (\<lambda>receipt hr.
     andthen (on_peer (publish_receipt (px_link px) receipt (hr_peer hr)) hr) (\<lambda>message_id hr.
     (Inr [(''receipt_id'', short (pr_id receipt)), (''message_id'', short message_id), (''intent_id'', short (pr_intent_id receipt))], hr)))"

text \<open>
  The intent a receipt is published for; a settlement reference that is not a text has no
  place in the adapter's interface.
\<close>

definition intent_named :: "pyjson \<Rightarrow> 'w Orch \<Rightarrow> process_error + string \<times> PaymentIntent" where
  "intent_named intent_id orc =
     (case intent_id of
        JStr k \<Rightarrow>
          (case get_intent k orc of
             Some intent \<Rightarrow> Inr (k, intent)
           | None \<Rightarrow> Inl (ProtocolError (''unknown intent '' @ redacted_identifier k)))
      | v \<Rightarrow>
          Inl (ProcessRaised (TypeError (if hashable v
            then ''object of type '' @ [CHR 0x27] @ py_type_name v @ [CHR 0x27] @ '' has no len()''
            else ''unhashable type: '' @ [CHR 0x27] @ py_type_name v @ [CHR 0x27]))))"

definition receipt_amount :: "fields \<Rightarrow> PaymentIntent \<Rightarrow> process_error + int" where
  "receipt_amount args intent =
     (case py_int (case dict_get args ''amount_sat'' of Some v \<Rightarrow> v | None \<Rightarrow> JInt (pi_amount_sat intent)) of
        Inl e \<Rightarrow> Inl (ProcessRaised e)
      | Inr amount_sat \<Rightarrow>
          if amount_sat \<noteq> pi_amount_sat intent then Inl (ProtocolError ''receipt amount does not match the intent'')
          else Inr amount_sat)"

definition new_receipt :: "AgentIdentity \<Rightarrow> Rail \<Rightarrow> int \<Rightarrow> string \<Rightarrow> pyjson \<Rightarrow> string \<Rightarrow> ReceiptVerifyResult \<Rightarrow> process_error + PaymentReceipt" where
  "new_receipt recipient rail now intent_id quote_id settlement_ref verification =
     (case quote_id of
        JStr q \<Rightarrow>
          let receipt = \<lparr>pr_id = ''placeholder'', pr_intent_id = intent_id, pr_quote_id = q, pr_recipient = recipient,
                pr_settlement_ref = settlement_ref, pr_amount_sat = rv_amount_sat verification, pr_fee_sat = rv_fee_sat verification,
                pr_rail = rail, pr_settled_at = now, pr_created_at = now\<rparr>
          in if \<not> receipt_ok receipt then Inl (ProcessRaised ValidationError)
             else Inr (receipt\<lparr>pr_id := compute_id (MReceipt receipt)\<rparr>)
      | _ \<Rightarrow> Inl (ProcessRaised ValidationError))"

definition on_world :: "((exn + 'a) \<times> 'w) \<Rightarrow> ('w, 's) HermesProcess \<Rightarrow> ('w, 's, 'a) process_outcome" where
  "on_world call hr =
     (case call of (out, w) \<Rightarrow>
        (case out of Inl e \<Rightarrow> Inl (ProcessRaised e) | Inr v \<Rightarrow> Inr v, set_engine ((hr_engine hr)\<lparr>orch_world := w\<rparr>) hr))"

definition check_verification :: "string \<Rightarrow> ReceiptVerifyResult \<Rightarrow> process_error + unit" where
  "check_verification settlement_ref verification =
     (if \<not> rv_verified verification then
        Inl (ProtocolError (or_text (rv_error verification) ''recipient activity could not be verified''))
      else if rv_settlement_ref verification \<noteq> settlement_ref then Inl (ProtocolError ''receipt verification reference mismatch'')
      else Inr ())"

text \<open>The arguments of the command: intent, quote identifier, settlement reference and amount.\<close>

definition verify_request :: "fields \<Rightarrow> 'w Orch \<Rightarrow> process_error + string \<times> pyjson \<times> string \<times> int" where
  "verify_request args orc =
     bindP (argument args ''intent_id'') (\<lambda>intent_id.
     bindP (argument args ''quote_id'') (\<lambda>quote_id.
     bindP (argument args ''settlement_ref'') (\<lambda>settlement_ref.
     bindP (intent_named intent_id orc) (\<lambda>(k, intent).
     bindP (receipt_amount args intent) (\<lambda>amount_sat.
     case settlement_ref of JStr r \<Rightarrow> Inr (k, quote_id, r, amount_sat) | _ \<Rightarrow> Inl untyped)))))"

definition handle_verify_publish_receipt ::
    "('w, 's) process_ctx \<Rightarrow> fields \<Rightarrow> ('w, 's) HermesProcess \<Rightarrow> ('w, 's, fields) process_outcome" where
  "handle_verify_publish_receipt px args hr =
     (let adapter = cf_adapter (px_orch px); now = env_now (pe_policy (px_env px)) in
      andthen (verify_request args (hr_engine hr), hr) (\<lambda>(k, quote_id, settlement_ref, amount_sat) hr.
      andthen (on_world (sa_verify_receipt adapter settlement_ref amount_sat (orch_world (hr_engine hr))) hr) (\<lambda>verification hr.
      andthen (bindP (check_verification settlement_ref verification) (\<lambda>_.
               new_receipt (pc_identity (px_config px)) (sa_rail adapter) now k quote_id settlement_ref verification), hr) (\<lambda>receipt hr.
      andthen (on_peer (publish_receipt (px_link px) receipt (hr_peer hr)) hr) (\<lambda>message_id hr.
      (Inr [(''receipt_id'', short (pr_id receipt)), (''message_id'', short message_id), (''intent_id'', short (pr_intent_id receipt)),
            (''amount_sat'', JInt (pr_amount_sat receipt)), (''fee_sat'', JInt (pr_fee_sat receipt))], hr))))))"

definition handle_accept_receipt :: "('w, 's) process_ctx \<Rightarrow> fields \<Rightarrow> ('w, 's) HermesProcess \<Rightarrow> ('w, 's, fields) process_outcome" where
  "handle_accept_receipt px args hr =
     andthen (bindP (argument args ''message_id'') (\<lambda>i. find_inbox_message i hr), hr) (\<lambda>msg hr.
     case pm_message msg of
       MReceipt receipt \<Rightarrow>
         andthen (on_peer (accept_receipt (px_orch px) (pe_policy (px_env px)) receipt (hr_peer hr)) hr) (\<lambda>_ hr.
         state_reply (pr_intent_id receipt) (\<lambda>s. [(''intent_id'', short (pr_intent_id receipt)), (''state'', JStr s)]) hr)
     | _ \<Rightarrow> (Inl (ProtocolError ''message is not a PaymentReceipt''), hr))"

section \<open>Recovery on demand\<close>

definition wait_argument :: "fields \<Rightarrow> string \<Rightarrow> int \<Rightarrow> process_error + pyfloat" where
  "wait_argument args key dflt =
     (case py_float (case dict_get args key of Some v \<Rightarrow> v | None \<Rightarrow> JInt dflt) of
        Inr f \<Rightarrow> Inr f
      | Inl (OverflowError m) \<Rightarrow> Inl (ProcessRaised (OverflowError m))
      | Inl _ \<Rightarrow> Inl (ProtocolError ''recover max_wait_seconds and poll_interval_seconds must be numeric''))"

definition recover_arguments :: "fields \<Rightarrow> process_error + pyfloat" where
  "recover_arguments args =
     bindP (wait_argument args ''max_wait_seconds'' 0) (\<lambda>max_wait.
     bindP (wait_argument args ''poll_interval_seconds'' 1) (\<lambda>poll.
     if \<not> (float_le (FFin False 0 0) max_wait \<and> float_le max_wait (float_of_ratio False 720 1)) then
       Inl (ProtocolError ''recover max_wait_seconds must be between 0 and 720'')
     else if \<not> (float_le (float_of_ratio False 1 100) poll \<and> float_le poll (float_of_ratio False 60 1)) then
       Inl (ProtocolError ''recover poll_interval_seconds must be between 0.01 and 60'')
     else Inr max_wait))"

definition still_pending :: "'w Orch \<Rightarrow> bool" where
  "still_pending orc \<longleftrightarrow> (\<exists>(_, rc) \<in> set (orch_intents orc).
     rec_state rc = RECONCILIATION_REQUIRED \<and> (case rec_reconciliation rc of Some r \<Rightarrow> rr_status r = ''PENDING'' | None \<Rightarrow> False))"

text \<open>
  The waiting loop. Reading \<open>n\<close> of the monotonic clock is taken in round \<open>n\<close>, reading 0 before
  the first; the sleep between two rounds is the time that passes between their readings. The
  result is the number of the last reading taken, \<open>None\<close> if the rounds ran out.
\<close>

fun recover_loop ::
    "('w, 's) process_ctx \<Rightarrow> pyfloat \<Rightarrow> nat \<Rightarrow> nat \<Rightarrow> ('w, 's) HermesProcess \<Rightarrow> ('w, 's, nat) process_outcome option" where
  "recover_loop px max_wait n 0 hr = None"
| "recover_loop px max_wait n (Suc rounds) hr =
     (case maybe_recover (px_validators px) (px_orch px) (px_env px) True hr of
        (Inl e, hr) \<Rightarrow> Some (Inl e, hr)
      | (Inr _, hr) \<Rightarrow>
          if \<not> still_pending (hr_engine hr) \<or> float_le max_wait (float_sub (px_clock px (Suc n)) (px_clock px 0))
          then Some (Inr (Suc n), hr)
          else recover_loop px max_wait (Suc n) rounds hr)"

definition recovered_intent :: "IntentRecord \<Rightarrow> pyjson" where
  "recovered_intent rc = JObj
     [(''intent_id'', short (pi_id (rec_intent rc))), (''state'', JStr (PaymentState_value (rec_state rc))),
      (''prepared_hash'', opt_json (\<lambda>p. short (pp_prepared_hash p)) (rec_prepared rc)),
      (''reconciliation'', serialize_reconciliation (rec_reconciliation rc))]"

definition handle_recover ::
    "('w, 's) process_ctx \<Rightarrow> nat \<Rightarrow> fields \<Rightarrow> ('w, 's) HermesProcess \<Rightarrow> ('w, 's, fields) process_outcome option" where
  "handle_recover px rounds args hr =
     (case recover_arguments args of
        Inl e \<Rightarrow> Some (Inl e, hr)
      | Inr max_wait \<Rightarrow>
          (case recover_loop px max_wait 0 rounds hr of
             None \<Rightarrow> None
           | Some call \<Rightarrow> Some (andthen call (\<lambda>n hr.
               (Inr [(''waited_seconds'', JFloat (float_round3 (float_sub (px_clock px (Suc n)) (px_clock px 0)))),
                     (''intents'', JList (map (\<lambda>(_, rc). recovered_intent rc) (orch_intents (hr_engine hr)))),
                     (''state_count'', JObj (state_count_summary (hr_engine hr)))], hr)))))"

section \<open>One line\<close>

definition run_command ::
    "('w, 's) process_ctx \<Rightarrow> nat \<Rightarrow> JsonlCommand \<Rightarrow> ('w, 's) HermesProcess \<Rightarrow> ('w, 's, fields) process_outcome option" where
  "run_command px rounds c hr =
     (let name = jc_name c; args = jc_arguments c in
      if name = ''status'' then Some (handle_status px args hr)
      else if name = ''receive'' then Some (handle_receive px args hr)
      else if name = ''submit_intent'' then Some (handle_submit_intent px args hr)
      else if name = ''accept_intent'' then Some (handle_accept_intent px args hr)
      else if name = ''publish_quote'' then Some (handle_publish_quote px args hr)
      else if name = ''accept_quote'' then Some (handle_accept_quote px args hr)
      else if name = ''submit_quote_local'' then Some (handle_submit_quote_local px args hr)
      else if name = ''prepare'' then Some (handle_prepare px args hr)
      else if name = ''approve'' then Some (handle_approve px args hr)
      else if name = ''execute'' then Some (handle_execute px args hr)
      else if name = ''publish_receipt'' then Some (handle_publish_receipt px args hr)
      else if name = ''verify_publish_receipt'' then Some (handle_verify_publish_receipt px args hr)
      else if name = ''accept_receipt'' then Some (handle_accept_receipt px args hr)
      else if name = ''recover'' then handle_recover px rounds args hr
      else Some (Inl (ProtocolError (''command not implemented: '' @ name)), hr))"

text \<open>
  Every known command has a handler, and every handler returns an object. The \<open>finally\<close> block: an exception of the snapshot replaces the result
  or exception of the handler.
\<close>

definition handle_line :: "('w, 's) process_ctx \<Rightarrow> nat \<Rightarrow> string \<Rightarrow> ('w, 's) HermesProcess \<Rightarrow> ('w, 's, string) process_outcome option" where
  "handle_line px rounds line hr =
     (case parse_command line of
        Inl e \<Rightarrow> Some (Inl e, hr)
      | Inr c \<Rightarrow>
          (case run_command px rounds c hr of
             None \<Rightarrow> None
           | Some (result, hr) \<Rightarrow>
               Some (andthen (snapshot_state (pe_snapshot_ok (px_env px)) hr) (\<lambda>_ hr.
                 (case result of Inl e \<Rightarrow> Inl e | Inr reply \<Rightarrow> Inr (event_line (jc_name c) reply), hr)))))"

end
