(* ===== verification/Strict_Validators.thy ===== *)
theory Strict_Validators
  imports Process_Snapshot
begin

text \<open>
  Validators that meet the contract the process relies on: field by field, without coercion,
  in any order of the keys.
\<close>

definition strict_approval :: "(string \<times> pyjson) list \<Rightarrow> PaymentApproval option" where
  "strict_approval d = do {
     version_field d;
     i \<leftarrow> str_field d ''id''; intent_id \<leftarrow> str_field d ''intent_id''; quote_id \<leftarrow> str_field d ''quote_id'';
     h \<leftarrow> str_field d ''prepared_hash''; approver \<leftarrow> identity_field d ''approver''; created \<leftarrow> int_field d ''created_at'';
     let m = \<lparr>pa_id = i, pa_intent_id = intent_id, pa_quote_id = quote_id, pa_prepared_hash = h, pa_approver = approver,
        pa_created_at = created\<rparr>
     in do { assert_opt (approval_ok m); Some m } }"

definition strict_identity :: "pyjson \<Rightarrow> AgentIdentity option" where
  "strict_identity v = do { a \<leftarrow> identity_field [(''x'', v)] ''x''; assert_opt (identity_ok a); Some a }"

definition on_dict :: "((string \<times> pyjson) list \<Rightarrow> 'a option) \<Rightarrow> pyjson \<Rightarrow> 'a option" where
  "on_dict f v = (case v of JObj d \<Rightarrow> f d | _ \<Rightarrow> None)"

definition strict_validators :: Validators where
  "strict_validators = \<lparr>va_intent = on_dict strict_intent, va_quote = on_dict strict_quote, va_approval = on_dict strict_approval,
     va_receipt = on_dict strict_receipt, va_identity = strict_identity\<rparr>"

section \<open>They accept what the dump wrote, whatever the order of its keys\<close>

lemma opt_field_get: "dict_get (opt_field k v) j = (if j = k then map_option JStr v else None)"
  by (cases v) (simp_all add: opt_field_def)

lemma identity_json_ok: "json_ok (identity_dump a)"
  by simp

lemma identity_field_canon:
  assumes "dict_get d k = Some (canon default_sorted (identity_dump a))"
  shows "identity_field d k = Some a"
proof -
  note fields = identity_dump_def [of a]
  from canon_JObj [OF fields] obtain e where e1: "canon default_sorted (identity_dump a) = JObj e" by blast
  note e = canon_get [OF fields identity_json_ok e1]
  show ?thesis
    using assms e1 by (cases a; cases "relay_url a") (simp_all add: identity_field_def obj_field_def str_field_def maybe_str_field_def e opt_field_get)
qed

lemma strict_intent_canon: "intent_ok i \<Longrightarrow> on_dict strict_intent (canon default_sorted (JObj (intent_dump i))) = Some i"
proof -
  assume ok: "intent_ok i"
  obtain d where d1: "canon default_sorted (JObj (intent_dump i)) = JObj d" by simp
  note d = canon_get [OF refl dumps_ok(1) d1]
  have "identity_field d ''sender'' = Some (pi_sender i)" "identity_field d ''recipient'' = Some (pi_recipient i)"
    by (rule identity_field_canon, simp add: d intent_dump_def)+
  with ok show ?thesis
    unfolding d1 by (cases i) (simp add: on_dict_def strict_intent_def field_defs(1,2,5,9) PROTOCOL_VERSION_def d intent_dump_def Let_def)
qed

lemma strict_approval_canon: "approval_ok a \<Longrightarrow> on_dict strict_approval (canon default_sorted (JObj (approval_dump a))) = Some a"
proof -
  assume ok: "approval_ok a"
  obtain d where d1: "canon default_sorted (JObj (approval_dump a)) = JObj d" by simp
  note d = canon_get [OF refl dumps_ok(3) d1]
  have "identity_field d ''approver'' = Some (pa_approver a)"
    by (rule identity_field_canon) (simp add: d approval_dump_def)
  with ok show ?thesis
    unfolding d1 by (cases a) (simp add: on_dict_def strict_approval_def field_defs(1,2,5,9) PROTOCOL_VERSION_def d approval_dump_def Let_def)
qed

lemma strict_receipt_canon: "receipt_ok r \<Longrightarrow> on_dict strict_receipt (canon default_sorted (JObj (receipt_dump r))) = Some r"
proof -
  assume ok: "receipt_ok r"
  obtain d where d1: "canon default_sorted (JObj (receipt_dump r)) = JObj d" by simp
  note d = canon_get [OF refl dumps_ok(4) d1]
  have "identity_field d ''recipient'' = Some (pr_recipient r)"
    by (rule identity_field_canon) (simp add: d receipt_dump_def)
  with ok show ?thesis
    unfolding d1 by (cases r) (simp add: on_dict_def strict_receipt_def field_defs(1,2,5,7,9) PROTOCOL_VERSION_def d receipt_dump_def Let_def)
qed

lemma strict_quote_canon: "quote_ok q \<Longrightarrow> on_dict strict_quote (canon default_sorted (JObj (quote_dump q))) = Some q"
proof -
  assume ok: "quote_ok q"
  obtain d where d1: "canon default_sorted (JObj (quote_dump q)) = JObj d" by simp
  note d = canon_get [OF refl dumps_ok(2) d1]
  let ?ri = "pq_receive_instruction q"
  have "identity_field d ''recipient'' = Some (pq_recipient q)"
    by (rule identity_field_canon) (simp add: d quote_dump_def)
  moreover have "constraint_field d = Some (pq_fee_constraint q)"
    by (cases "pq_fee_constraint q") (simp_all add: constraint_field_def d quote_dump_def)
  moreover obtain e where e: "obj_field d ''receive_instruction'' = Some e"
    "rail_field e ''rail'' = Some (ri_rail ?ri)" "maybe_str_field e ''invoice'' = Some (ri_invoice ?ri)"
  proof -
    note fields = instruction_dump_def [of ?ri]
    from canon_JObj [OF fields] obtain e where e1: "canon default_sorted (instruction_dump ?ri) = JObj e" by blast
    note e = canon_get [OF fields dumps_ok(5) e1]
    have "obj_field d ''receive_instruction'' = Some e" by (simp add: obj_field_def d quote_dump_def e1)
    moreover have "rail_field e ''rail'' = Some (ri_rail ?ri)" "maybe_str_field e ''invoice'' = Some (ri_invoice ?ri)"
      by (cases "ri_invoice ?ri"; simp add: rail_field_def str_field_def maybe_str_field_def e opt_field_get)+
    ultimately show thesis by (rule that)
  qed
  ultimately show ?thesis
    using ok unfolding d1
    by (cases q; cases ?ri) (simp add: on_dict_def strict_quote_def field_defs(1,2,5,9) PROTOCOL_VERSION_def d quote_dump_def Let_def)
qed

lemma strict_validators_contract: "validators_contract strict_validators"
proof -
  have "strict_identity (canon default_sorted (identity_dump a)) = Some a" if "identity_ok a" for a
    using identity_field_canon [of "[(''x'', canon default_sorted (identity_dump a))]" "''x''" a] that
    by (simp add: strict_identity_def assert_opt_def)
  then show ?thesis
    using strict_intent_canon strict_quote_canon strict_approval_canon strict_receipt_canon
    by (simp add: validators_contract_def strict_validators_def del: canon.simps)
qed

end
