(* ===== verification/Process_Recovery.thy ===== *)
theory Process_Recovery
  imports Process Strict_Validators Policy_Behaviour
begin

text \<open>
  What a restart finds: a process that starts from the snapshot another one wrote has the same
  intents and inbox, with every execution that had begun demoted to reconciliation. And what
  the snapshot misses: the dispatch of an execution that dies with its process.
\<close>

section \<open>The records of a snapshot\<close>

definition restored :: "ReconcileResult \<Rightarrow> IntentRecord \<Rightarrow> IntentRecord" where
  "restored res rc =
     (if rec_state rc \<in> {EXECUTING, RECONCILIATION_REQUIRED}
      then rc\<lparr>rec_state := RECONCILIATION_REQUIRED, rec_reconciliation := Some res\<rparr> else rc)"

definition restartable :: "IntentRecord \<Rightarrow> bool" where
  "restartable rc \<longleftrightarrow> record_ok rc \<and> (rec_state rc \<in> {EXECUTING, RECONCILIATION_REQUIRED} \<longrightarrow> rec_prepared rc \<noteq> None)"

definition written :: "(string \<times> IntentRecord) list \<Rightarrow> (string \<times> pyjson) list" where
  "written rs = map (\<lambda>(k, rc). (k, canon default_sorted (record_json rc))) rs"

lemma demote_pair:
  "audit_writable env \<Longrightarrow> \<exists>orc'. demote env k rc orc = (Inr (if rec_state rc = EXECUTING then rc\<lparr>rec_state := RECONCILIATION_REQUIRED\<rparr> else rc), orc')"
  by (simp add: demote_def audited_pair Let_def)

lemma reconcile_returns:
  assumes "audit_writable env" and "dict_get (orch_intents orc) k = Some rc" and "rec_state rc = RECONCILIATION_REQUIRED" and "rec_prepared rc \<noteq> None"
  shows "\<exists>res orc'. reconcile_settlement cfg env k orc = (Inr res, orc')"
  using assms by (auto simp: reconcile_settlement_def get_record_def Let_def audited_pair split: prod.splits)

lemma recover_step:
  assumes "validators_contract va" and "audit_writable env" and "restartable rc"
  shows "\<exists>orc1 res. recover_records va cfg env True ((k, canon default_sorted (record_json rc)) # records) orc =
      recover_records va cfg env True records orc1
    \<and> orch_intents orc1 = dict_set k (restored res rc) (orch_intents orc) \<and> orch_store orc1 = orch_store orc
    \<and> (rec_state rc \<notin> {EXECUTING, RECONCILIATION_REQUIRED} \<longrightarrow> orch_world orc1 = orch_world orc)"
proof -
  let ?rc = "if rec_state rc = EXECUTING then rc\<lparr>rec_state := RECONCILIATION_REQUIRED\<rparr> else rc"
  obtain orc0 where d: "demote env k rc orc = (Inr ?rc, orc0)" using demote_pair [OF assms(2)] by blast
  note frame = demote_Inr [OF d]
  have read: "read_record va k (canon default_sorted (record_json rc)) = Inr (Some rc)"
    using read_record_json [OF assms(1)] assms(3) by (simp add: restartable_def)
  show ?thesis
  proof (cases "rec_state ?rc = RECONCILIATION_REQUIRED")
    case True
    have "dict_get (orch_intents (put_record k ?rc orc0)) k = Some ?rc" by (simp add: put_record_def)
    moreover have "rec_prepared ?rc \<noteq> None" using True assms(3) by (auto simp: restartable_def split: if_split_asm)
    ultimately obtain res orc1 where rec: "reconcile_settlement cfg env k (put_record k ?rc orc0) = (Inr res, orc1)"
      using reconcile_returns [OF assms(2)] True by blast
    from reconcile_settlement_frame [OF rec] frame
    have "orch_intents orc1 = dict_set k (?rc\<lparr>rec_reconciliation := Some res\<rparr>) (dict_set k ?rc (orch_intents orc))"
      "orch_store orc1 = orch_store orc" by (auto simp: put_record_def)
    moreover have "?rc\<lparr>rec_reconciliation := Some res\<rparr> = restored res rc"
      using True by (auto simp: restored_def split: if_split_asm)
    moreover have "dict_set k x (dict_set k y d) = dict_set k x d" for x y :: IntentRecord and d by (induction d) auto
    moreover have "rec_state rc \<in> {EXECUTING, RECONCILIATION_REQUIRED}" using True by (auto split: if_split_asm)
    ultimately show ?thesis
      using read d rec True by (intro exI [of _ orc1] exI [of _ res]) (simp add: Let_def del: canon.simps)
  next
    case False
    then have st: "rec_state rc \<noteq> EXECUTING" "rec_state rc \<noteq> RECONCILIATION_REQUIRED" by (auto split: if_split_asm)
    then have "restored res rc = rc" for res by (simp add: restored_def)
    with st read d frame show ?thesis
      by (intro exI [of _ "put_record k rc orc0"]) (simp add: Let_def put_record_def del: canon.simps)
  qed
qed

lemma recover_written:
  assumes "validators_contract va" and "audit_writable env" and "\<forall>(k, rc) \<in> set rs. restartable rc" and "dict_wf rs"
    and "dict_wf (orch_intents orc)"
  shows "\<exists>orc'. recover_records va cfg env True (written rs) orc = (Inr (), orc')
    \<and> (\<forall>k. k \<notin> fst ` set rs \<longrightarrow> dict_get (orch_intents orc') k = dict_get (orch_intents orc) k)
    \<and> (\<forall>(k, rc) \<in> set rs. \<exists>res. dict_get (orch_intents orc') k = Some (restored res rc))
    \<and> dict_wf (orch_intents orc') \<and> orch_store orc' = orch_store orc
    \<and> ((\<forall>(k, rc) \<in> set rs. rec_state rc \<notin> {EXECUTING, RECONCILIATION_REQUIRED}) \<longrightarrow> orch_world orc' = orch_world orc)"
  using assms(3-5)
proof (induction rs arbitrary: orc)
  case Nil
  then show ?case by (simp add: written_def)
next
  case (Cons item rs)
  obtain k rc where item: "item = (k, rc)" by force
  from Cons.prems item have rc: "restartable rc" and new: "k \<notin> fst ` set rs" by auto
  have split: "written (item # rs) = (k, canon default_sorted (record_json rc)) # written rs" by (simp add: written_def item)
  from recover_step [OF assms(1,2) rc, of cfg k "written rs" orc] obtain orc1 res where
    step: "recover_records va cfg env True (written (item # rs)) orc = recover_records va cfg env True (written rs) orc1"
    and orc1: "orch_intents orc1 = dict_set k (restored res rc) (orch_intents orc)" "orch_store orc1 = orch_store orc"
      "rec_state rc \<notin> {EXECUTING, RECONCILIATION_REQUIRED} \<longrightarrow> orch_world orc1 = orch_world orc"
    unfolding split by blast
  have "dict_wf (orch_intents orc1)" using Cons.prems(3) orc1(1) by simp
  with Cons.prems have "\<exists>orc'. recover_records va cfg env True (written rs) orc1 = (Inr (), orc')
    \<and> (\<forall>k. k \<notin> fst ` set rs \<longrightarrow> dict_get (orch_intents orc') k = dict_get (orch_intents orc1) k)
    \<and> (\<forall>(k, rc) \<in> set rs. \<exists>res. dict_get (orch_intents orc') k = Some (restored res rc))
    \<and> dict_wf (orch_intents orc') \<and> orch_store orc' = orch_store orc1
    \<and> ((\<forall>(k, rc) \<in> set rs. rec_state rc \<notin> {EXECUTING, RECONCILIATION_REQUIRED}) \<longrightarrow> orch_world orc' = orch_world orc1)"
    by (intro Cons.IH) auto
  then obtain orc' where rest: "recover_records va cfg env True (written rs) orc1 = (Inr (), orc')"
    "\<forall>k. k \<notin> fst ` set rs \<longrightarrow> dict_get (orch_intents orc') k = dict_get (orch_intents orc1) k"
    "\<forall>(k, rc) \<in> set rs. \<exists>res. dict_get (orch_intents orc') k = Some (restored res rc)"
    "dict_wf (orch_intents orc')" "orch_store orc' = orch_store orc1"
    "(\<forall>(k, rc) \<in> set rs. rec_state rc \<notin> {EXECUTING, RECONCILIATION_REQUIRED}) \<longrightarrow> orch_world orc' = orch_world orc1" by blast
  have "dict_get (orch_intents orc') k = Some (restored res rc)" using rest(2) new orc1(1) by simp
  with step rest orc1 item show ?case by (intro exI [of _ orc']) auto
qed

section \<open>The inbox and the file\<close>

definition transportable :: "PeerMessage \<Rightarrow> bool" where
  "transportable pm \<longleftrightarrow> message_ok (pm_message pm) \<and> \<not> is_approval (pm_message pm) \<and> identity_ok (pm_author pm)"

lemma inbox_json_ok: "json_ok (inbox_json pm)"
  by (cases "pm_message pm") (simp_all add: inbox_json_def message_class_def)

lemma read_inbox_json:
  assumes "validators_contract va" and "transportable pm"
  shows "read_inbox_item va (canon default_sorted (inbox_json pm)) = Inr pm"
proof -
  note fields = inbox_json_def [of pm]
  from canon_JObj [OF fields] obtain d where d1: "canon default_sorted (inbox_json pm) = JObj d" by blast
  note d = canon_get [OF fields inbox_json_ok d1]
  have author: "va_identity va (canon default_sorted (identity_dump (pm_author pm))) = Some (pm_author pm)"
    using assms by (simp add: validators_contract_def transportable_def)
  show ?thesis
    using assms author unfolding d1
    by (cases "pm_message pm"; cases pm)
      (simp_all add: read_inbox_item_def d message_class_def validators_contract_def transportable_def int_or_def Let_def del: canon.simps(2))
qed

lemma recover_inbox_written:
  assumes "validators_contract va" and "\<forall>pm \<in> set pms. transportable pm" and "distinct (map pm_message_id pms)"
    and "ids \<inter> pm_message_id ` set pms = {}"
  shows "recover_inbox va (map (canon default_sorted) (map inbox_json pms)) received ids =
    (Inr (), received @ pms, ids \<union> pm_message_id ` set pms)"
  using assms(2-4)
proof (induction pms arbitrary: received ids)
  case (Cons pm pms)
  have "read_inbox_item va (canon default_sorted (inbox_json pm)) = Inr pm" using read_inbox_json [OF assms(1)] Cons.prems(1) by simp
  with Cons show ?case by (simp del: canon.simps)
qed simp

lemma insort_key_map: "insort_key f (g x) (map g xs) = map g (insort_key (\<lambda>y. f (g y)) x xs)"
  by (induction xs) auto

lemma sort_key_map: "sort_key f (map g xs) = map g (sort_key (\<lambda>y. f (g y)) xs)"
  by (induction xs) (simp_all add: insort_key_map)

lemma snapshot_decodes:
  assumes "dict_wf (orch_intents orc)"
  shows "\<exists>snapshot. load_snapshot (Some (snapshot_text orc received)) = Inr (JObj snapshot)
    \<and> dict_get snapshot ''records'' = Some (JObj (written (sort_key fst (orch_intents orc))))
    \<and> snapshot_inbox snapshot = map (canon default_sorted) (map inbox_json received)"
proof -
  let ?v = "snapshot_json (orch_intents orc) received"
  have "list_all json_ok (map inbox_json received)" by (simp add: list_all_iff inbox_json_ok)
  moreover have "json_ok (JObj (map (\<lambda>(k, rc). (k, record_json rc)) (orch_intents orc)))"
    using assms by (auto simp: list_all_iff comp_def case_prod_beta')
  ultimately have ok: "json_ok ?v" by (simp add: snapshot_json_def)
  note fields = snapshot_json_def [of "orch_intents orc" received]
  from canon_JObj [OF fields] obtain d where d1: "canon default_sorted ?v = JObj d" by blast
  note d = canon_get [OF fields ok d1]
  have "load_snapshot (Some (snapshot_text orc received)) = Inr (JObj d)"
    using json_roundtrip [OF opts_ok_in_use(3) ok] d1 by (simp add: load_snapshot_def snapshot_text_def del: json_dumps.simps)
  moreover have "d_sort default_sorted" by (simp add: default_sorted_def)
  then have "canon default_sorted (JObj (map (\<lambda>(k, rc). (k, record_json rc)) (orch_intents orc))) =
      JObj (written (sort_key fst (orch_intents orc)))"
    by (simp add: dump_order_def written_def sort_key_map case_prod_beta' comp_def)
  ultimately show ?thesis
    by (intro exI [of _ d]) (simp add: d snapshot_inbox_def del: canon.simps(2))
qed

section \<open>A restart\<close>

definition snapshot_ok :: "'w Orch \<Rightarrow> PeerMessage list \<Rightarrow> bool" where
  "snapshot_ok orc received \<longleftrightarrow> dict_wf (orch_intents orc) \<and> (\<forall>(k, rc) \<in> set (orch_intents orc). restartable rc)
     \<and> (\<forall>pm \<in> set received. transportable pm) \<and> distinct (map pm_message_id received)"

lemma restart_result:
  assumes "validators_contract va" and "audit_writable (pe_policy pe)" and "pe_snapshot_ok pe" and "snapshot_ok orc received"
    and "orch_init store_path store_file audit_path audit_file w = Inr orc0"
  shows "\<exists>hr. process_init va cfg pe identity store_path store_file audit_path audit_file (Some (snapshot_text orc received)) t w = (Inr (), Some hr)
    \<and> hr_inbox hr = received \<and> hr_inbox_ids hr = pm_message_id ` set received
    \<and> orch_store (hr_engine hr) = orch_store orc0 \<and> dict_wf (orch_intents (hr_engine hr))
    \<and> (\<forall>k. dict_get (orch_intents orc) k = None \<longrightarrow> dict_get (orch_intents (hr_engine hr)) k = None)
    \<and> (\<forall>k rc. dict_get (orch_intents orc) k = Some rc \<longrightarrow> (\<exists>res. dict_get (orch_intents (hr_engine hr)) k = Some (restored res rc)))
    \<and> ((\<forall>(k, rc) \<in> set (orch_intents orc). rec_state rc \<notin> {EXECUTING, RECONCILIATION_REQUIRED}) \<longrightarrow> orch_world (hr_engine hr) = w)"
proof -
  from assms(5) have empty: "orch_intents orc0 = []" "orch_world orc0 = w" by (auto simp: orch_init_def split: sum.split_asm)
  let ?rs = "sort_key fst (orch_intents orc)" and ?hr0 = "\<lparr>hr_peer = \<lparr>hp_identity = identity, hp_transport = t, hp_orchestrator = orc0\<rparr>,
      hr_inbox = [], hr_inbox_ids = {}, hr_snapshot = Some (snapshot_text orc received)\<rparr>"
  have wf: "dict_wf (orch_intents orc)" using assms(4) by (simp add: snapshot_ok_def)
  from snapshot_decodes [OF wf, of received] obtain snapshot where snapshot: "load_snapshot (hr_snapshot ?hr0) = Inr (JObj snapshot)"
    "dict_get snapshot ''records'' = Some (JObj (written ?rs))" "snapshot_inbox snapshot = map (canon default_sorted) (map inbox_json received)"
    by auto
  have rs: "\<forall>(k, rc) \<in> set ?rs. restartable rc" "dict_wf ?rs" "set ?rs = set (orch_intents orc)"
    using assms(4) wf by (simp_all add: snapshot_ok_def distinct_map)
  have "dict_wf (orch_intents orc0)" by (simp add: empty)
  from recover_written [OF assms(1,2) rs(1,2) this, of cfg] obtain orc' where
    run: "recover_records va cfg (pe_policy pe) True (written ?rs) orc0 = (Inr (), orc')"
    and raw: "\<forall>k. k \<notin> fst ` set ?rs \<longrightarrow> dict_get (orch_intents orc') k = dict_get (orch_intents orc0) k"
      "\<forall>(k, rc) \<in> set ?rs. \<exists>res. dict_get (orch_intents orc') k = Some (restored res rc)"
      "dict_wf (orch_intents orc')" "orch_store orc' = orch_store orc0"
      "(\<forall>(k, rc) \<in> set ?rs. rec_state rc \<notin> {EXECUTING, RECONCILIATION_REQUIRED}) \<longrightarrow> orch_world orc' = orch_world orc0"
    by blast
  note rest = raw [unfolded empty map_of.simps]
  have box: "recover_inbox va (snapshot_inbox snapshot) [] {} = (Inr (), received, pm_message_id ` set received)"
    using recover_inbox_written [OF assms(1), of received "{}" "[]"] assms(4) snapshot(3) by (simp add: snapshot_ok_def)
  obtain hr where hr: "maybe_recover va cfg pe True ?hr0 = (Inr (), hr)" "hr_engine hr = orc'" "hr_inbox hr = received"
    "hr_inbox_ids hr = pm_message_id ` set received"
    using snapshot run box assms(3)
    by (cases "written ?rs = []") (auto simp: maybe_recover_def Let_def set_engine_def snapshot_state_def)
  have none: "dict_get (orch_intents orc') k = None" if "dict_get (orch_intents orc) k = None" for k
    using rest(1) that rs(3) by (auto simp: map_of_eq_None_iff)
  have some: "\<exists>res. dict_get (orch_intents orc') k = Some (restored res rc)" if "dict_get (orch_intents orc) k = Some rc" for k rc
    using rest(2) rs(3) map_of_SomeD [OF that] by auto
  have "process_init va cfg pe identity store_path store_file audit_path audit_file (Some (snapshot_text orc received)) t w = (Inr (), Some hr)"
    using hr(1) assms(5) by (simp add: process_init_def)
  with hr(2-4) rest(3-5) none some rs(3) show ?thesis by auto
qed

lemma restored_case:
  assumes "dict_get old k = None \<longrightarrow> dict_get new k = None"
    and "\<forall>rc. dict_get old k = Some rc \<longrightarrow> (\<exists>res. dict_get new k = Some (restored res rc))"
  shows "case dict_get old k of
      None \<Rightarrow> dict_get new k = None
    | Some rc \<Rightarrow> if rec_state rc \<in> {EXECUTING, RECONCILIATION_REQUIRED}
        then \<exists>res. dict_get new k = Some (rc\<lparr>rec_state := RECONCILIATION_REQUIRED, rec_reconciliation := Some res\<rparr>)
        else dict_get new k = Some rc"
  using assms by (auto simp: restored_def split: option.split)

text \<open>A process resumes where the snapshot left off. Starting from the snapshot another process
  wrote, with valid records whose executions all have a prepared payload, succeeds and gives
  exactly its intents and its inbox: every record is the one written, except that an execution
  in progress has become a reconciliation, and the reconciliations carry the answer of the
  wallet now.\<close>

theorem restart_restores:
  assumes "validators_contract va" and "audit_writable (pe_policy pe)" and "pe_snapshot_ok pe" and "snapshot_ok orc received"
    and "orch_init store_path store_file audit_path audit_file w = Inr orc0"
  shows "\<exists>hr. process_init va cfg pe identity store_path store_file audit_path audit_file (Some (snapshot_text orc received)) t w = (Inr (), Some hr)
    \<and> hr_inbox hr = received \<and> orch_store (hr_engine hr) = orch_store orc0
    \<and> (\<forall>k. case dict_get (orch_intents orc) k of
         None \<Rightarrow> dict_get (orch_intents (hr_engine hr)) k = None
       | Some rc \<Rightarrow> if rec_state rc \<in> {EXECUTING, RECONCILIATION_REQUIRED}
           then \<exists>res. dict_get (orch_intents (hr_engine hr)) k =
             Some (rc\<lparr>rec_state := RECONCILIATION_REQUIRED, rec_reconciliation := Some res\<rparr>)
           else dict_get (orch_intents (hr_engine hr)) k = Some rc)"
proof -
  from restart_result [OF assms, of cfg identity t] obtain hr where hr:
    "process_init va cfg pe identity store_path store_file audit_path audit_file (Some (snapshot_text orc received)) t w = (Inr (), Some hr)"
    "hr_inbox hr = received" "orch_store (hr_engine hr) = orch_store orc0"
    "\<forall>k. dict_get (orch_intents orc) k = None \<longrightarrow> dict_get (orch_intents (hr_engine hr)) k = None"
    "\<forall>k rc. dict_get (orch_intents orc) k = Some rc \<longrightarrow> (\<exists>res. dict_get (orch_intents (hr_engine hr)) k = Some (restored res rc))"
    by blast
  have each: "case dict_get (orch_intents orc) k of
         None \<Rightarrow> dict_get (orch_intents (hr_engine hr)) k = None
       | Some rc \<Rightarrow> if rec_state rc \<in> {EXECUTING, RECONCILIATION_REQUIRED}
           then \<exists>res. dict_get (orch_intents (hr_engine hr)) k =
             Some (rc\<lparr>rec_state := RECONCILIATION_REQUIRED, rec_reconciliation := Some res\<rparr>)
           else dict_get (orch_intents (hr_engine hr)) k = Some rc" for k
    using hr(4,5) by (intro restored_case) blast+
  with hr(1-3) show ?thesis by blast
qed

text \<open>A process with the demonstration intent in a given state, and its restart without files.\<close>

definition demo_process_env :: process_env where
  "demo_process_env = \<lparr>pe_policy = demo_env, pe_snapshot_ok = True\<rparr>"

lemma demo_snapshot_ok: "snapshot_ok (demo_at s) []"
  by (simp add: snapshot_ok_def demo_at_def demo_record_def new_record_def demo_intent_def demo_quote_def demo_approval_def
      demo_start_def restartable_def record_ok_def intent_ok_def quote_ok_def approval_ok_def identity_ok_def
      sample_alice_def sample_bob_def)

lemma demo_init: "\<exists>orc0. orch_init None None None None w = Inr orc0"
  by (simp add: orch_init_def store_init_def audit_init_def)

lemma demo_process_writable: "audit_writable (pe_policy demo_process_env)" "pe_snapshot_ok demo_process_env"
  using demo_writable by (simp_all add: demo_process_env_def)

theorem restart_restores_witness:
  "\<exists>hr res. process_init strict_validators demo_config demo_process_env sample_alice None None None None
      (Some (snapshot_text (demo_at EXECUTING) [])) () 7 = (Inr (), Some hr)
    \<and> dict_get (orch_intents (hr_engine hr)) ''i1'' =
        Some (demo_record\<lparr>rec_state := RECONCILIATION_REQUIRED, rec_reconciliation := Some res\<rparr>)"
proof -
  obtain orc0 where "orch_init None None None None (7 :: nat) = Inr orc0" using demo_init [of "7 :: nat"] by (rule exE)
  from restart_restores [OF strict_validators_contract demo_process_writable demo_snapshot_ok [of EXECUTING] this, of demo_config sample_alice "()"]
  obtain hr where hr: "process_init strict_validators demo_config demo_process_env sample_alice None None None None
      (Some (snapshot_text (demo_at EXECUTING) [])) () 7 = (Inr (), Some hr)"
    "case dict_get (orch_intents (demo_at EXECUTING)) ''i1'' of
         None \<Rightarrow> dict_get (orch_intents (hr_engine hr)) ''i1'' = None
       | Some rc \<Rightarrow> if rec_state rc \<in> {EXECUTING, RECONCILIATION_REQUIRED}
           then \<exists>res. dict_get (orch_intents (hr_engine hr)) ''i1'' =
             Some (rc\<lparr>rec_state := RECONCILIATION_REQUIRED, rec_reconciliation := Some res\<rparr>)
           else dict_get (orch_intents (hr_engine hr)) ''i1'' = Some rc" by blast
  then show ?thesis by auto
qed


section \<open>A crash during an execution\<close>

lemma find_only:
  assumes "dict_wf (orch_intents orc)" and "dict_get (orch_intents orc) k = Some rc" and "rec_state rc = s"
    and "\<forall>k' rc'. dict_get (orch_intents orc) k' = Some rc' \<longrightarrow> rec_state rc' = s \<longrightarrow> k' = k"
  shows "find_by_state s orc = Inr (k, rc)"
proof -
  let ?f = "filter (\<lambda>(_, r). rec_state r = s) (orch_intents orc)"
  have "(k, rc) \<in> set ?f" using map_of_SomeD [OF assms(2)] assms(3) by simp
  then obtain x xs where f: "?f = x # xs" by (cases ?f) auto
  obtain k' rc' where x: "x = (k', rc')" by force
  have "(k', rc') \<in> set ?f" unfolding f x by simp
  then have "(k', rc') \<in> set (orch_intents orc)" "rec_state rc' = s" by auto
  then have "dict_get (orch_intents orc) k' = Some rc'" "k' = k" using assms(1,4) by auto
  with assms(2) f x show ?thesis by (simp add: find_by_state_def)
qed

lemma execute_dispatches:
  assumes "find_by_state APPROVED orc = Inr (k, rc)" and "rec_state rc = APPROVED" and "rec_prepared rc = Some p" and "audit_writable env"
  shows "orch_world (snd (execute cfg env orc)) =
    snd (sa_execute (cf_adapter cfg) (pp_prepared_payload p) (pp_prepared_hash p) (orch_world orc))"
  using assms
  by (auto simp: execute_def Let_def audited_pair frame_simps put_record_def execute_failed_def execute_settled_def
      split: prod.split sum.split exn.split)



end
