(* ===== verification/Process_Invariant.thy ===== *)
theory Process_Invariant
  imports Process_Commands Process_Recovery
begin

text \<open>
  The invariant of a process: every record and every message it holds is valid and can be
  written to the snapshot and read back. Each method of the engine keeps it, each command
  handler keeps it over any transport that delivers valid messages, and so the snapshot can
  always be restarted from.
\<close>

section \<open>The engine\<close>

definition records_ok :: "'w Orch \<Rightarrow> bool" where
  "records_ok orc \<longleftrightarrow> dict_wf (orch_intents orc) \<and> (\<forall>k rc. dict_get (orch_intents orc) k = Some rc \<longrightarrow> restartable rc)"

lemma snapshot_ok_alt:
  "snapshot_ok orc received \<longleftrightarrow> records_ok orc \<and> (\<forall>pm \<in> set received. transportable pm) \<and> distinct (map pm_message_id received)"
  by (auto simp: snapshot_ok_def records_ok_def)

lemma records_ok_simps [simp]:
  "records_ok (orc\<lparr>orch_world := w\<rparr>) = records_ok orc" "records_ok (orc\<lparr>orch_store := st\<rparr>) = records_ok orc"
  "records_ok (orc\<lparr>orch_audit := al\<rparr>) = records_ok orc"
  "records_ok (snd (audited env event iid kw out orc)) = records_ok orc"
  by (simp_all add: records_ok_def frame_simps)

lemma records_ok_put [intro]: "records_ok orc \<Longrightarrow> restartable rc \<Longrightarrow> records_ok (put_record k rc orc)"
  by (auto simp: records_ok_def)

lemma records_ok_get: "records_ok orc \<Longrightarrow> dict_get (orch_intents orc) k = Some rc \<Longrightarrow> restartable rc"
  by (simp add: records_ok_def)

lemma records_ok_find: "find_by_state s orc = Inr (k, rc) \<Longrightarrow> records_ok orc \<Longrightarrow> restartable rc \<and> rec_state rc = s"
proof -
  assume found: "find_by_state s orc = Inr (k, rc)" and ok: "records_ok orc"
  have "(k, rc) \<in> set (filter (\<lambda>(_, r). rec_state r = s) (orch_intents orc))"
    using found by (cases "filter (\<lambda>(_, r). rec_state r = s) (orch_intents orc)") (simp_all add: find_by_state_def Let_def)
  with ok show ?thesis by (auto simp: records_ok_def)
qed

lemmas restartable_defs = restartable_def record_ok_def

lemma submit_ok:
  assumes "records_ok orc" and "intent_ok i"
  shows "records_ok (snd (submit cfg env i orc))"
proof -
  have "restartable ((new_record i)\<lparr>rec_state := SUBMITTED\<rparr>)" using assms(2) by (simp add: restartable_defs new_record_def)
  with assms(1) show ?thesis
    by (auto simp: submit_def Let_def new_record_def split: option.splits prod.splits sum.splits)
qed

lemma receive_quote_ok:
  assumes "records_ok orc" and "quote_ok q"
  shows "records_ok (snd (receive_quote env q orc))"
proof (cases "get_record (pq_intent_id q) orc")
  case (Inr rc)
  let ?rc = "rc\<lparr>rec_quote := Some q, rec_quote_expires_at := pq_expires_at q\<rparr>"
  have rc: "restartable rc" using assms(1) Inr by (auto simp: get_record_Inr records_ok_def)
  then have quoted: "restartable ?rc" using assms(2) by (auto simp: restartable_defs)
  have "restartable (?rc\<lparr>rec_state := new_state (transition (rec_state rc) ''quote_received'')\<rparr>)"
    if "ok (transition (rec_state rc) ''quote_received'')"
    using sm_step_to(2) [OF transition_new_sm [OF that]] quoted by (simp add: restartable_defs)
  with quoted assms(1) Inr show ?thesis by (auto simp: receive_quote_def Let_def)
qed (simp add: receive_quote_def assms)

lemma prepare_ok:
  assumes "records_ok orc"
  shows "records_ok (snd (prepare cfg env orc))"
proof (cases "find_by_state QUOTED orc")
  case (Inr found)
  obtain k rc where found: "found = (k, rc)" by force
  note rc = records_ok_find [OF Inr [unfolded found] assms]
  then have "restartable (rc\<lparr>rec_prepared := Some p, rec_state := PREPARED\<rparr>)" for p by (auto simp: restartable_defs)
  with assms Inr found rc show ?thesis
    by (auto simp: prepare_def Let_def split: option.splits prod.splits sum.splits)
qed (simp add: prepare_def assms)

lemma approve_ok:
  assumes "records_ok orc" and "approval_ok a"
  shows "records_ok (snd (approve env a orc))"
proof (cases "get_record (pa_intent_id a) orc")
  case (Inr rc)
  have "restartable rc" using assms(1) Inr by (auto simp: get_record_Inr records_ok_def)
  then have "restartable (rc\<lparr>rec_approval := Some a, rec_state := APPROVED\<rparr>)" if "rec_state rc = PREPARED"
    using assms(2) that by (auto simp: restartable_defs)
  with assms(1) Inr show ?thesis
    by (auto simp: approve_def Let_def split: option.splits prod.splits sum.splits)
qed (simp add: approve_def assms)

lemma execute_ok:
  assumes "records_ok orc"
  shows "records_ok (snd (execute cfg env orc))"
proof (cases "find_by_state APPROVED orc")
  case (Inr found)
  obtain k rc where found: "found = (k, rc)" by force
  note rc = records_ok_find [OF Inr [unfolded found] assms]
  show ?thesis
  proof (cases "rec_prepared rc")
    case None
    with Inr found assms show ?thesis by (simp add: execute_def)
  next
    case (Some p)
    have run: "restartable (rc\<lparr>rec_state := s\<rparr>)" for s using rc Some by (auto simp: restartable_defs)
    have settled: "restartable (rc\<lparr>rec_state := s, rec_receipt := Some r\<rparr>)" "restartable (rc\<lparr>rec_receipt := Some r, rec_state := s\<rparr>)"
      if "receipt_ok r" for r s
      using rc Some that by (auto simp: restartable_defs)
    have put: "records_ok (put_record k (rc\<lparr>rec_state := EXECUTING\<rparr>) orc)" using assms run by blast
    have failed: "records_ok (snd (execute_failed env k (rc\<lparr>rec_state := EXECUTING\<rparr>) e orc'))" if "records_ok orc'" for e and orc' :: "'a Orch"
      using that run by (auto simp: execute_failed_def Let_def split: exn.splits)
    have settled1: "records_ok (snd (execute_settled env k (rc\<lparr>rec_state := EXECUTING\<rparr>) er orc'))" if "records_ok orc'" for er and orc' :: "'a Orch"
      using that settled by (auto simp: execute_settled_def Let_def split: prod.splits sum.splits)
    obtain out orc1 where call: "audited env ''executing'' (pi_id (rec_intent rc)) [state_field EXECUTING] (Inr ())
        (put_record k (rc\<lparr>rec_state := EXECUTING\<rparr>) orc) = (out, orc1)" by force
    have "records_ok orc1" using put call by (metis records_ok_simps(4) snd_conv)
    with call Inr found rc Some failed settled1 show ?thesis
      by (auto simp: execute_def Let_def split: prod.splits sum.splits)
  qed
qed (simp add: execute_def assms)

lemma receive_receipt_ok:
  assumes "records_ok orc" and "receipt_ok r"
  shows "records_ok (snd (receive_receipt cfg env r orc))"
proof (cases "get_record (pr_intent_id r) orc")
  case (Inr rc)
  have rc: "restartable rc" using assms(1) Inr by (auto simp: get_record_Inr records_ok_def)
  have "restartable (rc\<lparr>rec_receipt := Some r, rec_state := new_state (transition (rec_state rc) ''receipt_received'')\<rparr>)"
    if "ok (transition (rec_state rc) ''receipt_received'')"
    using sm_step_to(7) [OF transition_new_sm [OF that]] rc assms(2) by (simp add: restartable_defs)
  with assms(1) Inr show ?thesis
    by (auto simp: receive_receipt_def Let_def split: prod.splits sum.splits)
qed (simp add: receive_receipt_def assms)

lemma reconcile_settlement_ok:
  assumes "records_ok orc"
  shows "records_ok (snd (reconcile_settlement cfg env k orc))"
proof (cases "get_record k orc")
  case (Inr rc)
  have "restartable rc" using assms(1) Inr by (auto simp: get_record_Inr records_ok_def)
  then have "restartable (rc\<lparr>rec_reconciliation := v\<rparr>)" for v by (auto simp: restartable_defs)
  with assms(1) Inr show ?thesis
    by (auto simp: reconcile_settlement_def Let_def split: option.splits prod.splits sum.splits)
qed (simp add: reconcile_settlement_def assms)

lemma demote_ok:
  assumes "records_ok orc" shows "records_ok (snd (demote env k rc orc))"
  using assms by (simp add: demote_def Let_def)

section \<open>The process\<close>

definition inbox_ok :: "PeerMessage list \<Rightarrow> bool" where
  "inbox_ok received \<longleftrightarrow> (\<forall>pm \<in> set received. transportable pm) \<and> distinct (map pm_message_id received)"

text \<open>A snapshot file that some process wrote: maybe not the latest state, but a valid one.\<close>

definition file_ok :: "string option \<Rightarrow> bool" where
  "file_ok snapshot \<longleftrightarrow> (\<forall>content. snapshot = Some content \<longrightarrow>
     (\<exists>intents received. dict_wf intents \<and> (\<forall>(k, rc) \<in> set intents. restartable rc) \<and> inbox_ok received
        \<and> content = json_dumps default_sorted (snapshot_json intents received)))"

definition process_ok :: "('w, 's) HermesProcess \<Rightarrow> bool" where
  "process_ok hr \<longleftrightarrow> records_ok (hr_engine hr) \<and> inbox_ok (hr_inbox hr)
     \<and> hr_inbox_ids hr = pm_message_id ` set (hr_inbox hr) \<and> file_ok (hr_snapshot hr)"

lemma process_ok_snapshot: "process_ok hr \<Longrightarrow> snapshot_ok (hr_engine hr) (hr_inbox hr)"
  by (simp add: process_ok_def snapshot_ok_alt inbox_ok_def)

lemma file_ok_written: "snapshot_ok orc received \<Longrightarrow> file_ok (Some (snapshot_text orc received))"
  unfolding file_ok_def snapshot_text_def snapshot_ok_def inbox_ok_def by (simp del: json_dumps.simps) blast

lemma file_ok_contents:
  fixes orc :: "'w Orch"
  assumes "file_ok (Some content)"
  obtains orc' :: "'w Orch" and received where "content = snapshot_text orc' received" and "snapshot_ok orc' received"
proof -
  from assms obtain intents received where file_text: "content = json_dumps default_sorted (snapshot_json intents received)"
    and ok: "dict_wf intents" "\<forall>(k, rc) \<in> set intents. restartable rc" "inbox_ok received"
    by (auto simp: file_ok_def simp del: json_dumps.simps)
  show thesis
    by (rule that [of "orc\<lparr>orch_intents := intents\<rparr>" received])
      (use file_text ok in \<open>simp_all add: snapshot_text_def snapshot_ok_def inbox_ok_def del: json_dumps.simps\<close>)
qed

lemma snapshot_state_ok:
  assumes "process_ok hr" shows "process_ok (snd (snapshot_state b hr))"
  using assms file_ok_written [OF process_ok_snapshot [OF assms]] by (auto simp: snapshot_state_def process_ok_def)

section \<open>Recovery\<close>

lemma recover_records_ok:
  assumes "validators_contract va"
  shows "\<lbrakk>\<forall>(k, rc) \<in> set rs. restartable rc; records_ok orc\<rbrakk> \<Longrightarrow> records_ok (snd (recover_records va cfg env reconcile (written rs) orc))"
proof (induction rs arbitrary: orc)
  case Nil
  then show ?case by (simp add: written_def)
next
  case (Cons item rs)
  obtain k rc where item: "item = (k, rc)" by force
  from Cons.prems item have rc: "restartable rc" by simp
  have split: "written (item # rs) = (k, canon default_sorted (record_json rc)) # written rs" by (simp add: written_def item)
  have read: "read_record va k (canon default_sorted (record_json rc)) = Inr (Some rc)"
    using read_record_json [OF assms] rc by (simp add: restartable_def)
  obtain out orc1 where d: "demote env k rc orc = (out, orc1)" by force
  have ok1: "records_ok orc1" using demote_ok [OF Cons.prems(2), of env k rc] d by simp
  show ?case
  proof (cases out)
    case (Inl e)
    with d ok1 show ?thesis unfolding split by (simp add: read del: canon.simps)
  next
    case (Inr rc')
    have "restartable rc'" using demote_Inr [OF d [unfolded Inr]] rc by (auto simp: restartable_defs split: if_split_asm)
    with ok1 have put: "records_ok (put_record k rc' orc1)" by blast
    have rest: "records_ok (snd (recover_records va cfg env reconcile (written rs) orc'))" if "records_ok orc'" for orc'
      using Cons.IH [OF _ that] Cons.prems(1) by simp
    obtain out2 orc2 where r: "reconcile_settlement cfg env k (put_record k rc' orc1) = (out2, orc2)" by force
    have "records_ok orc2" using reconcile_settlement_ok [OF put, of cfg env k] r by simp
    with d Inr read rest put r show ?thesis
      unfolding split by (cases out2; cases reconcile) (simp_all add: Let_def del: canon.simps)
  qed
qed

lemma recover_inbox_ok:
  assumes "validators_contract va"
  shows "\<lbrakk>\<forall>pm \<in> set pms. transportable pm; inbox_ok received\<rbrakk> \<Longrightarrow>
    \<exists>received'. recover_inbox va (map (canon default_sorted) (map inbox_json pms)) received (pm_message_id ` set received) =
        (Inr (), received', pm_message_id ` set received') \<and> inbox_ok received'"
proof (induction pms arbitrary: received)
  case (Cons pm pms)
  have read: "read_inbox_item va (canon default_sorted (inbox_json pm)) = Inr pm" using read_inbox_json [OF assms] Cons.prems(1) by simp
  show ?case
  proof (cases "pm_message_id pm \<in> pm_message_id ` set received")
    case True
    with Cons read show ?thesis by (simp del: canon.simps)
  next
    case False
    with Cons.prems have "inbox_ok (received @ [pm])" by (auto simp: inbox_ok_def)
    with Cons.IH [of "received @ [pm]"] Cons.prems(1) read False show ?thesis by (simp del: canon.simps)
  qed
qed auto

lemma maybe_recover_ok:
  assumes "validators_contract va" and "process_ok hr"
  shows "process_ok (snd (maybe_recover va cfg pe reconcile hr))"
proof (cases "hr_snapshot hr")
  case None
  with assms(2) show ?thesis
    by (simp add: maybe_recover_def load_snapshot_def snapshot_inbox_def Let_def process_ok_def)
next
  case (Some content)
  from assms(2) Some have "file_ok (Some content)" by (simp add: process_ok_def)
  then obtain orc :: "'a Orch" and pms where file_text: "content = snapshot_text orc pms" and ok: "snapshot_ok orc pms"
    by (rule file_ok_contents)
  let ?rs = "sort_key fst (orch_intents orc)"
  from ok have wf: "dict_wf (orch_intents orc)" by (simp add: snapshot_ok_def)
  from snapshot_decodes [OF wf, of pms] obtain snapshot where snapshot: "load_snapshot (hr_snapshot hr) = Inr (JObj snapshot)"
    "dict_get snapshot ''records'' = Some (JObj (written ?rs))" "snapshot_inbox snapshot = map (canon default_sorted) (map inbox_json pms)"
    unfolding Some file_text by blast
  have rs: "\<forall>(k, rc) \<in> set ?rs. restartable rc" using ok by (simp add: snapshot_ok_def)
  have "records_ok (hr_engine hr)" using assms(2) by (simp add: process_ok_def)
  note run = recover_records_ok [OF assms(1) rs this, of cfg "pe_policy pe" reconcile]
  obtain received where box: "recover_inbox va (snapshot_inbox snapshot) (hr_inbox hr) (hr_inbox_ids hr) =
      (Inr (), received, pm_message_id ` set received)" "inbox_ok received"
    using recover_inbox_ok [OF assms(1), of pms "hr_inbox hr"] ok assms(2) snapshot(3) by (auto simp: snapshot_ok_def process_ok_def)
  obtain out orc1 where call: "recover_records va cfg (pe_policy pe) reconcile (written ?rs) (hr_engine hr) = (out, orc1)" by force
  show ?thesis
  proof (cases out)
    case (Inl e)
    with assms(2) snapshot(1,2) call run show ?thesis by (simp add: maybe_recover_def process_ok_def)
  next
    case (Inr u)
    let ?hr = "(set_engine orc1 hr)\<lparr>hr_inbox := received, hr_inbox_ids := pm_message_id ` set received\<rparr>"
    have "hr_engine ?hr = orc1" by (simp add: set_engine_def)
    then have "process_ok ?hr" using assms(2) call run box(2) by (simp add: process_ok_def)
    with snapshot(1,2) call Inr box(1) snapshot_state_ok [of ?hr] show ?thesis by (simp add: maybe_recover_def Let_def)
  qed
qed

lemma maybe_recover_transport [simp]:
  "hp_transport (hr_peer (snd (maybe_recover va cfg pe reconcile hr))) = hp_transport (hr_peer hr)"
  by (auto simp: maybe_recover_def set_engine_def snapshot_state_def Let_def split: sum.splits pyjson.splits option.splits prod.splits)

end
