(* ===== verification/Process_Safety.thy ===== *)
theory Process_Safety
  imports Process_Invariant Transport_Properties
begin

text \<open>
  What holds of a process whatever commands it is given. The locale \<open>payment_link\<close> states
  what a process needs of its transport, only valid messages are delivered, and is
  interpreted on the in-memory hub and on the Buzz endpoint.
\<close>

section \<open>Valid messages\<close>

definition validators_sound :: "Validators \<Rightarrow> bool" where
  "validators_sound va \<longleftrightarrow> (\<forall>v i. va_intent va v = Some i \<longrightarrow> intent_ok i) \<and> (\<forall>v q. va_quote va v = Some q \<longrightarrow> quote_ok q)
     \<and> (\<forall>v r. va_receipt va v = Some r \<longrightarrow> receipt_ok r)"

definition config_ok :: "ProcessConfig \<Rightarrow> bool" where
  "config_ok pc \<longleftrightarrow> identity_ok (pc_identity pc) \<and> (\<forall>a. pc_approver pc = Some a \<longrightarrow> identity_ok a)"

definition ctx_ok :: "('w, 's) process_ctx \<Rightarrow> bool" where
  "ctx_ok px \<longleftrightarrow> validators_contract (px_validators px) \<and> validators_sound (px_validators px) \<and> config_ok (px_config px)"

lemma bindP_Inr: "bindP x f = Inr y \<longleftrightarrow> (\<exists>v. x = Inr v \<and> f v = Inr y)"
  by (cases x) simp_all

definition process_good :: "('s \<Rightarrow> bool) \<Rightarrow> ('w, 's) HermesProcess \<Rightarrow> bool" where
  "process_good valid hr \<longleftrightarrow> process_ok hr \<and> valid (hp_transport (hr_peer hr))"

definition peer_good :: "('s \<Rightarrow> bool) \<Rightarrow> ('w, 's) HermesPeer \<Rightarrow> bool" where
  "peer_good valid peer \<longleftrightarrow> records_ok (hp_orchestrator peer) \<and> valid (hp_transport peer)"

locale payment_link =
  fixes link :: "'s PeerTransport"
    and valid :: "'s \<Rightarrow> bool"
  assumes send_valid: "valid s \<Longrightarrow> message_ok m \<Longrightarrow> valid (snd (pt_send link m s))"
    and receive_valid: "valid s \<Longrightarrow> valid (snd (pt_receive link l s))"
    and delivers: "valid s \<Longrightarrow> pt_receive link l s = (Inr ms, s') \<Longrightarrow> pm \<in> set ms \<Longrightarrow> transportable pm"
begin

abbreviation good :: "('w, 's) HermesProcess \<Rightarrow> bool" where
  "good \<equiv> process_good valid"

lemma good_andthen:
  "good (snd call) \<Longrightarrow> (\<And>v. fst call = Inr v \<Longrightarrow> good (snd (f v (snd call)))) \<Longrightarrow> good (snd (andthen call f))"
  by (simp add: snd_andthen split: sum.split)

lemma good_engine: "good hr \<Longrightarrow> records_ok orc \<Longrightarrow> good (set_engine orc hr)"
  by (simp add: process_good_def process_ok_def set_engine_def)

lemma good_on_engine: "good hr \<Longrightarrow> records_ok (snd call) \<Longrightarrow> good (snd (on_engine call hr))"
  using good_engine by (cases call) (simp add: on_engine_def)

lemma good_on_world: "good hr \<Longrightarrow> good (snd (on_world call hr))"
  by (cases call) (simp add: on_world_def process_good_def process_ok_def set_engine_def)

lemma good_on_peer:
  "good hr \<Longrightarrow> peer_good valid (snd call) \<Longrightarrow> good (snd (on_peer call hr))"
  by (cases call) (simp add: on_peer_def process_good_def peer_good_def process_ok_def)

lemma good_parts: "good hr \<Longrightarrow> records_ok (hr_engine hr)" "good hr \<Longrightarrow> peer_good valid (hr_peer hr)"
  "good hr \<Longrightarrow> pm \<in> set (hr_inbox hr) \<Longrightarrow> transportable pm"
  by (auto simp: process_good_def peer_good_def process_ok_def inbox_ok_def)

lemma snd_state_reply [simp]: "snd (state_reply k f hr) = hr"
  by (simp add: state_reply_def split: sum.split)

lemma via_orchestrator_snd: "snd (via_orchestrator call peer) = peer\<lparr>hp_orchestrator := snd call\<rparr>"
  by (cases call) (simp add: via_orchestrator_def)

lemma via_transport_snd: "snd (via_transport call peer) = peer\<lparr>hp_transport := snd call\<rparr>"
  by (cases call) (simp add: via_transport_def)

lemmas peer_snds = via_orchestrator_snd via_transport_snd

lemma peer_send_ok:
  assumes "peer_good valid peer" and "message_ok m"
  shows "peer_good valid (snd (peer_send link m peer))"
  using assms send_valid by (simp add: peer_good_def peer_send_def peer_snds split: option.split)

lemma peer_receive_ok: "peer_good valid peer \<Longrightarrow> peer_good valid (snd (peer_receive link l peer))"
  using receive_valid by (simp add: peer_good_def peer_receive_def peer_snds)

lemma submit_intent_ok:
  assumes "peer_good valid peer" and "intent_ok i"
  shows "peer_good valid (snd (submit_intent cfg env link i peer))"
proof (cases "require_local_author peer (MIntent i)")
  case None
  obtain out peer1 where call: "via_orchestrator (submit cfg env i (hp_orchestrator peer)) peer = (out, peer1)" by force
  then have "peer1 = peer\<lparr>hp_orchestrator := snd (submit cfg env i (hp_orchestrator peer))\<rparr>"
    using via_orchestrator_snd [of "submit cfg env i (hp_orchestrator peer)" peer] by simp
  with assms None call submit_ok [of "hp_orchestrator peer" i cfg env] send_valid [of "hp_transport peer" "MIntent i"] show ?thesis
    by (cases out) (simp_all add: peer_good_def submit_intent_def peer_snds)
qed (use assms in \<open>simp add: submit_intent_def\<close>)

lemma accept_ok:
  assumes "peer_good valid peer"
  shows "intent_ok i \<Longrightarrow> peer_good valid (snd (accept_intent cfg env i peer))"
    "quote_ok q \<Longrightarrow> peer_good valid (snd (accept_quote env q peer))"
    "receipt_ok r \<Longrightarrow> peer_good valid (snd (accept_receipt cfg env r peer))"
  using assms submit_ok receive_quote_ok receive_receipt_ok
  by (auto simp: peer_good_def accept_intent_def accept_quote_def accept_receipt_def peer_snds split: option.split)

subsection \<open>Handlers\<close>

lemma collect_new_good:
  "\<lbrakk>collect_new pms hr = (new, hr'); good hr; \<forall>pm \<in> set pms. transportable pm\<rbrakk> \<Longrightarrow> good hr'"
proof (induction pms arbitrary: hr new)
  case (Cons pm pms)
  let ?hr = "hr\<lparr>hr_inbox_ids := insert (pm_message_id pm) (hr_inbox_ids hr), hr_inbox := hr_inbox hr @ [pm]\<rparr>"
  have "good ?hr" if "pm_message_id pm \<notin> hr_inbox_ids hr"
    using Cons.prems that by (auto simp: process_good_def process_ok_def inbox_ok_def)
  with Cons show ?case by (auto split: prod.split_asm if_split_asm)
qed simp

lemma find_inbox_in: "find_inbox_message i hr = Inr pm \<Longrightarrow> pm \<in> set (hr_inbox hr)"
  by (auto simp: find_inbox_message_def find_Some_in split: option.split_asm)

lemma receive_good: "good hr \<Longrightarrow> good (snd (handle_receive px args hr))" if "px_link px = link"
proof -
  assume good: "good hr"
  have "good (snd (on_peer (peer_receive link l (hr_peer hr)) hr))" for l
    by (rule good_on_peer [OF good peer_receive_ok [OF good_parts(2) [OF good]]])
  moreover have "transportable pm" if "fst (on_peer (peer_receive link l (hr_peer hr)) hr) = Inr ms" "pm \<in> set ms" for l ms pm
  proof -
    obtain out s where "pt_receive link l (hp_transport (hr_peer hr)) = (out, s)" by force
    with that delivers [of "hp_transport (hr_peer hr)" l ms s pm] good show ?thesis
      by (auto simp: process_good_def on_peer_def peer_receive_def via_transport_def split: sum.split_asm)
  qed
  ultimately show ?thesis
    by (auto simp: handle_receive_def that good intro!: good_andthen split: prod.split dest!: collect_new_good)
qed

lemma validated: "bindP (argument args k) (validate_with g) = Inr m \<Longrightarrow> \<exists>v. g v = Some m"
  by (auto simp: bindP_def validate_with_def split: sum.split_asm option.split_asm)

lemma found: "bindP (argument args k) (\<lambda>i. find_inbox_message i hr) = Inr pm \<Longrightarrow> pm \<in> set (hr_inbox hr)"
  by (auto simp: bindP_def find_inbox_in split: sum.split_asm)

lemma good_call:
  assumes "good hr" and "peer_good valid (snd call)" and "\<And>v hr. good hr \<Longrightarrow> good (snd (f v hr))"
  shows "good (snd (andthen (on_peer call hr) f))"
  using assms good_on_peer [OF assms(1,2)] by (intro good_andthen) auto

lemma good_checked:
  assumes "good hr" and "\<And>v. x = Inr v \<Longrightarrow> good (snd (f v hr))"
  shows "good (snd (andthen (x, hr) f))"
  using assms by (intro good_andthen) auto

lemma submit_good:
  assumes "ctx_ok px" and "px_link px = link" and "good hr"
  shows "good (snd (handle_submit_intent px args hr))"
proof -
  have "intent_ok i" if "bindP (argument args ''intent'') (validate_with (va_intent (px_validators px))) = Inr i" for i
    using validated [OF that] assms(1) by (auto simp: ctx_ok_def validators_sound_def)
  with assms(3) show ?thesis
    unfolding handle_submit_intent_def assms(2)
    by (intro good_checked good_call submit_intent_ok good_parts) (simp_all add: assms(3))
qed

lemma accept_good:
  assumes "good hr"
  shows "good (snd (handle_accept_intent px args hr))" "good (snd (handle_accept_quote px args hr))"
    "good (snd (handle_accept_receipt px args hr))"
proof -
  have msg: "message_ok (pm_message pm)" if "bindP (argument args ''message_id'') (\<lambda>i. find_inbox_message i hr) = Inr pm" for pm
    using good_parts(3) [OF assms found [OF that]] by (simp add: transportable_def)
  note parts = good_parts(1,2) [OF assms]
  show "good (snd (handle_accept_intent px args hr))"
    unfolding handle_accept_intent_def
    by (rule good_checked) (use assms parts in \<open>auto split: DomainMessage.split intro!: good_call accept_ok(1) dest!: msg\<close>)
  show "good (snd (handle_accept_quote px args hr))"
    unfolding handle_accept_quote_def
    by (rule good_checked) (use assms parts in \<open>auto split: DomainMessage.split intro!: good_call accept_ok(2) dest!: msg\<close>)
  show "good (snd (handle_accept_receipt px args hr))"
    unfolding handle_accept_receipt_def
    by (rule good_checked) (use assms parts in \<open>auto split: DomainMessage.split intro!: good_call accept_ok(3) dest!: msg\<close>)
qed

lemma publish_good:
  assumes "ctx_ok px" and "px_link px = link" and "good hr"
  shows "good (snd (handle_publish_quote px args hr))" "good (snd (handle_publish_receipt px args hr))"
    "good (snd (handle_submit_quote_local px args hr))"
proof -
  have q: "quote_ok q" if "bindP (argument args ''quote'') (validate_with (va_quote (px_validators px))) = Inr q" for q
    using validated [OF that] assms(1) by (auto simp: ctx_ok_def validators_sound_def)
  have r: "receipt_ok r" if "bindP (argument args ''receipt'') (validate_with (va_receipt (px_validators px))) = Inr r" for r
    using validated [OF that] assms(1) by (auto simp: ctx_ok_def validators_sound_def)
  note parts = good_parts(1,2) [OF assms(3)]
  show "good (snd (handle_publish_quote px args hr))"
    using q assms(3) parts unfolding handle_publish_quote_def publish_quote_def assms(2)
    by (auto intro!: good_checked good_call peer_send_ok)
  show "good (snd (handle_publish_receipt px args hr))"
    using r assms(3) parts unfolding handle_publish_receipt_def publish_receipt_def assms(2)
    by (auto intro!: good_checked good_call peer_send_ok)
  show "good (snd (handle_submit_quote_local px args hr))"
    using q assms(3) parts unfolding handle_submit_quote_local_def
    by (auto intro!: good_andthen good_on_engine receive_quote_ok)
qed

lemma engine_good:
  assumes "good hr"
  shows "good (snd (handle_prepare px args hr))" "good (snd (handle_execute px args hr))"
  using assms good_parts(1) [OF assms]
  by (auto simp: handle_prepare_def handle_execute_def intro!: good_andthen good_on_engine prepare_ok execute_ok)

lemma new_approval_ok: "new_approval a t i q h = Inr x \<Longrightarrow> identity_ok a \<Longrightarrow> approval_ok x"
  by (auto simp: new_approval_def approval_ok_def Let_def split: pyjson.split_asm prod.split_asm)

lemma new_receipt_ok: "new_receipt a r t k q ref v = Inr x \<Longrightarrow> receipt_ok x"
  by (auto simp: new_receipt_def receipt_ok_def Let_def split: pyjson.split_asm if_split_asm)

lemma approve_good:
  assumes "ctx_ok px" and "good hr"
  shows "good (snd (handle_approve px args hr))"
proof (cases "pc_approver (px_config px)")
  case (Some a)
  then have "identity_ok a" using assms(1) by (simp add: ctx_ok_def config_ok_def)
  with Some assms(2) good_parts(1) [OF assms(2)] show ?thesis
    by (auto simp: handle_approve_def Let_def bindP_Inr intro!: good_andthen good_on_engine approve_ok dest: new_approval_ok)
qed (use assms in \<open>simp add: handle_approve_def\<close>)

lemma verify_publish_good:
  assumes "px_link px = link" and "good hr"
  shows "good (snd (handle_verify_publish_receipt px args hr))"
  unfolding handle_verify_publish_receipt_def Let_def
proof (rule good_andthen, goal_cases)
  case 1
  then show ?case using assms(2) by simp
next
  case (2 v)
  obtain k q ref amount where v: "v = (k, q, ref, amount)" by (metis prod_cases4)
  show ?case
    unfolding v prod.case snd_conv publish_receipt_def
  proof (rule good_andthen, goal_cases)
    case 1
    show ?case by (rule good_on_world [OF assms(2)])
  next
    case (2 verification)
    let ?hr = "snd (on_world (sa_verify_receipt (cf_adapter (px_orch px)) ref amount (orch_world (hr_engine hr))) hr)"
    have "good ?hr" by (rule good_on_world [OF assms(2)])
    with good_parts(1,2) [OF this] show ?case
      unfolding assms(1) by (auto simp: bindP_Inr intro!: good_checked good_call peer_send_ok dest: new_receipt_ok)
  qed
qed

lemma recover_loop_good:
  "\<lbrakk>recover_loop px max_wait n rounds hr = Some call; ctx_ok px; good hr\<rbrakk> \<Longrightarrow> good (snd call)"
proof (induction rounds arbitrary: n hr)
  case (Suc rounds)
  obtain out hr1 where step: "maybe_recover (px_validators px) (px_orch px) (px_env px) True hr = (out, hr1)" by force
  have "good hr1"
    using maybe_recover_ok [of "px_validators px" hr "px_orch px" "px_env px" True]
      maybe_recover_transport [of "px_validators px" "px_orch px" "px_env px" True hr] Suc.prems step
    by (simp add: process_good_def ctx_ok_def)
  with Suc step show ?case by (cases out) (auto split: if_split_asm)
qed simp

lemma recover_good:
  assumes "ctx_ok px" and "good hr" and "handle_recover px rounds args hr = Some call"
  shows "good (snd call)"
  using assms recover_loop_good
  by (auto simp: handle_recover_def split: sum.split_asm option.split_asm intro!: good_andthen)

lemma run_command_good:
  assumes "ctx_ok px" and "px_link px = link" and "good hr" and "run_command px rounds c hr = Some call"
  shows "good (snd call)"
  using assms(4) receive_good [OF assms(2,3)] submit_good [OF assms(1-3)] accept_good [OF assms(3)] publish_good [OF assms(1-3)]
    engine_good [OF assms(3)] approve_good [OF assms(1,3)] verify_publish_good [OF assms(2,3)] recover_good [OF assms(1,3)] assms(3)
  unfolding run_command_def Let_def handle_status_def
  by (simp split: if_split_asm) (auto split: if_split_asm)

lemma snapshot_state_good: "good hr \<Longrightarrow> good (snd (snapshot_state b hr))"
  using snapshot_state_ok [of hr b] by (auto simp: process_good_def snapshot_state_def)

lemma handle_line_good:
  assumes "ctx_ok px" and "px_link px = link" and "good hr" and "handle_line px rounds line hr = Some call"
  shows "good (snd call)"
proof (cases "parse_command line")
  case (Inr c)
  with assms(4) obtain result hr1 where run: "run_command px rounds c hr = Some (result, hr1)"
    by (auto simp: handle_line_def split: option.split_asm)
  from run_command_good [OF assms(1-3) run] have "good hr1" by simp
  from snapshot_state_good [OF this] assms(4) Inr run show ?thesis
    by (auto simp: handle_line_def snd_andthen split: sum.split)
qed (use assms in \<open>auto simp: handle_line_def\<close>)

end

section \<open>The transports\<close>

lemma author_valid: "message_ok m \<Longrightarrow> message_author m = Inr a \<Longrightarrow> identity_ok a \<and> \<not> is_approval m"
  by (cases m) (auto simp: intent_ok_def quote_ok_def receipt_ok_def)

definition hub_valid :: "Hub \<Rightarrow> bool" where
  "hub_valid hub \<longleftrightarrow> hub_wf hub \<and> (\<forall>q box pm. dict_get (hub_inboxes hub) q = Some box \<longrightarrow> pm \<in> set box \<longrightarrow> message_ok (pm_message pm))"

interpretation hub_payments: payment_link "hub_endpoint p identity" hub_valid for p identity
proof
  fix s m
  assume valid: "hub_valid s" and ok: "message_ok m"
  obtain out s' where send: "hub_send p identity m s = (out, s')" by force
  have "hub_wf s'" using hub_wf_send [of s p identity m] valid send by (simp add: hub_valid_def)
  moreover have "dict_get (hub_inboxes s') q = Some box \<Longrightarrow> pm \<in> set box \<Longrightarrow> message_ok (pm_message pm)" for q box pm
  proof (cases out)
    case (Inl e)
    with send have "s' = s" using hub_send_Inl by simp
    with valid show "dict_get (hub_inboxes s') q = Some box \<Longrightarrow> pm \<in> set box \<Longrightarrow> message_ok (pm_message pm)"
      by (auto simp: hub_valid_def)
  next
    case (Inr mid)
    with send have "hub_send p identity m s = (Inr mid, s')" by simp
    from hub_send_inbox [OF this] valid ok
    show "dict_get (hub_inboxes s') q = Some box \<Longrightarrow> pm \<in> set box \<Longrightarrow> message_ok (pm_message pm)"
      by (auto simp: hub_valid_def split: if_split_asm)
  qed
  ultimately show "hub_valid (snd (pt_send (hub_endpoint p identity) m s))"
    using send by (auto simp: hub_endpoint_def hub_valid_def)
next
  fix s l
  assume valid: "hub_valid s"
  obtain out s' where get: "hub_receive p l s = (out, s')" by force
  have "hub_wf s'" using hub_wf_receive [of s p l] valid get by (simp add: hub_valid_def)
  moreover have "dict_get (hub_inboxes s') q = Some box \<Longrightarrow> pm \<in> set box \<Longrightarrow> message_ok (pm_message pm)" for q box pm
  proof (cases out)
    case (Inl e)
    with get have "s' = s" using hub_receive_Inl by simp
    with valid show "dict_get (hub_inboxes s') q = Some box \<Longrightarrow> pm \<in> set box \<Longrightarrow> message_ok (pm_message pm)"
      by (auto simp: hub_valid_def)
  next
    case (Inr ms)
    with get have "hub_receive p l s = (Inr ms, s')" by simp
    from hub_receive_Inr [OF this] obtain rest where old: "dict_get (hub_inboxes s) p = Some (ms @ rest)"
      and new: "\<And>q. dict_get (hub_inboxes s') q = (if q = p then Some rest else dict_get (hub_inboxes s) q)" by blast
    have "dict_get (hub_inboxes s) q = Some box \<Longrightarrow> pm \<in> set box \<Longrightarrow> message_ok (pm_message pm)" for q box pm
      using valid unfolding hub_valid_def by blast
    note was_ok = this [OF old, of pm] this [of q box pm]
    show "dict_get (hub_inboxes s') q = Some box \<Longrightarrow> pm \<in> set box \<Longrightarrow> message_ok (pm_message pm)"
      using was_ok new [of q] by (cases "q = p") simp_all
  qed
  ultimately show "hub_valid (snd (pt_receive (hub_endpoint p identity) l s))"
    using get by (auto simp: hub_endpoint_def hub_valid_def)
next
  fix s l ms s' pm
  assume valid: "hub_valid s" and get: "pt_receive (hub_endpoint p identity) l s = (Inr ms, s')" and pm: "pm \<in> set ms"
  from get have "hub_receive p l s = (Inr ms, s')" by (simp add: hub_endpoint_def)
  from hub_receive_Inr [OF this] obtain rest where "dict_get (hub_inboxes s) p = Some (ms @ rest)" by blast
  with valid pm have "message_ok (pm_message pm)" unfolding hub_valid_def by (metis UnCI set_append)
  moreover have "message_author (pm_message pm) = Inr (pm_author pm)"
    using valid get pm hub.receive_authored by (auto simp: hub_valid_def)
  ultimately show "transportable pm" using author_valid by (simp add: transportable_def)
qed

lemma decoded_ok:
  assumes "pydantic_contract py" and "decode_content py content = Inr m" shows "message_ok m"
  using assms(2) by (rule decode_Inr) (use assms(1) in \<open>auto simp: pydantic_contract_def\<close>)

lemma buzz_payments:
  fixes cfg :: "'x buzz_config"
  assumes "pydantic_contract (bc_py cfg)"
  shows "payment_link (buzz_link cfg) endpoint_well"
proof
  fix bt bt' :: "'x BuzzTransport" and m l ms pm
  show "endpoint_well (snd (pt_send (buzz_link cfg) m bt))" "endpoint_well (snd (pt_receive (buzz_link cfg) l bt))"
    by (simp_all add: endpoint_well_def)
  assume call: "pt_receive (buzz_link cfg) l bt = (Inr ms, bt')" "pm \<in> set ms"
  then have author: "message_author (pm_message pm) = Inr (pm_author pm)"
    using buzz.receive_authored by (auto simp: endpoint_well_def)
  from call obtain event where "validate_received_event (bc_py cfg) (bc_channel cfg) (bt_now bt) event = Inr (pm_message pm)"
    by (fastforce simp: buzz_link_def buzz_receive_def batch_post_def event_accepted_def dest!: receive_Inr receive_loop_sound)
  then have "decode_content (bc_py cfg) (rb_content event) = Inr (pm_message pm)"
    by (auto simp: validate_received_event_def split: if_split_asm sum.split_asm exn.split_asm option.split_asm)
  from decoded_ok [OF assms this] author author_valid show "transportable pm" by (simp add: transportable_def)
qed

end
