(* ===== verification/Process_Text.thy ===== *)
theory Process_Text
  imports Process_Commands
begin

text \<open>
  The text of commands: what \<open>to_json\<close> writes is what \<open>parse\<close> reads, and what the two
  commands without arguments that the theorems speak of do.
\<close>

section \<open>Commands as text\<close>

lemma dict_merge_get:
  "dict_get (dict_merge d updates) k = (case dict_get (rev updates) k of Some v \<Rightarrow> Some v | None \<Rightarrow> dict_get d k)"
  unfolding dict_merge_def
  by (induction updates arbitrary: d) (auto simp: map_add_Some_iff split: option.splits)

lemma dict_get_rev:
  assumes "dict_wf d" shows "dict_get (rev d) k = dict_get d k"
proof -
  have "(dict_get (rev d) k = Some v) = (dict_get d k = Some v)" for v
    using assms by (simp add: map_of_eq_Some_iff rev_map [symmetric])
  then show ?thesis by (metis not_Some_eq)
qed

lemma dict_merge_wf: "dict_wf d \<Longrightarrow> dict_wf (dict_merge d updates)"
  unfolding dict_merge_def by (induction updates arbitrary: d) auto

definition command_ok :: "JsonlCommand \<Rightarrow> bool" where
  "command_ok c \<longleftrightarrow> jc_name c \<in> set known_commands \<and> dict_wf (jc_arguments c) \<and> ''command'' \<notin> fst ` set (jc_arguments c)
     \<and> (\<forall>(k, v) \<in> set (jc_arguments c). json_ok v)"

lemma set_dict_set: "x \<in> set (dict_set k v d) \<Longrightarrow> x = (k, v) \<or> x \<in> set d"
  by (induction d) (auto split: if_split_asm)

lemma dict_merge_ok:
  "\<lbrakk>\<forall>(k, v) \<in> set d. json_ok v; \<forall>(k, v) \<in> set u. json_ok v\<rbrakk> \<Longrightarrow> \<forall>(k, v) \<in> set (dict_merge d u). json_ok v"
  unfolding dict_merge_def
proof (induction u arbitrary: d)
  case (Cons x u)
  obtain k v where x: "x = (k, v)" by force
  have "\<forall>(k, v) \<in> set (dict_set k v d). json_ok v" using Cons.prems x by (auto dest!: set_dict_set)
  with Cons x show ?case by simp
qed simp

lemma dict_get_filter_key: "dict_get (filter (\<lambda>(key, _). key \<noteq> k0) d) k = (if k = k0 then None else dict_get d k)"
  by (induction d) auto

lemma parse_command_json:
  assumes "command_ok c"
  shows "\<exists>args. parse_command (command_to_json c) = Inr \<lparr>jc_name = jc_name c, jc_arguments = args\<rparr>
    \<and> (\<forall>k. dict_get args k = map_option (canon compact_sorted) (dict_get (jc_arguments c) k))"
proof -
  let ?d = "dict_merge [(''command'', JStr (jc_name c))] (jc_arguments c)"
  have arg: "dict_get (jc_arguments c) ''command'' = None" using assms by (simp add: command_ok_def map_of_eq_None_iff)
  have wf: "dict_wf (jc_arguments c)" using assms by (simp add: command_ok_def)
  then have rev: "dict_get (rev (jc_arguments c)) k = dict_get (jc_arguments c) k" for k by (rule dict_get_rev)
  have "dict_wf ?d" by (rule dict_merge_wf) simp
  moreover have "\<forall>(k, v) \<in> set ?d. json_ok v" using assms by (intro dict_merge_ok) (auto simp: command_ok_def)
  ultimately have ok: "json_ok (JObj ?d)" by (auto simp: list_all_iff)
  obtain d where d: "canon compact_sorted (JObj ?d) = JObj d" by simp
  have get: "dict_get d k = map_option (canon compact_sorted) (dict_get ?d k)" for k by (rule dict_get_canon [OF ok d])
  have "json_loads (command_to_json c) = Some (JObj d)"
    using json_roundtrip [OF opts_ok_in_use(1) ok] d by (simp add: command_to_json_def del: json_dumps.simps canon.simps)
  moreover have "dict_get d ''command'' = Some (JStr (jc_name c))"
    using arg by (simp add: get dict_merge_get rev)
  moreover have "jc_name c \<in> set known_commands" using assms by (simp add: command_ok_def)
  moreover from this have "jc_name c \<noteq> []" by (auto simp: known_commands_def)
  ultimately have "parse_command (command_to_json c) =
      Inr \<lparr>jc_name = jc_name c, jc_arguments = filter (\<lambda>(key, _). key \<noteq> ''command'') d\<rparr>"
    by (simp add: parse_command_def)
  moreover have "dict_get (filter (\<lambda>(key, _). key \<noteq> ''command'') d) k = map_option (canon compact_sorted) (dict_get (jc_arguments c) k)" for k
    using arg by (simp add: dict_get_filter_key get dict_merge_get rev split: option.split)
  ultimately show ?thesis by blast
qed

text \<open>Commands survive their text. What \<open>to_json\<close> writes for a known command, \<open>parse\<close> reads back
  as the same command, with every argument as JSON writes it and no argument lost or added.\<close>

theorem command_roundtrip:
  assumes "jc_name c \<in> set known_commands" and "dict_wf (jc_arguments c)" and "''command'' \<notin> fst ` set (jc_arguments c)"
    and "\<forall>(k, v) \<in> set (jc_arguments c). json_ok v"
  shows "\<exists>args. parse_command (command_to_json c) = Inr \<lparr>jc_name = jc_name c, jc_arguments = args\<rparr>
    \<and> (\<forall>k. dict_get args k = map_option (canon compact_sorted) (dict_get (jc_arguments c) k))"
  using assms by (intro parse_command_json) (simp add: command_ok_def)

definition bare :: "string \<Rightarrow> JsonlCommand" where
  "bare name = \<lparr>jc_name = name, jc_arguments = []\<rparr>"

lemma bare_simps [simp]: "jc_name (bare name) = name" "jc_arguments (bare name) = []"
  by (simp_all add: bare_def)

lemma parse_bare: "name \<in> set known_commands \<Longrightarrow> parse_command (command_to_json (bare name)) = Inr (bare name)"
proof -
  assume "name \<in> set known_commands"
  then have "command_ok (bare name)" by (simp add: command_ok_def bare_def)
  from parse_command_json [OF this] obtain args where
    "parse_command (command_to_json (bare name)) = Inr \<lparr>jc_name = name, jc_arguments = args\<rparr>" "\<forall>k. dict_get args k = None"
    by (auto simp: bare_def)
  moreover from this(2) have "args = []" by (metis list.exhaust map_of_Cons_code(2) option.distinct(1) prod.exhaust)
  ultimately show ?thesis by (simp add: bare_def)
qed

theorem command_roundtrip_witness:
  "\<exists>args. parse_command (command_to_json \<lparr>jc_name = ''receive'', jc_arguments = [(''limit'', JInt 3)]\<rparr>) =
      Inr \<lparr>jc_name = ''receive'', jc_arguments = args\<rparr> \<and> dict_get args ''limit'' = Some (JInt 3)"
  using command_roundtrip [of "\<lparr>jc_name = ''receive'', jc_arguments = [(''limit'', JInt 3)]\<rparr>"]
  by (auto simp: known_commands_def)

section \<open>Commands without arguments\<close>

lemma handle_execute_snd: "snd (handle_execute px args hr) = set_engine (snd (execute (px_orch px) (pe_policy (px_env px)) (hr_engine hr))) hr"
  by (auto simp: handle_execute_def snd_andthen on_engine_def state_reply_def split: prod.splits sum.splits)

lemma run_bare [simp]:
  "run_command px rounds (bare ''execute'') hr = Some (handle_execute px [] hr)"
  "run_command px rounds (bare ''recover'') hr = handle_recover px rounds [] hr"
  by (simp_all add: run_command_def bare_def)

lemma parse_bare_known [simp]:
  "parse_command (command_to_json (bare ''execute'')) = Inr (bare ''execute'')"
  "parse_command (command_to_json (bare ''recover'')) = Inr (bare ''recover'')"
  by (simp_all add: parse_bare known_commands_def)

lemma execute_answers: "\<exists>out hr'. handle_line px rounds (command_to_json (bare ''execute'')) hr = Some (out, hr')"
proof -
  obtain result hr1 where "handle_execute px [] hr = (result, hr1)" by force
  then show ?thesis
    by (cases "andthen (snapshot_state (pe_snapshot_ok (px_env px)) hr1) (\<lambda>_ hr.
        (case result of Inl e \<Rightarrow> Inl e | Inr reply \<Rightarrow> Inr (event_line (jc_name (bare ''execute'')) reply), hr))")
      (simp add: handle_line_def)
qed

section \<open>The defaults of \<open>recover\<close>\<close>

lemma float_bounds:
  "float_of_ratio False 0 1 = FFin False 0 0" "float_of_ratio False 1 1 = FFin False 1 0" "float_of_ratio False 60 1 = FFin False 15 2"
  "float_of_ratio False 720 1 = FFin False 45 4" "float_of_ratio False 1 100 = FFin False 5764607523034235 (- 59)"
  by (simp_all add: float_of_ratio_def Let_def bit_length.simps round_half_even_def mk_float_def strip_twos.simps)

lemma recover_defaults: "recover_arguments [] = Inr (FFin False 0 0)"
  by (simp add: recover_arguments_def wait_argument_def float_bounds [unfolded One_nat_def] float_rat_def)

end
