(* ===== verification/Process_Demo.thy ===== *)
theory Process_Demo
  imports Process_Safety Process_Text
begin

text \<open>
  A concrete process: the counting adapter, strict validators, the in-memory hub and a
  configuration, on which the theorems about processes are evaluated.
\<close>

lemma strict_validators_sound: "validators_sound strict_validators"
  using strict_validated
  by (auto simp: validators_sound_def strict_validators_def on_dict_def split: pyjson.split_asm)

definition demo_pc :: ProcessConfig where
  "demo_pc = \<lparr>pc_role = ''alice'', pc_identity = sample_alice, pc_channel = ''c1'', pc_state_root = ''/tmp/alice'', pc_network = ''regtest'',
     pc_buzz_bin = ''buzz'', pc_audit_path = ''/tmp/alice/audit.jsonl'', pc_store_path = ''/tmp/alice/store.json'', pc_approver = Some sample_bob\<rparr>"

lemma demo_pc: "process_config ''alice'' sample_alice ''c1'' (Some ''/tmp/alice/'') ''regtest'' ''buzz'' None None (Some sample_bob) = Inr demo_pc"
  by (simp add: process_config_def demo_pc_def sample_alice_def sample_bob_def) code_simp

definition demo_ctx :: "(nat, Hub) process_ctx" where
  "demo_ctx = \<lparr>px_validators = strict_validators, px_orch = demo_config, px_env = demo_process_env,
     px_link = hub_endpoint ''alice'' sample_alice, px_config = demo_pc, px_clock = (\<lambda>n. float_of_ratio False (n * 720) 1)\<rparr>"

definition demo_hub :: Hub where
  "demo_hub = snd (hub_connect ''alice'' (hub_init 7))"

lemma demo_ctx_ok: "ctx_ok demo_ctx"
  using strict_validators_contract strict_validators_sound
  by (simp add: ctx_ok_def demo_ctx_def config_ok_def demo_pc_def identity_ok_def sample_alice_def sample_bob_def)

lemma demo_ctx_simps [simp]:
  "px_validators demo_ctx = strict_validators" "px_orch demo_ctx = demo_config" "px_env demo_ctx = demo_process_env"
  "px_link demo_ctx = hub_endpoint ''alice'' sample_alice" "px_config demo_ctx = demo_pc"
  by (simp_all add: demo_ctx_def)

lemma demo_hub_valid: "hub_valid demo_hub"
  by (auto simp: demo_hub_def hub_valid_def hub_wf_def hub_connect_def hub_init_def)

lemma demo_link: "payment_link (px_link demo_ctx) hub_valid"
  by (simp add: hub_payments.payment_link_axioms)

text \<open>A process that tracks the demonstration intent in a state, its snapshot up to date.\<close>

definition demo_process :: "PaymentState \<Rightarrow> (nat, Hub) HermesProcess" where
  "demo_process s = \<lparr>hr_peer = \<lparr>hp_identity = sample_alice, hp_transport = demo_hub, hp_orchestrator = demo_at s\<rparr>,
     hr_inbox = [], hr_inbox_ids = {}, hr_snapshot = Some (snapshot_text (demo_at s) [])\<rparr>"

lemma demo_process_simps [simp]:
  "hr_engine (demo_process s) = demo_at s" "hr_inbox (demo_process s) = []" "hr_inbox_ids (demo_process s) = {}"
  "hr_snapshot (demo_process s) = Some (snapshot_text (demo_at s) [])"
  by (simp_all add: demo_process_def)

lemma demo_process_ok: "process_ok (demo_process s)"
  using demo_snapshot_ok [of s] file_ok_written [OF demo_snapshot_ok [of s]]
  by (simp add: process_ok_def snapshot_ok_alt inbox_ok_def)

lemma demo_files: "orch_init (Some (pc_store_path demo_pc)) None (Some (pc_audit_path demo_pc)) None w =
    Inr \<lparr>orch_store = empty_store (Some ''/tmp/alice/store.json'') None,
      orch_audit = \<lparr>al_path = Some ''/tmp/alice/audit.jsonl'', al_seq = 0, al_file = None\<rparr>, orch_intents = [], orch_world = w\<rparr>"
  by (simp add: orch_init_def store_init_def audit_init_def demo_pc_def)

text \<open>It answers the commands without arguments.\<close>

lemma status_answers: "\<exists>out hr'. handle_line px rounds (command_to_json (bare ''status'')) hr = Some (out, hr')"
proof -
  have "parse_command (command_to_json (bare ''status'')) = Inr (bare ''status'')" by (simp add: parse_bare known_commands_def)
  then show ?thesis
    by (cases "andthen (snapshot_state (pe_snapshot_ok (px_env px)) hr) (\<lambda>_ hr.
        (case fst (handle_status px [] hr) of Inl e \<Rightarrow> Inl e | Inr reply \<Rightarrow> Inr (event_line ''status'' reply), hr))")
      (auto simp: handle_line_def run_command_def bare_def handle_status_def snapshot_state_def)
qed

end
