(* ===== verification/Process_Lifetime.thy ===== *)
theory Process_Lifetime
  imports Process_Demo
begin

text \<open>
  The life of a process over commands, failed writes, crashes and restarts. Between two
  commands it can always be killed and started again; what a restart finds is the state at
  the last snapshot.
\<close>

section \<open>Histories\<close>

text \<open>
  A process is started without a snapshot, obeys lines under changing circumstances, and may
  die after any of them and be started on the snapshot it left, on whatever store, audit log,
  transport and outside world there are then.
\<close>

definition meets :: "('w, 's) process_ctx \<Rightarrow> process_env \<Rightarrow> (nat \<Rightarrow> pyfloat) \<Rightarrow> ('w, 's) process_ctx" where
  "meets px pe clock = px\<lparr>px_env := pe, px_clock := clock\<rparr>"

definition start_on ::
    "('w, 's) process_ctx \<Rightarrow> process_env \<Rightarrow> string option \<Rightarrow> string list option \<Rightarrow> string option \<Rightarrow> 's \<Rightarrow> 'w
      \<Rightarrow> (process_error + unit) \<times> ('w, 's) HermesProcess option" where
  "start_on px pe store_file audit_file snapshot t w =
     process_start (px_validators px) (px_orch px) pe (px_config px) store_file audit_file snapshot t w"

inductive process_reach :: "('w, 's) process_ctx \<Rightarrow> ('s \<Rightarrow> bool) \<Rightarrow> ('w, 's) HermesProcess \<Rightarrow> bool" for px valid where
  fresh: "start_on px pe store_file audit_file None t w = (Inr (), Some hr) \<Longrightarrow> valid t \<Longrightarrow> process_reach px valid hr"
| obey: "process_reach px valid hr \<Longrightarrow> handle_line (meets px pe clock) rounds line hr = Some (out, hr') \<Longrightarrow> process_reach px valid hr'"
| crash: "process_reach px valid hr \<Longrightarrow> start_on px pe store_file audit_file (hr_snapshot hr) t w = (Inr (), Some hr') \<Longrightarrow>
    valid t \<Longrightarrow> process_reach px valid hr'"

lemma meets_simps [simp]:
  "ctx_ok (meets px pe clock) = ctx_ok px" "px_link (meets px pe clock) = px_link px" "px_env (meets px pe clock) = pe"
  "px_validators (meets px pe clock) = px_validators px" "px_orch (meets px pe clock) = px_orch px"
  "px_config (meets px pe clock) = px_config px" "px_clock (meets px pe clock) = clock"
  by (simp_all add: meets_def ctx_ok_def)

lemma start_good:
  assumes "ctx_ok px" and "file_ok snapshot" and "valid t" and "start_on px pe store_file audit_file snapshot t w = (out, Some hr)"
  shows "process_good valid hr"
proof -
  from assms(4) obtain orc where orc: "orch_init (Some (pc_store_path (px_config px))) store_file (Some (pc_audit_path (px_config px))) audit_file w = Inr orc"
    by (auto simp: start_on_def process_start_def process_init_def split: sum.split_asm)
  then have "orch_intents orc = []" by (auto simp: orch_init_def split: sum.split_asm)
  let ?hr0 = "\<lparr>hr_peer = \<lparr>hp_identity = pc_identity (px_config px), hp_transport = t, hp_orchestrator = orc\<rparr>,
      hr_inbox = [], hr_inbox_ids = {}, hr_snapshot = snapshot\<rparr>"
  have "process_ok ?hr0" using assms(2) \<open>orch_intents orc = []\<close> by (simp add: process_ok_def records_ok_def inbox_ok_def)
  with assms(1) maybe_recover_ok [of "px_validators px" ?hr0 "px_orch px" pe True]
  have ok: "process_ok (snd (maybe_recover (px_validators px) (px_orch px) pe True ?hr0))" by (simp add: ctx_ok_def)
  have t: "hp_transport (hr_peer (snd (maybe_recover (px_validators px) (px_orch px) pe True ?hr0))) = t" by simp
  obtain out' hr' where call: "maybe_recover (px_validators px) (px_orch px) pe True ?hr0 = (out', hr')" by force
  have "hr = hr'" using assms(4) orc call by (simp add: start_on_def process_start_def process_init_def)
  with ok t call assms(3) show ?thesis by (simp add: process_good_def)
qed

lemma process_reach_good:
  assumes "payment_link (px_link px) valid" and "ctx_ok px" and "process_reach px valid hr"
  shows "process_good valid hr"
  using assms(3)
proof induction
  case (fresh pe store_file audit_file t w hr)
  have "file_ok None" by (simp add: file_ok_def)
  from start_good [where valid = valid, OF assms(2) this fresh(2,1)] show ?case .
next
  case (obey hr pe clock rounds line out hr')
  from payment_link.handle_line_good [OF assms(1) _ _ obey.IH obey.hyps(2)] assms(2) show ?case by simp
next
  case (crash hr pe store_file audit_file t w hr')
  have "file_ok (hr_snapshot hr)" using crash.IH by (simp add: process_good_def process_ok_def)
  from start_good [where valid = valid, OF assms(2) this crash.hyps(3,2)] show ?case .
qed

section \<open>Restarts\<close>

lemma restart_from_snapshot:
  fixes hr :: "('w, 's) HermesProcess"
  assumes "validators_contract (px_validators px)" and "process_ok hr" and "audit_writable (pe_policy pe)" and "pe_snapshot_ok pe"
    and "orch_init (Some (pc_store_path (px_config px))) store_file (Some (pc_audit_path (px_config px))) audit_file w = Inr orc0"
  shows "\<exists>hr'. start_on px pe store_file audit_file (hr_snapshot hr) t w = (Inr (), Some hr')
    \<and> hr_inbox_ids hr' = pm_message_id ` set (hr_inbox hr')
    \<and> (hr_snapshot hr = Some (snapshot_text (hr_engine hr) (hr_inbox hr)) \<longrightarrow>
        hr_inbox hr' = hr_inbox hr \<and> hr_inbox_ids hr' = hr_inbox_ids hr
      \<and> (\<forall>k. case dict_get (orch_intents (hr_engine hr)) k of
           None \<Rightarrow> dict_get (orch_intents (hr_engine hr')) k = None
         | Some rc \<Rightarrow> if rec_state rc \<in> {EXECUTING, RECONCILIATION_REQUIRED}
             then \<exists>res. dict_get (orch_intents (hr_engine hr')) k =
               Some (rc\<lparr>rec_state := RECONCILIATION_REQUIRED, rec_reconciliation := Some res\<rparr>)
             else dict_get (orch_intents (hr_engine hr')) k = Some rc))"
proof (cases "hr_snapshot hr")
  case None
  then show ?thesis
    using assms(5) by (simp add: start_on_def process_start_def process_init_def maybe_recover_def load_snapshot_def snapshot_inbox_def Let_def)
next
  case (Some content)
  have "\<exists>(orc :: 'w Orch) received. content = snapshot_text orc received \<and> snapshot_ok orc received
      \<and> (content = snapshot_text (hr_engine hr) (hr_inbox hr) \<longrightarrow> orc = hr_engine hr \<and> received = hr_inbox hr)"
  proof (cases "content = snapshot_text (hr_engine hr) (hr_inbox hr)")
    case True
    with process_ok_snapshot [OF assms(2)] show ?thesis by blast
  next
    case False
    from assms(2) Some have "file_ok (Some content)" by (simp add: process_ok_def)
    then obtain orc :: "'w Orch" and received where "content = snapshot_text orc received" "snapshot_ok orc received"
      by (rule file_ok_contents)
    with False show ?thesis by blast
  qed
  then obtain orc :: "'w Orch" and received where content: "content = snapshot_text orc received" "snapshot_ok orc received"
    and current: "content = snapshot_text (hr_engine hr) (hr_inbox hr) \<longrightarrow> orc = hr_engine hr \<and> received = hr_inbox hr" by blast
  from restart_result [OF assms(1,3,4) content(2) assms(5), of "px_orch px" "pc_identity (px_config px)" t]
  obtain hr' where hr': "start_on px pe store_file audit_file (hr_snapshot hr) t w = (Inr (), Some hr')" "hr_inbox hr' = received"
    "hr_inbox_ids hr' = pm_message_id ` set received"
    "\<forall>k. dict_get (orch_intents orc) k = None \<longrightarrow> dict_get (orch_intents (hr_engine hr')) k = None"
    "\<forall>k rc. dict_get (orch_intents orc) k = Some rc \<longrightarrow> (\<exists>res. dict_get (orch_intents (hr_engine hr')) k = Some (restored res rc))"
    unfolding start_on_def process_start_def Some content(1) by blast
  have records: "case dict_get (orch_intents orc) k of
         None \<Rightarrow> dict_get (orch_intents (hr_engine hr')) k = None
       | Some rc \<Rightarrow> if rec_state rc \<in> {EXECUTING, RECONCILIATION_REQUIRED}
           then \<exists>res. dict_get (orch_intents (hr_engine hr')) k =
             Some (rc\<lparr>rec_state := RECONCILIATION_REQUIRED, rec_reconciliation := Some res\<rparr>)
           else dict_get (orch_intents (hr_engine hr')) k = Some rc" for k
    using hr'(4,5) by (intro restored_case) blast+
  have ids: "hr_inbox_ids hr = pm_message_id ` set (hr_inbox hr)" using assms(2) by (simp add: process_ok_def)
  show ?thesis
  proof (intro exI [of _ hr'] conjI impI allI)
    fix k
    assume now: "hr_snapshot hr = Some (snapshot_text (hr_engine hr) (hr_inbox hr))"
    then have same: "orc = hr_engine hr" "received = hr_inbox hr" using current Some by simp_all
    from hr'(2,3) ids same show "hr_inbox hr' = hr_inbox hr" "hr_inbox_ids hr' = hr_inbox_ids hr" by simp_all
    from records [of k] show "case dict_get (orch_intents (hr_engine hr)) k of
           None \<Rightarrow> dict_get (orch_intents (hr_engine hr')) k = None
         | Some rc \<Rightarrow> if rec_state rc \<in> {EXECUTING, RECONCILIATION_REQUIRED}
             then \<exists>res. dict_get (orch_intents (hr_engine hr')) k =
               Some (rc\<lparr>rec_state := RECONCILIATION_REQUIRED, rec_reconciliation := Some res\<rparr>)
             else dict_get (orch_intents (hr_engine hr')) k = Some rc"
      unfolding same .
  qed (use hr' in simp_all)
qed

text \<open>A process can always be restarted. Whatever commands a process was given, whichever of
  its snapshot writes failed, and however often it was killed between two commands before,
  starting it on the snapshot it has left succeeds, once the engine can be built on the store
  and audit files, the audit log and the snapshot can be written, and messages come from a
  transport that delivers only valid ones.\<close>

theorem process_always_restarts:
  assumes "payment_link (px_link px) valid" and "ctx_ok px" and "process_reach px valid hr"
    and "audit_writable (pe_policy pe)" and "pe_snapshot_ok pe"
    and "orch_init (Some (pc_store_path (px_config px))) store_file (Some (pc_audit_path (px_config px))) audit_file w = Inr orc0"
  shows "\<exists>hr'. start_on px pe store_file audit_file (hr_snapshot hr) t w = (Inr (), Some hr')
    \<and> hr_inbox_ids hr' = pm_message_id ` set (hr_inbox hr')"
proof -
  from process_reach_good [OF assms(1-3)] assms(2) have "process_ok hr" "validators_contract (px_validators px)"
    by (simp_all add: process_good_def ctx_ok_def)
  from restart_from_snapshot [OF this(2,1) assms(4-6)] show ?thesis by blast
qed

text \<open>C9: nothing is lost between commands. After any command line, whether its handler returned
  or raised, if the snapshot could be written, killing the process and starting it again gives
  the same inbox and the same records, except that an execution left in progress requires
  reconciliation and reconciliations carry the answer of the wallet now.\<close>

theorem nothing_lost_between_commands:
  assumes "payment_link (px_link px) valid" and "ctx_ok px" and "process_reach px valid hr0"
    and "handle_line (meets px pe0 clock) rounds line hr0 = Some (out, hr)" and "parse_command line = Inr c" and "pe_snapshot_ok pe0"
    and "audit_writable (pe_policy pe)" and "pe_snapshot_ok pe"
    and "orch_init (Some (pc_store_path (px_config px))) store_file (Some (pc_audit_path (px_config px))) audit_file w = Inr orc0"
  shows "\<exists>hr'. start_on px pe store_file audit_file (hr_snapshot hr) t w = (Inr (), Some hr')
    \<and> hr_inbox hr' = hr_inbox hr \<and> hr_inbox_ids hr' = hr_inbox_ids hr
    \<and> (\<forall>k. case dict_get (orch_intents (hr_engine hr)) k of
         None \<Rightarrow> dict_get (orch_intents (hr_engine hr')) k = None
       | Some rc \<Rightarrow> if rec_state rc \<in> {EXECUTING, RECONCILIATION_REQUIRED}
           then \<exists>res. dict_get (orch_intents (hr_engine hr')) k =
             Some (rc\<lparr>rec_state := RECONCILIATION_REQUIRED, rec_reconciliation := Some res\<rparr>)
           else dict_get (orch_intents (hr_engine hr')) k = Some rc)"
proof -
  from process_reach_good [OF assms(1,2) obey [OF assms(3,4)]] assms(2) have "process_ok hr" "validators_contract (px_validators px)"
    by (simp_all add: process_good_def ctx_ok_def)
  from restart_from_snapshot [OF this(2,1) assms(7-9)]
  obtain hr' where hr': "start_on px pe store_file audit_file (hr_snapshot hr) t w = (Inr (), Some hr')"
    and same: "hr_snapshot hr = Some (snapshot_text (hr_engine hr) (hr_inbox hr)) \<longrightarrow>
        hr_inbox hr' = hr_inbox hr \<and> hr_inbox_ids hr' = hr_inbox_ids hr
      \<and> (\<forall>k. case dict_get (orch_intents (hr_engine hr)) k of
           None \<Rightarrow> dict_get (orch_intents (hr_engine hr')) k = None
         | Some rc \<Rightarrow> if rec_state rc \<in> {EXECUTING, RECONCILIATION_REQUIRED}
             then \<exists>res. dict_get (orch_intents (hr_engine hr')) k =
               Some (rc\<lparr>rec_state := RECONCILIATION_REQUIRED, rec_reconciliation := Some res\<rparr>)
             else dict_get (orch_intents (hr_engine hr')) k = Some rc)" by blast
  have "hr_snapshot hr = Some (snapshot_text (hr_engine hr) (hr_inbox hr))"
    using assms(4-6) by (auto simp: handle_line_def snapshot_state_def split: option.split_asm)
  with hr' same show ?thesis by blast
qed

section \<open>An example\<close>

lemma demo_reach: "\<exists>hr. process_reach demo_ctx hub_valid hr"
proof -
  obtain hr where "start_on demo_ctx demo_process_env None None None demo_hub (0 :: nat) = (Inr (), Some hr)"
    by (simp add: start_on_def process_start_def process_init_def demo_files maybe_recover_def load_snapshot_def snapshot_inbox_def Let_def)
  from fresh [where valid = hub_valid, OF this demo_hub_valid] show ?thesis by blast
qed

theorem process_always_restarts_witness:
  "\<exists>hr hr'. process_reach demo_ctx hub_valid hr \<and> start_on demo_ctx demo_process_env None None (hr_snapshot hr) demo_hub (0 :: nat) = (Inr (), Some hr')"
proof -
  obtain hr where hr: "process_reach demo_ctx hub_valid hr" using demo_reach by blast
  have "orch_init (Some (pc_store_path (px_config demo_ctx))) None (Some (pc_audit_path (px_config demo_ctx))) None (0 :: nat) =
      Inr \<lparr>orch_store = empty_store (Some ''/tmp/alice/store.json'') None,
        orch_audit = \<lparr>al_path = Some ''/tmp/alice/audit.jsonl'', al_seq = 0, al_file = None\<rparr>, orch_intents = [], orch_world = 0\<rparr>"
    by (simp add: demo_files)
  from process_always_restarts [OF demo_link demo_ctx_ok hr demo_process_writable this] hr show ?thesis by blast
qed

theorem nothing_lost_between_commands_witness:
  "\<exists>hr0 hr out hr'. handle_line (meets demo_ctx demo_process_env (px_clock demo_ctx)) 0 (command_to_json (bare ''status'')) hr0 = Some (out, hr)
    \<and> start_on demo_ctx demo_process_env None None (hr_snapshot hr) demo_hub (0 :: nat) = (Inr (), Some hr') \<and> hr_inbox hr' = hr_inbox hr"
proof -
  obtain hr0 where hr0: "process_reach demo_ctx hub_valid hr0" using demo_reach by blast
  obtain out hr where line: "handle_line (meets demo_ctx demo_process_env (px_clock demo_ctx)) 0 (command_to_json (bare ''status'')) hr0 = Some (out, hr)"
    using status_answers by blast
  have c: "parse_command (command_to_json (bare ''status'')) = Inr (bare ''status'')" by (simp add: parse_bare known_commands_def)
  have "orch_init (Some (pc_store_path (px_config demo_ctx))) None (Some (pc_audit_path (px_config demo_ctx))) None (0 :: nat) =
      Inr \<lparr>orch_store = empty_store (Some ''/tmp/alice/store.json'') None,
        orch_audit = \<lparr>al_path = Some ''/tmp/alice/audit.jsonl'', al_seq = 0, al_file = None\<rparr>, orch_intents = [], orch_world = 0\<rparr>"
    by (simp add: demo_files)
  from nothing_lost_between_commands [OF demo_link demo_ctx_ok hr0 line c demo_process_writable(2) demo_process_writable this, of demo_hub] line
  show ?thesis by blast
qed

end
