(* ===== verification/Process_Faults.thy ===== *)
theory Process_Faults
  imports Process_Lifetime
begin

text \<open>
  A failure a process does not survive: a snapshot write that fails lets \<open>recover\<close> roll the
  process back to an earlier state.
\<close>

section \<open>A snapshot that could not be written\<close>

lemma execute_parts_others:
  assumes "j \<noteq> k"
  shows "dict_get (orch_intents (snd (execute_failed env k rc e orc))) j = dict_get (orch_intents orc) j"
    "dict_get (orch_intents (snd (execute_settled env k rc er orc))) j = dict_get (orch_intents orc) j"
  using assms by (simp_all add: execute_failed_def execute_settled_def Let_def frame_simps split: exn.split prod.split sum.split)

lemma execute_others:
  assumes "j \<noteq> k" and "find_by_state APPROVED orc = Inr (k, rc)"
  shows "dict_get (orch_intents (snd (execute cfg env orc))) j = dict_get (orch_intents orc) j"
proof -
  have audit: "orch_intents orc2 = orch_intents orc1" if "audited env ev i kw out orc1 = (out', orc2)" for ev i kw out out' orc1 and orc2 :: "'a Orch"
    using audited_frames(2) [of env ev i kw out orc1] that by simp
  show ?thesis
    using assms by (auto simp: execute_def Let_def execute_parts_others dest!: audit split: option.split prod.split sum.split)
qed

lemma execute_line:
  "handle_line px rounds (command_to_json (bare ''execute'')) hr = Some (out, hr') \<Longrightarrow>
    hr_engine hr' = snd (execute (px_orch px) (pe_policy (px_env px)) (hr_engine hr))
    \<and> (\<not> pe_snapshot_ok (px_env px) \<longrightarrow> hr_snapshot hr' = hr_snapshot hr \<and> out = Inl (ProcessRaised (OSError ''snapshot write failed'')))
    \<and> hr_inbox hr' = hr_inbox hr \<and> hr_inbox_ids hr' = hr_inbox_ids hr"
  using handle_execute_snd [of px "[]" hr]
  by (cases "handle_execute px [] hr") (auto simp: handle_line_def snapshot_state_def split: if_split_asm)

lemma rollback:
  assumes "validators_contract va" and "audit_writable (pe_policy pe)" and "pe_snapshot_ok pe"
    and "hr_snapshot hr = Some (snapshot_text orc received)" and "snapshot_ok orc received" and "inbox_ok (hr_inbox hr)"
    and "hr_inbox_ids hr = pm_message_id ` set (hr_inbox hr)" and "dict_wf (orch_intents (hr_engine hr))"
    and "\<forall>j. dict_get (orch_intents orc) j = None \<longrightarrow> dict_get (orch_intents (hr_engine hr)) j = None"
    and "\<forall>j rc. dict_get (orch_intents orc) j = Some rc \<longrightarrow> rec_state rc \<notin> {EXECUTING, RECONCILIATION_REQUIRED}"
  shows "\<exists>hr'. maybe_recover va cfg pe True hr = (Inr (), hr')
    \<and> (\<forall>j. dict_get (orch_intents (hr_engine hr')) j = dict_get (orch_intents orc) j)
    \<and> dict_wf (orch_intents (hr_engine hr')) \<and> orch_world (hr_engine hr') = orch_world (hr_engine hr)"
proof -
  let ?rs = "sort_key fst (orch_intents orc)"
  from assms(5) have wf: "dict_wf (orch_intents orc)" by (simp add: snapshot_ok_def)
  from snapshot_decodes [OF wf, of received] obtain snapshot where snapshot: "load_snapshot (hr_snapshot hr) = Inr (JObj snapshot)"
    "dict_get snapshot ''records'' = Some (JObj (written ?rs))" "snapshot_inbox snapshot = map (canon default_sorted) (map inbox_json received)"
    unfolding assms(4) by blast
  have rs: "\<forall>(k, rc) \<in> set ?rs. restartable rc" "dict_wf ?rs" "set ?rs = set (orch_intents orc)"
    using assms(5) wf by (simp_all add: snapshot_ok_def distinct_map)
  from recover_written [OF assms(1,2) rs(1,2) assms(8), of cfg] obtain orc' where
    run: "recover_records va cfg (pe_policy pe) True (written ?rs) (hr_engine hr) = (Inr (), orc')"
    and other: "\<forall>j. j \<notin> fst ` set ?rs \<longrightarrow> dict_get (orch_intents orc') j = dict_get (orch_intents (hr_engine hr)) j"
    and back_to: "\<forall>(j, rc) \<in> set ?rs. \<exists>res. dict_get (orch_intents orc') j = Some (restored res rc)"
    and wf': "dict_wf (orch_intents orc')"
    and world: "(\<forall>(k, rc) \<in> set ?rs. rec_state rc \<notin> {EXECUTING, RECONCILIATION_REQUIRED}) \<longrightarrow> orch_world orc' = orch_world (hr_engine hr)"
    by blast
  have calm: "\<forall>(k, rc) \<in> set ?rs. rec_state rc \<notin> {EXECUTING, RECONCILIATION_REQUIRED}"
    using assms(10) wf rs(3) by auto
  have same: "dict_get (orch_intents orc') j = dict_get (orch_intents orc) j" for j
  proof (cases "dict_get (orch_intents orc) j")
    case None
    then have "j \<notin> fst ` set ?rs" using rs(3) by (simp add: map_of_eq_None_iff)
    with other None assms(9) show ?thesis by simp
  next
    case (Some rc)
    then have "(j, rc) \<in> set ?rs" using rs(3) by (simp add: map_of_SomeD)
    with back_to obtain res where "dict_get (orch_intents orc') j = Some (restored res rc)" by blast
    with Some assms(10) show ?thesis by (auto simp: restored_def)
  qed
  obtain box ids where inbox: "recover_inbox va (snapshot_inbox snapshot) (hr_inbox hr) (hr_inbox_ids hr) = (Inr (), box, ids)"
    using recover_inbox_ok [OF assms(1), of received "hr_inbox hr"] assms(5-7) snapshot(3) by (auto simp: snapshot_ok_def)
  obtain hr' where "maybe_recover va cfg pe True hr = (Inr (), hr')" "hr_engine hr' = orc'"
    using snapshot run inbox assms(3)
    by (cases "written ?rs = []") (auto simp: maybe_recover_def Let_def set_engine_def snapshot_state_def)
  with same wf' world calm show ?thesis by auto
qed

text \<open>C6: a snapshot that could not be written undoes a payment. Let the snapshot on disk show the only
  approved intent and let \<open>execute\<close> pay it while the disk is full: the command raises, although
  the adapter was called. The operator's \<open>recover\<close> then reads the old snapshot over the records
  in memory, the intent is approved again, and the next \<open>execute\<close> calls the adapter once more
  with the same payload.\<close>

theorem failed_snapshot_dispatches_twice:
  assumes "validators_contract (px_validators px)" and "process_ok hr" and "hr_snapshot hr = Some (snapshot_text (hr_engine hr) (hr_inbox hr))"
    and "audit_writable (pe_policy full)" and "\<not> pe_snapshot_ok full" and "audit_writable (pe_policy pe)" and "pe_snapshot_ok pe"
    and "dict_get (orch_intents (hr_engine hr)) k = Some rc" and "rec_state rc = APPROVED" and "rec_prepared rc = Some p"
    and "\<forall>k' rc'. dict_get (orch_intents (hr_engine hr)) k' = Some rc' \<longrightarrow>
      rec_state rc' \<notin> {EXECUTING, RECONCILIATION_REQUIRED} \<and> (rec_state rc' = APPROVED \<longrightarrow> k' = k)"
  shows "\<exists>hr1 hr2 hr3 answer out.
      handle_line (meets px full c) r1 (command_to_json (bare ''execute'')) hr =
        Some (Inl (ProcessRaised (OSError ''snapshot write failed'')), hr1)
    \<and> handle_line (meets px pe c) (Suc r2) (command_to_json (bare ''recover'')) hr1 = Some (Inr answer, hr2)
    \<and> dict_get (orch_intents (hr_engine hr2)) k = Some rc
    \<and> handle_line (meets px pe c) r3 (command_to_json (bare ''execute'')) hr2 = Some (out, hr3)
    \<and> orch_world (hr_engine hr3) =
        snd (sa_execute (cf_adapter (px_orch px)) (pp_prepared_payload p) (pp_prepared_hash p)
          (snd (sa_execute (cf_adapter (px_orch px)) (pp_prepared_payload p) (pp_prepared_hash p) (orch_world (hr_engine hr)))))"
proof -
  let ?pay = "\<lambda>w. snd (sa_execute (cf_adapter (px_orch px)) (pp_prepared_payload p) (pp_prepared_hash p) w)"
  note ok = assms(2) [unfolded process_ok_def]
  have wf: "dict_wf (orch_intents (hr_engine hr))" using ok by (simp add: records_ok_def)
  have only: "\<forall>k' rc'. dict_get (orch_intents (hr_engine hr)) k' = Some rc' \<longrightarrow> rec_state rc' = APPROVED \<longrightarrow> k' = k"
    using assms(11) by blast
  from find_only [OF wf assms(8,9) only] have found: "find_by_state APPROVED (hr_engine hr) = Inr (k, rc)" .
  obtain out1 hr1 where line1: "handle_line (meets px full c) r1 (command_to_json (bare ''execute'')) hr = Some (out1, hr1)"
    using execute_answers by blast
  note first = execute_line [OF line1, simplified]
  have paid: "orch_world (hr_engine hr1) = ?pay (orch_world (hr_engine hr))"
    using first execute_dispatches [OF found assms(9,10,4), of "px_orch px"] by simp
  have ok1: "records_ok (hr_engine hr1)" using first ok execute_ok [of "hr_engine hr"] by simp
  then have wf1: "dict_wf (orch_intents (hr_engine hr1))" by (simp add: records_ok_def)
  have kept: "\<forall>j. dict_get (orch_intents (hr_engine hr)) j = None \<longrightarrow> dict_get (orch_intents (hr_engine hr1)) j = None"
    using first execute_others [OF _ found] assms(8) by (metis option.distinct(1))
  have calm: "\<forall>j rc. dict_get (orch_intents (hr_engine hr)) j = Some rc \<longrightarrow> rec_state rc \<notin> {EXECUTING, RECONCILIATION_REQUIRED}"
    using assms(11) by blast
  have file1: "hr_snapshot hr1 = Some (snapshot_text (hr_engine hr) (hr_inbox hr))" using first assms(3,5) by simp
  have box1: "inbox_ok (hr_inbox hr1)" "hr_inbox_ids hr1 = pm_message_id ` set (hr_inbox hr1)" using first ok by simp_all
  from rollback [OF assms(1,6,7) file1 process_ok_snapshot [OF assms(2)] box1 wf1 kept calm, of "px_orch px"]
  obtain hr2 where rec: "maybe_recover (px_validators px) (px_orch px) pe True hr1 = (Inr (), hr2)"
    and same: "\<forall>j. dict_get (orch_intents (hr_engine hr2)) j = dict_get (orch_intents (hr_engine hr)) j"
    and wf2: "dict_wf (orch_intents (hr_engine hr2))" and world2: "orch_world (hr_engine hr2) = orch_world (hr_engine hr1)" by blast
  have "rec_state rc' \<noteq> RECONCILIATION_REQUIRED" if "(j, rc') \<in> set (orch_intents (hr_engine hr2))" for j rc'
    using map_of_is_SomeI [OF wf2 that] same calm by auto
  then have "\<not> still_pending (hr_engine hr2)" by (auto simp: still_pending_def)
  with rec have "recover_loop (meets px pe c) (FFin False 0 0) 0 (Suc r2) hr1 = Some (Inr 1, hr2)" by simp
  then obtain answer where line2: "handle_line (meets px pe c) (Suc r2) (command_to_json (bare ''recover'')) hr1 =
      Some (Inr answer, hr2\<lparr>hr_snapshot := Some (snapshot_text (hr_engine hr2) (hr_inbox hr2))\<rparr>)"
    using assms(7) by (simp add: handle_line_def handle_recover_def recover_defaults snapshot_state_def)
  let ?hr2 = "hr2\<lparr>hr_snapshot := Some (snapshot_text (hr_engine hr2) (hr_inbox hr2))\<rparr>"
  have here: "dict_get (orch_intents (hr_engine ?hr2)) k = Some rc" using same assms(8) by simp
  have "\<forall>k' rc'. dict_get (orch_intents (hr_engine ?hr2)) k' = Some rc' \<longrightarrow> rec_state rc' = APPROVED \<longrightarrow> k' = k"
    using same only by simp
  from find_only [OF _ here assms(9) this] wf2 have found2: "find_by_state APPROVED (hr_engine ?hr2) = Inr (k, rc)" by simp
  obtain out3 hr3 where line3: "handle_line (meets px pe c) r3 (command_to_json (bare ''execute'')) ?hr2 = Some (out3, hr3)"
    using execute_answers by blast
  have "orch_world (hr_engine hr3) = ?pay (?pay (orch_world (hr_engine hr)))"
    using execute_line [OF line3] execute_dispatches [OF found2 assms(9,10,6), of "px_orch px"] world2 paid by simp
  with line1 line2 line3 here first assms(5) show ?thesis by auto
qed

theorem failed_snapshot_dispatches_twice_witness:
  "\<exists>hr1 hr2 hr3 answer out.
      handle_line (meets demo_ctx (demo_process_env\<lparr>pe_snapshot_ok := False\<rparr>) (px_clock demo_ctx)) 1 (command_to_json (bare ''execute'')) (demo_process APPROVED) =
        Some (Inl (ProcessRaised (OSError ''snapshot write failed'')), hr1)
    \<and> handle_line (meets demo_ctx demo_process_env (px_clock demo_ctx)) 1 (command_to_json (bare ''recover'')) hr1 = Some (Inr answer, hr2)
    \<and> handle_line (meets demo_ctx demo_process_env (px_clock demo_ctx)) 1 (command_to_json (bare ''execute'')) hr2 = Some (out, hr3)
    \<and> orch_world (hr_engine hr3) = Suc (Suc 0)"
proof -
  let ?p = "\<lparr>pp_fee_sat = 1, pp_prepared_hash = ''h1'', pp_rail = LIGHTNING, pp_prepared_payload = ''tx''\<rparr>"
  have va: "validators_contract (px_validators demo_ctx)" by (simp add: strict_validators_contract)
  have full: "audit_writable (pe_policy (demo_process_env\<lparr>pe_snapshot_ok := False\<rparr>))" "\<not> pe_snapshot_ok (demo_process_env\<lparr>pe_snapshot_ok := False\<rparr>)"
    using demo_process_writable(1) by simp_all
  have written_file: "hr_snapshot (demo_process APPROVED) = Some (snapshot_text (hr_engine (demo_process APPROVED)) (hr_inbox (demo_process APPROVED)))" by simp
  have rc: "dict_get (orch_intents (hr_engine (demo_process APPROVED))) ''i1'' = Some (demo_record\<lparr>rec_state := APPROVED\<rparr>)"
    "rec_state (demo_record\<lparr>rec_state := APPROVED\<rparr>) = APPROVED" "rec_prepared (demo_record\<lparr>rec_state := APPROVED\<rparr>) = Some ?p"
    by simp_all (simp add: demo_record_def)
  have only: "\<forall>k' rc'. dict_get (orch_intents (hr_engine (demo_process APPROVED))) k' = Some rc' \<longrightarrow>
      rec_state rc' \<notin> {EXECUTING, RECONCILIATION_REQUIRED} \<and> (rec_state rc' = APPROVED \<longrightarrow> k' = ''i1'')"
    by (simp add: demo_at_def)
  have pay: "snd (sa_execute (cf_adapter (px_orch demo_ctx)) payload h n) = Suc n" for payload h n
    by (simp add: demo_config_def demo_adapter_def)
  have zero: "orch_world (hr_engine (demo_process APPROVED)) = 0" by (simp add: demo_at_def demo_start_def)
  show ?thesis
    using failed_snapshot_dispatches_twice [OF va demo_process_ok written_file full demo_process_writable rc only,
        where c = "px_clock demo_ctx" and ?r1.0 = 1 and ?r2.0 = 0 and ?r3.0 = 1]
    unfolding pay zero One_nat_def by blast
qed

end
