(* ===== verification/Process_Engine.thy ===== *)
theory Process_Engine
  imports Process_Demo
begin

text \<open>
  Every command handler reaches the engine through its public methods only. The locale
  \<open>engine_relation\<close> turns a relation that each method respects into one that every command
  respects; it is interpreted on the outside world, on the steps of the specification and on
  the engine's files. Commands that are \<open>barred\<close> are left out of the contract.
\<close>

section \<open>The contract\<close>

locale engine_relation =
  fixes cfg :: "'w orch_config"
    and env :: policy_env
    and R :: "'w Orch \<Rightarrow> 'w Orch \<Rightarrow> bool"
    and barred :: "string set"
  assumes R_refl: "R orc orc"
    and R_trans: "R orc orc' \<Longrightarrow> R orc' orc'' \<Longrightarrow> R orc orc''"
    and R_submit: "R orc (snd (submit cfg env i orc))"
    and R_receive_quote: "R orc (snd (receive_quote env q orc))"
    and R_prepare: "R orc (snd (prepare cfg env orc))"
    and R_approve: "''approve'' \<notin> barred \<Longrightarrow> R orc (snd (approve env a orc))"
    and R_execute: "''execute'' \<notin> barred \<Longrightarrow> R orc (snd (execute cfg env orc))"
    and R_receive_receipt: "R orc (snd (receive_receipt cfg env r orc))"
    and R_verify: "R orc (orc\<lparr>orch_world := snd (sa_verify_receipt (cf_adapter cfg) ref amount (orch_world orc))\<rparr>)"

text \<open>Recovery writes records directly, so it needs more of the relation.\<close>

locale recovery_relation = engine_relation +
  assumes R_demote: "R orc (snd (demote env k rc orc))"
    and R_put: "R orc (put_record k rc orc)"
    and R_reconcile: "R orc (snd (reconcile_settlement cfg env k orc))"

section \<open>Engines inside processes and peers\<close>

lemma step_engines [simp]:
  "hr_engine (snd (on_engine ecall hr)) = snd ecall" "hr_engine (snd (on_peer pcall hr)) = hp_orchestrator (snd pcall)"
  "orch_world (hr_engine (snd (on_world wcall hr))) = snd wcall" "snd (state_reply k f hr) = hr"
  by (auto simp: on_engine_def on_peer_def on_world_def state_reply_def split: prod.split sum.split)

lemma collect_new_engine: "collect_new pms hr = (new, hr') \<Longrightarrow> hr_engine hr' = hr_engine hr"
  by (induction pms arbitrary: hr new) (auto split: prod.split_asm if_split_asm)

lemma peer_engines:
  "hp_orchestrator (snd (peer_send link m peer)) = hp_orchestrator peer"
  "hp_orchestrator (snd (peer_receive link l peer)) = hp_orchestrator peer"
  by (simp_all add: peer_send_def peer_receive_def split: option.split)

lemma on_world_engine: "hr_engine (snd (on_world call hr)) = (hr_engine hr)\<lparr>orch_world := snd call\<rparr>"
  by (simp add: on_world_def split: prod.split)

lemma handle_line_run:
  assumes "handle_line px rounds line hr = Some (out, hr')" and "parse_command line = Inr c"
  shows "\<exists>result hr1. run_command px rounds c hr = Some (result, hr1) \<and> hr_engine hr' = hr_engine hr1"
proof -
  from assms obtain result hr1 where run: "run_command px rounds c hr = Some (result, hr1)"
    by (auto simp: handle_line_def split: option.split_asm)
  with assms have "hr_engine hr' = hr_engine hr1"
    by (auto simp: handle_line_def snapshot_state_def split: if_split_asm)
  with run show ?thesis by blast
qed

context engine_relation
begin

abbreviation moves :: "('w, 's) HermesProcess \<Rightarrow> ('w, 's) HermesProcess \<Rightarrow> bool" where
  "moves hr hr' \<equiv> R (hr_engine hr) (hr_engine hr')"

lemma moves_andthen:
  "moves hr (snd call) \<Longrightarrow> (\<And>v. fst call = Inr v \<Longrightarrow> moves hr (snd (f v (snd call)))) \<Longrightarrow> moves hr (snd (andthen call f))"
  by (simp add: snd_andthen split: sum.split)

lemma moves_checked:
  "(\<And>v. x = Inr v \<Longrightarrow> moves hr (snd (f v hr))) \<Longrightarrow> moves hr (snd (andthen (x, hr) f))"
  by (rule moves_andthen) (simp_all add: R_refl)

lemma peer_moves:
  "R (hp_orchestrator peer) (hp_orchestrator (snd (submit_intent cfg env link i peer)))"
  "R (hp_orchestrator peer) (hp_orchestrator (snd (accept_intent cfg env i peer)))"
  "R (hp_orchestrator peer) (hp_orchestrator (snd (accept_quote env q peer)))"
  "R (hp_orchestrator peer) (hp_orchestrator (snd (accept_receipt cfg env r peer)))"
proof -
  show "R (hp_orchestrator peer) (hp_orchestrator (snd (submit_intent cfg env link i peer)))"
  proof (cases "require_local_author peer (MIntent i)")
    case None
    obtain out peer1 where call: "via_orchestrator (submit cfg env i (hp_orchestrator peer)) peer = (out, peer1)" by force
    then have "hp_orchestrator peer1 = snd (submit cfg env i (hp_orchestrator peer))"
      using via_orchestrator_orch [of "submit cfg env i (hp_orchestrator peer)" peer] by simp
    with None call R_submit [of "hp_orchestrator peer" i] show ?thesis
      by (cases out) (simp_all add: submit_intent_def)
  qed (simp add: submit_intent_def R_refl)
qed (use R_submit R_receive_quote R_receive_receipt in
    \<open>auto simp: accept_intent_def accept_quote_def accept_receipt_def R_refl split: option.split\<close>)

lemmas engine_moves = peer_engines peer_moves R_receive_quote R_approve R_prepare R_execute R_refl

lemma handlers_move:
  assumes "px_orch px = cfg" and "pe_policy (px_env px) = env"
  shows "moves hr (snd (handle_receive px args hr))" "moves hr (snd (handle_submit_intent px args hr))"
    "moves hr (snd (handle_accept_intent px args hr))" "moves hr (snd (handle_publish_quote px args hr))"
    "moves hr (snd (handle_accept_quote px args hr))" "moves hr (snd (handle_submit_quote_local px args hr))"
    "moves hr (snd (handle_prepare px args hr))" "''approve'' \<notin> barred \<Longrightarrow> moves hr (snd (handle_approve px args hr))"
    "''execute'' \<notin> barred \<Longrightarrow> moves hr (snd (handle_execute px args hr))" "moves hr (snd (handle_publish_receipt px args hr))"
    "moves hr (snd (handle_verify_publish_receipt px args hr))" "moves hr (snd (handle_accept_receipt px args hr))"
proof -
  show "moves hr (snd (handle_receive px args hr))"
    unfolding handle_receive_def
    by (intro moves_andthen) (auto simp: engine_moves snd_andthen split: prod.split sum.split dest!: collect_new_engine)
  show "moves hr (snd (handle_submit_intent px args hr))" "moves hr (snd (handle_publish_quote px args hr))"
    "moves hr (snd (handle_submit_quote_local px args hr))" "moves hr (snd (handle_prepare px args hr))"
    "''execute'' \<notin> barred \<Longrightarrow> moves hr (snd (handle_execute px args hr))" "moves hr (snd (handle_publish_receipt px args hr))"
    unfolding handle_submit_intent_def handle_publish_quote_def handle_submit_quote_local_def handle_prepare_def
      handle_execute_def handle_publish_receipt_def publish_quote_def publish_receipt_def
    by (intro moves_andthen; simp add: engine_moves assms)+
  show "moves hr (snd (handle_accept_intent px args hr))" "moves hr (snd (handle_accept_quote px args hr))"
    "moves hr (snd (handle_accept_receipt px args hr))"
    unfolding handle_accept_intent_def handle_accept_quote_def handle_accept_receipt_def
    by (intro moves_checked; simp add: engine_moves assms snd_andthen split: DomainMessage.split sum.split)+
  show "''approve'' \<notin> barred \<Longrightarrow> moves hr (snd (handle_approve px args hr))"
    by (simp add: handle_approve_def Let_def engine_moves assms snd_andthen split: option.split sum.split)
  show "moves hr (snd (handle_verify_publish_receipt px args hr))"
    unfolding handle_verify_publish_receipt_def publish_receipt_def Let_def
    by (intro moves_checked) (auto simp: engine_moves assms on_world_engine R_verify snd_andthen split: prod.split sum.split)
qed

lemma command_moves:
  assumes "px_orch px = cfg" and "pe_policy (px_env px) = env" and "jc_name c \<noteq> ''recover''" and "jc_name c \<notin> barred"
    and "run_command px rounds c hr = Some (result, hr')"
  shows "moves hr hr'"
  using assms(3-5) handlers_move [OF assms(1,2), of hr "jc_arguments c"]
  unfolding run_command_def Let_def handle_status_def by (auto simp: R_refl split: if_split_asm)

lemma line_moves:
  assumes "px_orch px = cfg" and "pe_policy (px_env px) = env" and "handle_line px rounds line hr = Some (out, hr')"
    and "\<forall>c. parse_command line = Inr c \<longrightarrow> jc_name c \<noteq> ''recover'' \<and> jc_name c \<notin> barred"
  shows "moves hr hr'"
proof (cases "parse_command line")
  case (Inl e)
  with assms(3) show ?thesis by (simp add: handle_line_def R_refl)
next
  case (Inr c)
  from handle_line_run [OF assms(3) Inr] obtain result hr1 where
    "run_command px rounds c hr = Some (result, hr1)" "hr_engine hr' = hr_engine hr1" by blast
  with command_moves [OF assms(1,2), of c] assms(4) Inr show ?thesis by metis
qed

end

context recovery_relation
begin

lemma recover_records_move: "R orc (snd (recover_records va cfg env reconcile records orc))"
proof (induction records arbitrary: orc)
  case Nil
  then show ?case by (simp add: R_refl)
next
  case (Cons item records)
  obtain k v where item: "item = (k, v)" by force
  show ?case
  proof (cases "read_record va k v")
    case (Inr found)
    show ?thesis
    proof (cases found)
      case (Some rc)
      obtain out orc1 where d: "demote env k rc orc = (out, orc1)" by force
      with R_demote [of orc k rc] have r1: "R orc orc1" by simp
      have put: "R orc (put_record k rc' orc1)" for rc' using R_trans [OF r1 R_put] .
      have rest: "R orc orc' \<Longrightarrow> R orc (snd (recover_records va cfg env reconcile records orc'))" for orc'
        using R_trans Cons.IH by blast
      have rec: "R orc (snd (reconcile_settlement cfg env k (put_record k rc' orc1)))" for rc'
        using R_trans [OF put R_reconcile] .
      show ?thesis using Inr Some d r1 put rest rec
        by (auto simp: item Let_def split: sum.split prod.split) (metis snd_conv)+
    qed (use Inr Cons item in simp)
  qed (simp add: item R_refl)
qed

lemma maybe_recover_moves: "pe_policy pe = env \<Longrightarrow> moves hr (snd (maybe_recover va cfg pe reconcile hr))"
  using recover_records_move
  by (auto simp: maybe_recover_def snapshot_state_def Let_def R_refl split: sum.split pyjson.split option.split prod.split)
    (metis snd_conv)+

lemma recover_loop_moves:
  assumes "px_orch px = cfg" and "pe_policy (px_env px) = env"
  shows "recover_loop px max_wait n rounds hr = Some (out, hr') \<Longrightarrow> moves hr hr'"
proof (induction rounds arbitrary: n hr)
  case (Suc rounds)
  obtain res hr1 where m: "maybe_recover (px_validators px) (px_orch px) (px_env px) True hr = (res, hr1)" by force
  with maybe_recover_moves [OF assms(2), of hr "px_validators px" True] assms(1) have "moves hr hr1" by simp
  with Suc m R_trans show ?case by (fastforce split: sum.split_asm if_split_asm)
qed simp

lemma all_commands_move:
  assumes "px_orch px = cfg" and "pe_policy (px_env px) = env" and "jc_name c \<notin> barred"
    and "run_command px rounds c hr = Some (result, hr')"
  shows "moves hr hr'"
proof (cases "jc_name c = ''recover''")
  case True
  with assms(4) obtain args where "handle_recover px rounds args hr = Some (result, hr')"
    by (auto simp: run_command_def Let_def)
  then show ?thesis using recover_loop_moves [OF assms(1,2)]
    by (fastforce simp: handle_recover_def andthen_def R_refl split: sum.split_asm option.split_asm prod.split_asm)
qed (use command_moves [OF assms(1,2) _ assms(3,4)] in blast)

lemma all_lines_move:
  assumes "px_orch px = cfg" and "pe_policy (px_env px) = env" and "handle_line px rounds line hr = Some (out, hr')"
    and "\<forall>c. parse_command line = Inr c \<longrightarrow> jc_name c \<notin> barred"
  shows "moves hr hr'"
proof (cases "parse_command line")
  case (Inl e)
  with assms(3) show ?thesis by (simp add: handle_line_def R_refl)
next
  case (Inr c)
  from handle_line_run [OF assms(3) Inr] obtain result hr1 where
    "run_command px rounds c hr = Some (result, hr1)" "hr_engine hr' = hr_engine hr1" by blast
  with all_commands_move [OF assms(1,2), of c] assms(4) Inr show ?thesis by metis
qed

end

end
