(* ===== verification/Process_Behaviour.thy ===== *)
theory Process_Behaviour
  imports Process_Engine
begin

text \<open>
  What single commands do: which of them reach the wallet, which approvals a prefix of the
  prepared hash gives, and how long \<open>recover\<close> waits.
\<close>

section \<open>The wallet\<close>

text \<open>An observation of the outside world that only a dispatch can change.\<close>

definition adapter_quiet :: "('w \<Rightarrow> 'm) \<Rightarrow> 'w SettlementAdapter \<Rightarrow> bool" where
  "adapter_quiet \<mu> ad \<longleftrightarrow> (\<forall>i a f w. \<mu> (snd (sa_prepare ad i a f w)) = \<mu> w) \<and> (\<forall>r a w. \<mu> (snd (sa_verify_receipt ad r a w)) = \<mu> w)
     \<and> (\<forall>r a w. \<mu> (snd (sa_verify_sender_settlement ad r a w)) = \<mu> w)
     \<and> (\<forall>p h a w. \<mu> (snd (sa_reconcile_settlement ad p h a w)) = \<mu> w)"

lemma adapter_quietD:
  assumes "adapter_quiet \<mu> ad"
  shows "sa_prepare ad i a f w = (out, w') \<Longrightarrow> \<mu> w' = \<mu> w" "sa_verify_receipt ad r a w = (out2, w') \<Longrightarrow> \<mu> w' = \<mu> w"
    "sa_verify_sender_settlement ad r a w = (out2, w') \<Longrightarrow> \<mu> w' = \<mu> w"
    "sa_reconcile_settlement ad p h a w = (out3, w') \<Longrightarrow> \<mu> w' = \<mu> w"
  using assms unfolding adapter_quiet_def by (metis snd_conv)+

text \<open>The observation is a relation of the engine that every command but \<open>execute\<close> respects.\<close>

definition unseen :: "('w \<Rightarrow> 'm) \<Rightarrow> 'w orch_config \<Rightarrow> 'w Orch \<Rightarrow> 'w Orch \<Rightarrow> bool" where
  "unseen \<mu> cfg orc orc' \<longleftrightarrow> (adapter_quiet \<mu> (cf_adapter cfg) \<longrightarrow> \<mu> (orch_world orc') = \<mu> (orch_world orc))"

lemma engine_worlds:
  "orch_world (snd (submit cfg env i orc)) = orch_world orc" "orch_world (snd (receive_quote env q orc)) = orch_world orc"
  "orch_world (snd (approve env a orc)) = orch_world orc" "orch_world (snd (demote env k rc orc)) = orch_world orc"
  by (simp_all add: submit_def receive_quote_def approve_def demote_def Let_def frame_simps split: option.split prod.split sum.split)

interpretation quiet: recovery_relation cfg env "unseen \<mu> cfg" "{''execute''}" for cfg :: "'w orch_config" and env \<mu>
proof
  fix orc :: "'w Orch" and i q a r ref amount k rc
  show "unseen \<mu> cfg orc (snd (prepare cfg env orc))"
    by (auto simp: unseen_def prepare_def Let_def frame_simps dest: adapter_quietD(1) split: option.split prod.split sum.split)
  show "unseen \<mu> cfg orc (snd (receive_receipt cfg env r orc))"
    by (auto simp: unseen_def receive_receipt_def Let_def frame_simps dest: adapter_quietD(3) split: prod.split sum.split)
  show "unseen \<mu> cfg orc (snd (reconcile_settlement cfg env k orc))"
    by (auto simp: unseen_def reconcile_settlement_def Let_def frame_simps dest: adapter_quietD(4) split: option.split prod.split sum.split)
  show "unseen \<mu> cfg orc (orc\<lparr>orch_world := snd (sa_verify_receipt (cf_adapter cfg) ref amount (orch_world orc))\<rparr>)"
    by (simp add: unseen_def adapter_quiet_def)
qed (simp_all add: unseen_def engine_worlds)

lemma execute_world:
  "orch_world (snd (execute cfg env orc)) = orch_world orc \<or>
   (\<exists>k rc p. find_by_state APPROVED orc = Inr (k, rc) \<and> rec_prepared rc = Some p
      \<and> orch_world (snd (execute cfg env orc)) = snd (sa_execute (cf_adapter cfg) (pp_prepared_payload p) (pp_prepared_hash p) (orch_world orc)))"
proof -
  have failed: "orch_world (snd (execute_failed env k rc e orc')) = orch_world orc'" for k rc e and orc' :: "'a Orch"
    by (simp add: execute_failed_def Let_def frame_simps split: exn.split)
  have settled: "orch_world (snd (execute_settled env k rc er orc')) = orch_world orc'" for k rc er and orc' :: "'a Orch"
    by (simp add: execute_settled_def Let_def frame_simps split: prod.split sum.split)
  have audit: "orch_world orc2 = orch_world orc1" if "audited env ev i kw out orc1 = (out', orc2)" for ev i kw out out' orc1 and orc2 :: "'a Orch"
    using audited_frames(3) [of env ev i kw out orc1] that by simp
  show ?thesis
    by (auto simp: execute_def Let_def failed settled dest!: audit split: sum.split option.split prod.split)
qed

lemma handle_execute_engine: "hr_engine (snd (handle_execute px args hr)) = snd (execute (px_orch px) (pe_policy (px_env px)) (hr_engine hr))"
  by (simp add: handle_execute_def snd_andthen split: sum.split)

text \<open>C5: only \<open>execute\<close> pays. Whatever line a process is given, and whatever the wallet, the transport
  and the files answer, an observation of the outside world that queries and previews do not
  change, the number of dispatched payments for one, is unchanged after it, unless the line is
  the command \<open>execute\<close> and an approved intent was tracked; then it changes by at most one
  dispatch of that intent's prepared payload.\<close>

theorem only_execute_pays:
  assumes "adapter_quiet \<mu> (cf_adapter (px_orch px))" and "handle_line px rounds line hr = Some (out, hr')"
  shows "\<mu> (orch_world (hr_engine hr')) = \<mu> (orch_world (hr_engine hr))
    \<or> (\<exists>c k rc p. parse_command line = Inr c \<and> jc_name c = ''execute''
        \<and> find_by_state APPROVED (hr_engine hr) = Inr (k, rc) \<and> rec_prepared rc = Some p
        \<and> orch_world (hr_engine hr') =
            snd (sa_execute (cf_adapter (px_orch px)) (pp_prepared_payload p) (pp_prepared_hash p) (orch_world (hr_engine hr))))"
proof (cases "parse_command line")
  case (Inl e)
  with assms(2) show ?thesis by (simp add: handle_line_def)
next
  case (Inr c)
  with assms(2) obtain result hr1 where run: "run_command px rounds c hr = Some (result, hr1)"
    by (auto simp: handle_line_def split: option.split_asm)
  with assms(2) Inr have same: "hr_engine hr' = hr_engine hr1"
    by (auto simp: handle_line_def snapshot_state_def split: if_split_asm)
  show ?thesis
  proof (cases "jc_name c = ''execute''")
    case False
    from quiet.all_commands_move [OF refl refl _ run, where \<mu> = \<mu>] False assms(1) same show ?thesis by (simp add: unseen_def)
  next
    case True
    with run have "snd (handle_execute px (jc_arguments c) hr) = hr1" by (simp add: run_command_def)
    with same handle_execute_engine [of px "jc_arguments c" hr]
    have engine: "hr_engine hr' = snd (execute (px_orch px) (pe_policy (px_env px)) (hr_engine hr))" by simp
    from execute_world [of "px_orch px" "pe_policy (px_env px)" "hr_engine hr"] Inr True show ?thesis unfolding engine by metis
  qed
qed

theorem only_execute_pays_witness:
  "\<exists>out hr'. handle_line demo_ctx 0 (command_to_json (bare ''status'')) (demo_process APPROVED) = Some (out, hr')
    \<and> orch_world (hr_engine hr') = 0"
proof -
  have quiet: "adapter_quiet id (cf_adapter (px_orch demo_ctx))"
    by (simp add: adapter_quiet_def demo_config_def demo_adapter_def default_reconcile_settlement_def)
  obtain out hr' where line: "handle_line demo_ctx 0 (command_to_json (bare ''status'')) (demo_process APPROVED) = Some (out, hr')"
    using status_answers by blast
  have c: "parse_command (command_to_json (bare ''status'')) = Inr (bare ''status'')" by (simp add: parse_bare known_commands_def)
  have "orch_world (hr_engine (demo_process APPROVED)) = 0" by (simp add: demo_at_def demo_start_def)
  with only_execute_pays [OF quiet line] line show ?thesis by (simp add: c)
qed

section \<open>Approval by the displayed prefix\<close>

lemma set_engine_same [simp]: "set_engine (hr_engine hr) hr = hr"
  by (cases hr) (simp add: set_engine_def)

text \<open>C13: what \<open>approve\<close> approves. For an intent with a prepared payload, an operator who gives the
  prepared hash or its displayed prefix of eight characters submits to the engine the approval
  of exactly that hash, in the name of the configured approver; with any other text the
  command is refused and the process is unchanged.\<close>

theorem approve_by_prefix:
  assumes "pc_approver (px_config px) = Some approver"
    and "dict_get args ''intent_id'' = Some (JStr i)" and "dict_get args ''quote_id'' = Some (JStr q)"
    and "dict_get args ''prepared_hash'' = Some (JStr h)"
    and "dict_get (orch_intents (hr_engine hr)) i = Some rc" and "rec_prepared rc = Some p"
  shows "(h = pp_prepared_hash p \<or> h = redacted_identifier (pp_prepared_hash p) \<longrightarrow>
      (\<exists>a. pa_intent_id a = i \<and> pa_quote_id a = q \<and> pa_prepared_hash a = pp_prepared_hash p \<and> pa_approver a = approver
         \<and> pa_id a = compute_id (MApproval (a\<lparr>pa_id := ''placeholder''\<rparr>))
         \<and> snd (handle_approve px args hr) = set_engine (snd (approve (pe_policy (px_env px)) a (hr_engine hr))) hr))
    \<and> (h \<noteq> pp_prepared_hash p \<and> h \<noteq> redacted_identifier (pp_prepared_hash p) \<longrightarrow> (\<exists>e. handle_approve px args hr = (Inl e, hr)))"
proof -
  let ?env = "pe_policy (px_env px)"
  let ?h = "if h = redacted_identifier (pp_prepared_hash p) then pp_prepared_hash p else h"
  let ?b = "\<lparr>pa_id = ''placeholder'', pa_intent_id = i, pa_quote_id = q, pa_prepared_hash = ?h, pa_approver = approver, pa_created_at = env_now ?env\<rparr>"
  let ?a = "?b\<lparr>pa_id := compute_id (MApproval ?b)\<rparr>"
  have run: "handle_approve px args hr = andthen (on_engine (approve ?env ?a (hr_engine hr)) hr) (\<lambda>_ hr. state_reply (pa_intent_id ?a)
      (\<lambda>s. [(''intent_id'', short (pa_intent_id ?a)), (''quote_id'', short (pa_quote_id ?a)),
            (''prepared_hash'', short (pa_prepared_hash ?a)), (''state'', JStr s)]) hr)"
    using assms by (simp add: handle_approve_def argument_def tracked_def resolve_hash_def new_approval_def Let_def)
  have engine: "snd (handle_approve px args hr) = set_engine (snd (approve ?env ?a (hr_engine hr))) hr"
    unfolding run by (simp add: snd_andthen on_engine_def split: prod.split sum.split)
  have refused: "\<exists>e. approve ?env ?a (hr_engine hr) = (Inl e, hr_engine hr)" if "?h \<noteq> pp_prepared_hash p"
    using that assms(5,6) by (auto simp: approve_def get_record_def split: option.split)
  show ?thesis
  proof (intro conjI impI)
    assume "h = pp_prepared_hash p \<or> h = redacted_identifier (pp_prepared_hash p)"
    then show "\<exists>a. pa_intent_id a = i \<and> pa_quote_id a = q \<and> pa_prepared_hash a = pp_prepared_hash p \<and> pa_approver a = approver
        \<and> pa_id a = compute_id (MApproval (a\<lparr>pa_id := ''placeholder''\<rparr>))
        \<and> snd (handle_approve px args hr) = set_engine (snd (approve ?env a (hr_engine hr))) hr"
      using engine by (intro exI [of _ ?a]) auto
  next
    assume "h \<noteq> pp_prepared_hash p \<and> h \<noteq> redacted_identifier (pp_prepared_hash p)"
    then have "?h \<noteq> pp_prepared_hash p" by auto
    from refused [OF this] obtain e where "approve ?env ?a (hr_engine hr) = (Inl e, hr_engine hr)" by blast
    then show "\<exists>e. handle_approve px args hr = (Inl e, hr)" unfolding run by (simp add: on_engine_def)
  qed
qed

theorem approve_by_prefix_witness:
  "\<exists>a e. pa_prepared_hash a = ''h1'' \<and> pa_approver a = sample_bob
    \<and> snd (handle_approve demo_ctx [(''intent_id'', JStr ''i1''), (''quote_id'', JStr ''q1''), (''prepared_hash'', JStr ''h1'')] (demo_process PREPARED)) =
        set_engine (snd (approve demo_env a (demo_at PREPARED))) (demo_process PREPARED)
    \<and> handle_approve demo_ctx [(''intent_id'', JStr ''i1''), (''quote_id'', JStr ''q1''), (''prepared_hash'', JStr ''h2'')] (demo_process PREPARED) =
        (Inl e, demo_process PREPARED)"
proof -
  let ?p = "\<lparr>pp_fee_sat = 1, pp_prepared_hash = ''h1'', pp_rail = LIGHTNING, pp_prepared_payload = ''tx''\<rparr>"
  let ?args = "\<lambda>h. [(''intent_id'', JStr ''i1''), (''quote_id'', JStr ''q1''), (''prepared_hash'', JStr h)]"
  have args: "dict_get (?args h) ''intent_id'' = Some (JStr ''i1'')" "dict_get (?args h) ''quote_id'' = Some (JStr ''q1'')"
    "dict_get (?args h) ''prepared_hash'' = Some (JStr h)" for h by simp_all
  have approver: "pc_approver (px_config demo_ctx) = Some sample_bob" by (simp add: demo_pc_def)
  have rc: "dict_get (orch_intents (hr_engine (demo_process PREPARED))) ''i1'' = Some (demo_record\<lparr>rec_state := PREPARED\<rparr>)"
    "rec_prepared (demo_record\<lparr>rec_state := PREPARED\<rparr>) = Some ?p" by simp_all (simp add: demo_record_def)
  note both = approve_by_prefix [OF approver args rc]
  have "redacted_identifier ''h1'' = ''h1''" by (simp add: redacted_identifier_def)
  with both [of "''h2''"] obtain e where e: "handle_approve demo_ctx (?args ''h2'') (demo_process PREPARED) = (Inl e, demo_process PREPARED)" by auto
  from both [of "''h1''"] obtain a where "pa_prepared_hash a = ''h1''" "pa_approver a = sample_bob"
    "snd (handle_approve demo_ctx (?args ''h1'') (demo_process PREPARED)) = set_engine (snd (approve demo_env a (demo_at PREPARED))) (demo_process PREPARED)"
    by (auto simp: demo_process_env_def)
  with e show ?thesis by blast
qed

section \<open>Waiting for a reconciliation\<close>

lemma float_le_trans: "float_le x y \<Longrightarrow> float_le y z \<Longrightarrow> float_le x z"
  by (cases x; cases y; cases z) auto

lemma recover_loop_returns:
  "\<lbrakk>float_le max_wait (float_sub (px_clock px k) (px_clock px 0)); n < k; k \<le> n + rounds\<rbrakk> \<Longrightarrow>
    \<exists>call. recover_loop px max_wait n rounds hr = Some call"
proof (induction rounds arbitrary: n hr)
  case (Suc rounds)
  obtain out hr1 where step: "maybe_recover (px_validators px) (px_orch px) (px_env px) True hr = (out, hr1)" by force
  show ?case
  proof (cases "k = Suc n")
    case True
    with Suc.prems step show ?thesis by (cases out) auto
  next
    case False
    with Suc.prems have "Suc n < k" "k \<le> Suc n + rounds" by simp_all
    with Suc.IH [OF Suc.prems(1), of "Suc n" hr1] step show ?thesis by (cases out) auto
  qed
qed simp

lemma recover_arguments_bound: "recover_arguments args = Inr f \<Longrightarrow> float_le f (float_of_ratio False 720 1)"
  by (auto simp: recover_arguments_def bindP_def split: sum.split_asm if_split_asm)

lemma line_answered:
  assumes "float_le (float_of_ratio False 720 1) (float_sub (px_clock px k) (px_clock px 0))" and "0 < k" and "k \<le> rounds"
  shows "\<exists>out hr'. handle_line px rounds line hr = Some (out, hr')"
proof (cases "parse_command line")
  case (Inl e)
  then show ?thesis by (simp add: handle_line_def)
next
  case (Inr c)
  have "\<exists>call. handle_recover px rounds args hr = Some call" for args
  proof (cases "recover_arguments args")
    case (Inr f)
    from recover_loop_returns [OF float_le_trans [OF recover_arguments_bound [OF this] assms(1)] assms(2), of rounds hr] assms(3) Inr
    show ?thesis by (auto simp: handle_recover_def)
  qed (simp add: handle_recover_def)
  then have "\<exists>call. run_command px rounds c hr = Some call" by (simp add: run_command_def Let_def)
  then obtain result hr1 where "run_command px rounds c hr = Some (result, hr1)" by force
  with Inr show ?thesis
    by (cases "andthen (snapshot_state (pe_snapshot_ok (px_env px)) hr1) (\<lambda>_ hr.
        (case result of Inl e \<Rightarrow> Inl e | Inr reply \<Rightarrow> Inr (event_line (jc_name c) reply), hr))") (simp add: handle_line_def)
qed

text \<open>\<open>recover\<close> does not wait for ever. Whatever its arguments, and even if the wallet reports the
  payment pending on every query, a line is answered no later than the first round after which
  twelve minutes have passed on the monotonic clock; every other command is answered at once.\<close>

theorem every_line_is_answered:
  assumes "float_le (float_of_ratio False 720 1) (float_sub (px_clock px k) (px_clock px 0))" and "0 < k" and "k \<le> rounds"
  shows "\<exists>out hr'. handle_line px rounds line hr = Some (out, hr')"
  using assms by (rule line_answered)

theorem every_line_is_answered_witness:
  "\<exists>out hr'. handle_line demo_ctx 1 (command_to_json (bare ''recover'')) (demo_process RECONCILIATION_REQUIRED) = Some (out, hr')"
proof -
  have "float_sub (FFin False 45 4) (FFin False 0 0) = FFin False 45 4"
    using float_bounds(4) by (simp add: float_rat_def)
  then have "float_le (float_of_ratio False 720 1) (float_sub (px_clock demo_ctx 1) (px_clock demo_ctx 0))"
    by (simp add: demo_ctx_def float_bounds [unfolded One_nat_def])
  from every_line_is_answered [OF this] show ?thesis by simp
qed

section \<open>Receipts\<close>

lemma receipt_amount_Inr: "receipt_amount args intent = Inr a \<Longrightarrow> a = pi_amount_sat intent"
  by (auto simp: receipt_amount_def split: option.split_asm sum.split_asm if_split_asm)

lemma argument_Inr: "argument args key = Inr v \<longleftrightarrow> dict_get args key = Some v"
  by (simp add: argument_def split: option.split)

lemma intent_named_Inr: "intent_named v orc = Inr (k, intent) \<Longrightarrow> v = JStr k \<and> get_intent k orc = Some intent"
  by (auto simp: intent_named_def split: pyjson.split_asm option.split_asm)

lemma text_only_Inr: "(case v of JStr r \<Rightarrow> Inr (f r) | _ \<Rightarrow> Inl e) = Inr z \<longleftrightarrow> (\<exists>r. v = JStr r \<and> z = f r)"
  by (cases v) auto

lemma verify_request_Inr:
  assumes "verify_request args orc = Inr (k, q, ref, amount)"
  shows "\<exists>intent. dict_get args ''intent_id'' = Some (JStr k) \<and> dict_get args ''settlement_ref'' = Some (JStr ref)
    \<and> get_intent k orc = Some intent \<and> amount = pi_amount_sat intent"
  using assms unfolding verify_request_def bindP_Inr
  by (auto simp: argument_Inr bindP_Inr text_only_Inr dest!: intent_named_Inr receipt_amount_Inr)

text \<open>C14: a process vouches only for what its wallet shows. When \<open>verify_publish_receipt\<close> answers, the
  intent named is tracked, the wallet verified the given settlement reference for exactly the
  intent's amount, and what was handed to the transport is a receipt for that intent with
  that reference and the verified amount, in the name of the local identity.\<close>

theorem published_receipt_was_verified:
  assumes "handle_verify_publish_receipt px args hr = (Inr reply, hr')"
  shows "\<exists>k ref intent v w r mid.
      dict_get args ''intent_id'' = Some (JStr k) \<and> dict_get args ''settlement_ref'' = Some (JStr ref)
    \<and> get_intent k (hr_engine hr) = Some intent
    \<and> sa_verify_receipt (cf_adapter (px_orch px)) ref (pi_amount_sat intent) (orch_world (hr_engine hr)) = (Inr v, w)
    \<and> rv_verified v \<and> rv_settlement_ref v = ref
    \<and> pr_intent_id r = k \<and> pr_settlement_ref r = ref \<and> pr_amount_sat r = rv_amount_sat v \<and> 0 < rv_amount_sat v
    \<and> pr_recipient r = pc_identity (px_config px) \<and> pubkey (pr_recipient r) = pubkey (hp_identity (hr_peer hr))
    \<and> pt_send (px_link px) (MReceipt r) (hp_transport (hr_peer hr)) = (Inr mid, hp_transport (hr_peer hr'))"
proof -
  let ?ad = "cf_adapter (px_orch px)" and ?w = "orch_world (hr_engine hr)"
  note run = assms [unfolded handle_verify_publish_receipt_def Let_def, simplified andthen_def]
  obtain k q ref amount where checked: "verify_request args (hr_engine hr) = Inr (k, q, ref, amount)"
    using run by (auto split: sum.split_asm prod.split_asm)
  from verify_request_Inr [OF this] obtain intent where intent: "dict_get args ''intent_id'' = Some (JStr k)"
    "dict_get args ''settlement_ref'' = Some (JStr ref)" "get_intent k (hr_engine hr) = Some intent" "amount = pi_amount_sat intent"
    by blast
  obtain out w where verify: "sa_verify_receipt ?ad ref amount ?w = (out, w)" by force
  let ?hr = "set_engine ((hr_engine hr)\<lparr>orch_world := w\<rparr>) hr"
  from run checked verify obtain v where v: "out = Inr v" by (auto simp: on_world_def split: sum.split_asm)
  from run checked verify v obtain r where
    r: "check_verification ref v = Inr ()" "new_receipt (pc_identity (px_config px)) (sa_rail ?ad) (env_now (pe_policy (px_env px))) k q ref v = Inr r"
    and sent: "(case on_peer (publish_receipt (px_link px) r (hr_peer ?hr)) ?hr of
        (Inl e, p) \<Rightarrow> (Inl e, p) | (Inr mid, hr) \<Rightarrow>
          (Inr [(''receipt_id'', short (pr_id r)), (''message_id'', short mid), (''intent_id'', short (pr_intent_id r)),
            (''amount_sat'', JInt (pr_amount_sat r)), (''fee_sat'', JInt (pr_fee_sat r))], hr)) = (Inr reply, hr')"
    by (auto simp: on_world_def bindP_def split: sum.split_asm)
  have peer: "hp_identity (hr_peer ?hr) = hp_identity (hr_peer hr)" "hp_transport (hr_peer ?hr) = hp_transport (hr_peer hr)"
    by (simp_all add: set_engine_def)
  have fields: "pr_intent_id r = k" "pr_settlement_ref r = ref" "pr_amount_sat r = rv_amount_sat v" "0 < rv_amount_sat v"
    "pr_recipient r = pc_identity (px_config px)"
    using r(2) by (auto simp: new_receipt_def receipt_ok_def Let_def split: pyjson.split_asm if_split_asm)
  from sent obtain mid where "pt_send (px_link px) (MReceipt r) (hp_transport (hr_peer hr)) = (Inr mid, hp_transport (hr_peer hr'))"
    "pubkey (pr_recipient r) = pubkey (hp_identity (hr_peer hr))"
    using peer by (auto simp: on_peer_def publish_receipt_def peer_send_def require_local_author_def via_transport_def
        split: prod.split_asm sum.split_asm option.split_asm if_split_asm)
  moreover have "rv_verified v" "rv_settlement_ref v = ref"
    using r(1) by (auto simp: check_verification_def split: if_split_asm)
  ultimately show ?thesis using intent verify v fields by blast
qed

definition demo_claim :: fields where
  "demo_claim = [(''intent_id'', JStr ''i1''), (''quote_id'', JStr ''q1''), (''settlement_ref'', JStr ''r1'')]"

theorem published_receipt_was_verified_witness:
  "\<exists>reply hr' r mid. handle_verify_publish_receipt demo_ctx demo_claim (demo_process SUBMITTED) = (Inr reply, hr')
    \<and> pr_settlement_ref r = ''r1'' \<and> pt_send (hub_endpoint ''alice'' sample_alice) (MReceipt r) demo_hub = (Inr mid, hp_transport (hr_peer hr'))"
proof -
  have pay: "\<exists>mid hub'. hub_send ''alice'' sample_alice (MReceipt r) demo_hub = (Inr mid, hub')" if "pr_recipient r = sample_alice" for r
    using that by (simp add: hub_send_def Let_def)
  have "get_intent ''i1'' (demo_at SUBMITTED) = Some demo_intent" "pi_amount_sat demo_intent = 100"
    by (simp_all add: get_intent_def) (simp_all add: demo_record_def new_record_def demo_intent_def)
  then have request: "verify_request demo_claim (demo_at SUBMITTED) = Inr (''i1'', JStr ''q1'', ''r1'', 100)"
    by (simp add: verify_request_def demo_claim_def argument_def intent_named_def receipt_amount_def)
  have wallet: "sa_verify_receipt (cf_adapter demo_config) ''r1'' 100 w =
      (Inr \<lparr>rv_verified = True, rv_settlement_ref = ''r1'', rv_amount_sat = 100, rv_fee_sat = 0, rv_error = None\<rparr>, w)" for w
    by (simp add: demo_config_def demo_adapter_def)
  have me: "pc_identity demo_pc = sample_alice" "identity_ok sample_alice" by (simp_all add: demo_pc_def identity_ok_def sample_alice_def)
  obtain r where r: "new_receipt sample_alice (sa_rail (cf_adapter demo_config)) (env_now (pe_policy demo_process_env)) ''i1'' (JStr ''q1'') ''r1''
      \<lparr>rv_verified = True, rv_settlement_ref = ''r1'', rv_amount_sat = 100, rv_fee_sat = 0, rv_error = None\<rparr> = Inr r" "pr_recipient r = sample_alice"
    using me(2) by (auto simp: new_receipt_def Let_def receipt_ok_def)
  from pay [OF r(2)] obtain mid hub' where sent: "hub_send ''alice'' sample_alice (MReceipt r) demo_hub = (Inr mid, hub')" by blast
  obtain reply hr' where answer: "handle_verify_publish_receipt demo_ctx demo_claim (demo_process SUBMITTED) = (Inr reply, hr')"
    using request r sent me(1)
    by (simp add: handle_verify_publish_receipt_def on_world_def wallet check_verification_def on_peer_def publish_receipt_def
        peer_send_def require_local_author_def via_transport_def hub_endpoint_def demo_process_def set_engine_def)
  from published_receipt_was_verified [OF answer] answer show ?thesis
    by (auto simp: demo_claim_def demo_process_def)
qed

end
