(* ===== verification/Buzz_Cli.thy ===== *)
theory Buzz_Cli
  imports Transport_Properties Wavecli
begin

text \<open>
  \<open>SubprocessExecutor\<close> of \<open>src/hermes_payments/transport.py\<close>: the executor that runs the buzz
  command line. It builds the argument list, judges how the process ended, and reads the
  JSON it printed. An event is read with whatever types the JSON gives its fields; the
  transport is modelled on events whose fields have the declared types.
\<close>

section \<open>Command lines\<close>

definition buzz_send_cmd :: "string \<Rightarrow> string \<Rightarrow> string \<Rightarrow> string list" where
  "buzz_send_cmd buzz_bin channel content =
     [buzz_bin, ''messages'', ''send'', ''--channel'', channel, ''--content'', content]"

definition buzz_get_cmd :: "string \<Rightarrow> string \<Rightarrow> int list option \<Rightarrow> int option \<Rightarrow> int option \<Rightarrow> string list" where
  "buzz_get_cmd buzz_bin channel kinds since limit =
     [buzz_bin, ''messages'', ''get'', ''--channel'', channel]
     @ (case kinds of Some (k # ks) \<Rightarrow> [''--kinds'', join '','' (map show_int (k # ks))] | _ \<Rightarrow> [])
     @ (case since of Some t \<Rightarrow> [''--since'', show_int t] | None \<Rightarrow> [])
     @ (case limit of Some n \<Rightarrow> [''--limit'', show_int n] | None \<Rightarrow> [])"

section \<open>The outcome of a run\<close>

text \<open>The output of a run that succeeded, as JSON; \<open>what\<close> is \<open>send\<close> or \<open>get\<close>.\<close>

definition buzz_result :: "string \<Rightarrow> string list \<Rightarrow> int \<Rightarrow> process_outcome \<Rightarrow> exn + pyjson" where
  "buzz_result what cmd timeout outcome =
     (case outcome of
        NoBinary \<Rightarrow> Inl (OSError (''[Errno 2] No such file or directory: '' @ str_repr (hd cmd)))
      | TimedOut \<Rightarrow> Inl (OtherError (''Command '' @ [CHR 0x27] @ py_repr (JList (map JStr cmd)) @ [CHR 0x27] @
          '' timed out after '' @ show_int timeout @ '' seconds''))
      | ProcessError e \<Rightarrow> Inl e
      | Completed returncode stdout stderr \<Rightarrow>
          if returncode \<noteq> 0 then
            Inl (BuzzTransportError (''buzz messages '' @ what @ '' failed (exit '' @ show_int returncode @ ''): '' @ py_strip stderr))
          else (case json_loads stdout of
              None \<Rightarrow> Inl (BuzzTransportError (''buzz messages '' @ what @ '': invalid JSON output''))
            | Some v \<Rightarrow> Inr v))"

section \<open>Sending\<close>

definition sent_event_id :: "pyjson \<Rightarrow> exn + pyjson" where
  "sent_event_id resp =
     (case resp of
        JObj d \<Rightarrow>
          let a = (case dict_get d ''event_id'' of Some v \<Rightarrow> v | None \<Rightarrow> JNull);
              b = (case dict_get d ''id'' of Some v \<Rightarrow> v | None \<Rightarrow> JNull);
              event_id = (if py_truthy a then a else if py_truthy b then b else JStr [])
          in if \<not> py_truthy event_id then Inl (BuzzTransportError ''buzz messages send: response missing event_id'')
             else Inr event_id
      | v \<Rightarrow> Inl (AttributeError (str_repr (py_type_name v) @ '' object has no attribute '' @ str_repr ''get'')))"

section \<open>Fetching\<close>

record CliEvent =
  ce_id :: pyjson
  ce_pubkey :: pyjson
  ce_kind :: pyjson
  ce_content :: pyjson
  ce_tags :: pyjson
  ce_created_at :: pyjson

text \<open>\<open>ev[key]\<close> with the texts of CPython 3.11.\<close>

definition subscript :: "pyjson \<Rightarrow> string \<Rightarrow> exn + pyjson" where
  "subscript v key =
     (case v of
        JObj d \<Rightarrow> (case dict_get d key of Some x \<Rightarrow> Inr x | None \<Rightarrow> Inl (KeyError (str_repr key)))
      | JList _ \<Rightarrow> Inl (TypeError ''list indices must be integers or slices, not str'')
      | JStr _ \<Rightarrow> Inl (TypeError (''string indices must be integers, not '' @ str_repr ''str''))
      | _ \<Rightarrow> Inl (TypeError (str_repr (py_type_name v) @ '' object is not subscriptable'')))"

definition cli_event :: "pyjson \<Rightarrow> exn + CliEvent" where
  "cli_event ev =
     bindE (subscript ev ''id'') (\<lambda>i.
     bindE (subscript ev ''pubkey'') (\<lambda>pk.
     bindE (subscript ev ''kind'') (\<lambda>kind.
     bindE (subscript ev ''content'') (\<lambda>content.
     case ev of
       JObj d \<Rightarrow> Inr \<lparr>ce_id = i, ce_pubkey = pk, ce_kind = kind, ce_content = content,
                       ce_tags = get_or (JList []) d ''tags'', ce_created_at = get_or (JInt 0) d ''created_at''\<rparr>
     | v \<Rightarrow> Inl (AttributeError (str_repr (py_type_name v) @ '' object has no attribute '' @ str_repr ''get''))))))"

text \<open>A \<open>KeyError\<close> or \<open>TypeError\<close> of one event ends the whole call.\<close>

fun cli_events :: "pyjson list \<Rightarrow> exn + CliEvent list" where
  "cli_events [] = Inr []"
| "cli_events (ev # evs) =
     (case cli_event ev of
        Inl (KeyError m) \<Rightarrow> Inl (BuzzTransportError (''buzz messages get: malformed event: '' @ m))
      | Inl (TypeError m) \<Rightarrow> Inl (BuzzTransportError (''buzz messages get: malformed event: '' @ m))
      | Inl e \<Rightarrow> Inl e
      | Inr event \<Rightarrow> bindE (cli_events evs) (\<lambda>parsed. Inr (event # parsed)))"

definition fetched_events :: "pyjson \<Rightarrow> exn + CliEvent list" where
  "fetched_events answer =
     (case answer of
        JList evs \<Rightarrow> cli_events evs
      | v \<Rightarrow> Inl (BuzzTransportError (''buzz messages get: expected JSON array, got '' @ py_type_name v)))"

section \<open>The executor\<close>

text \<open>
  \<open>run cmd timeout\<close> is what \<open>subprocess.run\<close> does outside the program. A value of another type
  than the declared one is refused at this point, where Python would carry it on.
\<close>

definition text_lists :: "pyjson \<Rightarrow> string list list option" where
  "text_lists v =
     (case v of
        JList tags \<Rightarrow>
          those (map (\<lambda>tag. case tag of
              JList xs \<Rightarrow> those (map (\<lambda>x. case x of JStr s \<Rightarrow> Some s | _ \<Rightarrow> None) xs) | _ \<Rightarrow> None) tags)
      | _ \<Rightarrow> None)"

definition typed_event :: "CliEvent \<Rightarrow> RawBuzzEvent option" where
  "typed_event ev =
     (case (ce_id ev, ce_pubkey ev, ce_kind ev, ce_content ev, text_lists (ce_tags ev), ce_created_at ev) of
        (JStr i, JStr pk, JInt kind, JStr content, Some tags, JInt t) \<Rightarrow>
          Some \<lparr>rb_id = i, rb_pubkey = pk, rb_kind = kind, rb_content = content, rb_tags = tags, rb_created_at = t\<rparr>
      | _ \<Rightarrow> None)"

definition undeclared :: exn where
  "undeclared = OtherError ''a field of the answer has an undeclared type''"

definition cli_send :: "string \<Rightarrow> (string list \<Rightarrow> int \<Rightarrow> 'w \<Rightarrow> process_outcome \<times> 'w) \<Rightarrow> string \<Rightarrow> string \<Rightarrow> 'w \<Rightarrow> (exn + string) \<times> 'w" where
  "cli_send buzz_bin run channel content w =
     (let cmd = buzz_send_cmd buzz_bin channel content in
      case run cmd 30 w of (outcome, w') \<Rightarrow>
        (bindE (bindE (buzz_result ''send'' cmd 30 outcome) sent_event_id)
           (\<lambda>v. case v of JStr event_id \<Rightarrow> Inr event_id | _ \<Rightarrow> Inl undeclared), w'))"

definition cli_get ::
    "string \<Rightarrow> (string list \<Rightarrow> int \<Rightarrow> 'w \<Rightarrow> process_outcome \<times> 'w) \<Rightarrow> string \<Rightarrow> int list option \<Rightarrow> int option \<Rightarrow> int option \<Rightarrow> 'w
      \<Rightarrow> (exn + RawBuzzEvent list) \<times> 'w" where
  "cli_get buzz_bin run channel kinds since limit w =
     (let cmd = buzz_get_cmd buzz_bin channel kinds since limit in
      case run cmd 30 w of (outcome, w') \<Rightarrow>
        (bindE (bindE (buzz_result ''get'' cmd 30 outcome) fetched_events)
           (\<lambda>events. case those (map typed_event events) of Some raw \<Rightarrow> Inr raw | None \<Rightarrow> Inl undeclared), w'))"

definition cli_executor :: "string \<Rightarrow> (string list \<Rightarrow> int \<Rightarrow> 'w \<Rightarrow> process_outcome \<times> 'w) \<Rightarrow> 'w BuzzExecutor" where
  "cli_executor buzz_bin run = \<lparr>bx_send = cli_send buzz_bin run, bx_get = cli_get buzz_bin run\<rparr>"

section \<open>Reading the relay's answer\<close>

text \<open>An event as the relay prints it, with further members \<open>extra\<close> such as its signature.\<close>

definition event_json :: "RawBuzzEvent \<Rightarrow> (string \<times> pyjson) list \<Rightarrow> pyjson" where
  "event_json ev extra = JObj
     ([(''id'', JStr (rb_id ev)), (''pubkey'', JStr (rb_pubkey ev)), (''kind'', JInt (rb_kind ev)), (''content'', JStr (rb_content ev)),
       (''tags'', JList (map (\<lambda>tag. JList (map JStr tag)) (rb_tags ev))), (''created_at'', JInt (rb_created_at ev))] @ extra)"

lemma those_map_Some: "(\<And>x. x \<in> set xs \<Longrightarrow> f x = Some (g x)) \<Longrightarrow> those (map f xs) = Some (map g xs)"
  by (induction xs) auto

lemma those_Some [simp]: "those (map Some xs) = Some xs"
  by (induction xs) auto

lemma text_lists_map [simp]: "text_lists (JList (map (\<lambda>tag. JList (map JStr tag)) tags)) = Some tags"
  by (simp add: text_lists_def comp_def)

lemma canon_tags [simp]: "canon opt (JList (map (\<lambda>tag. JList (map JStr tag)) tags)) = JList (map (\<lambda>tag. JList (map JStr tag)) tags)"
  by (simp add: comp_def)

lemma cli_event_json:
  assumes "json_ok (event_json ev extra)"
  shows "\<exists>event. cli_event (canon opt (event_json ev extra)) = Inr event \<and> typed_event event = Some ev"
proof -
  let ?d = "[(''id'', JStr (rb_id ev)), (''pubkey'', JStr (rb_pubkey ev)), (''kind'', JInt (rb_kind ev)), (''content'', JStr (rb_content ev)),
       (''tags'', JList (map (\<lambda>tag. JList (map JStr tag)) (rb_tags ev))), (''created_at'', JInt (rb_created_at ev))] @ extra"
  obtain d where d: "canon opt (event_json ev extra) = JObj d" by (simp add: event_json_def)
  have get: "dict_get d k = map_option (canon opt) (dict_get ?d k)" for k
    using dict_get_canon [of ?d opt d k] assms d by (simp add: event_json_def del: canon.simps json_ok.simps)
  have m: "dict_get d ''id'' = Some (JStr (rb_id ev))" "dict_get d ''pubkey'' = Some (JStr (rb_pubkey ev))"
    "dict_get d ''kind'' = Some (JInt (rb_kind ev))" "dict_get d ''content'' = Some (JStr (rb_content ev))"
    "dict_get d ''tags'' = Some (JList (map (\<lambda>tag. JList (map JStr tag)) (rb_tags ev)))"
    "dict_get d ''created_at'' = Some (JInt (rb_created_at ev))"
    by (simp_all add: get comp_def)
  show ?thesis by (simp add: d cli_event_def subscript_def get_or_def m typed_event_def)
qed

lemma cli_events_json:
  assumes "\<forall>(ev, extra) \<in> set evs. json_ok (event_json ev extra)"
  shows "\<exists>events. cli_events (map (\<lambda>(ev, extra). canon opt (event_json ev extra)) evs) = Inr events
    \<and> those (map typed_event events) = Some (map fst evs)"
  using assms
proof (induction evs)
  case (Cons x evs)
  obtain ev extra where x: "x = (ev, extra)" by (cases x)
  from Cons.prems x cli_event_json [of ev extra opt] obtain event where
    e: "cli_event (canon opt (event_json ev extra)) = Inr event" "typed_event event = Some ev" by auto
  from Cons.IH Cons.prems obtain events where
    "cli_events (map (\<lambda>(ev, extra). canon opt (event_json ev extra)) evs) = Inr events" "those (map typed_event events) = Some (map fst evs)"
    by auto
  with x e show ?case by simp
qed simp

lemma cli_get_reads:
  assumes "opts_ok opt" and "\<forall>(ev, extra) \<in> set evs. json_ok (event_json ev extra)"
    and "run (buzz_get_cmd buzz_bin channel kinds since limit) 30 w =
      (Completed 0 (json_dumps opt (JList (map (\<lambda>(ev, extra). event_json ev extra) evs))) stderr, w')"
  shows "bx_get (cli_executor buzz_bin run) channel kinds since limit w = (Inr (map fst evs), w')"
proof -
  have "json_ok (JList (map (\<lambda>(ev, extra). event_json ev extra) evs))"
    using assms(2) by (auto simp: list_all_iff)
  from json_roundtrip [OF assms(1) this]
  have "json_loads (json_dumps opt (JList (map (\<lambda>(ev, extra). event_json ev extra) evs))) =
      Some (JList (map (\<lambda>(ev, extra). canon opt (event_json ev extra)) evs))"
    by (simp add: comp_def case_prod_beta' del: json_dumps.simps)
  moreover from cli_events_json [OF assms(2)] obtain events where
    "cli_events (map (\<lambda>(ev, extra). canon opt (event_json ev extra)) evs) = Inr events" "those (map typed_event events) = Some (map fst evs)"
    by blast
  ultimately show ?thesis
    by (simp add: cli_executor_def cli_get_def assms(3) buzz_result_def fetched_events_def del: json_dumps.simps)
qed

text \<open>The executor hands the transport what the relay stored. Whatever JSON layout the buzz binary
  prints and whatever further members it gives each event, \<open>get\<close> returns exactly the printed
  events, all of them and in their order, with every field as it was.\<close>

theorem cli_get_roundtrip:
  assumes "opts_ok opt" and "\<forall>(ev, extra) \<in> set evs. json_ok (event_json ev extra)"
    and "run (buzz_get_cmd buzz_bin channel kinds since limit) 30 w =
      (Completed 0 (json_dumps opt (JList (map (\<lambda>(ev, extra). event_json ev extra) evs))) stderr, w')"
  shows "bx_get (cli_executor buzz_bin run) channel kinds since limit w = (Inr (map fst evs), w')"
  using assms by (rule cli_get_reads)

theorem cli_get_roundtrip_witness:
  "bx_get (cli_executor ''buzz'' (\<lambda>cmd timeout w. (Completed 0 (json_dumps compact_sorted (JList
      [event_json \<lparr>rb_id = ''e1'', rb_pubkey = ''aa'', rb_kind = 9, rb_content = ''{}'', rb_tags = [ [''h'', ''c''] ], rb_created_at = 7\<rparr>
         [(''sig'', JStr ''ff'')]])) [], Suc w))) ''c'' (Some [9]) None None 0
    = (Inr [\<lparr>rb_id = ''e1'', rb_pubkey = ''aa'', rb_kind = 9, rb_content = ''{}'', rb_tags = [ [''h'', ''c''] ], rb_created_at = 7\<rparr>], 1)"
  using cli_get_roundtrip [of compact_sorted
      "[(\<lparr>rb_id = ''e1'', rb_pubkey = ''aa'', rb_kind = 9, rb_content = ''{}'', rb_tags = [ [''h'', ''c''] ], rb_created_at = 7\<rparr>,
         [(''sig'', JStr ''ff'')])]" "\<lambda>cmd timeout w. (Completed 0 (json_dumps compact_sorted (JList
      [event_json \<lparr>rb_id = ''e1'', rb_pubkey = ''aa'', rb_kind = 9, rb_content = ''{}'', rb_tags = [ [''h'', ''c''] ], rb_created_at = 7\<rparr>
         [(''sig'', JStr ''ff'')]])) [], Suc w)" "''buzz''" "''c''" "Some [9]" None None 0 "[]" 1]
  by (simp add: event_json_def del: json_dumps.simps)

section \<open>Nothing but what the relay stored\<close>

definition printed_as :: "RawBuzzEvent \<Rightarrow> pyjson \<Rightarrow> bool" where
  "printed_as ev v \<longleftrightarrow> (\<exists>d. v = JObj d \<and> dict_get d ''id'' = Some (JStr (rb_id ev)) \<and> dict_get d ''pubkey'' = Some (JStr (rb_pubkey ev))
     \<and> dict_get d ''kind'' = Some (JInt (rb_kind ev)) \<and> dict_get d ''content'' = Some (JStr (rb_content ev)))"

lemma cli_event_printed:
  assumes "cli_event v = Inr event" and "typed_event event = Some ev"
  shows "printed_as ev v"
proof -
  obtain d where v: "v = JObj d" using assms(1) by (cases v) (auto simp: cli_event_def subscript_def)
  with assms(1) have f: "dict_get d ''id'' = Some (ce_id event)" "dict_get d ''pubkey'' = Some (ce_pubkey event)"
    "dict_get d ''kind'' = Some (ce_kind event)" "dict_get d ''content'' = Some (ce_content event)"
    by (auto simp: cli_event_def subscript_def bindE_def split: option.split_asm sum.split_asm)
  from assms(2) have "ce_id event = JStr (rb_id ev)" "ce_pubkey event = JStr (rb_pubkey ev)" "ce_kind event = JInt (rb_kind ev)"
    "ce_content event = JStr (rb_content ev)"
    by (auto simp: typed_event_def split: pyjson.split_asm option.split_asm)
  with v f show ?thesis by (simp add: printed_as_def)
qed

lemma cli_events_printed:
  "\<lbrakk>cli_events vs = Inr events; those (map typed_event events) = Some evs\<rbrakk> \<Longrightarrow> list_all2 printed_as evs vs"
proof (induction vs arbitrary: events evs)
  case (Cons v vs)
  from Cons.prems(1) obtain event rest where e: "cli_event v = Inr event" "cli_events vs = Inr rest" "events = event # rest"
    by (auto simp: bindE_def split: sum.split_asm exn.split_asm)
  with Cons.prems(2) obtain ev evs' where "typed_event event = Some ev" "those (map typed_event rest) = Some evs'" "evs = ev # evs'"
    by (auto split: option.split_asm)
  with Cons.IH e cli_event_printed show ?case by auto
qed simp

lemma cli_get_Inr:
  assumes "cli_get buzz_bin run channel kinds since limit w = (Inr evs, w')"
  shows "\<exists>stdout stderr arr. run (buzz_get_cmd buzz_bin channel kinds since limit) 30 w = (Completed 0 stdout stderr, w')
    \<and> json_loads stdout = Some (JList arr) \<and> list_all2 printed_as evs arr"
proof -
  obtain outcome where r: "run (buzz_get_cmd buzz_bin channel kinds since limit) 30 w = (outcome, w')"
    using assms by (auto simp: cli_get_def Let_def split: prod.split_asm)
  with assms obtain answer events where a: "buzz_result ''get'' (buzz_get_cmd buzz_bin channel kinds since limit) 30 outcome = Inr answer"
    "fetched_events answer = Inr events" "those (map typed_event events) = Some evs"
    by (auto simp: cli_get_def Let_def bindE_Inr_iff split: option.split_asm)
  from a(1) obtain stdout stderr where "outcome = Completed 0 stdout stderr" "json_loads stdout = Some answer"
    by (auto simp: buzz_result_def split: process_outcome.split_asm if_split_asm option.split_asm)
  moreover from a(2) obtain arr where "answer = JList arr" "cli_events arr = Inr events"
    by (auto simp: fetched_events_def split: pyjson.split_asm)
  moreover from cli_events_printed [OF this(2) a(3)] have "list_all2 printed_as evs arr" .
  ultimately show ?thesis using r by blast
qed


definition cli_run :: "string list \<Rightarrow> int \<Rightarrow> nat \<Rightarrow> process_outcome \<times> nat" where
  "cli_run cmd timeout w =
     (Completed 0 (json_dumps compact_sorted (JList [event_json (demo_event ''e1'' sample_content) [(''sig'', JStr ''ff'')]])) [], Suc w)"

definition cli_channel :: "nat buzz_config" where
  "cli_channel = \<lparr>bc_executor = cli_executor ''buzz'' cli_run, bc_py = strict_pydantic, bc_channel = ''room'', bc_has_cursor = False,
     bc_local_pubkey = Some (pubkey sample_bob)\<rparr>"

definition cli_endpoint :: "nat BuzzTransport" where
  "cli_endpoint = \<lparr>bt_seen = {}, bt_cursor_file = None, bt_executor = 0, bt_now = 7, bt_cursor_writable = True\<rparr>"

lemma cli_poll_demo:
  "receive_peer_messages cli_channel None None cli_endpoint =
     (Inr [demo_message ''e1''], cli_endpoint\<lparr>bt_executor := 1, bt_seen := {''e1''}\<rparr>)"
proof -
  have "bx_get (bc_executor cli_channel) ''room'' (Some [9]) None None 0 = (Inr [demo_event ''e1'' sample_content], 1)"
    using cli_get_reads [of compact_sorted "[(demo_event ''e1'' sample_content, [(''sig'', JStr ''ff'')])]" cli_run "''buzz''" "''room''"
        "Some [9]" None None 0 "[]" 1]
    by (simp add: cli_channel_def cli_run_def event_json_def list_all_iff del: json_dumps.simps)
  moreover have "event_accepted cli_channel 7 (demo_event ''e1'' sample_content) (demo_message ''e1'')"
    using sample_decodes
    by (simp add: event_accepted_def validate_received_event_def cli_channel_def demo_event_def demo_message_def
        WIRE_KIND_def check_event_author_def sample_intent_def sample_alice_def sample_bob_def)
  then have "receive_loop cli_channel 7 None [demo_event ''e1'' sample_content] [] {} False = (Inr [demo_message ''e1''], {''e1''}, True)"
    by (auto simp: event_accepted_def demo_message_def demo_event_def)
  ultimately show ?thesis
    by (simp add: receive_peer_messages_def cli_endpoint_def save_cursor_def Let_def WIRE_KIND_def cli_channel_def del: receive_loop.simps)
qed


end
