(* ===== verification/Json_Text.thy ===== *)
theory Json_Text
  imports Json_Codec
begin

text \<open>
  The characters of written JSON: with \<open>ensure_ascii\<close> every character is printable ASCII, so a
  value is one line of a JSONL stream whatever texts it holds.
\<close>

definition printable :: "char \<Rightarrow> bool" where
  "printable c \<longleftrightarrow> 32 \<le> code c \<and> code c < 127"

abbreviation printables :: "string \<Rightarrow> bool" where
  "printables s \<equiv> \<forall>c \<in> set s. printable c"

lemma digit_printable: "is_digit c \<Longrightarrow> printable c"
  by (simp add: is_digit_def printable_def)

lemma printable_marks [simp]:
  "printable (CHR ''-'')" "printable (CHR ''+'')" "printable (CHR ''.'')" "printable (CHR ''0'')" "printable (CHR ''e'')"
  "printable (CHR '','')" "printable (CHR '':'')" "printable (CHR '' '')" "printable (CHR ''['')" "printable (CHR '']'')"
  "printable (CHR 0x7B)" "printable (CHR 0x7D)" "printable (CHR 0x22)" "printable (CHR 0x5C)"
  by (simp_all add: printable_def)

lemma show_nat_printable [simp]: "printables (show_nat n)"
  using show_nat_digits digit_printable by blast

lemma show_int_printable [simp]: "printables (show_int i)"
  by (simp add: show_int_def)

lemma format_digits_printable:
  assumes "printables ds"
  shows "printables (format_digits ds pt)"
proof -
  have "set (take n ds) \<subseteq> set ds" "set (drop n ds) \<subseteq> set ds" for n by (simp_all add: set_take_subset set_drop_subset)
  with assms have "printables (take n ds)" "printables (drop n ds)" for n by blast+
  with assms show ?thesis by (auto simp: format_digits_def Let_def)
qed

lemma float_printable: "printables (dump_float f)"
proof (cases f)
  case (FFin neg m e)
  obtain d x where d: "shortest_digits m e = (d, x)" by (cases "shortest_digits m e")
  have "set (rev (dropWhile (\<lambda>c. c = CHR ''0'') (rev (show_nat d)))) \<subseteq> set (show_nat d)"
    using set_dropWhileD by fastforce
  then have "printables (rev (dropWhile (\<lambda>c. c = CHR ''0'') (rev (show_nat d))))"
    using show_nat_printable [of d] by blast
  from format_digits_printable [OF this] show ?thesis by (auto simp: FFin d Let_def)
qed (auto simp: printable_def split: if_split_asm)

lemma hex2_printable: "n < 256 \<Longrightarrow> printables (hex2 n)"
proof -
  have "printable (hex_char k)" if "k < 16" for k
    using that by (auto simp: hex_char_def digit_printable) (simp add: printable_def)
  moreover assume "n < 256"
  ultimately show ?thesis by (simp add: hex2_def)
qed

lemma esc_char_printable: "printables (esc_char True c)"
  using hex2_printable [OF code_lt_256 [of c]]
  by (auto simp: esc_char_def Let_def) (auto simp: printable_def)

lemma dump_str_printable: "printables (dump_str True s)"
  using esc_char_printable by (auto simp: dump_str_def)

lemma join_printable: "\<lbrakk>printables sep; \<forall>s \<in> set ss. printables s\<rbrakk> \<Longrightarrow> printables (join sep ss)"
  by (induction sep ss rule: join.induct) auto

lemma json_dumps_printable:
  assumes "d_ascii opt" and "printables (d_item opt)" and "printables (d_key opt)"
  shows "printables (json_dumps opt v)"
proof (induction v)
  case (JList xs)
  then show ?case using assms(2) join_printable [of "d_item opt" "map (json_dumps opt) xs"] by auto
next
  case (JObj d)
  let ?items = "map (\<lambda>(k, v). (k, json_dumps opt v)) d"
  let ?items' = "if d_sort opt then sort_key fst ?items else ?items"
  have items: "set ?items' = set ?items" by simp
  have "printables (dump_str (d_ascii opt) k @ d_key opt @ t)" if "(k, t) \<in> set ?items'" for k t
    using that JObj assms dump_str_printable unfolding items by fastforce
  then have "\<forall>s \<in> set (map (\<lambda>(k, t). dump_str (d_ascii opt) k @ d_key opt @ t) ?items'). printables s"
    unfolding set_map by (clarify, blast)
  from join_printable [OF assms(2) this] have
    "printables (join (d_item opt) (map (\<lambda>(k, t). dump_str (d_ascii opt) k @ d_key opt @ t) ?items'))" .
  then show ?case by (simp only: json_dumps.simps Let_def) auto
next
  case (JInt i)
  then show ?case by simp
qed (use assms(1) dump_str_printable float_printable in \<open>auto simp: printable_def\<close>)

lemma dumped_line:
  assumes "opt \<in> {compact_sorted, default_sorted}"
  shows "printables (json_dumps opt v)"
  using assms by (intro json_dumps_printable) (auto simp: compact_sorted_def default_sorted_def)

end
