(* ===== verification/Runner.thy ===== *)
theory Runner
  imports Process_Behaviour Process_Lifetime Buzz_Cli Wavelength Json_Text
begin

text \<open>
  The per-process runner \<open>examples/two_hermes_regtest/run_hermes.py\<close>: it checks its arguments,
  builds the wallet adapter, the Buzz transport and the process, announces that it is ready,
  and answers each line of its standard input by one line on its standard output. What
  \<open>argparse\<close> gives for the command line is the record \<open>hermes_args\<close>.
\<close>

section \<open>Arguments and surroundings\<close>

record hermes_args =
  ha_role :: string
  ha_channel :: string
  ha_pubkey :: string
  ha_approver_pubkey :: string
  ha_state_root :: string
  ha_network :: string
  ha_wave_rpc_server :: "string option"
  ha_buzz_bin :: "string option"

text \<open>
  What the runner meets: the validation library (with the text of its error), the runs of the
  two external binaries, the clocks, the environment variable \<open>BUZZ_BIN\<close>, what creating the
  state directory raises, and the files in it.
\<close>

record ('w, 'x) surroundings =
  su_validators :: Validators
  su_pydantic :: Pydantic
  su_invalid :: string
  su_wavecli :: "string list \<Rightarrow> int \<Rightarrow> 'w \<Rightarrow> process_outcome \<times> 'w"
  su_time :: "'w \<Rightarrow> int"
  su_buzz :: "string list \<Rightarrow> int \<Rightarrow> 'x \<Rightarrow> process_outcome \<times> 'x"
  su_buzz_env :: "string option"
  su_mkdir :: "exn option"
  su_store :: "string option"
  su_audit :: "string list option"
  su_snapshot :: "string option"
  su_cursor :: "string option"

section \<open>Building the process\<close>

definition build_transport :: "('w, 'x) surroundings \<Rightarrow> string \<Rightarrow> string \<Rightarrow> string \<Rightarrow> 'x buzz_config" where
  "build_transport su channel pk buzz_bin =
     \<lparr>bc_executor = cli_executor buzz_bin (su_buzz su), bc_py = su_pydantic su, bc_channel = channel, bc_has_cursor = True,
      bc_local_pubkey = Some pk\<rparr>"

definition build_adapter :: "('w, 'x) surroundings \<Rightarrow> string \<Rightarrow> string option \<Rightarrow> exn + 'w WavelengthAdapter" where
  "build_adapter su network rpc_server =
     wavelength_init (subprocess_executor (su_wavecli su)) (su_time su) (rpc_server_or_default rpc_server) network True True"

definition new_identity :: "string \<Rightarrow> exn + AgentIdentity" where
  "new_identity pk =
     (let a = \<lparr>pubkey = pk, relay_url = None\<rparr> in if identity_ok a then Inr a else Inl ValidationError)"

definition buzz_bin_of :: "('w, 'x) surroundings \<Rightarrow> hermes_args \<Rightarrow> string" where
  "buzz_bin_of su ha =
     (case ha_buzz_bin ha of
        Some b \<Rightarrow> if b \<noteq> [] then b else (case su_buzz_env su of Some e \<Rightarrow> e | None \<Rightarrow> ''buzz'')
      | None \<Rightarrow> (case su_buzz_env su of Some e \<Rightarrow> e | None \<Rightarrow> ''buzz''))"

text \<open>The process is built without a clock.\<close>

definition unclocked :: "process_env \<Rightarrow> process_env" where
  "unclocked pe = pe\<lparr>pe_policy := (pe_policy pe)\<lparr>env_now := process_now None\<rparr>\<rparr>"

definition hermes_ctx ::
    "('w, 'x) surroundings \<Rightarrow> ProcessConfig \<Rightarrow> 'w WavelengthAdapter \<Rightarrow> 'x buzz_config \<Rightarrow> process_env \<Rightarrow> (nat \<Rightarrow> pyfloat)
      \<Rightarrow> ('w, 'x BuzzTransport) process_ctx" where
  "hermes_ctx su pc wl cfg pe clock =
     \<lparr>px_validators = su_validators su,
      px_orch = \<lparr>cf_adapter = wavelength wl, cf_recipient_allowlist = None, cf_rail_allowlist = None\<rparr>,
      px_env = unclocked pe, px_link = buzz_link cfg, px_config = pc, px_clock = clock\<rparr>"

text \<open>
  \<open>main\<close> up to the loop: it returns an exit code with a message on standard error, an exception
  ends it, or the process serves, with its configuration and after the ready line.
\<close>

datatype ('w, 'x) start_outcome =
    Exits int string
  | Crashes process_error
  | Serves ProcessConfig "'w WavelengthAdapter" "'x buzz_config" string "('w, 'x BuzzTransport) HermesProcess"

definition default_opts :: dump_opts where
  "default_opts = \<lparr>d_sort = False, d_ascii = True, d_item = '', '', d_key = '': ''\<rparr>"

definition ready_line :: "string \<Rightarrow> string" where
  "ready_line role = json_dumps default_opts (JObj [(''event'', JStr ''ready''), (''role'', JStr role)])"

definition hermes_config :: "hermes_args \<Rightarrow> exn + ProcessConfig" where
  "hermes_config ha =
     bindE (new_identity (ha_pubkey ha)) (\<lambda>identity.
     bindE (new_identity (ha_approver_pubkey ha)) (\<lambda>approver.
     process_config (ha_role ha) identity (ha_channel ha) (Some (py_path (ha_state_root ha))) (ha_network ha) ''buzz'' None None
       (Some approver)))"

definition hermes_start :: "('w, 'x) surroundings \<Rightarrow> hermes_args \<Rightarrow> process_env \<Rightarrow> int \<Rightarrow> 'w \<Rightarrow> 'x \<Rightarrow> ('w, 'x) start_outcome" where
  "hermes_start su ha pe now w x =
     (if ha_network ha \<notin> {''regtest'', ''signet''} then Exits 1 ''only regtest or explicitly selected signet is supported''
      else if ha_network ha = ''signet'' \<and> (ha_wave_rpc_server ha = None \<or> ha_wave_rpc_server ha = Some [])
      then Exits 1 ''signet requires --wave-rpc-server''
      else case su_mkdir su of Some e \<Rightarrow> Crashes (ProcessRaised e) | None \<Rightarrow>
        case hermes_config ha of Inl e \<Rightarrow> Crashes (ProcessRaised e) | Inr pc \<Rightarrow>
        let cfg = build_transport su (ha_channel ha) (ha_pubkey ha) (buzz_bin_of su ha) in
        case buzz_init cfg (su_cursor su) now x of Inl e \<Rightarrow> Crashes (ProcessRaised e) | Inr bt \<Rightarrow>
        case build_adapter su (ha_network ha) (ha_wave_rpc_server ha) of Inl e \<Rightarrow> Crashes (ProcessRaised e) | Inr wl \<Rightarrow>
        let px = hermes_ctx su pc wl cfg pe (\<lambda>_. FNan) in
        (case process_start (px_validators px) (px_orch px) (px_env px) pc (su_store su) (su_audit su) (su_snapshot su) bt w of
           (Inr _, Some hr) \<Rightarrow> Serves pc wl cfg (ready_line (ha_role ha)) hr
         | (Inl e, _) \<Rightarrow> Crashes e
         | (Inr _, None) \<Rightarrow> Crashes (ProtocolError [])))"

section \<open>Answering lines\<close>

text \<open>\<open>str(exc)\<close>; \<open>invalid\<close> is the text of the validation library's error.\<close>

fun raised_text :: "string \<Rightarrow> exn \<Rightarrow> string" where
  "raised_text invalid ValidationError = invalid"
| "raised_text invalid e = exn_str e"

fun process_error_text :: "string \<Rightarrow> process_error \<Rightarrow> string" where
  "process_error_text invalid (ProtocolError m) = m"
| "process_error_text invalid (ProcessRaised e) = raised_text invalid e"
| "process_error_text invalid (FromPolicy e) =
     (case e of SubmissionRejected m \<Rightarrow> m | RecipientRejected m \<Rightarrow> m | ApprovalRejected m \<Rightarrow> m | StateError m \<Rightarrow> m
      | UnknownIntent m \<Rightarrow> m | Raised e \<Rightarrow> raised_text invalid e)"

definition error_response :: "string \<Rightarrow> process_error \<Rightarrow> string" where
  "error_response invalid e = json_dumps default_sorted
     (JObj [(''event'', JStr ''error''), (''error'', JStr (redact_sensitive (process_error_text invalid e)))])"

text \<open>A line that came in and what the process meets while it handles it.\<close>

record ('w, 's) arrival =
  ar_line :: string
  ar_ctx :: "('w, 's) process_ctx"
  ar_rounds :: nat

definition serve_line :: "string \<Rightarrow> ('w, 's) arrival \<Rightarrow> ('w, 's) HermesProcess \<Rightarrow> (string option \<times> ('w, 's) HermesProcess) option" where
  "serve_line invalid a hr =
     (let line = py_strip (ar_line a) in
      if line = [] then Some (None, hr)
      else case handle_line (ar_ctx a) (ar_rounds a) line hr of
        None \<Rightarrow> None
      | Some (Inr response, hr) \<Rightarrow> Some (Some response, hr)
      | Some (Inl e, hr) \<Rightarrow> Some (Some (error_response invalid e), hr))"

text \<open>The loop until the input ends, with the lines it writes.\<close>

fun serve :: "string \<Rightarrow> ('w, 's) arrival list \<Rightarrow> ('w, 's) HermesProcess \<Rightarrow> (string list \<times> ('w, 's) HermesProcess) option" where
  "serve invalid [] hr = Some ([], hr)"
| "serve invalid (a # as) hr =
     (case serve_line invalid a hr of
        None \<Rightarrow> None
      | Some (response, hr) \<Rightarrow>
          map_option (apfst (\<lambda>out. case response of Some r \<Rightarrow> r # out | None \<Rightarrow> out)) (serve invalid as hr))"

section \<open>What a runner has started with\<close>

lemma process_config_Inr:
  assumes "process_config role identity channel state_root network buzz_bin ap sp approver = Inr pc"
  shows "pc_role pc = role \<and> pc_identity pc = identity \<and> pc_channel pc = channel \<and> pc_network pc = network \<and> pc_approver pc = approver
    \<and> role \<in> {''alice'', ''bob''} \<and> network \<in> {''regtest'', ''signet''} \<and> py_strip channel \<noteq> []"
  using assms by (auto simp: process_config_def Let_def split: if_split_asm)

lemma hermes_start_Serves:
  assumes "hermes_start su ha pe now w x = Serves pc wl cfg line hr"
  shows "hermes_config ha = Inr pc \<and> build_adapter su (ha_network ha) (ha_wave_rpc_server ha) = Inr wl
    \<and> cfg = build_transport su (ha_channel ha) (ha_pubkey ha) (buzz_bin_of su ha) \<and> line = ready_line (ha_role ha)
    \<and> (ha_network ha = ''signet'' \<longrightarrow> (\<exists>s. ha_wave_rpc_server ha = Some s \<and> s \<noteq> []))
    \<and> (\<exists>bt. start_on (hermes_ctx su pc wl cfg pe (\<lambda>_. FNan)) (unclocked pe) (su_store su) (su_audit su) (su_snapshot su) bt w
          = (Inr (), Some hr))"
  using assms
  by (auto simp: hermes_start_def Let_def start_on_def hermes_ctx_def
      split: if_split_asm option.split_asm sum.split_asm prod.split_asm)

lemma new_identity_Inr: "new_identity pk = Inr a \<longleftrightarrow> a = \<lparr>pubkey = pk, relay_url = None\<rparr> \<and> length pk = 64"
  by (auto simp: new_identity_def identity_ok_def Let_def)

lemma hermes_config_Inr:
  assumes "hermes_config ha = Inr pc"
  shows "config_ok pc \<and> pc_identity pc = \<lparr>pubkey = ha_pubkey ha, relay_url = None\<rparr>
    \<and> pc_approver pc = Some \<lparr>pubkey = ha_approver_pubkey ha, relay_url = None\<rparr>
    \<and> pc_network pc = ha_network ha \<and> pc_role pc = ha_role ha \<and> pc_channel pc = ha_channel ha"
  using assms by (auto simp: hermes_config_def bindE_Inr_iff new_identity_Inr config_ok_def identity_ok_def dest!: process_config_Inr)

lemma hermes_ctx_ok:
  assumes "hermes_start su ha pe now w x = Serves pc wl cfg line hr"
    and "validators_contract (su_validators su)" and "validators_sound (su_validators su)"
  shows "ctx_ok (hermes_ctx su pc wl cfg pe' clock)"
  using hermes_start_Serves [OF assms(1)] hermes_config_Inr assms(2,3) by (auto simp: ctx_ok_def hermes_ctx_def)

end
