(* ===== verification/Runner_Properties.thy ===== *)
theory Runner_Properties
  imports Runner
begin

text \<open>
  What the runner promises its operator: one line of printable text for every line that is not
  blank, whatever happens inside, and no complete hash in what it writes.
\<close>

section \<open>Nothing written holds a complete hash\<close>

fun texts :: "pyjson \<Rightarrow> string list" where
  "texts (JStr s) = [s]"
| "texts (JList vs) = concat (map texts vs)"
| "texts (JObj d) = concat (map (\<lambda>(_, v). texts v) d)"
| "texts _ = []"

definition hides :: "pyjson \<Rightarrow> bool" where
  "hides v \<longleftrightarrow> (\<forall>s \<in> set (texts v). \<not> has_hash None s)"

definition hides_all :: "fields \<Rightarrow> bool" where
  "hides_all d \<longleftrightarrow> (\<forall>(_, v) \<in> set d. hides v)"

lemma has_hash_length: "has_hash p s \<Longrightarrow> 64 \<le> length s"
  by (induction p s rule: has_hash.induct) (auto simp: starts_hash_def)

lemma hides_simps [simp]:
  "hides JNull" "hides (JInt i)" "hides (JBool b)" "hides (JFloat f)" "hides (JStr s) \<longleftrightarrow> \<not> has_hash None s"
  "hides (JList vs) \<longleftrightarrow> (\<forall>v \<in> set vs. hides v)" "hides (JObj d) \<longleftrightarrow> hides_all d"
  by (auto simp: hides_def hides_all_def)

lemma hides_all_simps [simp]:
  "hides_all []" "hides_all ((k, v) # d) \<longleftrightarrow> hides v \<and> hides_all d" "hides_all (d @ d') \<longleftrightarrow> hides_all d \<and> hides_all d'"
  by (auto simp: hides_all_def)

lemma hides_all_set: "hides_all d \<Longrightarrow> hides v \<Longrightarrow> hides_all (dict_set k v d)"
  by (induction d) auto

lemma hides_all_merge: "hides_all d \<Longrightarrow> hides_all u \<Longrightarrow> hides_all (dict_merge d u)"
  by (induction u arbitrary: d) (auto simp: dict_merge_def hides_all_set)

lemma short_hides: "length s < 64 \<Longrightarrow> \<not> has_hash None s"
  using has_hash_length by fastforce

lemma identifier_hides [simp]: "\<not> has_hash None (redacted_identifier s)"
  by (rule short_hides) (simp add: redacted_identifier_def)

lemma constants_hide [simp]:
  "\<not> has_hash None (PaymentState_value st)" "\<not> has_hash None (Rail_value r)" "\<not> has_hash None (message_class m)"
  "\<not> has_hash None PROTOCOL_VERSION"
proof -
  show "\<not> has_hash None (PaymentState_value st)" by (rule short_hides, cases st) simp_all
  show "\<not> has_hash None (Rail_value r)" by (rule short_hides, cases r) simp_all
  show "\<not> has_hash None (message_class m)" by (rule short_hides, cases m) (simp_all add: message_class_def)
  show "\<not> has_hash None PROTOCOL_VERSION" by (rule short_hides) (simp add: PROTOCOL_VERSION_def)
qed

lemma serialize_message_hides: "serialize_message m = Inr d \<Longrightarrow> hides_all d"
  by (auto simp: serialize_message_def split: sum.split_asm DomainMessage.split)

lemma summaries_hide: "summaries pms = Inr items \<Longrightarrow> \<forall>v \<in> set items. hides v"
proof (induction pms arbitrary: items)
  case (Cons pm pms)
  then obtain summary rest where s: "serialize_message (pm_message pm) = Inr summary" "summaries pms = Inr rest"
    "items = JObj (dict_merge [(''message_id'', short (pm_message_id pm))] summary) # rest"
    by (auto simp: bindP_Inr)
  have "hides_all (dict_merge [(''message_id'', short (pm_message_id pm))] summary)"
    using hides_all_merge serialize_message_hides [OF s(1)] by simp
  with Cons.IH [OF s(2)] s(3) show ?case by simp
qed simp

lemma state_count_hides_fold: "hides_all counts \<Longrightarrow> hides_all (fold (\<lambda>(_, rc) counts.
         let s = PaymentState_value (rec_state rc);
             n = (case dict_get counts s of Some (JInt n) \<Rightarrow> n | _ \<Rightarrow> 0)
         in dict_set s (JInt (n + 1)) counts) intents counts)"
  by (induction intents arbitrary: counts) (auto simp: Let_def hides_all_set)

lemma state_count_hides: "hides_all (state_count_summary orc)"
  unfolding state_count_summary_def by (rule state_count_hides_fold) simp

lemma andthen_Inr: "andthen call f = (Inr v, p) \<longleftrightarrow> (\<exists>u q. call = (Inr u, q) \<and> f u q = (Inr v, p))"
  by (cases call) (auto simp: andthen_def split: sum.splits)

lemma state_reply_Inr: "state_reply k f hr = (Inr reply, hr') \<Longrightarrow> \<exists>st. reply = f (PaymentState_value st)"
  by (auto simp: state_reply_def split: sum.split_asm)

lemma case_only:
  "(case m of MIntent i \<Rightarrow> f i | _ \<Rightarrow> (Inl e, p)) = (Inr r, q) \<longleftrightarrow> (\<exists>i. m = MIntent i \<and> f i = (Inr r, q))"
  "(case m of MQuote i \<Rightarrow> g i | _ \<Rightarrow> (Inl e, p)) = (Inr r, q) \<longleftrightarrow> (\<exists>i. m = MQuote i \<and> g i = (Inr r, q))"
  "(case m of MReceipt i \<Rightarrow> h i | _ \<Rightarrow> (Inl e, p)) = (Inr r, q) \<longleftrightarrow> (\<exists>i. m = MReceipt i \<and> h i = (Inr r, q))"
  by (cases m; simp)+

lemmas handler_defs = handle_receive_def handle_submit_intent_def handle_accept_intent_def handle_publish_quote_def
  handle_accept_quote_def handle_submit_quote_local_def handle_prepare_def handle_execute_def handle_publish_receipt_def
  handle_verify_publish_receipt_def handle_accept_receipt_def

lemma handlers_hide:
  "handle_receive px args hr = (Inr reply, hr') \<Longrightarrow> hides_all reply"
  "handle_submit_intent px args hr = (Inr reply, hr') \<Longrightarrow> hides_all reply"
  "handle_accept_intent px args hr = (Inr reply, hr') \<Longrightarrow> hides_all reply"
  "handle_publish_quote px args hr = (Inr reply, hr') \<Longrightarrow> hides_all reply"
  "handle_accept_quote px args hr = (Inr reply, hr') \<Longrightarrow> hides_all reply"
  "handle_submit_quote_local px args hr = (Inr reply, hr') \<Longrightarrow> hides_all reply"
  "handle_prepare px args hr = (Inr reply, hr') \<Longrightarrow> hides_all reply"
  "handle_approve px args hr = (Inr reply, hr') \<Longrightarrow> hides_all reply"
  "handle_execute px args hr = (Inr reply, hr') \<Longrightarrow> hides_all reply"
  "handle_publish_receipt px args hr = (Inr reply, hr') \<Longrightarrow> hides_all reply"
  "handle_verify_publish_receipt px args hr = (Inr reply, hr') \<Longrightarrow> hides_all reply"
  "handle_accept_receipt px args hr = (Inr reply, hr') \<Longrightarrow> hides_all reply"
  by (auto simp: handler_defs handle_approve_def andthen_Inr case_only case_prod_beta Let_def summaries_hide
      split: option.split_asm dest!: state_reply_Inr)

lemma recovered_hides:
  assumes "\<forall>r. rec_reconciliation rc = Some r \<longrightarrow> \<not> has_hash None (rr_status r)"
  shows "hides (recovered_intent rc)"
  using assms redacted_has_no_hash
  by (auto simp: recovered_intent_def serialize_reconciliation_def opt_json_def split: option.split list.split)

lemma recover_hides:
  assumes "handle_recover px rounds args hr = Some (Inr reply, hr')"
    and "\<forall>k rc r. (k, rc) \<in> set (orch_intents (hr_engine hr')) \<longrightarrow> rec_reconciliation rc = Some r \<longrightarrow> \<not> has_hash None (rr_status r)"
  shows "hides_all reply"
  using assms recovered_hides state_count_hides
  by (fastforce simp: handle_recover_def andthen_Inr split: sum.split_asm option.split_asm)

lemma demo_prepares:
  "\<exists>reply hr'. run_command demo_ctx 1 (bare ''prepare'') (demo_process QUOTED) = Some (Inr reply, hr')
    \<and> orch_intents (hr_engine hr') = orch_intents (demo_at PREPARED)"
  by (simp add: run_command_def handle_prepare_def on_engine_def prepare_def demo_process_env_def demo_at_def demo_record_def
      find_by_state_def check_quote_expired_def audited_def audit_append_def validate_rail_def put_record_def
      transition_def can_transition_def TRANSITIONS_def TERMINAL_STATES_def new_record_def demo_defs Let_def)

text \<open>C33: no reply gives a full identifier away. In whatever a command other than \<open>status\<close> answers, at
  any depth, no text holds a complete hash of 64 hexadecimal digits: not the identifier of an
  intent, a quote, a receipt or a message, not a prepared hash, not a settlement reference,
  as long as the wallet does not put one into the status word of a reconciliation.\<close>

theorem replies_hide_hashes:
  assumes "run_command px rounds c hr = Some (Inr reply, hr')" and "jc_name c \<noteq> ''status''"
    and "\<forall>k rc r. (k, rc) \<in> set (orch_intents (hr_engine hr')) \<longrightarrow> rec_reconciliation rc = Some r \<longrightarrow> \<not> has_hash None (rr_status r)"
  shows "\<forall>(k, v) \<in> set reply. \<forall>s \<in> set (texts v). \<not> has_hash None s"
proof -
  have "hides_all reply"
    using assms(1,2) recover_hides [OF _ assms(3)] handlers_hide
    by (auto simp: run_command_def Let_def split: if_split_asm)
  then show ?thesis by (auto simp: hides_all_def hides_def)
qed

theorem replies_hide_hashes_witness:
  "\<exists>reply hr'. run_command demo_ctx 1 (bare ''prepare'') (demo_process QUOTED) = Some (Inr reply, hr')
    \<and> (\<forall>(k, v) \<in> set reply. \<forall>s \<in> set (texts v). \<not> has_hash None s)"
proof -
  obtain reply hr' where run: "run_command demo_ctx 1 (bare ''prepare'') (demo_process QUOTED) = Some (Inr reply, hr')"
    and intents: "orch_intents (hr_engine hr') = orch_intents (demo_at PREPARED)"
    using demo_prepares by blast
  have "\<forall>k rc r. (k, rc) \<in> set (orch_intents (hr_engine hr')) \<longrightarrow> rec_reconciliation rc = Some r \<longrightarrow> \<not> has_hash None (rr_status r)"
    by (simp add: intents demo_at_def demo_start_def demo_record_def new_record_def)
  from replies_hide_hashes [OF run _ this] run show ?thesis by auto
qed

section \<open>One line for one line\<close>

lemma serve_line_answers:
  assumes "float_le (float_of_ratio False 720 1) (float_sub (px_clock (ar_ctx a) k) (px_clock (ar_ctx a) 0))"
    and "0 < k" and "k \<le> ar_rounds a"
  shows "\<exists>response hr'. serve_line invalid a hr = Some (response, hr')
    \<and> (py_strip (ar_line a) = [] \<longrightarrow> response = None \<and> hr' = hr)
    \<and> (py_strip (ar_line a) \<noteq> [] \<longrightarrow> (\<exists>r. response = Some r \<and> r \<noteq> [] \<and> printables r))"
proof (cases "py_strip (ar_line a) = []")
  case False
  from line_answered [OF assms] obtain out hr' where
    h: "handle_line (ar_ctx a) (ar_rounds a) (py_strip (ar_line a)) hr = Some (out, hr')" by blast
  show ?thesis
  proof (cases out)
    case (Inl e)
    have "error_response invalid e \<noteq> [] \<and> printables (error_response invalid e)"
      using dumped_line [of default_sorted] by (simp add: error_response_def dumps_Obj_nonempty del: json_dumps.simps)
    with h False Inl show ?thesis by (simp add: serve_line_def)
  next
    case (Inr r)
    with h obtain name reply where "r = event_line name reply"
      by (auto simp: handle_line_def split: sum.split_asm option.split_asm dest!: andthen_Inr [THEN iffD1])
    then have "r \<noteq> [] \<and> printables r"
      using dumped_line [of compact_sorted] by (simp add: event_line_def dumps_Obj_nonempty del: json_dumps.simps)
    with h False Inr show ?thesis by (simp add: serve_line_def)
  qed
qed (simp add: serve_line_def)

text \<open>C32: the stream stays in step. For any input, the runner writes exactly one line for each line
  that is not blank, and each is printable ASCII, so no text of a message, an error or a file
  can break or forge a line of the stream; a clock that passes twelve minutes is all it needs.\<close>

theorem runner_answers_every_line:
  assumes "\<forall>a \<in> set arrivals. \<exists>k. 0 < k \<and> k \<le> ar_rounds a
    \<and> float_le (float_of_ratio False 720 1) (float_sub (px_clock (ar_ctx a) k) (px_clock (ar_ctx a) 0))"
  shows "\<exists>out hr'. serve invalid arrivals hr = Some (out, hr')
    \<and> length out = length (filter (\<lambda>a. py_strip (ar_line a) \<noteq> []) arrivals)
    \<and> (\<forall>line \<in> set out. line \<noteq> [] \<and> printables line)"
  using assms
proof (induction arrivals arbitrary: hr)
  case (Cons a arrivals)
  then obtain k where "float_le (float_of_ratio False 720 1) (float_sub (px_clock (ar_ctx a) k) (px_clock (ar_ctx a) 0))"
    "0 < k" "k \<le> ar_rounds a" by auto
  from serve_line_answers [OF this, of invalid hr] obtain response hr1 where
    one: "serve_line invalid a hr = Some (response, hr1)" "py_strip (ar_line a) = [] \<longrightarrow> response = None"
      "py_strip (ar_line a) \<noteq> [] \<longrightarrow> (\<exists>r. response = Some r \<and> r \<noteq> [] \<and> printables r)" by blast
  from Cons.IH [of hr1] Cons.prems obtain out hr' where
    "serve invalid arrivals hr1 = Some (out, hr')" "length out = length (filter (\<lambda>a. py_strip (ar_line a) \<noteq> []) arrivals)"
    "\<forall>line \<in> set out. line \<noteq> [] \<and> printables line" by auto
  with one show ?case by (cases "py_strip (ar_line a) = []") auto
qed simp

text \<open>An error does not end the runner and does not reveal a hash. Whatever a command raises, the
  runner answers with a JSON object of the event \<open>error\<close> and goes on from the state the command
  left; its text holds no complete hash of 64 hexadecimal digits.\<close>

theorem runner_reports_errors:
  assumes "handle_line (ar_ctx a) (ar_rounds a) (py_strip (ar_line a)) hr = Some (Inl e, hr')" and "py_strip (ar_line a) \<noteq> []"
  shows "\<exists>response d message. serve_line invalid a hr = Some (Some response, hr') \<and> json_loads response = Some (JObj d)
    \<and> dict_get d ''event'' = Some (JStr ''error'') \<and> dict_get d ''error'' = Some (JStr message)
    \<and> message = redact_sensitive (process_error_text invalid e) \<and> \<not> has_hash None message"
proof -
  let ?d = "[(''event'', JStr ''error''), (''error'', JStr (redact_sensitive (process_error_text invalid e)))]"
  have ok: "json_ok (JObj ?d)" by simp
  obtain d where d: "canon default_sorted (JObj ?d) = JObj d" by simp
  have "dict_get d k = map_option (canon default_sorted) (dict_get ?d k)" for k by (rule dict_get_canon [OF ok d])
  then have "dict_get d ''event'' = Some (JStr ''error'')"
    "dict_get d ''error'' = Some (JStr (redact_sensitive (process_error_text invalid e)))" by simp_all
  moreover have "json_loads (error_response invalid e) = Some (JObj d)"
    using json_roundtrip [OF opts_ok_in_use(3) ok] d by (simp add: error_response_def del: json_dumps.simps canon.simps)
  ultimately show ?thesis using assms redacted_has_no_hash by (simp add: serve_line_def)
qed

theorem runner_reports_errors_witness:
  "\<exists>response d. serve_line ''invalid'' \<lparr>ar_line = ''{}'', ar_ctx = demo_ctx, ar_rounds = 1\<rparr> (demo_process APPROVED) =
      Some (Some response, demo_process APPROVED)
    \<and> json_loads response = Some (JObj d) \<and> dict_get d ''error'' = Some (JStr (redact_sensitive ''command name is required''))"
proof -
  have "json_loads ''{}'' = Some (JObj [])" "py_strip ''{}'' = ''{}''" by code_simp+
  then have "handle_line demo_ctx 1 (py_strip ''{}'') (demo_process APPROVED) =
      Some (Inl (ProtocolError ''command name is required''), demo_process APPROVED)" "py_strip ''{}'' \<noteq> []"
    by (simp_all add: handle_line_def parse_command_def)
  with runner_reports_errors [of "\<lparr>ar_line = ''{}'', ar_ctx = demo_ctx, ar_rounds = 1\<rparr>" "demo_process APPROVED"
      "ProtocolError ''command name is required''" "demo_process APPROVED" "''invalid''"]
  show ?thesis by auto
qed

lemma demo_clock: "float_le (float_of_ratio False 720 1) (float_sub (px_clock demo_ctx 1) (px_clock demo_ctx 0))"
proof -
  have "float_sub (FFin False 45 4) (FFin False 0 0) = FFin False 45 4"
    using float_bounds(4) by (simp add: float_rat_def)
  then show ?thesis by (simp add: demo_ctx_def float_bounds [unfolded One_nat_def])
qed

theorem runner_answers_every_line_witness:
  "\<exists>out hr'. serve ''invalid'' [\<lparr>ar_line = ''no json'', ar_ctx = demo_ctx, ar_rounds = 1\<rparr>, \<lparr>ar_line = ''  '', ar_ctx = demo_ctx, ar_rounds = 1\<rparr>,
      \<lparr>ar_line = ''{}'', ar_ctx = demo_ctx, ar_rounds = 1\<rparr>] (demo_process EXECUTING) = Some (out, hr') \<and> length out = 2"
proof -
  let ?as = "[\<lparr>ar_line = ''no json'', ar_ctx = demo_ctx, ar_rounds = 1\<rparr>, \<lparr>ar_line = ''  '', ar_ctx = demo_ctx, ar_rounds = 1\<rparr>,
      \<lparr>ar_line = ''{}'', ar_ctx = demo_ctx, ar_rounds = 1\<rparr>] :: (nat, Hub) arrival list"
  have "\<forall>a \<in> set ?as. \<exists>k. 0 < k \<and> k \<le> ar_rounds a
      \<and> float_le (float_of_ratio False 720 1) (float_sub (px_clock (ar_ctx a) k) (px_clock (ar_ctx a) 0))"
    using demo_clock by (auto intro: exI [of _ 1])
  from runner_answers_every_line [OF this, of "''invalid''" "demo_process EXECUTING"]
  obtain out hr' where "serve ''invalid'' ?as (demo_process EXECUTING) = Some (out, hr')"
    "length out = length (filter (\<lambda>a. py_strip (ar_line a) \<noteq> []) ?as)" by blast
  moreover have "py_strip ''no json'' = ''no json''" "py_strip ''  '' = []" "py_strip ''{}'' = ''{}''" by code_simp+
  ultimately show ?thesis by (intro exI [of _ out] exI [of _ hr'] conjI) (simp_all del: serve.simps add: numeral_2_eq_2)
qed

end
