(* ===== verification/Relay_Health.thy ===== *)
theory Relay_Health
  imports Process_Config
begin

text \<open>
  The health probe of the supervisor, \<open>_verify_buzz_relay_health\<close> of
  \<open>examples/two_hermes_regtest/run.py\<close>, with what it uses of \<open>urllib.parse\<close>: the scheme and
  the network location of an address, and the host name in that. Whether \<open>urlsplit\<close> accepts an
  address in brackets depends on the version of Python: \<open>bracketed\<close> gives what it raises.
\<close>

section \<open>Addresses\<close>

definition lower_char :: "char \<Rightarrow> char" where
  "lower_char c =
     (let n = code c in if 65 \<le> n \<and> n \<le> 90 \<or> 192 \<le> n \<and> n \<le> 222 \<and> n \<noteq> 215 then char_of (n + 32) else c)"

definition text_before :: "char \<Rightarrow> string \<Rightarrow> string" where
  "text_before c s = takeWhile (\<lambda>x. x \<noteq> c) s"

definition text_after :: "char \<Rightarrow> string \<Rightarrow> string" where
  "text_after c s = drop 1 (dropWhile (\<lambda>x. x \<noteq> c) s)"

text \<open>\<open>s.rpartition(c)[2]\<close>, which is \<open>s\<close> where \<open>c\<close> does not occur.\<close>

definition text_after_last :: "char \<Rightarrow> string \<Rightarrow> string" where
  "text_after_last c s = rev (text_before c (rev s))"

definition py_rstrip_char :: "char \<Rightarrow> string \<Rightarrow> string" where
  "py_rstrip_char c s = rev (dropWhile (\<lambda>x. x = c) (rev s))"

definition is_letter :: "char \<Rightarrow> bool" where
  "is_letter c \<longleftrightarrow> (65 \<le> code c \<and> code c \<le> 90) \<or> (97 \<le> code c \<and> code c \<le> 122)"

definition scheme_char :: "char \<Rightarrow> bool" where
  "scheme_char c \<longleftrightarrow> is_letter c \<or> is_digit c \<or> c \<in> set ''+-.''"

definition split_scheme :: "string \<Rightarrow> string \<times> string" where
  "split_scheme url =
     (let scheme = text_before (CHR '':'') url in
      if CHR '':'' \<in> set url \<and> scheme \<noteq> [] \<and> is_letter (hd scheme) \<and> list_all scheme_char scheme
      then (map lower_char scheme, text_after (CHR '':'') url) else ([], url))"

text \<open>\<open>urlsplit\<close>: the scheme and the network location.\<close>

definition url_split :: "(string \<Rightarrow> exn option) \<Rightarrow> string \<Rightarrow> exn + string \<times> string" where
  "url_split bracketed url =
     (let url = filter (\<lambda>c. code c \<notin> {9, 10, 13}) (dropWhile (\<lambda>c. code c \<le> 32) url) in
      case split_scheme url of (scheme, rest) \<Rightarrow>
        let netloc = (if take 2 rest = ''//'' then takeWhile (\<lambda>c. c \<notin> set ''/?#'') (drop 2 rest) else []) in
        if (CHR ''['' \<in> set netloc) \<noteq> (CHR '']'' \<in> set netloc) then Inl (ValueError ''Invalid IPv6 URL'')
        else if CHR ''['' \<in> set netloc
        then (case bracketed netloc of Some e \<Rightarrow> Inl e | None \<Rightarrow> Inr (scheme, netloc))
        else Inr (scheme, netloc))"

definition url_hostname :: "string \<Rightarrow> string option" where
  "url_hostname netloc =
     (let hostinfo = text_after_last (CHR ''@'') netloc;
          hostname = (if CHR ''['' \<in> set hostinfo then text_before (CHR '']'') (text_after (CHR ''['') hostinfo) else text_before (CHR '':'') hostinfo) in
      if hostname = [] then None
      else Some (map lower_char (text_before (CHR ''%'') hostname) @ dropWhile (\<lambda>c. c \<noteq> CHR ''%'') hostname))"

text \<open>
  \<open>urlunsplit((scheme, netloc, "", "", "")).rstrip("/")\<close>. Without a network location some
  schemes are followed by slashes, which are stripped.
\<close>

definition url_base :: "string \<Rightarrow> string \<Rightarrow> string" where
  "url_base scheme netloc =
     py_rstrip_char (CHR ''/'') ((if scheme = [] then [] else scheme @ '':'') @ (if netloc = [] then [] else ''//'' @ netloc))"

section \<open>The probe\<close>

definition health_netloc :: "string \<Rightarrow> string" where
  "health_netloc netloc =
     (case url_hostname netloc of
        Some host \<Rightarrow> (if CHR '':'' \<in> set host then ''['' @ host @ '']:8080'' else host @ '':8080'')
      | None \<Rightarrow> netloc)"

definition health_urls :: "(string \<Rightarrow> exn option) \<Rightarrow> (string \<Rightarrow> string option) \<Rightarrow> exn + string list" where
  "health_urls bracketed env =
     (let explicit = (case env ''BUZZ_HEALTH_URL'' of Some (c # cs) \<Rightarrow> Some (c # cs) | _ \<Rightarrow> None);
          relay_url = (case explicit of Some u \<Rightarrow> u
            | None \<Rightarrow> (case env ''BUZZ_RELAY_URL'' of Some u \<Rightarrow> u | None \<Rightarrow> ''http://127.0.0.1:3000'')) in
      case url_split bracketed relay_url of
        Inl e \<Rightarrow> Inl e
      | Inr (scheme, netloc) \<Rightarrow>
          let scheme = (if scheme = ''ws'' then ''http'' else if scheme = ''wss'' then ''https'' else scheme) in
          if explicit \<noteq> None then Inr [relay_url]
          else Inr [url_base scheme (health_netloc netloc) @ ''/_readiness'', url_base scheme (health_netloc netloc) @ ''/_liveness'',
                    url_base scheme netloc @ ''/_readiness'', url_base scheme netloc @ ''/_liveness''])"

text \<open>\<open>urlopen url c\<close> is the status of the answer to a request, and nothing where the request raises.\<close>

fun probe_urls :: "(string \<Rightarrow> 'c \<Rightarrow> int option \<times> 'c) \<Rightarrow> string list \<Rightarrow> 'c \<Rightarrow> bool \<times> 'c" where
  "probe_urls urlopen [] c = (False, c)"
| "probe_urls urlopen (url # urls) c =
     (case urlopen url c of
        (Some status, c) \<Rightarrow> if 200 \<le> status \<and> status < 300 then (True, c) else probe_urls urlopen urls c
      | (None, c) \<Rightarrow> probe_urls urlopen urls c)"

definition verify_buzz_relay_health ::
    "(string \<Rightarrow> exn option) \<Rightarrow> (string \<Rightarrow> string option) \<Rightarrow> (string \<Rightarrow> 'c \<Rightarrow> int option \<times> 'c) \<Rightarrow> 'c \<Rightarrow> (exn + bool) \<times> 'c" where
  "verify_buzz_relay_health bracketed env urlopen c =
     (case health_urls bracketed env of
        Inl e \<Rightarrow> (Inl e, c)
      | Inr urls \<Rightarrow> (case probe_urls urlopen urls c of (healthy, c) \<Rightarrow> (Inr healthy, c)))"

section \<open>Relays at an ordinary address\<close>

definition host_char :: "char \<Rightarrow> bool" where
  "host_char c \<longleftrightarrow> is_digit c \<or> (97 \<le> code c \<and> code c \<le> 122) \<or> c \<in> set ''-._:''"

definition bracket :: "string \<Rightarrow> string" where
  "bracket host = (if CHR '':'' \<in> set host then ''['' @ host @ '']'' else host)"

definition port_text :: "string \<Rightarrow> bool" where
  "port_text port \<longleftrightarrow> port = [] \<or> (\<exists>digits. port = CHR '':'' # digits \<and> list_all is_digit digits)"

lemma host_char_plain:
  "host_char c \<Longrightarrow> c \<notin> set ''/?#@[]%''" "host_char c \<Longrightarrow> 32 < code c" "host_char c \<Longrightarrow> lower_char c = c"
  by (auto simp: host_char_def is_digit_def lower_char_def)

lemma host_chars:
  assumes "list_all host_char host"
  shows "c \<in> set host \<Longrightarrow> host_char c" "map lower_char host = host"
    "CHR ''@'' \<notin> set host" "CHR ''['' \<notin> set host" "CHR '']'' \<notin> set host" "CHR ''%'' \<notin> set host"
    "CHR ''/'' \<notin> set host" "CHR ''?'' \<notin> set host" "CHR ''#'' \<notin> set host"
  using assms host_char_plain(1) host_char_plain(3) by (fastforce simp: list_all_iff intro: map_idI)+

lemma port_chars:
  assumes "port_text port"
  shows "c \<in> set port \<Longrightarrow> host_char c"
    "CHR ''@'' \<notin> set port" "CHR ''['' \<notin> set port" "CHR '']'' \<notin> set port" "CHR ''/'' \<notin> set port"
  using assms by (auto simp: port_text_def list_all_iff host_char_def is_digit_def dest: bspec)

lemma text_before_append: "c \<notin> set a \<Longrightarrow> text_before c (a @ c # b) = a" "c \<notin> set a \<Longrightarrow> text_before c a = a"
  by (auto simp: text_before_def takeWhile_eq_all_conv takeWhile_append2 takeWhile_tail)

lemma text_after_append: "c \<notin> set a \<Longrightarrow> text_after c (a @ c # b) = b"
  unfolding text_after_def by (induction a) auto

lemma text_after_last_none: "c \<notin> set a \<Longrightarrow> text_after_last c a = a"
  by (simp add: text_after_last_def text_before_append)

lemma hostname_bracket:
  assumes "host \<noteq> []" and host: "list_all host_char host" and port: "port_text port"
  shows "url_hostname (bracket host @ port) = Some host"
proof -
  note no = host_chars [OF host]
  note none = port_chars(2,3) [OF port]
  have whole: "text_after_last (CHR ''@'') (bracket host @ port) = bracket host @ port"
    using no none by (intro text_after_last_none) (simp add: bracket_def)
  have zone: "dropWhile (\<lambda>c. c \<noteq> CHR ''%'') host = []" "text_before (CHR ''%'') host = host"
    using no(6) by (auto simp: dropWhile_eq_Nil_conv text_before_append)
  show ?thesis
  proof (cases "CHR '':'' \<in> set host")
    case True
    have "text_after (CHR ''['') (''['' @ host @ '']'' @ port) = host @ '']'' @ port"
      using text_after_append [of "CHR ''[''" "[]" "host @ '']'' @ port"] by simp
    with True assms(1) no whole zone text_before_append(1) [of "CHR '']''" host port]
    show ?thesis by (simp add: url_hostname_def bracket_def Let_def)
  next
    case False
    have "text_before (CHR '':'') (host @ port) = host"
      using port False text_before_append [of "CHR '':''" host] by (auto simp: port_text_def)
    with False assms(1) no none whole zone show ?thesis by (simp add: url_hostname_def bracket_def Let_def)
  qed
qed

lemma split_address:
  assumes scheme: "scheme \<in> {''ws'', ''wss'', ''http'', ''https''}" and host: "list_all host_char host" and port: "port_text port"
    and path: "path = [] \<or> hd path = CHR ''/''" and ok: "bracketed (bracket host @ port) = None"
  shows "url_split bracketed (scheme @ ''://'' @ bracket host @ port @ path) = Inr (scheme, bracket host @ port)"
proof -
  let ?net = "bracket host @ port" and ?keep = "\<lambda>c. code c \<notin> {9, 10, 13}"
  have plain: "32 < code c \<and> c \<notin> set ''/?#''" if "c \<in> set ?net" for c
  proof -
    have "host_char c \<or> c = CHR ''['' \<or> c = CHR '']''"
      using that host_chars(1) [OF host] port_chars [OF port] by (auto simp: bracket_def split: if_split_asm)
    then show ?thesis using host_char_plain(1,2) [of c] by auto
  qed
  then have kept: "filter ?keep ?net = ?net" by (intro filter_True) fastforce
  have front: "dropWhile (\<lambda>c. code c \<le> 32) (scheme @ r) = scheme @ r" for r using scheme by auto
  have scheme_kept: "filter ?keep (scheme @ ''://'') = scheme @ ''://''" using scheme by auto
  obtain tail where rest: "filter ?keep path = tail" "tail = [] \<or> hd tail = CHR ''/''" using path by (cases path) auto
  have cleaned: "filter ?keep (dropWhile (\<lambda>c. code c \<le> 32) (scheme @ ''://'' @ bracket host @ port @ path)) = scheme @ CHR '':'' # ''//'' @ ?net @ tail"
    using kept scheme_kept rest(1) unfolding front by simp
  have "CHR '':'' \<notin> set scheme" "scheme \<noteq> []" "is_letter (hd scheme)" "list_all scheme_char scheme" "map lower_char scheme = scheme"
    using scheme by (auto simp: is_letter_def scheme_char_def lower_char_def)
  then have split: "split_scheme (scheme @ CHR '':'' # r) = (scheme, r)" for r
    by (simp add: split_scheme_def Let_def text_before_append text_after_append)
  have net: "takeWhile (\<lambda>c. c \<notin> set ''/?#'') (?net @ tail) = ?net"
  proof -
    have "takeWhile (\<lambda>c. c \<notin> set ''/?#'') tail = []" using rest(2) by (cases tail) auto
    with plain show ?thesis by (subst takeWhile_append2) blast+
  qed
  have "CHR ''['' \<in> set ?net \<longleftrightarrow> CHR '']'' \<in> set ?net"
    using host_chars(4,5) [OF host] port_chars(3,4) [OF port] by (simp add: bracket_def)
  with net ok show ?thesis unfolding url_split_def Let_def cleaned split prod.case by simp
qed

section \<open>Which probes are sent\<close>

text \<open>A relay whose answers may depend on what it was asked before; the state is the list of the addresses asked.\<close>

definition recording :: "(string list \<Rightarrow> string \<Rightarrow> int option) \<Rightarrow> string \<Rightarrow> string list \<Rightarrow> int option \<times> string list" where
  "recording answers url asked = (answers asked url, asked @ [url])"

definition good_status :: "int option \<Rightarrow> bool" where
  "good_status status \<longleftrightarrow> (\<exists>n. status = Some n \<and> 200 \<le> n \<and> n < 300)"

lemma probe_step:
  "probe_urls (recording answers) (url # urls) asked =
    (if good_status (answers asked url) then (True, asked @ [url]) else probe_urls (recording answers) urls (asked @ [url]))"
  by (auto simp: recording_def good_status_def split: option.split)

lemma probe_urls_first:
  assumes "n < length urls" and "good_status (answers (asked @ take n urls) (urls ! n))"
    and "\<forall>i < n. \<not> good_status (answers (asked @ take i urls) (urls ! i))"
  shows "probe_urls (recording answers) urls asked = (True, asked @ take (Suc n) urls)"
  using assms
proof (induction urls arbitrary: n asked)
  case (Cons url urls)
  show ?case
  proof (cases n)
    case 0
    with Cons.prems(2) show ?thesis unfolding probe_step by simp
  next
    case (Suc m)
    have "probe_urls (recording answers) urls (asked @ [url]) = (True, (asked @ [url]) @ take (Suc m) urls)"
    proof (rule Cons.IH)
      show "\<forall>i < m. \<not> good_status (answers ((asked @ [url]) @ take i urls) (urls ! i))"
        using Cons.prems(3) Suc by (auto dest: spec [of _ "Suc _"])
    qed (use Cons.prems(1,2) Suc in simp_all)
    moreover have "\<not> good_status (answers asked url)" using Cons.prems(3) Suc by (auto dest: spec [of _ 0])
    ultimately show ?thesis using Suc unfolding probe_step by simp
  qed
qed simp

lemma probe_urls_none:
  assumes "\<forall>i < length urls. \<not> good_status (answers (asked @ take i urls) (urls ! i))"
  shows "probe_urls (recording answers) urls asked = (False, asked @ urls)"
  using assms
proof (induction urls arbitrary: asked)
  case (Cons url urls)
  have "\<forall>i < length urls. \<not> good_status (answers ((asked @ [url]) @ take i urls) (urls ! i))"
    using Cons.prems by (auto dest: spec [of _ "Suc _"])
  moreover have "\<not> good_status (answers asked url)" using Cons.prems by (auto dest: spec [of _ 0])
  ultimately show ?case using Cons.IH [of "asked @ [url]"] unfolding probe_step by simp
qed simp

definition relay_probes :: "string \<Rightarrow> string \<Rightarrow> string \<Rightarrow> string list" where
  "relay_probes scheme host port =
     (let base = (if scheme \<in> {''wss'', ''https''} then ''https://'' else ''http://'') @ bracket host in
      [base @ '':8080/_readiness'', base @ '':8080/_liveness'', base @ port @ ''/_readiness'', base @ port @ ''/_liveness''])"

lemma address_urls:
  assumes scheme: "scheme \<in> {''ws'', ''wss'', ''http'', ''https''}" and host: "host \<noteq> []" "list_all host_char host" and port: "port_text port"
    and "path = [] \<or> hd path = CHR ''/''" and "bracketed (bracket host @ port) = None"
    and env: "env ''BUZZ_HEALTH_URL'' \<in> {None, Some []}" "env ''BUZZ_RELAY_URL'' = Some (scheme @ ''://'' @ bracket host @ port @ path)"
  shows "health_urls bracketed env = Inr (relay_probes scheme host port)"
proof -
  have health: "health_netloc (bracket host @ port) = bracket host @ '':8080''"
    using hostname_bracket [OF host port] by (simp add: health_netloc_def bracket_def)
  have base: "url_base s (bracket host @ p) = s @ ''://'' @ bracket host @ p" if "s \<noteq> []" "port_text p" for s p
  proof -
    have "last host \<noteq> CHR ''/''" "p \<noteq> [] \<Longrightarrow> last p \<noteq> CHR ''/''"
      using host(1) host_chars(7) [OF host(2)] port_chars(5) [OF that(2)] by (metis last_in_set)+
    then have "bracket host @ p \<noteq> []" "last (bracket host @ p) \<noteq> CHR ''/''"
      using host(1) by (auto simp: bracket_def last_append)
    then have "dropWhile (\<lambda>x. x = CHR ''/'') (rev (t @ bracket host @ p)) = rev (t @ bracket host @ p)" for t
      by (cases "rev (bracket host @ p)") (auto simp: last_rev hd_rev simp flip: hd_rev)
    from this [of "s @ ''://''"] that(1) \<open>bracket host @ p \<noteq> []\<close> show ?thesis by (simp add: url_base_def py_rstrip_char_def)
  qed
  have "port_text '':8080''" by (simp add: port_text_def is_digit_def)
  note bases = base [OF _ this] base [OF _ port]
  from env show ?thesis
    using scheme split_address [where bracketed = bracketed, OF scheme host(2) port assms(5,6)] health bases
    by (auto simp: health_urls_def relay_probes_def Let_def)
qed


definition demo_env :: "string \<Rightarrow> string option" where
  "demo_env = [''BUZZ_RELAY_URL'' \<mapsto> ''wss://relay.example:3000/chat'']"


text \<open>An address set for the health check is the only one asked; a relay whose address has unpaired brackets ends the supervisor with an exception.\<close>

lemma explicit_probe:
  assumes "env ''BUZZ_HEALTH_URL'' = Some (c # cs)" and "health_urls bracketed env = Inr urls"
  shows "urls = [c # cs]"
  using assms by (auto simp: health_urls_def Let_def split: sum.split_asm prod.split_asm)

lemma unpaired_bracket:
  "health_urls bracketed [''BUZZ_RELAY_URL'' \<mapsto> ''ws://[::1:3000''] = Inl (ValueError ''Invalid IPv6 URL'')"
  by code_simp

end
