(* ===== verification/Supervisor.thy ===== *)
theory Supervisor
  imports Runner_Properties Relay_Health
begin

text \<open>
  The supervisor \<open>examples/two_hermes_regtest/run.py\<close>: it checks its arguments, writes a shell
  wrapper for each of the two processes, waits for their ready lines, and forwards the
  operator's commands to the process they name. The operating system is a record of what the
  supervisor asks of it, over its state \<open>'c\<close>.
\<close>

section \<open>Redaction of responses\<close>

definition display_identifier :: "string \<Rightarrow> string" where
  "display_identifier value = (if length value \<le> 8 then value else take 8 value @ ''...'')"

definition redact_keys :: "string list" where
  "redact_keys = [''id'', ''intent_id'', ''quote_id'', ''message_id'', ''prepared_hash'', ''settlement_ref'', ''payment_hash'', ''author'',
     ''pubkey'', ''channel'', ''state_root'']"

text \<open>\<open>redact_member key v\<close> is what \<open>_redact_payload\<close> puts for a member; the items of a list that are objects are redacted too.\<close>

fun redact_member :: "string \<Rightarrow> pyjson \<Rightarrow> pyjson" where
  "redact_member key (JStr s) = (if 32 \<le> length s \<and> key \<in> set redact_keys then JStr (display_identifier s) else JStr s)"
| "redact_member key (JObj d) = JObj (map (\<lambda>(k, v). (k, redact_member k v)) d)"
| "redact_member key (JList vs) = JList (map (\<lambda>v. case v of JObj _ \<Rightarrow> redact_member key v | _ \<Rightarrow> v) vs)"
| "redact_member key v = v"

definition redact_payload :: "fields \<Rightarrow> fields" where
  "redact_payload payload = map (\<lambda>(k, v). (k, redact_member k v)) payload"

section \<open>The shell wrapper\<close>

definition shell_safe :: "char \<Rightarrow> bool" where
  "shell_safe c \<longleftrightarrow> is_alnum c \<or> c \<in> set ''_@%+=:,./-''"

definition shlex_quote :: "string \<Rightarrow> string" where
  "shlex_quote s =
     (if s = [] then [CHR 0x27, CHR 0x27]
      else if list_all shell_safe s then s
      else [CHR 0x27] @ concat (map (\<lambda>c. if c = CHR 0x27 then [CHR 0x27, CHR 0x22, CHR 0x27, CHR 0x22, CHR 0x27] else [c]) s) @ [CHR 0x27])"

abbreviation newline :: string where
  "newline \<equiv> [CHR 0x0A]"

definition dquoted :: "string \<Rightarrow> string" where
  "dquoted s = [CHR 0x22] @ s @ [CHR 0x22]"

text \<open>The end of a line that the shell joins with the next, and the indentation of that.\<close>

definition continued :: string where
  "continued = '' '' @ [CHR 0x5C] @ newline @ ''    ''"

definition credential_forwarding :: "string \<Rightarrow> string" where
  "credential_forwarding role_prefix =
     concat (map (\<lambda>name.
       ''if [ -n '' @ dquoted (''$'' @ [CHR 0x7B] @ ''BUZZ_'' @ role_prefix @ ''_'' @ name @ ''+x'' @ [CHR 0x7D]) @ '' ]; then'' @ newline @
       ''    export BUZZ_'' @ name @ ''='' @ dquoted (''$'' @ [CHR 0x7B] @ ''BUZZ_'' @ role_prefix @ ''_'' @ name @ [CHR 0x7D]) @ newline @
       ''fi'' @ newline) [''PRIVATE_KEY'', ''AUTH_TAG''])"

record wrapper_args =
  wa_state_root :: string
  wa_role :: string
  wa_channel :: string
  wa_pubkey :: string
  wa_approver_pubkey :: string
  wa_network :: string
  wa_buzz_bin :: "string option"
  wa_wave_rpc_server :: "string option"

definition given :: "string option \<Rightarrow> (string \<Rightarrow> string) \<Rightarrow> string list" where
  "given v f = (case v of Some (c # cs) \<Rightarrow> [f (c # cs)] | _ \<Rightarrow> [])"

text \<open>The command of the wrapper; its parts stand on lines of their own.\<close>

definition exec_command :: "string \<Rightarrow> string \<Rightarrow> wrapper_args \<Rightarrow> string" where
  "exec_command python runner wa = join continued
     ([''exec '' @ shlex_quote python @ '' '' @ shlex_quote runner,
       ''--role '' @ shlex_quote (wa_role wa),
       ''--channel '' @ dquoted (wa_channel wa),
       ''--pubkey '' @ dquoted (wa_pubkey wa),
       ''--approver-pubkey '' @ dquoted (wa_approver_pubkey wa),
       ''--state-root '' @ dquoted (wa_state_root wa),
       ''--network '' @ dquoted (wa_network wa)]
      @ given (wa_buzz_bin wa) (\<lambda>b. ''--buzz-bin '' @ shlex_quote b)
      @ given (wa_wave_rpc_server wa) (\<lambda>b. ''--wave-rpc-server '' @ shlex_quote b)
      @ [dquoted ''$@'']) @ newline"

definition wrapper_text :: "string \<Rightarrow> string \<Rightarrow> string \<Rightarrow> wrapper_args \<Rightarrow> string" where
  "wrapper_text root_dir python runner wa =
     ''#!/bin/sh'' @ newline
     @ ''# Hermes Payments P6 process wrapper - auto-generated, do not edit.'' @ newline
     @ ''export PYTHONPATH='' @ dquoted (root_dir @ '':'' @ path_join root_dir ''src'' @ '':'' @ path_join root_dir ''examples'') @ newline
     @ credential_forwarding (py_upper (wa_role wa)) @ exec_command python runner wa"

section \<open>Talking to a child\<close>

text \<open>
  \<open>ask target line c\<close>: the child is given a line and the line it answers is read, empty if it has
  closed its output; writing to a child that has ended raises.
\<close>

type_synonym 'c ask = "string \<Rightarrow> string \<Rightarrow> 'c \<Rightarrow> (exn + string) \<times> 'c"

definition check_ready :: "string \<Rightarrow> string \<Rightarrow> exn option" where
  "check_ready role line =
     (let text = py_strip line in
      if text = [] then Some (OtherError (''process '' @ role @ '' closed stdout before ready''))
      else case json_loads text of
        None \<Rightarrow> Some (OtherError (''process '' @ role @ '' emitted invalid ready JSON''))
      | Some (JObj ready) \<Rightarrow>
          if get_or JNull ready ''event'' \<noteq> JStr ''ready'' \<or> get_or JNull ready ''role'' \<noteq> JStr role
          then Some (OtherError (''process '' @ role @ '' emitted unexpected ready event'')) else None
      | Some v \<Rightarrow> Some (AttributeError (str_repr (py_type_name v) @ '' object has no attribute '' @ str_repr ''get'')))"

definition send_jsonl :: "'c ask \<Rightarrow> (string \<Rightarrow> string) \<Rightarrow> string \<Rightarrow> fields \<Rightarrow> 'c \<Rightarrow> (exn + pyjson) \<times> 'c" where
  "send_jsonl ask pid target payload c =
     (case ask target (json_dumps default_sorted (JObj payload) @ newline) c of
        (Inl e, c) \<Rightarrow> (Inl e, c)
      | (Inr answer, c) \<Rightarrow>
        (let response = py_strip answer in
         if response = [] then Inl (OtherError (''process '' @ pid target @ '' closed stdout''))
         else case json_loads response of
           None \<Rightarrow> Inl (ValueError ''response is not valid JSON'')
         | Some v \<Rightarrow> Inr v, c))"

definition dict_of :: "pyjson \<Rightarrow> exn + fields" where
  "dict_of v = (case v of JObj d \<Rightarrow> Inr d
     | v \<Rightarrow> Inl (AttributeError (str_repr (py_type_name v) @ '' object has no attribute '' @ str_repr ''items'')))"

section \<open>The operator loop\<close>

definition children :: "string list" where
  "children = [''alice'', ''bob'']"

definition response_line :: "string \<Rightarrow> fields \<Rightarrow> string" where
  "response_line target response = json_dumps compact_sorted
     (JObj [(''event'', JStr ''response''), (''target'', JStr target), (''response'', JObj (redact_payload response))])"

datatype turn = Quiet | Wrote string | Finished | Failed exn

text \<open>One line of the operator; \<open>exited\<close> tells a child that has ended, and its code.\<close>

definition operator_turn ::
    "'c ask \<Rightarrow> (string \<Rightarrow> string) \<Rightarrow> ('c \<Rightarrow> (string \<times> int) option) \<Rightarrow> string \<Rightarrow> 'c \<Rightarrow> turn \<times> 'c" where
  "operator_turn ask pid exited line c =
     (case exited c of
        Some (name, returncode) \<Rightarrow> (Failed (OtherError (''process '' @ name @ '' exited with '' @ show_int returncode)), c)
      | None \<Rightarrow>
          if py_strip line = [] then (Quiet, c)
          else case json_loads line of
            None \<Rightarrow> (Failed (OtherError ''supervisor input must be JSON''), c)
          | Some (JObj command) \<Rightarrow>
              if get_or JNull command ''command'' = JStr ''shutdown'' then (Finished, c)
              else
                let target = get_or JNull command ''target''; rest = filter (\<lambda>(k, _). k \<noteq> ''target'') command in
                if \<not> hashable target then
                  (Failed (TypeError (''unhashable type: '' @ str_repr (py_type_name target))), c)
                else (case target of
                  JStr t \<Rightarrow>
                    if t \<notin> set children then (Failed (OtherError ''supervisor command target must be alice or bob''), c)
                    else (case send_jsonl ask pid t rest c of
                        (Inl e, c) \<Rightarrow> (Failed e, c)
                      | (Inr v, c) \<Rightarrow>
                          (case dict_of v of Inl e \<Rightarrow> (Failed e, c) | Inr response \<Rightarrow> (Wrote (response_line t response), c)))
                | _ \<Rightarrow> (Failed (OtherError ''supervisor command target must be alice or bob''), c))
          | Some _ \<Rightarrow> (Failed (OtherError ''supervisor input must be a JSON object''), c))"

fun operator_loop ::
    "'c ask \<Rightarrow> (string \<Rightarrow> string) \<Rightarrow> ('c \<Rightarrow> (string \<times> int) option) \<Rightarrow> string list \<Rightarrow> 'c \<Rightarrow> (exn + unit) \<times> string list \<times> 'c" where
  "operator_loop ask pid exited [] c =
     (case exited c of
        Some (name, returncode) \<Rightarrow> (Inl (OtherError (''process '' @ name @ '' exited with '' @ show_int returncode)), [], c)
      | None \<Rightarrow> (Inr (), [], c))"
| "operator_loop ask pid exited (line # lines) c =
     (case operator_turn ask pid exited line c of
        (Failed e, c) \<Rightarrow> (Inl e, [], c)
      | (Finished, c) \<Rightarrow> (Inr (), [], c)
      | (Quiet, c) \<Rightarrow> operator_loop ask pid exited lines c
      | (Wrote out, c) \<Rightarrow> (case operator_loop ask pid exited lines c of (res, outs, c) \<Rightarrow> (res, out # outs, c)))"

section \<open>The run\<close>

definition status_line :: "string \<Rightarrow> fields \<Rightarrow> string" where
  "status_line role status = json_dumps compact_sorted
     (JObj [(''event'', JStr ''status''), (''role'', JStr role), (''status'', JObj (redact_payload status))])"

text \<open>After their ready lines both children answer \<open>status\<close> before the operator is heard.\<close>

fun probe :: "'c ask \<Rightarrow> (string \<Rightarrow> string) \<Rightarrow> string list \<Rightarrow> 'c \<Rightarrow> (exn + unit) \<times> string list \<times> 'c" where
  "probe ask pid [] c = (Inr (), [], c)"
| "probe ask pid (name # names) c =
     (case send_jsonl ask pid name [(''command'', JStr ''status'')] c of
        (Inl e, c) \<Rightarrow> (Inl e, [], c)
      | (Inr v, c) \<Rightarrow>
          (case dict_of v of
             Inl e \<Rightarrow> (Inl e, [], c)
           | Inr status \<Rightarrow> (case probe ask pid names c of (res, outs, c) \<Rightarrow> (res, status_line name status # outs, c))))"

definition session ::
    "'c ask \<Rightarrow> (string \<Rightarrow> string) \<Rightarrow> ('c \<Rightarrow> (string \<times> int) option) \<Rightarrow> string list \<Rightarrow> 'c \<Rightarrow> (exn + unit) \<times> string list \<times> 'c" where
  "session ask pid exited lines c =
     (case probe ask pid children c of
        (Inl e, outs, c) \<Rightarrow> (Inl e, outs, c)
      | (Inr _, outs, c) \<Rightarrow> (case operator_loop ask pid exited lines c of (res, outs', c) \<Rightarrow> (res, outs @ outs', c)))"

section \<open>Child processes\<close>

text \<open>
  What the supervisor asks of the operating system; a child goes by its name. \<open>os_install\<close> makes a
  state directory and writes the wrapper into it, \<open>os_banner\<close> reads the first line a child
  writes, \<open>os_poll\<close> tells the exit code of one that has ended, \<open>os_wait\<close> whether it ends within
  five seconds. What \<open>os_close\<close> raises is ignored by the code. \<open>os_urlopen\<close> sends a request and
  gives the status of the answer.
\<close>

record 'c os =
  os_install :: "string \<Rightarrow> string \<Rightarrow> 'c \<Rightarrow> exn option \<times> 'c"
  os_exists :: "string \<Rightarrow> 'c \<Rightarrow> bool"
  os_spawn :: "string \<Rightarrow> string \<Rightarrow> 'c \<Rightarrow> exn option \<times> 'c"
  os_banner :: "string \<Rightarrow> 'c \<Rightarrow> string \<times> 'c"
  os_ask :: "'c ask"
  os_pid :: "string \<Rightarrow> string"
  os_poll :: "string \<Rightarrow> 'c \<Rightarrow> int option"
  os_close :: "string \<Rightarrow> 'c \<Rightarrow> 'c"
  os_terminate :: "string \<Rightarrow> 'c \<Rightarrow> exn option \<times> 'c"
  os_kill :: "string \<Rightarrow> 'c \<Rightarrow> exn option \<times> 'c"
  os_wait :: "string \<Rightarrow> 'c \<Rightarrow> (exn + bool) \<times> 'c"
  os_urlopen :: "string \<Rightarrow> 'c \<Rightarrow> int option \<times> 'c"

definition stop_process :: "'c os \<Rightarrow> string \<Rightarrow> 'c \<Rightarrow> exn option \<times> 'c" where
  "stop_process os name c =
     (if os_poll os name c \<noteq> None then (None, c)
      else case os_terminate os name (os_close os name c) of
        (Some e, c) \<Rightarrow> (Some e, c)
      | (None, c) \<Rightarrow>
          (case os_wait os name c of
             (Inl e, c) \<Rightarrow> (Some e, c)
           | (Inr True, c) \<Rightarrow> (None, c)
           | (Inr False, c) \<Rightarrow>
               (case os_kill os name c of
                  (Some e, c) \<Rightarrow> (Some e, c)
                | (None, c) \<Rightarrow>
                    (case os_wait os name c of
                       (Inl e, c) \<Rightarrow> (Some e, c)
                     | (Inr True, c) \<Rightarrow> (None, c)
                     | (Inr False, c) \<Rightarrow> (Some (OtherError ''timed out after 5 seconds''), c)))))"

text \<open>A first line that is JSON but no object raises before the child is stopped.\<close>

definition start_process :: "'c os \<Rightarrow> string \<Rightarrow> string \<Rightarrow> 'c \<Rightarrow> exn option \<times> 'c" where
  "start_process os state_root role c =
     (let wrapper = path_join state_root ''run.sh'' in
      if \<not> os_exists os wrapper c then (Some (OtherError (''process wrapper not found: '' @ wrapper)), c)
      else case os_spawn os role wrapper c of
        (Some e, c) \<Rightarrow> (Some e, c)
      | (None, c) \<Rightarrow>
          (case os_banner os role c of (line, c) \<Rightarrow>
             (case check_ready role line of
                None \<Rightarrow> (None, c)
              | Some (AttributeError m) \<Rightarrow> (Some (AttributeError m), c)
              | Some e \<Rightarrow> (case stop_process os role c of (None, c) \<Rightarrow> (Some e, c) | (Some e', c) \<Rightarrow> (Some e', c)))))"

definition first_exited :: "'c os \<Rightarrow> 'c \<Rightarrow> (string \<times> int) option" where
  "first_exited os c = (case List.map_filter (\<lambda>name. map_option (Pair name) (os_poll os name c)) children of [] \<Rightarrow> None | x # _ \<Rightarrow> Some x)"

text \<open>The \<open>finally\<close> block; an exception in it ends the supervisor in place of the exit code.\<close>

fun finish :: "'c os \<Rightarrow> string list \<Rightarrow> int \<Rightarrow> 'c \<Rightarrow> (exn + int) \<times> 'c" where
  "finish os [] exit_code c = (Inr exit_code, c)"
| "finish os (name # names) exit_code c =
     (case stop_process os name c of
        (Some e, c) \<Rightarrow> (Inl e, c)
      | (None, c) \<Rightarrow> finish os names exit_code c)"

section \<open>Arguments\<close>

record supervisor_args =
  sp_channel :: string
  sp_alice_state_root :: string
  sp_bob_state_root :: string
  sp_alice_pubkey :: string
  sp_bob_pubkey :: string
  sp_approver_pubkey :: string
  sp_network :: string
  sp_alice_wave_rpc_server :: "string option"
  sp_bob_wave_rpc_server :: "string option"
  sp_skip_buzz_health :: bool
  sp_buzz_bin :: "string option"

abbreviation missing :: "string option \<Rightarrow> bool" where
  "missing v \<equiv> v = None \<or> v = Some []"

text \<open>The message with which \<open>main\<close> gives up before it starts anything; \<open>env\<close> are the variables that are set.\<close>

definition refused_arguments :: "supervisor_args \<Rightarrow> (string \<Rightarrow> string option) \<Rightarrow> string option" where
  "refused_arguments sp env =
     (if sp_network sp \<notin> {''regtest'', ''signet''} then Some ''P6 supervisor supports regtest or explicitly selected signet''
      else if sp_network sp = ''signet'' \<and> (missing (sp_alice_wave_rpc_server sp) \<or> missing (sp_bob_wave_rpc_server sp))
      then Some ''signet requires --alice-wave-rpc-server and --bob-wave-rpc-server''
      else case filter (\<lambda>(_, pk). length pk \<noteq> 64)
             [(''alice-pubkey'', sp_alice_pubkey sp), (''bob-pubkey'', sp_bob_pubkey sp), (''approver-pubkey'', sp_approver_pubkey sp)] of
        (name, _) # _ \<Rightarrow> Some (name @ '' must be a 64-character hex string'')
      | [] \<Rightarrow>
          let missing_env = (if sp_alice_pubkey sp \<noteq> sp_bob_pubkey sp
                then filter (\<lambda>name. env name = None) [''BUZZ_ALICE_PRIVATE_KEY'', ''BUZZ_BOB_PRIVATE_KEY''] else []) in
          if missing_env \<noteq> [] then Some (''distinct Hermes identities require external variables: '' @ join '', '' missing_env)
          else None)"

definition check_relay ::
    "'c os \<Rightarrow> (string \<Rightarrow> exn option) \<Rightarrow> (string \<Rightarrow> string option) \<Rightarrow> supervisor_args \<Rightarrow> 'c \<Rightarrow> (exn + bool) \<times> 'c" where
  "check_relay os bracketed env sp c =
     (if sp_skip_buzz_health sp then (Inr True, c) else verify_buzz_relay_health bracketed env (os_urlopen os) c)"

definition alice_wrapper :: "supervisor_args \<Rightarrow> wrapper_args" where
  "alice_wrapper sp = \<lparr>wa_state_root = py_path (sp_alice_state_root sp), wa_role = ''alice'', wa_channel = sp_channel sp,
     wa_pubkey = sp_alice_pubkey sp, wa_approver_pubkey = sp_approver_pubkey sp, wa_network = sp_network sp,
     wa_buzz_bin = sp_buzz_bin sp, wa_wave_rpc_server = Some (rpc_server_or_default (sp_alice_wave_rpc_server sp))\<rparr>"

definition bob_wrapper :: "supervisor_args \<Rightarrow> wrapper_args" where
  "bob_wrapper sp = \<lparr>wa_state_root = py_path (sp_bob_state_root sp), wa_role = ''bob'', wa_channel = sp_channel sp,
     wa_pubkey = sp_bob_pubkey sp, wa_approver_pubkey = sp_approver_pubkey sp, wa_network = sp_network sp,
     wa_buzz_bin = sp_buzz_bin sp, wa_wave_rpc_server = Some (rpc_server_or_default (sp_bob_wave_rpc_server sp))\<rparr>"

section \<open>main\<close>

definition supervise :: "'c os \<Rightarrow> supervisor_args \<Rightarrow> string list \<Rightarrow> 'c \<Rightarrow> (exn + int) \<times> string list \<times> 'c" where
  "supervise os sp lines c =
     (let done_with = (\<lambda>names exit_code outs c. case finish os names exit_code c of (res, c) \<Rightarrow> (res, outs, c)) in
      case start_process os (py_path (sp_alice_state_root sp)) ''alice'' c of
        (Some e, c) \<Rightarrow> (Inr 1, [], c)
      | (None, c) \<Rightarrow>
          (case start_process os (py_path (sp_bob_state_root sp)) ''bob'' c of
             (Some e, c) \<Rightarrow> done_with [''alice''] 1 [] c
           | (None, c) \<Rightarrow>
               (case session (os_ask os) (os_pid os) (first_exited os) lines c of
                  (Inl e, outs, c) \<Rightarrow> done_with children 1 outs c
                | (Inr _, outs, c) \<Rightarrow> done_with children 0 outs c)))"

text \<open>\<open>root_dir\<close>, \<open>python\<close> and \<open>runner\<close> are where the program and its interpreter are.\<close>

definition supervisor_main ::
    "'c os \<Rightarrow> (string \<Rightarrow> exn option) \<Rightarrow> string \<Rightarrow> string \<Rightarrow> string \<Rightarrow> supervisor_args \<Rightarrow> (string \<Rightarrow> string option) \<Rightarrow>
      string list \<Rightarrow> 'c \<Rightarrow> (exn + int) \<times> string list \<times> 'c" where
  "supervisor_main os bracketed root_dir python runner sp env lines c =
     (let install = (\<lambda>wa. os_install os (wa_state_root wa) (wrapper_text root_dir python runner wa)) in
      if refused_arguments sp env \<noteq> None then (Inr 1, [], c)
      else case check_relay os bracketed env sp c of
        (Inl e, c) \<Rightarrow> (Inl e, [], c)
      | (Inr False, c) \<Rightarrow> (Inr 1, [], c)
      | (Inr True, c) \<Rightarrow>
          (case install (alice_wrapper sp) c of
             (Some e, c) \<Rightarrow> (Inl e, [], c)
           | (None, c) \<Rightarrow>
               (case install (bob_wrapper sp) c of
                  (Some e, c) \<Rightarrow> (Inl e, [], c)
                | (None, c) \<Rightarrow> supervise os sp lines c)))"

end
