(* ===== verification/Supervisor_Properties.thy ===== *)
theory Supervisor_Properties
  imports Supervisor "HOL-Library.Sublist"
begin

text \<open>
  What a session of the supervisor promises: the banner of a runner is accepted, a command
  reaches the child it names as it was given, nothing is sent that the operator did not ask
  for, and what is printed shows identifiers by their prefix only.
\<close>

section \<open>Lines between the two programs\<close>

lemma strip_line: "py_strip (json_dumps opt (JObj d) @ newline) = json_dumps opt (JObj d)"
proof -
  obtain t where t: "json_dumps opt (JObj d) = CHR 0x7B # t @ [CHR 0x7D]" using json_dumps_Obj by blast
  have "is_space (CHR 0x0A)" "\<not> is_space (CHR 0x7B)" "\<not> is_space (CHR 0x7D)" by (simp_all add: is_space_def)
  then show ?thesis unfolding t by (simp add: py_strip_def)
qed

lemma opts_ok_default [simp]: "opts_ok default_opts"
  by (simp add: opts_ok_def default_opts_def)

lemma ready_line_reads:
  "json_loads (py_strip (ready_line role @ newline)) = Some (JObj [(''event'', JStr ''ready''), (''role'', JStr role)])"
proof -
  have "json_ok (JObj [(''event'', JStr ''ready''), (''role'', JStr role)])" by simp
  from json_roundtrip [OF opts_ok_default this] have "json_loads (ready_line role) = Some (JObj [(''event'', JStr ''ready''), (''role'', JStr role)])"
    by (simp add: ready_line_def dump_order_def default_opts_def del: json_dumps.simps)
  then show ?thesis by (simp add: ready_line_def strip_line del: json_dumps.simps)
qed

text \<open>The two programs agree on the start. The supervisor accepts the line a runner prints when it is
  ready, for the role the runner was given and for no other role.\<close>

theorem banner_accepted:
  "check_ready role (ready_line role' @ newline) = None \<longleftrightarrow> role = role'"
proof -
  have "py_strip (ready_line role' @ newline) \<noteq> []" by (simp add: ready_line_def strip_line dumps_Obj_nonempty del: json_dumps.simps)
  with ready_line_reads [of role'] show ?thesis by (auto simp: check_ready_def get_or_def Let_def)
qed

text \<open>The line a child gets for a command of the operator.\<close>

definition forwarded :: "fields \<Rightarrow> string" where
  "forwarded command = json_dumps default_sorted (JObj (filter (\<lambda>(k, _). k \<noteq> ''target'') command)) @ newline"

lemma forwarded_parsed:
  assumes "json_ok (JObj command)" and "dict_get command ''command'' = Some (JStr name)" and "name \<in> set known_commands"
  shows "\<exists>args. parse_command (py_strip (forwarded command)) = Inr \<lparr>jc_name = name, jc_arguments = args\<rparr>
    \<and> (\<forall>k. dict_get args k = (if k = ''command'' \<or> k = ''target'' then None
          else map_option (canon default_sorted) (dict_get command k)))"
proof -
  let ?rest = "filter (\<lambda>(k, _). k \<noteq> ''target'') command"
  have ok: "json_ok (JObj ?rest)" using assms(1) by (auto simp: list_all_iff distinct_map_filter)
  obtain d where d: "canon default_sorted (JObj ?rest) = JObj d" by simp
  have rest: "dict_get ?rest k = (if k = ''target'' then None else dict_get command k)" for k
    by (rule dict_get_filter_key)
  have get: "dict_get d k = (if k = ''target'' then None else map_option (canon default_sorted) (dict_get command k))" for k
    using dict_get_canon [OF ok d] rest by simp
  have "json_loads (py_strip (forwarded command)) = Some (JObj d)"
    using json_roundtrip [OF opts_ok_in_use(3) ok] d by (simp add: forwarded_def strip_line del: json_dumps.simps canon.simps)
  moreover have "dict_get d ''command'' = Some (JStr name)" using assms(2) get by simp
  moreover have "name \<noteq> []" using assms(3) by (auto simp: known_commands_def)
  ultimately have "parse_command (py_strip (forwarded command)) =
      Inr \<lparr>jc_name = name, jc_arguments = filter (\<lambda>(key, _). key \<noteq> ''command'') d\<rparr>"
    using assms(3) by (simp add: parse_command_def)
  moreover have "dict_get (filter (\<lambda>(key, _). key \<noteq> ''command'') d) k =
      (if k = ''command'' \<or> k = ''target'' then None else map_option (canon default_sorted) (dict_get command k))" for k
    using dict_get_filter_key [of "''command''" d k] get by simp
  ultimately show ?thesis by blast
qed

section \<open>What is sent\<close>

text \<open>Children that keep a record of the lines they are given.\<close>

definition logging :: "'c ask \<Rightarrow> ((string \<times> string) list \<times> 'c) ask" where
  "logging ask target line s = (case s of (trace, c) \<Rightarrow> case ask target line c of (answer, c) \<Rightarrow> (answer, trace @ [(target, line)], c))"

text \<open>A line the operator ordered: it is a JSON object that names the child, and the child gets the rest of it.\<close>

definition ordered_by :: "string \<Rightarrow> string \<times> string \<Rightarrow> bool" where
  "ordered_by line = (\<lambda>(target, sent). \<exists>command. json_loads line = Some (JObj command)
     \<and> dict_get command ''target'' = Some (JStr target) \<and> sent = forwarded command)"

lemma send_jsonl_state: "snd (send_jsonl ask pid t payload c) = snd (ask t (json_dumps default_sorted (JObj payload) @ newline) c)"
  by (simp add: send_jsonl_def Let_def split: prod.split sum.split)

lemma operator_turn_state:
  assumes "operator_turn ask pid exited line c = (turn, c')"
  shows "c' = c \<or> (\<exists>command t. json_loads line = Some (JObj command) \<and> dict_get command ''target'' = Some (JStr t)
    \<and> t \<in> set children \<and> c' = snd (ask t (forwarded command) c))"
proof -
  have target: "get_or JNull command ''target'' = JStr t \<Longrightarrow> dict_get command ''target'' = Some (JStr t)" for command t
    by (simp add: get_or_def split: option.split_asm)
  have sent: "send_jsonl ask pid t (filter (\<lambda>(k, _). k \<noteq> ''target'') command) c = (out, c1) \<Longrightarrow> c1 = snd (ask t (forwarded command) c)"
    for t command out c1
    using send_jsonl_state [of ask pid t "filter (\<lambda>(k, _). k \<noteq> ''target'') command" c] by (simp add: forwarded_def)
  show ?thesis using assms
    by (auto simp: operator_turn_def Let_def dict_of_def target dest!: sent
        split: option.split_asm if_split_asm pyjson.split_asm prod.split_asm sum.split_asm simp del: json_dumps.simps)
qed

text \<open>A session changes the children only by the lines it gives them.\<close>

lemma operator_loop_keeps:
  assumes "\<And>t command c. t \<in> set children \<Longrightarrow> P c \<Longrightarrow> P (snd (ask t (forwarded command) c))"
  shows "operator_loop ask pid exited lines c = (res, outs, c') \<Longrightarrow> P c \<Longrightarrow> P c'"
proof (induction lines arbitrary: c outs)
  case (Cons line lines)
  obtain turn c1 where turn: "operator_turn ask pid exited line c = (turn, c1)" by force
  from operator_turn_state [OF turn] assms Cons.prems(2) have "P c1" by blast
  with Cons turn show ?case by (cases turn) (auto split: prod.split_asm)
qed (auto split: option.split_asm)

lemma probe_keeps:
  assumes "\<And>t command c. t \<in> set children \<Longrightarrow> P c \<Longrightarrow> P (snd (ask t (forwarded command) c))"
  shows "probe ask pid names c = (res, outs, c') \<Longrightarrow> set names \<subseteq> set children \<Longrightarrow> P c \<Longrightarrow> P c'"
proof (induction names arbitrary: c outs)
  case (Cons name names)
  obtain out c1 where send: "send_jsonl ask pid name [(''command'', JStr ''status'')] c = (out, c1)" by force
  with send_jsonl_state [of ask pid name "[(''command'', JStr ''status'')]" c]
  have "c1 = snd (ask name (forwarded [(''command'', JStr ''status'')]) c)" by (simp add: forwarded_def)
  with assms Cons.prems(2,3) have "P c1" by simp
  with Cons send show ?case by (auto split: sum.split_asm prod.split_asm)
qed simp

lemma session_keeps:
  assumes "\<And>t command c. t \<in> set children \<Longrightarrow> P c \<Longrightarrow> P (snd (ask t (forwarded command) c))"
    and "session ask pid exited lines c = (res, outs, c')" and "P c"
  shows "P c'"
proof -
  obtain res0 outs0 c1 where p: "probe ask pid children c = (res0, outs0, c1)" by (metis prod_cases3)
  have one: "P c1" by (rule probe_keeps [where P = P, OF _ p subset_refl assms(3)]) (rule assms(1))
  have loop: "P c'" if "operator_loop ask pid exited lines c1 = (res, outs', c')" for outs'
    by (rule operator_loop_keeps [where P = P, OF _ that one]) (rule assms(1))
  show ?thesis using assms(2) p one loop by (auto simp: session_def split: sum.split_asm prod.split_asm)
qed

lemma logging_state: "snd (logging ask t line (trace, c)) = (trace @ [(t, line)], snd (ask t line c))"
  by (simp add: logging_def split: prod.split)

lemma send_jsonl_log:
  assumes "send_jsonl (logging ask) pid t payload (trace, c) = (out, trace', c')"
  shows "trace' = trace @ [(t, json_dumps default_sorted (JObj payload) @ newline)]"
  using send_jsonl_state [of "logging ask" pid t payload "(trace, c)"] assms by (simp add: logging_state del: json_dumps.simps)

lemma operator_turn_log:
  assumes "operator_turn (logging ask) pid exited line (trace, c) = (turn, trace', c')"
  shows "trace' = trace \<or> (\<exists>sent. trace' = trace @ [sent] \<and> fst sent \<in> set children \<and> ordered_by line sent)"
  using operator_turn_state [OF assms] by (auto simp: logging_state ordered_by_def)

lemma operator_loop_log:
  "operator_loop (logging ask) pid exited lines (trace, c) = (res, outs, trace', c') \<Longrightarrow>
    \<exists>orders. trace' = trace @ map snd orders \<and> subseq (map fst orders) lines
      \<and> (\<forall>(line, sent) \<in> set orders. fst sent \<in> set children \<and> ordered_by line sent)"
proof (induction lines arbitrary: trace c outs)
  case Nil
  then show ?case by (auto split: option.split_asm)
next
  case (Cons line lines)
  obtain turn log1 c1 where turn: "operator_turn (logging ask) pid exited line (trace, c) = (turn, log1, c1)" by (metis prod_cases3)
  define now where "now = (if log1 = trace then [] else [(line, last log1)])"
  have now: "log1 = trace @ map snd now" "subseq (map fst now) [line]" "\<forall>(line, sent) \<in> set now. fst sent \<in> set children \<and> ordered_by line sent"
    using operator_turn_log [OF turn] by (auto simp: now_def)
  consider (stop) "trace' = log1" | (go) outs' where "operator_loop (logging ask) pid exited lines (log1, c1) = (res, outs', trace', c')"
    using Cons.prems turn by (cases turn) (auto split: prod.split_asm)
  then show ?case
  proof cases
    case stop
    with now show ?thesis
      by (intro exI [of _ now]) (auto intro: subseq_order.trans [of _ "[line]"] simp: subseq_Cons2_iff)
  next
    case go
    from Cons.IH [OF this] obtain orders where rest: "trace' = log1 @ map snd orders" "subseq (map fst orders) lines"
      "\<forall>(line, sent) \<in> set orders. fst sent \<in> set children \<and> ordered_by line sent" by blast
    have "subseq (map fst (now @ orders)) (line # lines)"
      using list_emb_append_mono [OF now(2) rest(2)] by simp
    with now rest show ?thesis by (intro exI [of _ "now @ orders"]) auto
  qed
qed

lemma probe_log:
  "probe (logging ask) pid names (trace, c) = (res, outs, trace', c') \<Longrightarrow>
    \<exists>n. trace' = trace @ map (\<lambda>name. (name, forwarded [(''command'', JStr ''status'')])) (take n names)"
proof (induction names arbitrary: trace c outs)
  case (Cons name names)
  obtain out trace1 c1 where send: "send_jsonl (logging ask) pid name [(''command'', JStr ''status'')] (trace, c) = (out, trace1, c1)"
    by (metis prod_cases3)
  from send_jsonl_log [OF send] have one: "trace1 = trace @ [(name, forwarded [(''command'', JStr ''status'')])]" by (simp add: forwarded_def)
  consider (stop) "trace' = trace1" | (go) outs1 where "probe (logging ask) pid names (trace1, c1) = (res, outs1, trace', c')"
    using Cons.prems send by (auto split: sum.split_asm prod.split_asm)
  then show ?case
  proof cases
    case stop
    with one show ?thesis by (intro exI [of _ 1]) simp
  next
    case go
    from Cons.IH [OF this] obtain n where
      "trace' = trace1 @ map (\<lambda>name. (name, forwarded [(''command'', JStr ''status'')])) (take n names)" by blast
    with one show ?thesis by (intro exI [of _ "Suc n"]) simp
  qed
qed simp

lemma session_log:
  assumes "session (logging ask) pid exited lines (trace, c) = (res, outs, trace', c')"
  shows "\<exists>probes orders. trace' = trace @ probes @ map snd orders
    \<and> set probes \<subseteq> {(name, forwarded [(''command'', JStr ''status'')]) | name. name \<in> set children} \<and> length probes \<le> 2
    \<and> subseq (map fst orders) lines \<and> (\<forall>(line, sent) \<in> set orders. fst sent \<in> set children \<and> ordered_by line sent)"
proof -
  obtain res0 outs0 trace1 c1 where p: "probe (logging ask) pid children (trace, c) = (res0, outs0, trace1, c1)" by (metis prod_cases4)
  from probe_log [OF p] obtain n where n: "trace1 = trace @ map (\<lambda>name. (name, forwarded [(''command'', JStr ''status'')])) (take n children)" ..
  let ?probes = "map (\<lambda>name. (name, forwarded [(''command'', JStr ''status'')])) (take n children)"
  have probes: "set ?probes \<subseteq> {(name, forwarded [(''command'', JStr ''status'')]) | name. name \<in> set children}" "length ?probes \<le> 2"
    using set_take_subset [of n children] by (auto simp: children_def)
  consider (stop) "trace' = trace1" | (go) res1 outs1 where "operator_loop (logging ask) pid exited lines (trace1, c1) = (res1, outs1, trace', c')"
    using assms p by (auto simp: session_def split: sum.split_asm prod.split_asm)
  then show ?thesis
  proof cases
    case stop
    with probes n show ?thesis by (intro exI [of _ ?probes] exI [of _ "[]"]) simp
  next
    case go
    from operator_loop_log [OF this] obtain orders where "trace' = trace1 @ map snd orders" "subseq (map fst orders) lines"
      "\<forall>(line, sent) \<in> set orders. fst sent \<in> set children \<and> ordered_by line sent" by blast
    with probes n show ?thesis by (intro exI [of _ ?probes] exI [of _ orders]) simp
  qed
qed

text \<open>C35: a command arrives as it was given. When the operator's line is an object that names a child
  and a command the processes know, other than the command that ends the supervisor, the
  supervisor gives that child exactly one line, and what the child parses from it is the
  command of that name, its arguments the members of the object other than \<open>command\<close> and
  \<open>target\<close>, none lost, added or changed.\<close>

theorem command_arrives:
  assumes "json_loads line = Some (JObj command)" and "json_ok (JObj command)" and "py_strip line \<noteq> []" and "exited (trace, c) = None"
    and "dict_get command ''target'' = Some (JStr t)" and "t \<in> set children"
    and "dict_get command ''command'' = Some (JStr name)" and "name \<in> set known_commands"
  shows "\<exists>turn sent args c'. operator_turn (logging ask) pid exited line (trace, c) = (turn, trace @ [(t, sent)], c')
    \<and> parse_command (py_strip sent) = Inr \<lparr>jc_name = name, jc_arguments = args\<rparr>
    \<and> (\<forall>k. dict_get args k = (if k = ''command'' \<or> k = ''target'' then None
          else map_option (canon default_sorted) (dict_get command k)))"
proof -
  have name: "name \<noteq> ''shutdown''" using assms(8) by (auto simp: known_commands_def)
  obtain out trace' c' where send: "send_jsonl (logging ask) pid t (filter (\<lambda>(k, _). k \<noteq> ''target'') command) (trace, c) = (out, trace', c')"
    by (metis prod_cases3)
  have "\<exists>turn. operator_turn (logging ask) pid exited line (trace, c) = (turn, trace', c')"
    using assms(1,3-7) name send
    by (auto simp: operator_turn_def get_or_def Let_def split: sum.split)
  moreover have "trace' = trace @ [(t, forwarded command)]"
    using send_jsonl_log [OF send] by (simp add: forwarded_def)
  ultimately show ?thesis using forwarded_parsed [OF assms(2,7,8)] by blast
qed

theorem command_arrives_witness:
  "\<exists>turn sent args c'. operator_turn (logging (\<lambda>target line c. (Inr ''{}'', c))) (\<lambda>name. ''1'') (\<lambda>c. None)
      (json_dumps default_opts (JObj [(''target'', JStr ''alice''), (''command'', JStr ''receive''), (''limit'', JInt 3)])) ([], ()) =
      (turn, [(''alice'', sent)], c')
    \<and> parse_command (py_strip sent) = Inr \<lparr>jc_name = ''receive'', jc_arguments = args\<rparr>
    \<and> dict_get args ''limit'' = Some (JInt 3) \<and> dict_get args ''target'' = None"
proof -
  let ?d = "[(''target'', JStr ''alice''), (''command'', JStr ''receive''), (''limit'', JInt 3)]"
  let ?line = "json_dumps default_opts (JObj ?d)"
  have "json_loads ?line = Some (JObj ?d)" and "py_strip ?line \<noteq> []" by code_simp+
  from command_arrives [OF this(1) _ this(2), where exited = "\<lambda>c. None" and trace = "[]" and c = "()" and t = "''alice''" and name = "''receive''"
      and ask = "\<lambda>target line c. (Inr ''{}'', c)" and pid = "\<lambda>name. ''1''"]
  obtain turn sent args c' where sent: "operator_turn (logging (\<lambda>target line c. (Inr ''{}'', c))) (\<lambda>name. ''1'') (\<lambda>c. None) ?line ([], ()) =
      (turn, [(''alice'', sent)], c')" "parse_command (py_strip sent) = Inr \<lparr>jc_name = ''receive'', jc_arguments = args\<rparr>"
    and args: "\<And>k. dict_get args k = (if k = ''command'' \<or> k = ''target'' then None
          else map_option (canon default_sorted) (dict_get ?d k))"
    by (simp add: known_commands_def children_def del: json_dumps.simps unit_eq) blast
  have "dict_get args ''limit'' = Some (JInt 3)" "dict_get args ''target'' = None" by (simp_all add: args)
  with sent show ?thesis by blast
qed

section \<open>What is printed\<close>

text \<open>No member of an object, at any depth of objects and lists of objects, that has the name of an identifier holds a long text.\<close>

fun masked :: "string \<Rightarrow> pyjson \<Rightarrow> bool" where
  "masked key (JStr s) \<longleftrightarrow> \<not> (32 \<le> length s \<and> key \<in> set redact_keys)"
| "masked key (JObj d) \<longleftrightarrow> (\<forall>(k, v) \<in> set d. masked k v)"
| "masked key (JList vs) \<longleftrightarrow> (\<forall>v \<in> set vs. case v of JObj _ \<Rightarrow> masked key v | _ \<Rightarrow> True)"
| "masked key v \<longleftrightarrow> True"

lemma display_identifier_length: "length (display_identifier s) \<le> 11"
  by (simp add: display_identifier_def)

lemma redact_member_masked: "masked key (redact_member key v)"
proof (induction key v rule: redact_member.induct)
  case (1 key s)
  then show ?case using display_identifier_length [of s] by simp
next
  case (3 key vs)
  have "case (case v of JObj _ \<Rightarrow> redact_member key v | _ \<Rightarrow> v) of JObj _ \<Rightarrow> masked key (case v of JObj _ \<Rightarrow> redact_member key v | _ \<Rightarrow> v) | _ \<Rightarrow> True"
    if "v \<in> set vs" for v
  proof (cases v)
    case (JObj d)
    with 3 [OF that JObj] show ?thesis by simp
  qed simp_all
  then show ?case by simp
qed fastforce+

lemma redact_member_fixed: "masked key v \<Longrightarrow> redact_member key v = v"
proof (induction key v rule: redact_member.induct)
  case (2 key d)
  then show ?case by (auto intro!: map_idI)
next
  case (3 key vs)
  have "(case v of JObj _ \<Rightarrow> redact_member key v | _ \<Rightarrow> v) = v" if "v \<in> set vs" for v
  proof (cases v)
    case (JObj d)
    with 3(1) [OF that JObj] 3(2) that show ?thesis by force
  qed simp_all
  then show ?case by (simp add: map_idI)
qed auto

text \<open>What the supervisor prints shows identifiers by their prefix only. In a redacted response no
  member with the name of an identifier holds a text of 32 characters or more, at any depth of
  objects and lists of objects; a response that shows none already is not changed, so what is
  not an identifier, an error message say, is left as it is, and redacting twice changes nothing.\<close>

theorem responses_are_redacted:
  "masked key (JObj (redact_payload response)) \<and> map fst (redact_payload response) = map fst response
    \<and> (masked key (JObj response) \<longrightarrow> redact_payload response = response)
    \<and> redact_payload (redact_payload response) = redact_payload response"
proof -
  have JObj: "JObj (redact_payload d) = redact_member key (JObj d)" for d by (simp add: redact_payload_def)
  have m: "masked key (JObj (redact_payload d))" for d unfolding JObj by (rule redact_member_masked)
  have fixed: "masked key (JObj d) \<Longrightarrow> redact_payload d = d" for d
    using redact_member_fixed [of key "JObj d"] JObj [of d] by (simp del: redact_member.simps)
  show ?thesis using m fixed [OF m] fixed by (auto simp: redact_payload_def comp_def case_prod_beta')
qed

theorem responses_are_redacted_witness:
  "masked ''reply'' (JObj (redact_payload [(''intent_id'', JStr (replicate 64 CHR ''a''))]))
    \<and> redact_payload [(''error'', JStr ''no such intent'')] = [(''error'', JStr ''no such intent'')]"
  using responses_are_redacted [of "''reply''" "[(''intent_id'', JStr (replicate 64 CHR ''a''))]"]
    responses_are_redacted [of "''reply''" "[(''error'', JStr ''no such intent'')]"]
  by (simp add: redact_keys_def)

end
