(* ===== verification/Supervisor_Life.thy ===== *)
theory Supervisor_Life
  imports Supervisor_Properties
begin

text \<open>
  A whole run of the supervisor, from its arguments to its exit code: what it sends to its
  children and whether any of them is left running. The locale \<open>os_relation\<close> reduces a property
  of a run to one of the session in its middle.
\<close>

section \<open>Around the session\<close>

lemma check_relay_keeps:
  assumes "\<And>url c. P c \<Longrightarrow> P (snd (os_urlopen os url c))" and "P c" and "check_relay os bracketed env sp c = (b, c')"
  shows "P c'"
proof -
  have "P c \<Longrightarrow> probe_urls (os_urlopen os) urls c = (h, c') \<Longrightarrow> P c'" for urls c h
  proof (induction urls arbitrary: c)
    case (Cons url urls)
    obtain status c1 where u: "os_urlopen os url c = (status, c1)" by force
    with assms(1) [OF Cons.prems(1), of url] have "P c1" by simp
    with Cons u show ?case by (auto split: option.split_asm if_split_asm)
  qed simp
  with assms(2,3) show ?thesis
    by (auto simp: check_relay_def verify_buzz_relay_health_def split: if_split_asm sum.split_asm prod.split_asm)
qed

locale os_relation =
  fixes os :: "'c os"
    and Q :: "'c \<Rightarrow> 'c \<Rightarrow> bool"
  assumes Q_refl: "Q c c"
    and Q_trans: "Q c c' \<Longrightarrow> Q c' c'' \<Longrightarrow> Q c c''"
    and Q_install: "Q c (snd (os_install os root_dir wrapper c))"
    and Q_spawn: "Q c (snd (os_spawn os name path c))"
    and Q_banner: "Q c (snd (os_banner os name c))"
    and Q_close: "Q c (os_close os name c)"
    and Q_terminate: "Q c (snd (os_terminate os name c))"
    and Q_kill: "Q c (snd (os_kill os name c))"
    and Q_wait: "Q c (snd (os_wait os name c))"
    and Q_urlopen: "Q c (snd (os_urlopen os url c))"
begin

lemma moved: "os_install os root_dir wrapper c = (a, c') \<Longrightarrow> Q c c'" "os_spawn os name path c = (a, c') \<Longrightarrow> Q c c'"
  "os_banner os name c = (line, c') \<Longrightarrow> Q c c'" "os_terminate os name c = (a, c') \<Longrightarrow> Q c c'"
  "os_kill os name c = (a, c') \<Longrightarrow> Q c c'" "os_wait os name c = (b, c') \<Longrightarrow> Q c c'"
  using Q_install Q_spawn Q_banner Q_terminate Q_kill Q_wait by (metis snd_conv)+

lemma stop_moves: "Q c (snd (stop_process os name c))"
  using Q_refl Q_close
  by (auto simp: stop_process_def split: prod.split option.split sum.split bool.split
      dest!: moved elim!: Q_trans [rotated] intro: Q_trans)

lemma start_moves: "Q c (snd (start_process os state_root role c))"
proof -
  have stop: "stop_process os role c = (a, c') \<Longrightarrow> Q c c'" for c a c' using stop_moves by (metis snd_conv)
  show ?thesis
    by (auto simp: start_process_def Let_def Q_refl split: prod.split option.split exn.split dest!: moved stop intro: Q_trans)
qed

lemma finish_moves: "finish os names exit_code c = (res, c') \<Longrightarrow> Q c c'"
proof (induction names arbitrary: c)
  case (Cons name names)
  obtain out c1 where stop: "stop_process os name c = (out, c1)" by force
  with stop_moves [of c name] have "Q c c1" by simp
  with Cons stop show ?case by (auto split: option.split_asm intro: Q_trans)
qed (simp add: Q_refl)

lemma relay_moves: "check_relay os bracketed env sp c = (b, c') \<Longrightarrow> Q c c'"
  by (erule check_relay_keeps [rotated 2]) (use Q_refl Q_trans Q_urlopen in blast)+

text \<open>A run is quiet or has one session in it.\<close>

lemma main_session:
  assumes "supervisor_main os bracketed root_dir python runner sp env lines c = (res, outs, c')"
  shows "Q c c' \<or> (\<exists>c1 c2 res' outs'. Q c c1 \<and> session (os_ask os) (os_pid os) (first_exited os) lines c1 = (res', outs', c2) \<and> Q c2 c')"
proof -
  have start: "start_process os state_root role c = (a, c') \<Longrightarrow> Q c c'" for state_root role c a c' using start_moves by (metis snd_conv)
  have supervised: "Q c c' \<or> (\<exists>c1 c2 res' outs'. Q c c1 \<and> session (os_ask os) (os_pid os) (first_exited os) lines c1 = (res', outs', c2) \<and> Q c2 c')"
    if before: "Q c c0" and run: "supervise os sp lines c0 = (res, outs, c')" for c0
  proof -
    obtain a c1 where alice: "start_process os (py_path (sp_alice_state_root sp)) ''alice'' c0 = (a, c1)" by force
    obtain b c2 where bob: "start_process os (py_path (sp_bob_state_root sp)) ''bob'' c1 = (b, c2)" by force
    obtain res' outs' c3 where s: "session (os_ask os) (os_pid os) (first_exited os) lines c2 = (res', outs', c3)" by (metis prod_cases3)
    have moves: "Q c c1" "Q c c2" using before start [OF alice] start [OF bob] Q_trans by blast+
    consider "c' = c1" | names exit_code r where "finish os names exit_code c2 = (r, c')" | names exit_code r where "finish os names exit_code c3 = (r, c')"
      using run alice bob s by (cases a; cases b; cases res') (auto simp: supervise_def Let_def split: prod.split_asm simp del: finish.simps)
    then show ?thesis
    proof cases
      case 2
      from finish_moves [OF this] moves(2) Q_trans show ?thesis by blast
    next
      case 3
      from finish_moves [OF this] moves(2) s show ?thesis by blast
    qed (use moves in simp)
  qed
  show ?thesis
  proof (cases "refused_arguments sp env")
    case None
    let ?install = "\<lambda>wa. os_install os (wa_state_root wa) (wrapper_text root_dir python runner wa)"
    obtain h c0 where relay: "check_relay os bracketed env sp c = (h, c0)" by force
    obtain a c1 where alice: "?install (alice_wrapper sp) c0 = (a, c1)" by force
    obtain b c2 where bob: "?install (bob_wrapper sp) c1 = (b, c2)" by force
    have moves: "Q c c0" "Q c c1" "Q c c2" using relay_moves [OF relay] moved(1) [OF alice] moved(1) [OF bob] Q_trans by blast+
    consider "c' = c0" | "c' = c1" | "c' = c2" | "supervise os sp lines c2 = (res, outs, c')"
      using assms None relay alice bob by (cases a; cases b) (auto simp: supervisor_main_def Let_def split: sum.split_asm bool.split_asm)
    then show ?thesis using supervised [OF moves(3)] moves by cases blast+
  qed (use assms Q_refl in \<open>auto simp: supervisor_main_def Let_def\<close>)
qed

end

section \<open>What is sent\<close>

text \<open>An operating system that keeps a record of the lines the children are given.\<close>

definition on_state :: "('c \<Rightarrow> 'a \<times> 'c) \<Rightarrow> 't \<times> 'c \<Rightarrow> 'a \<times> 't \<times> 'c" where
  "on_state f s = (case f (snd s) of (a, c) \<Rightarrow> (a, fst s, c))"

definition logged :: "'c os \<Rightarrow> ((string \<times> string) list \<times> 'c) os" where
  "logged os =
     \<lparr>os_install = (\<lambda>root_dir wrapper. on_state (os_install os root_dir wrapper)), os_exists = (\<lambda>path s. os_exists os path (snd s)),
      os_spawn = (\<lambda>name path. on_state (os_spawn os name path)), os_banner = (\<lambda>name. on_state (os_banner os name)),
      os_ask = logging (os_ask os), os_pid = os_pid os, os_poll = (\<lambda>name s. os_poll os name (snd s)),
      os_close = (\<lambda>name s. (fst s, os_close os name (snd s))), os_terminate = (\<lambda>name. on_state (os_terminate os name)),
      os_kill = (\<lambda>name. on_state (os_kill os name)), os_wait = (\<lambda>name. on_state (os_wait os name)),
      os_urlopen = (\<lambda>url. on_state (os_urlopen os url))\<rparr>"

interpretation log: os_relation "logged os" "\<lambda>s s'. fst s' = fst s" for os :: "'c os"
  by unfold_locales (simp_all add: logged_def on_state_def split: prod.split)

text \<open>C31: the supervisor adds nothing of its own. Over a whole run, whatever the arguments are, whatever
  the children answer and however they are started and stopped, the lines they are given are
  the two status probes at most and then, in the order of the operator's input and at most one
  each, lines that the operator ordered for that child; in particular no approval and no
  execution is sent that is not a line of the operator.\<close>

theorem supervisor_only_forwards:
  assumes "supervisor_main (logged os) bracketed root_dir python runner sp env lines ([], c) = (res, outs, trace, c')"
  shows "\<exists>probes orders. trace = probes @ map snd orders
    \<and> set probes \<subseteq> {(name, forwarded [(''command'', JStr ''status'')]) | name. name \<in> set children} \<and> length probes \<le> 2
    \<and> subseq (map fst orders) lines \<and> (\<forall>(line, sent) \<in> set orders. fst sent \<in> set children \<and> ordered_by line sent)"
proof -
  from log.main_session [OF assms] consider "trace = []" | c1 trace2 c2 res' outs' where
    "session (logging (os_ask os)) (os_pid (logged os)) (first_exited (logged os)) lines ([], c1) = (res', outs', trace2, c2)" "trace = trace2"
    by (auto simp: logged_def)
  then show ?thesis
  proof cases
    case 1
    then show ?thesis by (intro exI [of _ "[]"]) simp
  next
    case 2
    from session_log [OF 2(1)] 2(2) show ?thesis by simp
  qed
qed

text \<open>Two children that answer every line with an empty object.\<close>

definition quiet_os :: "string \<Rightarrow> string set os" where
  "quiet_os banner =
     \<lparr>os_install = (\<lambda>root_dir wrapper c. (None, c)), os_exists = (\<lambda>path c. True), os_spawn = (\<lambda>name path c. (None, insert name c)),
      os_banner = (\<lambda>name c. (if banner = [] then ready_line name @ newline else banner, c)),
      os_ask = (\<lambda>target line c. (Inr ''{}'', c)), os_pid = (\<lambda>name. name), os_poll = (\<lambda>name c. if name \<in> c then None else Some 0),
      os_close = (\<lambda>name c. c), os_terminate = (\<lambda>name c. (None, c - {name})), os_kill = (\<lambda>name c. (None, c - {name})),
      os_wait = (\<lambda>name c. (Inr (name \<notin> c), c)), os_urlopen = (\<lambda>url c. (Some 200, c))\<rparr>"

definition demo_supervisor :: supervisor_args where
  "demo_supervisor = \<lparr>sp_channel = ''c1'', sp_alice_state_root = ''/tmp/alice'', sp_bob_state_root = ''/tmp/bob'',
     sp_alice_pubkey = replicate 64 CHR ''a'', sp_bob_pubkey = replicate 64 CHR ''a'', sp_approver_pubkey = replicate 64 CHR ''b'',
     sp_network = ''regtest'', sp_alice_wave_rpc_server = None, sp_bob_wave_rpc_server = None, sp_skip_buzz_health = True, sp_buzz_bin = None\<rparr>"

theorem supervisor_only_forwards_witness:
  "\<exists>res outs trace c'. supervisor_main (logged (quiet_os [])) (\<lambda>_. None) ''/opt'' ''python3'' ''run_hermes.py'' demo_supervisor Map.empty [''{}''] ([], {}) =
      (res, outs, trace, c') \<and> length trace \<le> 3"
proof -
  obtain res outs trace c' where run: "supervisor_main (logged (quiet_os [])) (\<lambda>_. None) ''/opt'' ''python3'' ''run_hermes.py'' demo_supervisor Map.empty
      [''{}''] ([], {}) = (res, outs, trace, c')" by (metis prod_cases4)
  from supervisor_only_forwards [OF run] obtain probes orders where t: "trace = probes @ map snd orders" "length probes \<le> 2"
    "subseq (map fst orders) [''{}'']" by blast
  from list_emb_length [OF t(3)] t(1,2) have "length trace \<le> 3" by simp
  with run show ?thesis by blast
qed

section \<open>What is left running\<close>

text \<open>What an operating system does: only \<open>os_spawn\<close> sets a child running.\<close>

definition runs_only :: "'c os \<Rightarrow> ('c \<Rightarrow> string set) \<Rightarrow> bool" where
  "runs_only os running \<longleftrightarrow>
     (\<forall>c name path input. running (snd (os_install os path input c)) \<subseteq> running c
      \<and> (case os_spawn os name path c of (None, c') \<Rightarrow> running c' \<subseteq> insert name (running c) | (Some e, c') \<Rightarrow> running c' \<subseteq> running c)
      \<and> running (snd (os_banner os name c)) \<subseteq> running c \<and> running (snd (os_ask os name input c)) \<subseteq> running c
      \<and> running (os_close os name c) \<subseteq> running c \<and> running (snd (os_terminate os name c)) \<subseteq> running c
      \<and> running (snd (os_kill os name c)) \<subseteq> running c \<and> running (snd (os_wait os name c)) \<subseteq> running c
      \<and> running (snd (os_urlopen os path c)) \<subseteq> running c
      \<and> (os_poll os name c \<noteq> None \<longrightarrow> name \<notin> running c)
      \<and> (fst (os_wait os name c) = Inr True \<longrightarrow> name \<notin> running (snd (os_wait os name c))))"

text \<open>It lets the supervisor signal its children, and one that was killed ends.\<close>

definition obeys :: "'c os \<Rightarrow> bool" where
  "obeys os \<longleftrightarrow> (\<forall>c name. fst (os_terminate os name c) = None \<and> fst (os_kill os name c) = None
     \<and> (\<exists>b. fst (os_wait os name c) = Inr b) \<and> fst (os_wait os name (snd (os_kill os name c))) = Inr True)"

lemma runs_onlyD:
  assumes "runs_only os running"
  shows "os_install os path input c = (a, c') \<Longrightarrow> running c' \<subseteq> running c" "os_banner os name c = (line, c') \<Longrightarrow> running c' \<subseteq> running c"
    "os_spawn os name path c = (None, c') \<Longrightarrow> running c' \<subseteq> insert name (running c)"
    "os_spawn os name path c = (Some e, c') \<Longrightarrow> running c' \<subseteq> running c"
    "running (snd (os_ask os name input c)) \<subseteq> running c" "running (os_close os name c) \<subseteq> running c"
    "os_terminate os name c = (a, c') \<Longrightarrow> running c' \<subseteq> running c" "os_kill os name c = (a, c') \<Longrightarrow> running c' \<subseteq> running c"
    "os_wait os name c = (b, c') \<Longrightarrow> running c' \<subseteq> running c" "os_wait os name c = (Inr True, c') \<Longrightarrow> name \<notin> running c'"
    "os_poll os name c \<noteq> None \<Longrightarrow> name \<notin> running c" "running (snd (os_urlopen os path c)) \<subseteq> running c"
proof -
  note at = assms [unfolded runs_only_def, THEN spec, of c, THEN spec, of name, THEN spec, of path, THEN spec, of input]
  show "os_install os path input c = (a, c') \<Longrightarrow> running c' \<subseteq> running c" "os_banner os name c = (line, c') \<Longrightarrow> running c' \<subseteq> running c"
    "os_spawn os name path c = (None, c') \<Longrightarrow> running c' \<subseteq> insert name (running c)"
    "os_spawn os name path c = (Some e, c') \<Longrightarrow> running c' \<subseteq> running c"
    "os_terminate os name c = (a, c') \<Longrightarrow> running c' \<subseteq> running c" "os_kill os name c = (a, c') \<Longrightarrow> running c' \<subseteq> running c"
    "os_wait os name c = (b, c') \<Longrightarrow> running c' \<subseteq> running c" "os_wait os name c = (Inr True, c') \<Longrightarrow> name \<notin> running c'"
    using at by auto
  show "running (snd (os_ask os name input c)) \<subseteq> running c" "running (os_close os name c) \<subseteq> running c"
    "os_poll os name c \<noteq> None \<Longrightarrow> name \<notin> running c" "running (snd (os_urlopen os path c)) \<subseteq> running c"
    using at by blast+
qed

lemma stop_stops:
  assumes "runs_only os running" and "obeys os"
  shows "\<exists>c'. stop_process os name c = (None, c') \<and> running c' \<subseteq> running c - {name}"
proof (cases "os_poll os name c")
  case None
  note rules = runs_onlyD [OF assms(1)]
  obtain a c1 where t: "os_terminate os name (os_close os name c) = (a, c1)" by force
  obtain b c2 where w: "os_wait os name c1 = (Inr b, c2)" using assms(2) unfolding obeys_def by (metis prod.collapse)
  obtain a' c3 where k: "os_kill os name c2 = (a', c3)" by force
  obtain c4 where w': "os_wait os name c3 = (Inr True, c4)" using assms(2) k unfolding obeys_def by (metis prod.collapse snd_conv)
  have none: "a = None" "a' = None" using assms(2) t k unfolding obeys_def by (metis fst_conv)+
  have sub: "running c2 \<subseteq> running c" using rules(6) [of name c] rules(7) [OF t] rules(9) [OF w] by blast
  show ?thesis
  proof (cases b)
    case True
    with None t w none(1) sub rules(10) [of name c1 c2] show ?thesis by (simp add: stop_process_def) blast
  next
    case False
    have "running c4 \<subseteq> running c" using sub rules(8) [OF k] rules(9) [OF w'] by blast
    with False None t w k w' none rules(10) [OF w'] show ?thesis by (simp add: stop_process_def) blast
  qed
next
  case (Some r)
  with runs_onlyD(11) [OF assms(1), of name c] show ?thesis by (auto simp: stop_process_def)
qed

text \<open>In what follows the first line of a child is no JSON other than an object.\<close>

definition banners_ok :: "'c os \<Rightarrow> bool" where
  "banners_ok os \<longleftrightarrow> (\<forall>name c v. json_loads (py_strip (fst (os_banner os name c))) = Some v \<longrightarrow> (\<exists>d. v = JObj d))"

lemma start_starts:
  assumes "runs_only os running" and "obeys os" and "role \<notin> running c"
    and "banners_ok os"
    and "start_process os state_root role c = (a, c')"
  shows "running c' \<subseteq> (if a = None then insert role (running c) else running c)"
proof (cases "os_exists os (path_join state_root ''run.sh'') c")
  case True
  note rules = runs_onlyD [OF assms(1)]
  obtain b c1 where spawn: "os_spawn os role (path_join state_root ''run.sh'') c = (b, c1)" by force
  show ?thesis
  proof (cases b)
    case None
    obtain line c2 where banner: "os_banner os role c1 = (line, c2)" by force
    have sub: "running c2 \<subseteq> insert role (running c)"
      using rules(3) [OF spawn [unfolded None]] rules(2) [OF banner] by blast
    obtain c3 where stop: "stop_process os role c2 = (None, c3)" "running c3 \<subseteq> running c2 - {role}" using stop_stops [OF assms(1,2)] by blast
    have "json_loads (py_strip line) = Some v \<Longrightarrow> \<exists>d. v = JObj d" for v using assms(4) banner unfolding banners_ok_def by (metis fst_conv)
    then have object: "check_ready role line \<noteq> Some (AttributeError m)" for m
      by (auto simp: check_ready_def Let_def split: option.split pyjson.split)
    show ?thesis
      using assms(5) True spawn None banner sub stop object
      by (auto simp: start_process_def Let_def split: option.split_asm exn.split_asm)
  next
    case (Some e)
    with rules(4) [of role _ c e c1] spawn assms(5) True show ?thesis by (auto simp: start_process_def)
  qed
qed (use assms(5) in \<open>auto simp: start_process_def\<close>)

lemma finish_stops:
  assumes "runs_only os running" and "obeys os"
  shows "\<exists>c'. finish os names exit_code c = (Inr exit_code, c') \<and> running c' \<subseteq> running c - set names"
proof (induction names arbitrary: c)
  case (Cons name names)
  from stop_stops [OF assms] obtain c1 where one: "stop_process os name c = (None, c1)" "running c1 \<subseteq> running c - {name}" by blast
  from Cons.IH [of c1] obtain c' where "finish os names exit_code c1 = (Inr exit_code, c')" "running c' \<subseteq> running c1 - set names" by blast
  with one show ?case by auto
qed simp

lemma relay_runs:
  assumes "runs_only os running" and "check_relay os bracketed env sp c = (b, c')"
  shows "running c' \<subseteq> running c"
  by (rule check_relay_keeps [where P = "\<lambda>d. running d \<subseteq> running c", OF _ _ assms(2)]) (use runs_onlyD(12) [OF assms(1)] in blast)+

definition install_raises :: "'c os \<Rightarrow> exn \<Rightarrow> bool" where
  "install_raises os e \<longleftrightarrow> (\<exists>path wrapper c. fst (os_install os path wrapper c) = Some e)"

lemma relay_raises: "check_relay os bracketed env sp c = (Inl e, c') \<Longrightarrow> health_urls bracketed env = Inl e"
  by (auto simp: check_relay_def verify_buzz_relay_health_def split: if_split_asm sum.split_asm prod.split_asm)

lemma supervise_stops:
  assumes "runs_only os running" and "obeys os" and "banners_ok os"
    and before: "running c0 \<inter> set children = {}" and run: "supervise os sp lines c0 = (res, outs, c')"
  shows "running c' \<subseteq> running c0 \<and> (\<exists>exit_code. res = Inr exit_code)"
proof -
  note rules = runs_onlyD [OF assms(1)]
  have two: "set children = {''alice'', ''bob''}" by (simp add: children_def)
  obtain a c1 where alice: "start_process os (py_path (sp_alice_state_root sp)) ''alice'' c0 = (a, c1)" by force
  have r1: "running c1 \<subseteq> (if a = None then insert ''alice'' (running c0) else running c0)"
    using start_starts [OF assms(1,2) _ assms(3) alice] before two by blast
  obtain b c2 where bob: "start_process os (py_path (sp_bob_state_root sp)) ''bob'' c1 = (b, c2)" by force
  have r2: "running c2 \<subseteq> (if b = None then insert ''bob'' (running c1) else running c1)"
    using start_starts [OF assms(1,2) _ assms(3) bob] r1 before two by (fastforce split: if_split_asm)
  obtain res' outs' c3 where s: "session (os_ask os) (os_pid os) (first_exited os) lines c2 = (res', outs', c3)" by (metis prod_cases3)
  have r3: "running c3 \<subseteq> running c2"
    by (rule session_keeps [where P = "\<lambda>c. running c \<subseteq> running c2", OF _ s]) (use rules(5) in blast)+
  obtain c4 where f1: "finish os [''alice''] 1 c2 = (Inr 1, c4)" "running c4 \<subseteq> running c2 - {''alice''}"
    using finish_stops [OF assms(1,2), of "[''alice'']"] by force
  obtain c5 c6 where f2: "finish os children 1 c3 = (Inr 1, c5)" "running c5 \<subseteq> running c3 - {''alice'', ''bob''}"
    "finish os children 0 c3 = (Inr 0, c6)" "running c6 \<subseteq> running c3 - {''alice'', ''bob''}"
    using finish_stops [OF assms(1,2), of children] two by metis
  have ends: "a = None \<Longrightarrow> b = None \<Longrightarrow> running c5 \<subseteq> running c0 \<and> running c6 \<subseteq> running c0"
    "a = None \<Longrightarrow> b = Some e \<Longrightarrow> running c4 \<subseteq> running c0" for e
    using f1(2) f2(2,4) r1 r2 r3 by (auto 0 3)
  show ?thesis
    using run alice bob s f1(1) f2(1,3) r1 ends
    by (cases a; cases b; cases res') (auto simp: supervise_def Let_def simp del: finish.simps)
qed



text \<open>A child whose first line is JSON but no object is left running.\<close>

lemma stray_child:
  "supervisor_main (quiet_os ''[]'') bracketed root_dir python runner demo_supervisor Map.empty [] {} = (Inr 1, [], {''alice''})"
proof -
  have "json_loads ''[]'' = Some (JList [])" "py_strip ''[]'' = ''[]''" by code_simp+
  then show ?thesis
    by (simp add: supervisor_main_def check_relay_def supervise_def start_process_def check_ready_def quiet_os_def refused_arguments_def demo_supervisor_def)
qed

end
