(* ===== verification/Process_Refinement.thy ===== *)
theory Process_Refinement
  imports Process_Behaviour Orchestrator_Safety
begin

text \<open>
  A process refines the specification of its engine: every command but \<open>recover\<close>, which reads
  the snapshot file, changes the engine as a sequence of the specification's steps does.
\<close>

section \<open>Every command is a sequence of engine steps\<close>

lemma keyed_frames [simp]:
  "keyed (orc\<lparr>orch_world := w\<rparr>) = keyed orc" "keyed (orc\<lparr>orch_store := st\<rparr>) = keyed orc"
  "keyed (orc\<lparr>orch_audit := al\<rparr>) = keyed orc"
  by (simp_all add: keyed_def)

lemma keyed_put: "keyed orc \<Longrightarrow> pi_id (rec_intent rc) = k \<Longrightarrow> keyed (put_record k rc orc)"
  by (simp add: keyed_def)

lemma keyed_get: "keyed orc \<Longrightarrow> dict_get (orch_intents orc) k = Some rc \<Longrightarrow> pi_id (rec_intent rc) = k"
  by (simp add: keyed_def)

lemma keyed_pstep: "pstep cfg orc orc' \<Longrightarrow> keyed orc \<Longrightarrow> keyed orc'"
  by (erule pstep.cases) (simp_all add: keyed_put keyed_get new_record_def)

lemma keyed_psteps: "psteps cfg orc orc' \<Longrightarrow> keyed orc \<Longrightarrow> keyed orc'"
  by (induction rule: rtranclp_induct) (auto intro: keyed_pstep)

definition refines :: "'w orch_config \<Rightarrow> policy_env \<Rightarrow> 'w Orch \<Rightarrow> 'w Orch \<Rightarrow> bool" where
  "refines cfg env orc orc' \<longleftrightarrow> (env_ok env \<longrightarrow> keyed orc \<longrightarrow> psteps cfg orc orc' \<and> keyed orc')"

lemma refines_psteps: "(env_ok env \<Longrightarrow> keyed orc \<Longrightarrow> psteps cfg orc orc') \<Longrightarrow> refines cfg env orc orc'"
  using keyed_psteps by (auto simp: refines_def)

interpretation steps: engine_relation cfg env "refines cfg env" "{}" for cfg :: "'w orch_config" and env
proof
  fix orc orc' orc'' :: "'w Orch" and i q a r ref amount
  show "refines cfg env orc orc" by (simp add: refines_def)
  show "refines cfg env orc orc' \<Longrightarrow> refines cfg env orc' orc'' \<Longrightarrow> refines cfg env orc orc''"
    by (auto simp: refines_def)
  show "refines cfg env orc (snd (submit cfg env i orc))" "refines cfg env orc (snd (receive_quote env q orc))"
    "refines cfg env orc (snd (prepare cfg env orc))" "refines cfg env orc (snd (approve env a orc))"
    "refines cfg env orc (snd (execute cfg env orc))" "refines cfg env orc (snd (receive_receipt cfg env r orc))"
    by (rule refines_psteps, erule submit_refines receive_quote_refines prepare_refines approve_refines
        execute_refines receive_receipt_refines; assumption?)+
  show "refines cfg env orc (orc\<lparr>orch_world := snd (sa_verify_receipt (cf_adapter cfg) ref amount (orch_world orc))\<rparr>)"
    by (rule refines_psteps) (rule one_step [OF ps_query [OF q_receipt]])
qed

text \<open>C7: a process refines the specification of its engine. Whatever line a process is given, \<open>recover\<close>
  apart, the engine it leaves is reached from the engine it had by steps of the
  specification: an intent is tracked only if its recipient is allowed, approved only on a
  matching approval that was recorded, dispatched only when approved. So every safety
  theorem about runs of the engine holds of a process driven over its command stream.\<close>

theorem commands_refine_spec:
  assumes "handle_line px rounds line hr = Some (out, hr')" and "env_ok (pe_policy (px_env px))" and "keyed (hr_engine hr)"
    and "\<forall>c. parse_command line = Inr c \<longrightarrow> jc_name c \<noteq> ''recover''"
  shows "psteps (px_orch px) (hr_engine hr) (hr_engine hr')"
  using steps.line_moves [OF refl refl assms(1)] assms(2-4) by (simp add: refines_def)

theorem commands_refine_spec_witness:
  "\<exists>out hr'. handle_line demo_ctx 0 (command_to_json (bare ''execute'')) (demo_process APPROVED) = Some (out, hr')
    \<and> psteps demo_config (demo_at APPROVED) (hr_engine hr')"
proof -
  obtain out hr' where line: "handle_line demo_ctx 0 (command_to_json (bare ''execute'')) (demo_process APPROVED) = Some (out, hr')"
    using execute_answers by blast
  have env: "env_ok (pe_policy (px_env demo_ctx))" using demo_env_ok(1) by (simp add: demo_process_env_def)
  have keyed: "keyed (hr_engine (demo_process APPROVED))"
    by (simp add: keyed_def demo_at_def) (simp add: demo_record_def new_record_def demo_intent_def)
  have other: "\<forall>c. parse_command (command_to_json (bare ''execute'')) = Inr c \<longrightarrow> jc_name c \<noteq> ''recover''"
    by simp
  from commands_refine_spec [OF line env keyed other] line show ?thesis by auto
qed

end
