(* ===== verification/Process_Files.thy ===== *)
theory Process_Files
  imports Process_Refinement Process_Lifetime Sessions
begin

text \<open>
  The files of a process besides its snapshot: the idempotency store and the audit log. Every
  command, also \<open>recover\<close>, leaves them such that an engine can be built on them again.
\<close>

section \<open>The files of the engine\<close>

definition files_ok :: "'w Orch \<Rightarrow> bool" where
  "files_ok orc \<longleftrightarrow> durable (orch_store orc) \<and> store_wf (orch_store orc) \<and> saved_ok (orch_store orc) \<and> audit_wf (orch_audit orc)"

definition same_paths :: "'w Orch \<Rightarrow> 'w Orch \<Rightarrow> bool" where
  "same_paths orc orc' \<longleftrightarrow> st_path (orch_store orc') = st_path (orch_store orc) \<and> al_path (orch_audit orc') = al_path (orch_audit orc)"

definition files_kept :: "'w Orch \<Rightarrow> 'w Orch \<Rightarrow> bool" where
  "files_kept orc orc' \<longleftrightarrow> (files_ok orc \<longrightarrow> files_ok orc' \<and> same_paths orc orc' \<and> store_le (orch_store orc) (orch_store orc'))"

lemma files_kept_refl [simp]: "files_kept orc orc"
  by (simp add: files_kept_def same_paths_def)

lemma files_kept_trans: "files_kept orc orc' \<Longrightarrow> files_kept orc' orc'' \<Longrightarrow> files_kept orc orc''"
  by (auto simp: files_kept_def same_paths_def intro: store_le_trans)

lemma files_kept_world [simp]:
  "files_kept orc (orc'\<lparr>orch_world := w\<rparr>) = files_kept orc orc'" "files_kept orc (put_record k rc orc') = files_kept orc orc'"
  "files_kept orc ((put_record k rc orc')\<lparr>orch_store := st\<rparr>) = files_kept orc (orc'\<lparr>orch_store := st\<rparr>)"
  by (simp_all add: files_kept_def files_ok_def same_paths_def)

lemma audit_append_path [simp]: "al_path (snd (audit_append b ts event kw al)) = al_path al"
  by (simp add: audit_append_def Let_def del: json_dumps.simps)

lemma files_kept_audited:
  assumes "env_ok env" and "kw_ok kw" and "files_kept orc orc'"
  shows "files_kept orc (snd (audited env event iid kw out orc'))"
proof -
  have "kwargs_ok (env_ts env event iid) ((''intent_id'', JStr iid) # kw)"
    using assms(1,2) by (auto simp: env_ok_def kw_ok_def kwargs_ok_def)
  from audit_append_keeps_wf [OF _ this]
  have "audit_wf (orch_audit orc') \<Longrightarrow> audit_wf (orch_audit (snd (audited env event iid kw out orc')))"
    by (simp add: audited_orch)
  with assms(3) show ?thesis by (auto simp: files_kept_def files_ok_def same_paths_def frame_simps) (simp add: audited_orch)
qed

lemma files_kept_recorded:
  assumes "files_kept orc orc'"
  shows "files_kept orc (orc'\<lparr>orch_store := snd (record_intent b k (orch_store orc'))\<rparr>)"
    "files_kept orc (orc'\<lparr>orch_store := snd (record_approval b t (orch_store orc'))\<rparr>)"
    "files_kept orc (orc'\<lparr>orch_store := snd (record_receipt b k ref (orch_store orc'))\<rparr>)"
  using assms record_saved_ok [of "orch_store orc'"] store_wf_record
  by (auto simp: files_kept_def files_ok_def same_paths_def intro: store_le_trans [OF _ store_le_records(2)]
      store_le_trans [OF _ store_le_records(3)] store_le_trans [OF _ store_le_records(4)])

lemma files_kept_receipt:
  "files_kept orc orc' \<Longrightarrow> record_receipt b k ref (orch_store orc') = (res, st) \<Longrightarrow> files_kept orc (orc'\<lparr>orch_store := st\<rparr>)"
  using files_kept_recorded(3) [of orc orc' b k ref] by simp

lemma files_kept_pstep:
  assumes "pstep cfg orc orc'" shows "files_kept orc orc'"
  using assms
proof (cases rule: pstep.cases)
  case (ps_audit ts kwargs b event)
  with audit_append_keeps_wf [of "orch_audit orc" ts kwargs b event] show ?thesis
    by (auto simp: files_kept_def files_ok_def same_paths_def)
next
  case (ps_settled k rc b ref r)
  then show ?thesis using files_kept_recorded(3) [of orc "put_record k (rc\<lparr>rec_receipt := r, rec_state := SETTLED\<rparr>) orc" b k ref] by simp
next
  case (ps_track i b)
  then show ?thesis using files_kept_recorded(1) [of orc "put_record (pi_id i) ((new_record i)\<lparr>rec_state := SUBMITTED\<rparr>) orc" b "pi_id i"] by simp
next
  case (ps_approved k rc a b)
  then show ?thesis
    using files_kept_recorded(2) [of orc "put_record k (rc\<lparr>rec_approval := Some a, rec_state := APPROVED\<rparr>) orc" b "approval_triple a"] by simp
qed (use files_kept_recorded [of orc orc] in simp_all)

lemma files_kept_psteps: "psteps cfg orc orc' \<Longrightarrow> files_kept orc orc'"
  by (induction rule: rtranclp_induct) (auto intro: files_kept_trans files_kept_pstep)

section \<open>The operations\<close>

lemma prepare_keeps:
  assumes "env_ok env" shows "files_kept orc (snd (prepare cfg env orc))"
  by (auto simp: prepare_def Let_def kw_ok_def intro!: files_kept_audited assms split: sum.splits option.splits prod.splits)

lemma execute_failed_keeps: "env_ok env \<Longrightarrow> files_kept orc orc' \<Longrightarrow> files_kept orc (snd (execute_failed env k rc e orc'))"
  by (auto simp: execute_failed_def Let_def kw_ok_def intro!: files_kept_audited split: exn.splits)

lemma execute_settled_keeps:
  assumes "env_ok env" and "files_kept orc orc'" shows "files_kept orc (snd (execute_settled env k rc er orc'))"
  using files_kept_receipt [OF assms(2)] assms(2)
  by (auto simp: execute_settled_def Let_def kw_ok_def intro!: files_kept_audited assms(1) split: prod.splits sum.splits)

lemma execute_keeps:
  assumes "env_ok env" shows "files_kept orc (snd (execute cfg env orc))"
proof (cases "find_by_state APPROVED orc")
  case (Inr found)
  obtain k rc where found: "found = (k, rc)" by force
  obtain out orc1 where call: "audited env ''executing'' (pi_id (rec_intent rc)) [state_field EXECUTING] (Inr ())
      (put_record k (rc\<lparr>rec_state := EXECUTING\<rparr>) orc) = (out, orc1)" by force
  have kept: "files_kept orc (snd (audited env ''executing'' (pi_id (rec_intent rc)) [state_field s] (Inr ()) (put_record k rc' orc)))" for s rc'
    by (intro files_kept_audited assms) (simp_all add: kw_ok_def)
  show ?thesis
    using Inr found kept
    by (auto simp: execute_def Let_def split: option.split prod.split sum.split
        intro!: execute_failed_keeps execute_settled_keeps assms) (metis snd_conv)+
qed (simp add: execute_def)

lemma reconcile_keeps:
  assumes "env_ok env" shows "files_kept orc (snd (reconcile_settlement cfg env k orc))"
  by (auto simp: reconcile_settlement_def Let_def kw_ok_def intro!: files_kept_audited assms split: sum.splits option.splits prod.splits)

lemma demote_keeps: "env_ok env \<Longrightarrow> files_kept orc (snd (demote env k rc orc))"
  by (auto simp: demote_def Let_def kw_ok_def intro!: files_kept_audited)

definition keeps_files :: "policy_env \<Rightarrow> 'w Orch \<Rightarrow> 'w Orch \<Rightarrow> bool" where
  "keeps_files env orc orc' \<longleftrightarrow> (env_ok env \<longrightarrow> files_kept orc orc')"

interpretation files: recovery_relation cfg env "keeps_files env" "{}" for cfg :: "'w orch_config" and env
proof
  fix orc orc' orc'' :: "'w Orch" and i q a r ref amount k rc
  show "keeps_files env orc orc" by (simp add: keeps_files_def)
  show "keeps_files env orc orc' \<Longrightarrow> keeps_files env orc' orc'' \<Longrightarrow> keeps_files env orc orc''"
    using files_kept_trans by (auto simp: keeps_files_def)
  show "keeps_files env orc (snd (submit cfg env i orc))" "keeps_files env orc (snd (receive_quote env q orc))"
    "keeps_files env orc (snd (approve env a orc))" "keeps_files env orc (snd (receive_receipt cfg env r orc))"
    unfolding keeps_files_def
    by (auto intro: files_kept_psteps submit_refines receive_quote_refines approve_refines receive_receipt_refines)
  show "keeps_files env orc (snd (prepare cfg env orc))" "keeps_files env orc (snd (execute cfg env orc))"
    "keeps_files env orc (snd (demote env k rc orc))" "keeps_files env orc (snd (reconcile_settlement cfg env k orc))"
    by (simp_all add: keeps_files_def prepare_keeps execute_keeps demote_keeps reconcile_keeps)
  show "keeps_files env orc (orc\<lparr>orch_world := snd (sa_verify_receipt (cf_adapter cfg) ref amount (orch_world orc))\<rparr>)"
    "keeps_files env orc (put_record k rc orc)"
    by (simp_all add: keeps_files_def)
qed

section \<open>Building the engine again\<close>

lemma orch_init_files:
  assumes "files_ok orc"
  shows "\<exists>orc'. orch_init (st_path (orch_store orc)) (st_file (orch_store orc)) (al_path (orch_audit orc)) (al_file (orch_audit orc)) w = Inr orc'
    \<and> files_ok orc' \<and> same_paths orc orc'"
proof -
  from assms obtain st2 where st2: "reload (orch_store orc) = Inr st2" "store_wf st2" "saved_ok st2"
    "st_path st2 = st_path (orch_store orc)" "st_file st2 = st_file (orch_store orc)"
    using reload_ok by (fastforce simp: files_ok_def)
  from assms audit_reload_wf [of "orch_audit orc"] obtain al2 where
    al2: "audit_init (al_path (orch_audit orc)) (al_file (orch_audit orc)) = Inr al2" "audit_wf al2"
    by (auto simp: files_ok_def)
  then have "al_path al2 = al_path (orch_audit orc)"
    by (auto simp: audit_init_def Let_def split: if_split_asm option.split_asm sum.split_asm)
  with st2 al2 assms show ?thesis by (auto simp: orch_init_def reload_def files_ok_def same_paths_def)
qed

lemma orch_init_fresh:
  assumes "sp \<noteq> []" shows "\<exists>orc. orch_init (Some sp) None ap None w = Inr orc \<and> files_ok orc \<and> st_path (orch_store orc) = Some sp \<and> al_path (orch_audit orc) = ap"
  using assms by (auto simp: orch_init_def store_init_def audit_init_def Let_def files_ok_def empty_store_def store_wf_def saved_ok_def
      audit_wf_def lines_wf_def)

lemma process_start_files:
  assumes "env_ok (pe_policy pe)" and "orch_init store_path store_file audit_path audit_file w = Inr orc" and "files_ok orc"
    and "process_init va cfg pe identity store_path store_file audit_path audit_file snapshot t w = (out, Some hr)"
  shows "files_ok (hr_engine hr) \<and> same_paths orc (hr_engine hr)"
proof -
  let ?hr0 = "\<lparr>hr_peer = \<lparr>hp_identity = identity, hp_transport = t, hp_orchestrator = orc\<rparr>, hr_inbox = [], hr_inbox_ids = {}, hr_snapshot = snapshot\<rparr>"
  from assms(2,4) have "hr = snd (maybe_recover va cfg pe True ?hr0)"
    by (auto simp: process_init_def split: prod.split_asm)
  with files.maybe_recover_moves [OF refl, where hr = ?hr0 and va = va and cfg = cfg and pe = pe and reconcile = True] assms(1,3)
  show ?thesis by (simp add: keeps_files_def files_kept_def)
qed

end
