(* ===== verification/Runner_Lifetime.thy ===== *)
theory Runner_Lifetime
  imports Runner_Properties Process_Files
begin

text \<open>
  The life of a runner on its own state directory: it is started on an empty one, answers lines,
  is killed and started again on the store, the audit log, the snapshot and the cursor it left.
\<close>

section \<open>The files of a runner\<close>

definition with_files ::
    "string option \<Rightarrow> string list option \<Rightarrow> string option \<Rightarrow> string option \<Rightarrow> ('w, 'x) surroundings \<Rightarrow> ('w, 'x) surroundings" where
  "with_files store_file audit_file snapshot cursor su =
     su\<lparr>su_store := store_file, su_audit := audit_file, su_snapshot := snapshot, su_cursor := cursor\<rparr>"

definition own_files :: "('w, 'x BuzzTransport) HermesProcess \<Rightarrow> ('w, 'x) surroundings \<Rightarrow> ('w, 'x) surroundings" where
  "own_files hr = with_files (st_file (orch_store (hr_engine hr))) (al_file (orch_audit (hr_engine hr))) (hr_snapshot hr)
     (bt_cursor_file (hp_transport (hr_peer hr)))"

definition touched :: "'w \<Rightarrow> 'x \<Rightarrow> int \<Rightarrow> bool \<Rightarrow> ('w, 'x BuzzTransport) HermesProcess \<Rightarrow> ('w, 'x BuzzTransport) HermesProcess" where
  "touched w x now writable hr = hr\<lparr>hr_peer := (hr_peer hr)
     \<lparr>hp_transport := (hp_transport (hr_peer hr))\<lparr>bt_executor := x, bt_now := now, bt_cursor_writable := writable\<rparr>,
      hp_orchestrator := (hr_engine hr)\<lparr>orch_world := w\<rparr>\<rparr>\<rparr>"

text \<open>Between two lines the world outside may do anything.\<close>

inductive runner_reach :: "('w, 'x) surroundings \<Rightarrow> hermes_args \<Rightarrow> ('w, 'x BuzzTransport) HermesProcess \<Rightarrow> bool" for su ha where
  first: "hermes_start (with_files None None None None su) ha pe now w x = Serves pc wl cfg line hr \<Longrightarrow> env_ok (pe_policy pe) \<Longrightarrow>
    runner_reach su ha hr"
| answer: "runner_reach su ha hr \<Longrightarrow> hermes_config ha = Inr pc \<Longrightarrow> build_adapter su (ha_network ha) (ha_wave_rpc_server ha) = Inr wl \<Longrightarrow>
    env_ok (pe_policy pe) \<Longrightarrow>
    ar_ctx a = hermes_ctx su pc wl (build_transport su (ha_channel ha) (ha_pubkey ha) (buzz_bin_of su ha)) pe clock \<Longrightarrow>
    serve_line (su_invalid su) a hr = Some (response, hr') \<Longrightarrow> runner_reach su ha hr'"
| outside: "runner_reach su ha hr \<Longrightarrow> runner_reach su ha (touched w x now writable hr)"
| again: "runner_reach su ha hr \<Longrightarrow> hermes_start (own_files hr su) ha pe now w x = Serves pc wl cfg line hr' \<Longrightarrow>
    env_ok (pe_policy pe) \<Longrightarrow> runner_reach su ha hr'"

section \<open>The cursor\<close>

definition cursor_ok :: "'x buzz_config \<Rightarrow> 'x BuzzTransport \<Rightarrow> bool" where
  "cursor_ok cfg bt \<longleftrightarrow> (\<exists>S. load_cursor cfg (bt_cursor_file bt) = Inr S)"

lemma cursor_loads: "\<exists>S. load_cursor cfg (Some (json_dumps default_sorted (cursor_json seen))) = Inr S"
proof -
  let ?ids = "last_n 10000 (sorted_list_of_set seen)"
  have "canon default_sorted (cursor_json seen) = cursor_json seen" "json_ok (cursor_json seen)"
    by (simp_all add: cursor_json_def dump_order_def comp_def list_all_iff)
  then have "json_loads (json_dumps default_sorted (cursor_json seen)) = Some (cursor_json seen)"
    using json_roundtrip [OF opts_ok_in_use(3), of "cursor_json seen"] by simp
  then show ?thesis by (simp add: load_cursor_def cursor_json_def del: json_dumps.simps)
qed

lemma save_cursor_ok: "cursor_ok cfg bt \<Longrightarrow> cursor_ok cfg (snd (save_cursor cfg bt))"
  using cursor_loads [of cfg "bt_seen bt"] by (simp add: save_cursor_def cursor_ok_def del: json_dumps.simps)

lemma receive_cursor_ok:
  assumes "cursor_ok cfg bt" shows "cursor_ok cfg (snd (receive_peer_messages cfg since limit bt))"
proof -
  have same: "cursor_ok cfg (bt\<lparr>bt_executor := x, bt_seen := seen\<rparr>)" "cursor_ok cfg (bt\<lparr>bt_executor := x\<rparr>)" for x seen
    using assms by (simp_all add: cursor_ok_def)
  have saved: "cursor_ok cfg bt'" if "save_cursor cfg (bt\<lparr>bt_executor := x, bt_seen := seen\<rparr>) = (out, bt')" for x seen out bt'
    using save_cursor_ok [OF same(1)] that by (metis snd_conv)
  show ?thesis
    using assms same saved
    by (auto simp: receive_peer_messages_def Let_def split: option.split sum.split prod.split)
qed

lemma buzz_keeps_cursor:
  fixes cfg :: "'x buzz_config"
  assumes "pydantic_contract (bc_py cfg)"
  shows "payment_link (buzz_link cfg) (cursor_ok cfg)"
proof
  fix bt bt' :: "'x BuzzTransport" and m l ms pm
  show "cursor_ok cfg bt \<Longrightarrow> cursor_ok cfg (snd (pt_send (buzz_link cfg) m bt))"
    by (simp add: cursor_ok_def buzz_link_def buzz_send_keeps)
  show "cursor_ok cfg bt \<Longrightarrow> cursor_ok cfg (snd (pt_receive (buzz_link cfg) l bt))"
    using receive_cursor_ok by (simp add: buzz_link_def buzz_receive_def)
  show "pt_receive (buzz_link cfg) l bt = (Inr ms, bt') \<Longrightarrow> pm \<in> set ms \<Longrightarrow> transportable pm"
    using payment_link.delivers [OF buzz_payments [OF assms]] by (simp add: endpoint_well_def)
qed

section \<open>Starting\<close>

definition admitted :: "('w, 'x) surroundings \<Rightarrow> hermes_args \<Rightarrow> ProcessConfig \<Rightarrow> 'w WavelengthAdapter \<Rightarrow> bool" where
  "admitted su ha pc wl \<longleftrightarrow> ha_network ha \<in> {''regtest'', ''signet''}
     \<and> \<not> (ha_network ha = ''signet'' \<and> (ha_wave_rpc_server ha = None \<or> ha_wave_rpc_server ha = Some []))
     \<and> hermes_config ha = Inr pc \<and> build_adapter su (ha_network ha) (ha_wave_rpc_server ha) = Inr wl \<and> ha_channel ha \<noteq> []"

abbreviation channel_of :: "('w, 'x) surroundings \<Rightarrow> hermes_args \<Rightarrow> 'x buzz_config" where
  "channel_of su ha \<equiv> build_transport su (ha_channel ha) (ha_pubkey ha) (buzz_bin_of su ha)"

lemma hermes_start_iff:
  "hermes_start su ha pe now w x = Serves pc wl cfg line hr \<longleftrightarrow>
     admitted su ha pc wl \<and> su_mkdir su = None \<and> cfg = channel_of su ha \<and> line = ready_line (ha_role ha)
     \<and> (\<exists>bt. buzz_init cfg (su_cursor su) now x = Inr bt
         \<and> start_on (hermes_ctx su pc wl cfg pe (\<lambda>_. FNan)) (unclocked pe) (su_store su) (su_audit su) (su_snapshot su) bt w = (Inr (), Some hr))"
  (is "?l \<longleftrightarrow> ?r")
proof
  assume ?l
  then show ?r
    by (auto simp: hermes_start_def admitted_def Let_def start_on_def hermes_ctx_def buzz_init_def build_transport_def
        split: if_split_asm option.split_asm sum.split_asm prod.split_asm)
next
  assume ?r
  then show ?l by (auto simp: hermes_start_def admitted_def Let_def start_on_def hermes_ctx_def)
qed

lemma with_files_bin [simp]: "buzz_bin_of (with_files a b c d su) = buzz_bin_of su"
  by (rule ext) (simp add: buzz_bin_of_def with_files_def split: option.split)

lemma with_files_simps [simp]:
  "admitted (with_files a b c d su) ha pc wl = admitted su ha pc wl" "build_transport (with_files a b c d su) = build_transport su"
  "hermes_ctx (with_files a b c d su) = hermes_ctx su" "su_mkdir (with_files a b c d su) = su_mkdir su"
  "su_store (with_files a b c d su) = a" "su_audit (with_files a b c d su) = b" "su_snapshot (with_files a b c d su) = c"
  "su_cursor (with_files a b c d su) = d"
  by (simp_all add: admitted_def build_adapter_def build_transport_def hermes_ctx_def fun_eq_iff) (simp_all add: with_files_def)

lemma unclocked_ok [simp]: "env_ok (pe_policy (unclocked pe)) = env_ok (pe_policy pe)"
  "audit_writable (pe_policy (unclocked pe)) = audit_writable (pe_policy pe)" "pe_snapshot_ok (unclocked pe) = pe_snapshot_ok pe"
  by (simp_all add: unclocked_def env_ok_def audit_writable_def)

lemma hermes_ctx_simps [simp]:
  "px_env (hermes_ctx su pc wl cfg pe clock) = unclocked pe" "px_config (hermes_ctx su pc wl cfg pe clock) = pc"
  "px_link (hermes_ctx su pc wl cfg pe clock) = buzz_link cfg" "px_validators (hermes_ctx su pc wl cfg pe clock) = su_validators su"
  by (simp_all add: hermes_ctx_def)

lemma py_path_given: "py_path s \<noteq> []"
  by (simp add: py_path_def Let_def)

lemma path_join_given: "path_join dir (c # name) \<noteq> []"
  by (simp add: path_join_def py_path_given)

lemma config_paths:
  assumes "hermes_config ha = Inr pc"
  shows "pc_store_path pc = path_join (py_path (py_path (ha_state_root ha))) ''store.json''"
    "pc_audit_path pc = path_join (py_path (py_path (ha_state_root ha))) ''audit.jsonl''"
proof -
  from assms obtain identity approver where
    "process_config (ha_role ha) identity (ha_channel ha) (Some (py_path (ha_state_root ha))) (ha_network ha) ''buzz'' None None (Some approver) = Inr pc"
    by (auto simp: hermes_config_def bindE_Inr_iff)
  then show "pc_store_path pc = path_join (py_path (py_path (ha_state_root ha))) ''store.json''"
    "pc_audit_path pc = path_join (py_path (py_path (ha_state_root ha))) ''audit.jsonl''"
    by (auto simp: process_config_def Let_def split: if_split_asm)
qed

lemma store_path_given: "hermes_config ha = Inr pc \<Longrightarrow> pc_store_path pc \<noteq> []"
  using config_paths(1) path_join_given by simp

lemma audit_path_given: "hermes_config ha = Inr pc \<Longrightarrow> pc_audit_path pc \<noteq> []"
  using config_paths(2) path_join_given by simp

section \<open>The invariant\<close>

definition runner_good :: "('w, 'x) surroundings \<Rightarrow> hermes_args \<Rightarrow> ('w, 'x BuzzTransport) HermesProcess \<Rightarrow> bool" where
  "runner_good su ha hr \<longleftrightarrow> (\<exists>pc wl. admitted su ha pc wl \<and> process_good (cursor_ok (channel_of su ha)) hr \<and> files_ok (hr_engine hr)
     \<and> st_path (orch_store (hr_engine hr)) = Some (pc_store_path pc) \<and> al_path (orch_audit (hr_engine hr)) = Some (pc_audit_path pc))"

definition libraries_ok :: "('w, 'x) surroundings \<Rightarrow> bool" where
  "libraries_ok su \<longleftrightarrow> validators_contract (su_validators su) \<and> validators_sound (su_validators su) \<and> pydantic_contract (su_pydantic su)"

lemma runner_ctx_ok: "libraries_ok su \<Longrightarrow> admitted su ha pc wl \<Longrightarrow> ctx_ok (hermes_ctx su pc wl cfg pe clock)"
  using hermes_config_Inr by (auto simp: libraries_ok_def admitted_def ctx_ok_def hermes_ctx_def)

lemma started_good:
  assumes "libraries_ok su" and "admitted su ha pc wl" and "file_ok snapshot" and "env_ok (pe_policy pe)"
    and "orch_init (Some (pc_store_path pc)) store_file (Some (pc_audit_path pc)) audit_file w = Inr orc" and "files_ok orc"
    and "st_path (orch_store orc) = Some (pc_store_path pc)" and "al_path (orch_audit orc) = Some (pc_audit_path pc)"
    and "cursor_ok (channel_of su ha) bt"
    and "start_on (hermes_ctx su pc wl (channel_of su ha) pe clock) (unclocked pe) store_file audit_file snapshot bt w = (out, Some hr)"
  shows "runner_good su ha hr"
proof -
  let ?px = "hermes_ctx su pc wl (channel_of su ha) pe clock"
  have "process_good (cursor_ok (channel_of su ha)) hr"
    by (rule start_good [OF runner_ctx_ok [OF assms(1,2)] assms(3) _ assms(10)]) (rule assms(9))
  moreover have "files_ok (hr_engine hr) \<and> same_paths orc (hr_engine hr)"
    using assms(10) unfolding start_on_def process_start_def hermes_ctx_simps
    by (rule process_start_files [rotated 3]) (use assms in simp_all)
  ultimately show ?thesis using assms(2,7,8) by (auto simp: runner_good_def same_paths_def)
qed

lemma buzz_init_cursor: "buzz_init cfg file now x = Inr bt \<Longrightarrow> cursor_ok cfg bt"
  using buzz_init_Inr by (fastforce simp: cursor_ok_def)

lemma runner_reach_good:
  assumes "libraries_ok su" and "runner_reach su ha hr"
  shows "runner_good su ha hr"
  using assms(2)
proof induction
  case (first pe now w x pc wl cfg line hr)
  then obtain bt where adm: "admitted su ha pc wl" and init: "buzz_init (channel_of su ha) None now x = Inr bt"
    and start: "start_on (hermes_ctx su pc wl (channel_of su ha) pe (\<lambda>_. FNan)) (unclocked pe) None None None bt w = (Inr (), Some hr)"
    by (auto simp: hermes_start_iff)
  from adm have "pc_store_path pc \<noteq> []" by (auto simp: admitted_def dest: store_path_given)
  from orch_init_fresh [OF this, of "Some (pc_audit_path pc)" w] obtain orc where
    "orch_init (Some (pc_store_path pc)) None (Some (pc_audit_path pc)) None w = Inr orc" "files_ok orc"
    "st_path (orch_store orc) = Some (pc_store_path pc)" "al_path (orch_audit orc) = Some (pc_audit_path pc)" by blast
  from started_good [OF assms(1) adm _ first(2) this buzz_init_cursor [OF init] start] show ?case by (simp add: file_ok_def)
next
  case (answer hr pc wl pe a clock response hr')
  from answer.IH obtain pc' wl' where adm: "admitted su ha pc' wl'" and good: "process_good (cursor_ok (channel_of su ha)) hr"
    and files: "files_ok (hr_engine hr)" and paths: "st_path (orch_store (hr_engine hr)) = Some (pc_store_path pc')"
    "al_path (orch_audit (hr_engine hr)) = Some (pc_audit_path pc')" by (auto simp: runner_good_def)
  from adm answer.hyps(2,3) have same: "pc' = pc" "wl' = wl" by (simp_all add: admitted_def)
  show ?case
  proof (cases "py_strip (ar_line a) = []")
    case True
    with answer.hyps(6) answer.IH show ?thesis by (simp add: serve_line_def)
  next
    case False
    with answer.hyps(6) obtain out where line: "handle_line (ar_ctx a) (ar_rounds a) (py_strip (ar_line a)) hr = Some (out, hr')"
      by (auto simp: serve_line_def split: option.split_asm sum.split_asm)
    have link: "payment_link (buzz_link (channel_of su ha)) (cursor_ok (channel_of su ha))"
      using assms(1) by (intro buzz_keeps_cursor) (simp add: libraries_ok_def build_transport_def)
    have "process_good (cursor_ok (channel_of su ha)) hr'"
      using payment_link.handle_line_good [OF link _ _ good line] answer.hyps(5) runner_ctx_ok [OF assms(1) adm] same by simp
    moreover have "keeps_files (pe_policy (unclocked pe)) (hr_engine hr) (hr_engine hr')"
      using files.all_lines_move [OF refl _ line, where env = "pe_policy (unclocked pe)"] answer.hyps(5) by simp
    then have "files_ok (hr_engine hr')" "same_paths (hr_engine hr) (hr_engine hr')"
      using files answer.hyps(4) by (simp_all add: keeps_files_def files_kept_def)
    ultimately show ?thesis using adm paths by (auto simp: runner_good_def same_paths_def)
  qed
next
  case (outside hr w x now writable)
  then show ?case
    by (auto simp: runner_good_def touched_def process_good_def process_ok_def cursor_ok_def files_ok_def)
next
  case (again hr pe now w x pc wl cfg line hr')
  from again.IH obtain pc' wl' where adm': "admitted su ha pc' wl'" and good: "process_good (cursor_ok (channel_of su ha)) hr"
    and files: "files_ok (hr_engine hr)" and paths: "st_path (orch_store (hr_engine hr)) = Some (pc_store_path pc')"
    "al_path (orch_audit (hr_engine hr)) = Some (pc_audit_path pc')" by (auto simp: runner_good_def)
  from again.hyps(2) obtain bt where adm: "admitted su ha pc wl"
    and init: "buzz_init (channel_of su ha) (bt_cursor_file (hp_transport (hr_peer hr))) now x = Inr bt"
    and start: "start_on (hermes_ctx su pc wl (channel_of su ha) pe (\<lambda>_. FNan)) (unclocked pe) (st_file (orch_store (hr_engine hr)))
      (al_file (orch_audit (hr_engine hr))) (hr_snapshot hr) bt w = (Inr (), Some hr')"
    by (auto simp: hermes_start_iff own_files_def)
  from adm adm' have "pc' = pc" by (simp add: admitted_def)
  with orch_init_files [OF files, of w] paths obtain orc where
    orc: "orch_init (Some (pc_store_path pc)) (st_file (orch_store (hr_engine hr))) (Some (pc_audit_path pc)) (al_file (orch_audit (hr_engine hr))) w = Inr orc"
    "files_ok orc" "st_path (orch_store orc) = Some (pc_store_path pc)" "al_path (orch_audit orc) = Some (pc_audit_path pc)"
    by (auto simp: same_paths_def)
  have "file_ok (hr_snapshot hr)" using good by (simp add: process_good_def process_ok_def)
  from started_good [OF assms(1) adm this again.hyps(3) orc buzz_init_cursor [OF init] start] show ?case .
qed

section \<open>Restarts\<close>


text \<open>A runner that has just been started for the first time.\<close>

definition demo_surroundings :: "(nat, nat) surroundings" where
  "demo_surroundings = \<lparr>su_validators = strict_validators, su_pydantic = strict_pydantic, su_invalid = ''invalid'',
     su_wavecli = (\<lambda>cmd timeout w. (NoBinary, w)), su_time = (\<lambda>w. 0), su_buzz = (\<lambda>cmd timeout x. (NoBinary, x)),
     su_buzz_env = None, su_mkdir = None, su_store = None, su_audit = None, su_snapshot = None, su_cursor = None\<rparr>"

definition demo_args :: hermes_args where
  "demo_args = \<lparr>ha_role = ''alice'', ha_channel = ''c1'', ha_pubkey = pubkey sample_alice, ha_approver_pubkey = pubkey sample_bob,
     ha_state_root = ''/tmp/alice'', ha_network = ''regtest'', ha_wave_rpc_server = None, ha_buzz_bin = None\<rparr>"

lemma demo_hermes_config: "role \<in> {''alice'', ''bob''} \<Longrightarrow> \<exists>pc. hermes_config (demo_args\<lparr>ha_role := role\<rparr>) = Inr pc"
proof -
  have "py_strip ''c1'' = ''c1''" "py_path ''/tmp/alice'' = ''/tmp/alice''" "py_strip ''/tmp/alice'' = ''/tmp/alice''" by code_simp+
  then show "role \<in> {''alice'', ''bob''} \<Longrightarrow> \<exists>pc. hermes_config (demo_args\<lparr>ha_role := role\<rparr>) = Inr pc"
    by (auto simp: hermes_config_def demo_args_def bindE_Inr_iff new_identity_def identity_ok_def sample_alice_def sample_bob_def
        process_config_def Let_def)
qed

lemma starts_empty:
  assumes "admitted su ha pc wl" and "su_mkdir su = None"
  shows "\<exists>hr. hermes_start (with_files None None None None su) ha pe now w x = Serves pc wl (channel_of su ha) (ready_line (ha_role ha)) hr"
proof -
  have pc: "hermes_config ha = Inr pc" and channel: "ha_channel ha \<noteq> []" using assms(1) by (simp_all add: admitted_def)
  from orch_init_fresh [OF store_path_given [OF pc], of "Some (pc_audit_path pc)" w] obtain orc where
    "orch_init (Some (pc_store_path pc)) None (Some (pc_audit_path pc)) None w = Inr orc" by blast
  moreover obtain bt where "buzz_init (channel_of su ha) None now x = Inr bt"
    using channel by (simp add: buzz_init_def load_cursor_def build_transport_def)
  ultimately show ?thesis
    using assms by (simp add: hermes_start_iff start_on_def process_start_def process_init_def maybe_recover_def
        load_snapshot_def snapshot_inbox_def Let_def)
qed

lemma demo_start:
  assumes "role \<in> {''alice'', ''bob''}"
  shows "\<exists>pc wl hr. hermes_start (with_files None None None None demo_surroundings) (demo_args\<lparr>ha_role := role\<rparr>) demo_process_env 0 0 0 =
      Serves pc wl (channel_of demo_surroundings (demo_args\<lparr>ha_role := role\<rparr>)) (ready_line role) hr"
proof -
  let ?args = "demo_args\<lparr>ha_role := role\<rparr>"
  obtain pc where pc: "hermes_config ?args = Inr pc" using demo_hermes_config [OF assms] by blast
  have "\<exists>wl. build_adapter demo_surroundings (ha_network ?args) (ha_wave_rpc_server ?args) = Inr wl"
    by (simp add: build_adapter_def wavelength_init_def demo_args_def)
  then obtain wl where "admitted demo_surroundings ?args pc wl"
    using pc by (auto simp: admitted_def) (simp_all add: demo_args_def)
  from starts_empty [OF this, of demo_process_env 0 0 0] show ?thesis by (auto simp: demo_surroundings_def simp del: with_files_simps)
qed

lemma demo_runner: "\<exists>hr. runner_reach demo_surroundings demo_args hr"
proof -
  have "demo_args\<lparr>ha_role := ''alice''\<rparr> = demo_args" by (simp add: demo_args_def)
  with demo_start [of "''alice''"] obtain pc wl hr where
    "hermes_start (with_files None None None None demo_surroundings) demo_args demo_process_env 0 0 0 =
      Serves pc wl (channel_of demo_surroundings demo_args) (ready_line ''alice'') hr" by auto
  moreover have "env_ok (pe_policy demo_process_env)" using demo_env_ok(1) by (simp add: demo_process_env_def)
  ultimately show ?thesis by (blast intro: first)
qed

lemma demo_libraries: "libraries_ok demo_surroundings"
  using strict_validators_contract strict_validators_sound strict_contract by (simp add: libraries_ok_def demo_surroundings_def)


end
