(* ===== verification/Process_Approval.thy ===== *)
theory Process_Approval
  imports Process_Files
begin

text \<open>
  Only \<open>approve\<close> approves: as long as a process is not given that command, none of its intents
  is approved, whatever else it obeys, \<open>recover\<close> from its own snapshot included.
\<close>

section \<open>The engine\<close>

definition unapproved :: "'w Orch \<Rightarrow> bool" where
  "unapproved orc \<longleftrightarrow> (\<forall>(k, rc) \<in> set (orch_intents orc). rec_state rc \<noteq> APPROVED)"

lemma unapproved_simps [simp]:
  "unapproved (orc\<lparr>orch_world := w\<rparr>) = unapproved orc" "unapproved (orc\<lparr>orch_store := st\<rparr>) = unapproved orc"
  "unapproved (snd (audited env event iid kw out orc)) = unapproved orc"
  by (simp_all add: unapproved_def frame_simps)

lemma dict_set_members: "set (dict_set k v d) \<subseteq> insert (k, v) (set d)"
  by (induction d) auto

lemma unapproved_put [intro!]: "unapproved orc \<Longrightarrow> rec_state rc \<noteq> APPROVED \<Longrightarrow> unapproved (put_record k rc orc)"
  using dict_set_members [of k rc "orch_intents orc"] by (auto simp: unapproved_def put_record_def)

lemma unapproved_get: "unapproved orc \<Longrightarrow> get_record k orc = Inr rc \<Longrightarrow> rec_state rc \<noteq> APPROVED"
  by (auto simp: unapproved_def get_record_Inr dest!: map_of_SomeD)

lemma unapproved_find: "unapproved orc \<Longrightarrow> find_by_state s orc = Inr (k, rc) \<Longrightarrow> rec_state rc = s \<and> s \<noteq> APPROVED"
  by (auto simp: unapproved_def find_by_state_def Let_def split: list.split_asm dest!: arg_cong [where f = set] filter_eq_ConsD)

lemma reaches_approved: "ok (transition s t) \<Longrightarrow> new_state (transition s t) = APPROVED \<Longrightarrow> t = ''approved''"
  by (auto simp: transition_def TRANSITIONS_def split: if_split_asm option.split_asm)

definition keeps_unapproved :: "'w Orch \<Rightarrow> 'w Orch \<Rightarrow> bool" where
  "keeps_unapproved orc orc' \<longleftrightarrow> (unapproved orc \<longrightarrow> unapproved orc')"

interpretation approval: engine_relation cfg env keeps_unapproved "{''approve''}" for cfg :: "'w orch_config" and env
proof
  fix orc orc' orc'' :: "'w Orch" and i q r ref amount
  show "keeps_unapproved orc (snd (submit cfg env i orc))"
    by (auto simp: keeps_unapproved_def submit_def Let_def dest: reaches_approved split: option.split prod.split sum.split)
  show "keeps_unapproved orc (snd (receive_quote env q orc))"
    by (auto simp: keeps_unapproved_def receive_quote_def Let_def dest: reaches_approved unapproved_get split: sum.split)
  show "keeps_unapproved orc (snd (prepare cfg env orc))"
    by (auto simp: keeps_unapproved_def prepare_def Let_def dest: reaches_approved split: option.split prod.split sum.split)
  show "keeps_unapproved orc (snd (execute cfg env orc))"
    by (auto simp: keeps_unapproved_def execute_def dest: unapproved_find split: sum.split)
  show "keeps_unapproved orc (snd (receive_receipt cfg env r orc))"
    by (auto simp: keeps_unapproved_def receive_receipt_def Let_def dest: reaches_approved split: prod.split sum.split)
qed (auto simp: keeps_unapproved_def)

section \<open>Recovery\<close>

lemma demote_unapproved: "unapproved orc \<Longrightarrow> unapproved (snd (demote env k rc orc))"
  by (simp add: demote_def Let_def)

lemma reconcile_unapproved: "unapproved orc \<Longrightarrow> unapproved (snd (reconcile_settlement cfg env k orc))"
  by (auto simp: reconcile_settlement_def Let_def split: sum.split option.split prod.split)

lemma recover_records_unapproved:
  assumes "validators_contract va"
  shows "\<lbrakk>\<forall>(k, rc) \<in> set rs. restartable rc \<and> rec_state rc \<noteq> APPROVED; unapproved orc\<rbrakk> \<Longrightarrow>
    unapproved (snd (recover_records va cfg env reconcile (written rs) orc))"
proof (induction rs arbitrary: orc)
  case (Cons item rs)
  obtain k rc where item: "item = (k, rc)" by force
  from Cons.prems item have rc: "restartable rc" "rec_state rc \<noteq> APPROVED" by simp_all
  have split: "written (item # rs) = (k, canon default_sorted (record_json rc)) # written rs" by (simp add: written_def item)
  have read: "read_record va k (canon default_sorted (record_json rc)) = Inr (Some rc)"
    using read_record_json [OF assms] rc by (simp add: restartable_def)
  have rest: "unapproved (snd (recover_records va cfg env reconcile (written rs) orc'))" if "unapproved orc'" for orc'
    using Cons.IH [OF _ that] Cons.prems(1) by simp
  obtain out orc1 where d: "demote env k rc orc = (out, orc1)" by force
  have ok1: "unapproved orc1" using demote_unapproved [OF Cons.prems(2), of env k rc] d by simp
  show ?case
  proof (cases out)
    case (Inl e)
    with d ok1 show ?thesis unfolding split by (simp add: read del: canon.simps)
  next
    case (Inr rc')
    have put: "unapproved (put_record k rc' orc1)" using demote_Inr [OF d [unfolded Inr]] rc ok1 by auto
    obtain out2 orc2 where r: "reconcile_settlement cfg env k (put_record k rc' orc1) = (out2, orc2)" by force
    have "unapproved orc2" using reconcile_unapproved [OF put, of cfg env k] r by simp
    with d Inr read rest put r show ?thesis
      unfolding split by (cases out2; cases reconcile) (simp_all add: Let_def del: canon.simps)
  qed
qed (simp add: written_def)

text \<open>A snapshot file that shows no approved intent.\<close>

definition unapproved_file :: "string option \<Rightarrow> bool" where
  "unapproved_file snapshot \<longleftrightarrow> (\<forall>content. snapshot = Some content \<longrightarrow>
     (\<exists>intents received. dict_wf intents \<and> (\<forall>(k, rc) \<in> set intents. restartable rc \<and> rec_state rc \<noteq> APPROVED)
        \<and> content = json_dumps default_sorted (snapshot_json intents received)))"

definition awaiting :: "('w, 's) HermesProcess \<Rightarrow> bool" where
  "awaiting hr \<longleftrightarrow> process_ok hr \<and> unapproved (hr_engine hr) \<and> unapproved_file (hr_snapshot hr)"

lemma snapshot_unapproved:
  assumes "records_ok (hr_engine hr)" and "unapproved (hr_engine hr)" and "unapproved_file (hr_snapshot hr)"
  shows "unapproved_file (hr_snapshot (snd (snapshot_state b hr)))"
proof -
  have "unapproved_file (Some (snapshot_text (hr_engine hr) (hr_inbox hr)))"
    unfolding unapproved_file_def snapshot_text_def
    by (rule allI, rule impI, rule exI [of _ "orch_intents (hr_engine hr)"], rule exI [of _ "hr_inbox hr"])
      (use assms(1,2) in \<open>auto simp: records_ok_def unapproved_def simp del: json_dumps.simps\<close>)
  with assms(3) show ?thesis by (simp add: snapshot_state_def)
qed

lemma snapshot_engine [simp]: "hr_engine (snd (snapshot_state b hr)) = hr_engine hr"
  by (simp add: snapshot_state_def)

lemma maybe_recover_unapproved:
  assumes "validators_contract va" and "awaiting hr"
  shows "awaiting (snd (maybe_recover va cfg pe reconcile hr))"
proof (cases "hr_snapshot hr")
  case None
  with assms(2) show ?thesis by (simp add: maybe_recover_def load_snapshot_def snapshot_inbox_def Let_def awaiting_def process_ok_def)
next
  case (Some content)
  from assms(2) have ok: "process_ok hr" "unapproved (hr_engine hr)" "unapproved_file (Some content)" using Some by (simp_all add: awaiting_def)
  have good: "process_ok (snd (maybe_recover va cfg pe reconcile hr))" by (rule maybe_recover_ok [OF assms(1) ok(1)])
  from ok(3) obtain intents received where wf: "dict_wf intents" and rs: "\<forall>(k, rc) \<in> set intents. restartable rc \<and> rec_state rc \<noteq> APPROVED"
    and content: "content = json_dumps default_sorted (snapshot_json intents received)"
    by (auto simp: unapproved_file_def simp del: json_dumps.simps)
  let ?orc = "(hr_engine hr)\<lparr>orch_intents := intents\<rparr>" and ?rs = "sort_key fst intents"
  from snapshot_decodes [of ?orc received] wf obtain snapshot where snapshot: "load_snapshot (hr_snapshot hr) = Inr (JObj snapshot)"
    "dict_get snapshot ''records'' = Some (JObj (written ?rs))"
    using Some content by (auto simp: snapshot_text_def simp del: json_dumps.simps)
  obtain out orc1 where call: "recover_records va cfg (pe_policy pe) reconcile (written ?rs) (hr_engine hr) = (out, orc1)" by force
  with recover_records_unapproved [OF assms(1) _ ok(2), of ?rs cfg "pe_policy pe" reconcile] rs have engine: "unapproved orc1" by simp
  show ?thesis
  proof (cases out)
    case (Inl e)
    with good snapshot call engine ok Some show ?thesis by (simp add: awaiting_def maybe_recover_def)
  next
    case (Inr u)
    obtain out2 box ids where box: "recover_inbox va (snapshot_inbox snapshot) (hr_inbox hr) (hr_inbox_ids hr) = (out2, box, ids)"
      by (metis prod_cases3)
    let ?hr = "(set_engine orc1 hr)\<lparr>hr_inbox := box, hr_inbox_ids := ids\<rparr>"
    have result: "snd (maybe_recover va cfg pe reconcile hr) = ?hr \<or>
        snd (maybe_recover va cfg pe reconcile hr) = snd (snapshot_state (pe_snapshot_ok pe) ?hr)"
      using snapshot call Inr box by (auto simp: maybe_recover_def Let_def split: sum.split)
    have eng: "hr_engine ?hr = orc1" "hr_snapshot ?hr = hr_snapshot hr" by (simp_all add: set_engine_def)
    have "records_ok orc1" using good result eng by (auto simp: process_ok_def)
    then have "unapproved_file (hr_snapshot (snd (snapshot_state (pe_snapshot_ok pe) ?hr)))"
      by (intro snapshot_unapproved) (use eng engine ok(3) Some in simp_all)
    with good result eng engine ok(3) Some show ?thesis by (auto simp: awaiting_def)
  qed
qed

lemma recover_loop_unapproved:
  assumes "validators_contract (px_validators px)"
  shows "recover_loop px max_wait n rounds hr = Some call \<Longrightarrow> awaiting hr \<Longrightarrow> awaiting (snd call)"
proof (induction rounds arbitrary: n hr)
  case (Suc rounds)
  obtain out hr1 where m: "maybe_recover (px_validators px) (px_orch px) (px_env px) True hr = (out, hr1)" by force
  with maybe_recover_unapproved [OF assms Suc.prems(2), of "px_orch px" "px_env px" True] have "awaiting hr1" by simp
  with Suc m show ?case by (auto split: sum.split_asm if_split_asm)
qed simp

section \<open>Lines\<close>

lemma step_snapshots [simp]:
  "hr_snapshot (snd (on_engine ecall hr)) = hr_snapshot hr" "hr_snapshot (snd (on_peer pcall hr)) = hr_snapshot hr"
  "hr_snapshot (snd (on_world wcall hr)) = hr_snapshot hr"
  by (simp_all add: on_engine_def on_peer_def on_world_def set_engine_def split: prod.split)

lemma snapshot_andthen:
  "hr_snapshot (snd call) = f \<Longrightarrow> (\<And>v. fst call = Inr v \<Longrightarrow> hr_snapshot (snd (g v (snd call))) = f) \<Longrightarrow> hr_snapshot (snd (andthen call g)) = f"
  by (simp add: snd_andthen split: sum.split)

lemma collect_new_snapshot: "collect_new pms hr = (new, hr') \<Longrightarrow> hr_snapshot hr' = hr_snapshot hr"
  by (induction pms arbitrary: hr new) (auto split: prod.split_asm if_split_asm)

lemma handlers_keep_snapshot:
  "hr_snapshot (snd (handle_receive px args hr)) = hr_snapshot hr" "hr_snapshot (snd (handle_submit_intent px args hr)) = hr_snapshot hr"
  "hr_snapshot (snd (handle_accept_intent px args hr)) = hr_snapshot hr" "hr_snapshot (snd (handle_publish_quote px args hr)) = hr_snapshot hr"
  "hr_snapshot (snd (handle_accept_quote px args hr)) = hr_snapshot hr"
  "hr_snapshot (snd (handle_submit_quote_local px args hr)) = hr_snapshot hr" "hr_snapshot (snd (handle_prepare px args hr)) = hr_snapshot hr"
  "hr_snapshot (snd (handle_approve px args hr)) = hr_snapshot hr" "hr_snapshot (snd (handle_execute px args hr)) = hr_snapshot hr"
  "hr_snapshot (snd (handle_publish_receipt px args hr)) = hr_snapshot hr"
  "hr_snapshot (snd (handle_verify_publish_receipt px args hr)) = hr_snapshot hr"
  "hr_snapshot (snd (handle_accept_receipt px args hr)) = hr_snapshot hr"
proof -
  show "hr_snapshot (snd (handle_receive px args hr)) = hr_snapshot hr"
    unfolding handle_receive_def
    by (intro snapshot_andthen) (auto simp: snd_andthen split: prod.split sum.split dest!: collect_new_snapshot)
  show "hr_snapshot (snd (handle_submit_intent px args hr)) = hr_snapshot hr" "hr_snapshot (snd (handle_publish_quote px args hr)) = hr_snapshot hr"
    "hr_snapshot (snd (handle_submit_quote_local px args hr)) = hr_snapshot hr" "hr_snapshot (snd (handle_prepare px args hr)) = hr_snapshot hr"
    "hr_snapshot (snd (handle_execute px args hr)) = hr_snapshot hr" "hr_snapshot (snd (handle_publish_receipt px args hr)) = hr_snapshot hr"
    unfolding handle_submit_intent_def handle_publish_quote_def handle_submit_quote_local_def handle_prepare_def
      handle_execute_def handle_publish_receipt_def
    by (intro snapshot_andthen; simp)+
  show "hr_snapshot (snd (handle_accept_intent px args hr)) = hr_snapshot hr" "hr_snapshot (snd (handle_accept_quote px args hr)) = hr_snapshot hr"
    "hr_snapshot (snd (handle_accept_receipt px args hr)) = hr_snapshot hr"
    unfolding handle_accept_intent_def handle_accept_quote_def handle_accept_receipt_def
    by (intro snapshot_andthen; simp add: snd_andthen split: DomainMessage.split sum.split)+
  show "hr_snapshot (snd (handle_approve px args hr)) = hr_snapshot hr"
    by (simp add: handle_approve_def Let_def snd_andthen split: option.split sum.split)
  show "hr_snapshot (snd (handle_verify_publish_receipt px args hr)) = hr_snapshot hr"
    unfolding handle_verify_publish_receipt_def Let_def
    by (intro snapshot_andthen) (auto simp: snd_andthen split: prod.split sum.split)
qed

lemma command_keeps_snapshot:
  "run_command px rounds c hr = Some call \<Longrightarrow> jc_name c \<noteq> ''recover'' \<Longrightarrow> hr_snapshot (snd call) = hr_snapshot hr"
  using handlers_keep_snapshot [of px "jc_arguments c" hr]
  unfolding run_command_def Let_def handle_status_def by (simp split: if_split_asm) (auto split: if_split_asm)

lemma command_unapproved:
  assumes "validators_contract (px_validators px)" and "run_command px rounds c hr = Some call" and "jc_name c \<noteq> ''approve''"
    and "awaiting hr" and "process_ok (snd call)"
  shows "awaiting (snd call)"
proof (cases "jc_name c = ''recover''")
  case True
  with assms(2) have "handle_recover px rounds (jc_arguments c) hr = Some call" by (simp add: run_command_def)
  with assms(4) show ?thesis
    by (auto simp: handle_recover_def snd_andthen dest!: recover_loop_unapproved [OF assms(1)] split: sum.split_asm option.split_asm sum.split)
next
  case False
  obtain result hr1 where call: "call = (result, hr1)" by force
  have "keeps_unapproved (hr_engine hr) (hr_engine hr1)"
    by (rule approval.command_moves [OF refl refl False]) (use assms(2,3) call in simp_all)
  with command_keeps_snapshot [OF assms(2) False] assms(4,5) call show ?thesis by (simp add: awaiting_def keeps_unapproved_def)
qed

lemma line_unapproved:
  assumes "payment_link (px_link px) valid" and "ctx_ok px" and "process_good valid hr" and "awaiting hr"
    and "handle_line px rounds line hr = Some (out, hr')" and "\<forall>c. parse_command line = Inr c \<longrightarrow> jc_name c \<noteq> ''approve''"
  shows "awaiting hr'"
proof (cases "parse_command line")
  case (Inl e)
  with assms(4,5) show ?thesis by (simp add: handle_line_def)
next
  case (Inr c)
  with assms(5) obtain result hr1 where run: "run_command px rounds c hr = Some (result, hr1)"
    and hr': "hr' = snd (snapshot_state (pe_snapshot_ok (px_env px)) hr1)"
    by (auto simp: handle_line_def snapshot_state_def split: option.split_asm if_split_asm)
  have "process_good valid hr1"
    using payment_link.run_command_good [OF assms(1,2) refl assms(3) run] by simp
  then have ok: "process_ok hr1" by (simp add: process_good_def)
  from command_unapproved [OF _ run] assms(2,4,6) Inr ok have "awaiting hr1" by (simp add: ctx_ok_def)
  moreover have "process_ok hr'" unfolding hr' by (rule snapshot_state_ok [OF ok])
  ultimately show ?thesis unfolding hr' awaiting_def using snapshot_unapproved [of hr1] by (simp add: process_ok_def)
qed

end
