(* ===== verification/Deployment.thy ===== *)
theory Deployment
  imports Supervisor_Life Runner_Lifetime Process_Approval Wavelength_Properties
begin

text \<open>
  The whole program: a supervisor over two runners, each with its own process, wallet binary and
  state directory, in one outside world of payments and one relay. What the parts promise adds
  up to this: money moves only if the operator asks twice.
\<close>

section \<open>The parts together\<close>

text \<open>The arguments a wrapper passes to its runner; \<open>wrapper_passes_arguments\<close> shows that it does.\<close>

definition passed :: "wrapper_args \<Rightarrow> hermes_args" where
  "passed wa = \<lparr>ha_role = wa_role wa, ha_channel = wa_channel wa, ha_pubkey = wa_pubkey wa, ha_approver_pubkey = wa_approver_pubkey wa,
     ha_state_root = wa_state_root wa, ha_network = wa_network wa,
     ha_wave_rpc_server = (if wa_wave_rpc_server wa = Some [] then None else wa_wave_rpc_server wa),
     ha_buzz_bin = (if wa_buzz_bin wa = Some [] then None else wa_buzz_bin wa)\<rparr>"

definition args_of :: "supervisor_args \<Rightarrow> string \<Rightarrow> hermes_args" where
  "args_of sp name = passed (if name = ''alice'' then alice_wrapper sp else bob_wrapper sp)"

text \<open>A runner that serves, and what a start, a line or a health probe meets.\<close>

record ('w, 'x) child =
  ch_config :: ProcessConfig
  ch_adapter :: "'w WavelengthAdapter"
  ch_process :: "('w, 'x BuzzTransport) HermesProcess"

record meeting =
  mt_env :: process_env
  mt_clock :: "nat \<Rightarrow> pyfloat"
  mt_rounds :: nat
  mt_now :: int
  mt_cursor_writable :: bool
  mt_health :: "string \<Rightarrow> int option"

record ('w, 'x) deployment =
  dp_children :: "string \<Rightarrow> ('w, 'x) child option"
  dp_banner :: "string \<Rightarrow> string"
  dp_wrappers :: "string set"
  dp_world :: 'w
  dp_relay :: 'x
  dp_turn :: nat

definition runner_ctx :: "('w, 'x) surroundings \<Rightarrow> hermes_args \<Rightarrow> ('w, 'x) child \<Rightarrow> meeting \<Rightarrow> ('w, 'x BuzzTransport) process_ctx" where
  "runner_ctx su ha ch mt = hermes_ctx su (ch_config ch) (ch_adapter ch) (channel_of su ha) (mt_env mt) (mt_clock mt)"

text \<open>
  A line goes through \<open>serve_line\<close>, in the world as the other runner has left it. A \<open>recover\<close> that
  outlasts its rounds gives no answer.
\<close>

definition ask_runner :: "(string \<Rightarrow> ('w, 'x) surroundings) \<Rightarrow> (string \<Rightarrow> hermes_args) \<Rightarrow> (nat \<Rightarrow> meeting) \<Rightarrow> ('w, 'x) deployment ask" where
  "ask_runner sus args mts target line d =
     (case dp_children d target of
        None \<Rightarrow> (Inl (OSError ''[Errno 32] Broken pipe''), d)
      | Some ch \<Rightarrow>
          (let mt = mts (dp_turn d);
               arrival = \<lparr>ar_line = line, ar_ctx = runner_ctx (sus target) (args target) ch mt, ar_rounds = mt_rounds mt\<rparr>;
               hr = touched (dp_world d) (dp_relay d) (mt_now mt) (mt_cursor_writable mt) (ch_process ch) in
           case serve_line (su_invalid (sus target)) arrival hr of
             None \<Rightarrow> (Inr [], d)
           | Some (response, hr') \<Rightarrow>
               (Inr (case response of Some r \<Rightarrow> r @ newline | None \<Rightarrow> []),
                d\<lparr>dp_children := (dp_children d)(target := Some (ch\<lparr>ch_process := hr'\<rparr>)), dp_world := orch_world (hr_engine hr'),
                  dp_relay := bt_executor (hp_transport (hr_peer hr')), dp_turn := Suc (dp_turn d)\<rparr>)))"

text \<open>A wrapper starts its runner on an empty state directory; one that does not serve writes nothing and ends.\<close>

definition spawn_runner ::
    "(string \<Rightarrow> ('w, 'x) surroundings) \<Rightarrow> (string \<Rightarrow> hermes_args) \<Rightarrow> (nat \<Rightarrow> meeting) \<Rightarrow> string \<Rightarrow> ('w, 'x) deployment \<Rightarrow> ('w, 'x) deployment" where
  "spawn_runner sus args mts name d =
     (let mt = mts (dp_turn d) in
      case hermes_start (with_files None None None None (sus name)) (args name) (mt_env mt) (mt_now mt) (dp_world d) (dp_relay d) of
        Serves pc wl cfg line hr \<Rightarrow>
          d\<lparr>dp_children := (dp_children d)(name := Some \<lparr>ch_config = pc, ch_adapter = wl, ch_process = hr\<rparr>),
            dp_banner := (dp_banner d)(name := line @ newline), dp_world := orch_world (hr_engine hr), dp_turn := Suc (dp_turn d)\<rparr>
      | _ \<Rightarrow> d\<lparr>dp_children := (dp_children d)(name := None), dp_banner := (dp_banner d)(name := []), dp_turn := Suc (dp_turn d)\<rparr>)"

definition end_child :: "string \<Rightarrow> ('w, 'x) deployment \<Rightarrow> ('w, 'x) deployment" where
  "end_child name d = d\<lparr>dp_children := (dp_children d)(name := None)\<rparr>"

definition runner_os :: "(string \<Rightarrow> ('w, 'x) surroundings) \<Rightarrow> (string \<Rightarrow> hermes_args) \<Rightarrow> (nat \<Rightarrow> meeting) \<Rightarrow> ('w, 'x) deployment os" where
  "runner_os sus args mts =
     \<lparr>os_install = (\<lambda>dir wrapper d. (None, d\<lparr>dp_wrappers := insert (path_join dir ''run.sh'') (dp_wrappers d)\<rparr>)),
      os_exists = (\<lambda>path d. path \<in> dp_wrappers d), os_spawn = (\<lambda>name path d. (None, spawn_runner sus args mts name d)),
      os_banner = (\<lambda>name d. (dp_banner d name, d)), os_ask = ask_runner sus args mts, os_pid = (\<lambda>name. name),
      os_poll = (\<lambda>name d. if dp_children d name = None then Some 1 else None), os_close = (\<lambda>name d. d),
      os_terminate = (\<lambda>name d. (None, end_child name d)), os_kill = (\<lambda>name d. (None, end_child name d)),
      os_wait = (\<lambda>name d. (Inr (dp_children d name = None), d)),
      os_urlopen = (\<lambda>url d. (mt_health (mts (dp_turn d)) url, d\<lparr>dp_turn := Suc (dp_turn d)\<rparr>))\<rparr>"

text \<open>The wallet's documented behaviour: of the commands the adapter can run, only \<open>Send\<close> changes the observation.\<close>

definition only_send_pays :: "('w \<Rightarrow> 'm) \<Rightarrow> ('w, 'x) surroundings \<Rightarrow> bool" where
  "only_send_pays \<mu> su \<longleftrightarrow>
     (\<forall>cmd t w. (\<nexists>(wl :: 'w WavelengthAdapter) request. cmd = rpc_cmd wl ''Send'' request) \<longrightarrow> \<mu> (snd (su_wavecli su cmd t w)) = \<mu> w)"

section \<open>The adapter\<close>

lemma send_differs:
  "rpc_cmd wl ''PrepareSend'' r \<noteq> rpc_cmd wl' ''Send'' r'" "activity_cmd wl kind \<noteq> rpc_cmd wl' ''Send'' r'"
  by (auto simp: rpc_cmd_def activity_cmd_def build_raw_rpc_cmd_def build_wavecli_activity_cmd_def dest!: arg_cong [where f = rev])

lemma wavelength_quiet:
  fixes wl :: "'w WavelengthAdapter"
  assumes "\<forall>cmd w. (\<nexists>(wl :: 'w WavelengthAdapter) request. cmd = rpc_cmd wl ''Send'' request) \<longrightarrow> \<mu> (snd (we_run (wl_executor wl) cmd w)) = \<mu> w"
  shows "adapter_quiet \<mu> (wavelength wl)"
proof -
  have run: "we_run (wl_executor wl) (rpc_cmd wl ''PrepareSend'' r) w = (out, w') \<Longrightarrow> \<mu> w' = \<mu> w"
    "we_run (wl_executor wl) (activity_cmd wl kind) w = (out, w') \<Longrightarrow> \<mu> w' = \<mu> w" for r kind w out w'
    using assms send_differs by (metis snd_conv)+
  have verify: "\<mu> (snd (verify_activity wl kind ref a w)) = \<mu> w" for kind ref a w
    by (auto simp: verify_activity_def dest: run split: prod.split sum.split)
  have query: "\<mu> (snd (query_sender_activity wl h a w)) = \<mu> w" for h a w
    by (auto simp: query_sender_activity_def dest: run split: prod.split sum.split)
  have "\<mu> (snd (wl_reconcile_settlement wl p h a w)) = \<mu> w" for p h a w
    unfolding wl_reconcile_settlement_def Let_def
    by (simp add: query split: option.split pyjson.split sum.split exn.split list.split)
  moreover have "\<mu> (snd (wl_prepare wl i a f w)) = \<mu> w" for i a f w
    by (auto simp: wl_prepare_def dest: run split: option.split prod.split sum.split)
  ultimately show ?thesis
    by (simp add: adapter_quiet_def wavelength_def wl_verify_receipt_def wl_verify_sender_settlement_def verify)
qed

section \<open>One line\<close>

definition orders :: "string \<Rightarrow> string \<Rightarrow> string \<Rightarrow> bool" where
  "orders target name line \<longleftrightarrow> (\<exists>command. json_loads line = Some (JObj command)
     \<and> dict_get command ''target'' = Some (JStr target) \<and> dict_get command ''command'' = Some (JStr name))"

lemma forwarded_name:
  assumes "json_ok (JObj command)" and "parse_command (py_strip (forwarded command)) = Inr c"
  shows "dict_get command ''command'' = Some (JStr (jc_name c))"
proof -
  let ?rest = "filter (\<lambda>(k, _). k \<noteq> ''target'') command"
  have ok: "json_ok (JObj ?rest)" using assms(1) by (auto simp: list_all_iff distinct_map_filter)
  obtain d where d: "canon default_sorted (JObj ?rest) = JObj d" by simp
  have get: "dict_get d ''command'' = map_option (canon default_sorted) (dict_get command ''command'')"
    using dict_get_canon [OF ok d] dict_get_filter_key [of "''target''" command "''command''"] by simp
  have "json_loads (py_strip (forwarded command)) = Some (JObj d)"
    using json_roundtrip [OF opts_ok_in_use(3) ok] d by (simp add: forwarded_def strip_line del: json_dumps.simps)
  with assms(2) have "dict_get d ''command'' = Some (JStr (jc_name c))"
    by (auto simp: parse_command_def split: option.split_asm pyjson.split_asm if_split_asm)
  with get have "map_option (canon default_sorted) (dict_get command ''command'') = Some (JStr (jc_name c))" by simp
  then obtain v where "dict_get command ''command'' = Some v" "canon default_sorted v = JStr (jc_name c)"
    unfolding map_option_eq_Some by blast
  then show ?thesis by (cases v) simp_all
qed

lemma serve_line_handled:
  assumes "serve_line invalid a hr = Some (response, hr')"
  shows "hr' = hr \<or> (\<exists>out. handle_line (ar_ctx a) (ar_rounds a) (py_strip (ar_line a)) hr = Some (out, hr'))"
  using assms by (auto simp: serve_line_def Let_def split: if_split_asm option.split_asm sum.split_asm)

abbreviation fit :: "('w, 'x) surroundings \<Rightarrow> hermes_args \<Rightarrow> ('w, 'x BuzzTransport) HermesProcess \<Rightarrow> bool" where
  "fit su ha \<equiv> process_good (cursor_ok (channel_of su ha))"

definition runner_ok :: "('w, 'x) surroundings \<Rightarrow> hermes_args \<Rightarrow> ('w, 'x) child \<Rightarrow> bool" where
  "runner_ok su ha ch \<longleftrightarrow> libraries_ok su \<and> admitted su ha (ch_config ch) (ch_adapter ch)"

lemma started_fit:
  assumes "libraries_ok su" and "hermes_start (with_files None None None None su) ha pe now w x = Serves pc wl cfg line hr"
  shows "admitted su ha pc wl \<and> fit su ha hr \<and> awaiting hr \<and> orch_world (hr_engine hr) = w"
proof -
  from assms(2) obtain bt where adm: "admitted su ha pc wl" and init: "buzz_init (channel_of su ha) None now x = Inr bt"
    and start: "start_on (hermes_ctx su pc wl (channel_of su ha) pe (\<lambda>_. FNan)) (unclocked pe) None None None bt w = (Inr (), Some hr)"
    by (auto simp: hermes_start_iff)
  have "file_ok None" by (simp add: file_ok_def)
  with start_good [OF runner_ctx_ok [OF assms(1) adm] _ _ start] buzz_init_cursor [OF init] have fit: "fit su ha hr" by blast
  from start obtain orc where orc: "orch_init (Some (pc_store_path pc)) None (Some (pc_audit_path pc)) None w = Inr orc"
    and hr: "hr_engine hr = orc" "hr_snapshot hr = None"
    by (auto simp: start_on_def process_start_def process_init_def maybe_recover_def load_snapshot_def snapshot_inbox_def Let_def
        split: sum.split_asm)
  from orc have "orch_intents orc = []" "orch_world orc = w" by (auto simp: orch_init_def split: sum.split_asm)
  with fit hr have "awaiting hr" "orch_world (hr_engine hr) = w" by (simp_all add: awaiting_def process_good_def unapproved_def unapproved_file_def)
  with adm fit show ?thesis by simp
qed

lemma touched_fit [simp]:
  "fit su ha (touched w x now b hr) = fit su ha hr" "awaiting (touched w x now b hr) = awaiting hr"
  "orch_world (hr_engine (touched w x now b hr)) = w"
  by (simp_all add: touched_def process_good_def process_ok_def cursor_ok_def awaiting_def)

lemma runner_link: "runner_ok su ha ch \<Longrightarrow> payment_link (px_link (runner_ctx su ha ch mt)) (cursor_ok (channel_of su ha))"
  using buzz_keeps_cursor [of "channel_of su ha"] by (simp add: runner_ctx_def runner_ok_def libraries_ok_def build_transport_def)

lemma runner_ok_ctx: "runner_ok su ha ch \<Longrightarrow> ctx_ok (runner_ctx su ha ch mt)"
  unfolding runner_ctx_def runner_ok_def by (erule conjE) (rule runner_ctx_ok)

lemma adapter_executor: "build_adapter su network rpc_server = Inr wl \<Longrightarrow> wl_executor wl = subprocess_executor (su_wavecli su)"
  by (auto simp: build_adapter_def wavelength_init_def split: if_split_asm)

lemma runner_quiet:
  assumes "runner_ok su ha ch" and "only_send_pays \<mu> su" shows "adapter_quiet \<mu> (cf_adapter (px_orch (runner_ctx su ha ch mt)))"
proof -
  have "wl_executor (ch_adapter ch) = subprocess_executor (su_wavecli su)"
    using assms(1) adapter_executor unfolding runner_ok_def admitted_def by blast
  then have "\<mu> (snd (we_run (wl_executor (ch_adapter ch)) cmd w)) = \<mu> (snd (su_wavecli su cmd 30 w))" for cmd w
    by (simp add: subprocess_executor_def split: prod.split)
  with assms(2) have "adapter_quiet \<mu> (wavelength (ch_adapter ch))"
    by (intro wavelength_quiet) (simp add: only_send_pays_def)
  then show ?thesis by (simp add: runner_ctx_def hermes_ctx_def)
qed

lemma handled_line:
  assumes "runner_ok su ha ch" and "only_send_pays \<mu> su" and "json_ok (JObj command)" and "fit su ha hr"
    and "handle_line (runner_ctx su ha ch mt) rounds (py_strip (forwarded command)) hr = Some (out, hr')"
  shows "fit su ha hr'"
    and "awaiting hr \<Longrightarrow> dict_get command ''command'' \<noteq> Some (JStr ''approve'') \<Longrightarrow> awaiting hr'"
    and "awaiting hr \<or> dict_get command ''command'' \<noteq> Some (JStr ''execute'') \<Longrightarrow> \<mu> (orch_world (hr_engine hr')) = \<mu> (orch_world (hr_engine hr))"
proof -
  show "fit su ha hr'"
    using payment_link.handle_line_good [OF runner_link [OF assms(1)] runner_ok_ctx [OF assms(1)] refl assms(4,5)] by simp
  show "awaiting hr \<Longrightarrow> dict_get command ''command'' \<noteq> Some (JStr ''approve'') \<Longrightarrow> awaiting hr'"
    using line_unapproved [OF runner_link [OF assms(1)] runner_ok_ctx [OF assms(1)] assms(4) _ assms(5)] forwarded_name [OF assms(3)]
    by metis
  show "\<mu> (orch_world (hr_engine hr')) = \<mu> (orch_world (hr_engine hr))"
    if "awaiting hr \<or> dict_get command ''command'' \<noteq> Some (JStr ''execute'')"
  proof (cases "dict_get command ''command'' = Some (JStr ''execute'')")
    case False
    have "unseen \<mu> (px_orch (runner_ctx su ha ch mt)) (hr_engine hr) (hr_engine hr')"
      by (rule quiet.all_lines_move [OF refl refl assms(5)]) (use False forwarded_name [OF assms(3)] in fastforce)
    with runner_quiet [OF assms(1,2)] show ?thesis by (simp add: unseen_def)
  next
    case True
    with that have "unapproved (hr_engine hr)" by (simp add: awaiting_def)
    then have none: "\<nexists>k rc. find_by_state APPROVED (hr_engine hr) = Inr (k, rc)" by (metis unapproved_find)
    show ?thesis
    proof (cases "\<exists>c. parse_command (py_strip (forwarded command)) = Inr c \<and> jc_name c = ''execute''")
      case False
      have "unseen \<mu> (px_orch (runner_ctx su ha ch mt)) (hr_engine hr) (hr_engine hr')"
        by (rule quiet.all_lines_move [OF refl refl assms(5)]) (use False in fastforce)
      with runner_quiet [OF assms(1,2)] show ?thesis by (simp add: unseen_def)
    next
      case True
      then obtain c where c: "parse_command (py_strip (forwarded command)) = Inr c" "jc_name c = ''execute''" by blast
      from handle_line_run [OF assms(5) c(1)] obtain result hr1 where
        run: "run_command (runner_ctx su ha ch mt) rounds c hr = Some (result, hr1)" "hr_engine hr' = hr_engine hr1" by blast
      with c(2) have "snd (handle_execute (runner_ctx su ha ch mt) (jc_arguments c) hr) = hr1" by (simp add: run_command_def)
      with handle_execute_engine [of "runner_ctx su ha ch mt" "jc_arguments c" hr] run(2)
      have "hr_engine hr' = snd (execute (px_orch (runner_ctx su ha ch mt)) (pe_policy (px_env (runner_ctx su ha ch mt))) (hr_engine hr))" by simp
      with execute_world [of "px_orch (runner_ctx su ha ch mt)" "pe_policy (px_env (runner_ctx su ha ch mt))" "hr_engine hr"] none
      show ?thesis by metis
    qed
  qed
qed

section \<open>A session\<close>

text \<open>\<open>told\<close> are the children that were given an approval; of the others nothing is approved.\<close>

definition child_in_hand :: "('w, 'x) surroundings \<Rightarrow> hermes_args \<Rightarrow> bool \<Rightarrow> ('w, 'x) child \<Rightarrow> bool" where
  "child_in_hand su ha told ch \<longleftrightarrow> runner_ok su ha ch \<and> fit su ha (ch_process ch) \<and> (\<not> told \<longrightarrow> awaiting (ch_process ch))"

definition in_hand :: "(string \<Rightarrow> ('w, 'x) surroundings) \<Rightarrow> (string \<Rightarrow> hermes_args) \<Rightarrow> string set \<Rightarrow> ('w, 'x) deployment \<Rightarrow> bool" where
  "in_hand sus args told d \<longleftrightarrow> (\<forall>t ch. dp_children d t = Some ch \<longrightarrow> child_in_hand (sus t) (args t) (t \<in> told) ch)"

lemma asked:
  assumes "\<forall>t. only_send_pays \<mu> (sus t)" and "in_hand sus args told d" and "json_ok (JObj command)"
    and "d' = snd (ask_runner sus args mts t (forwarded command) d)"
  shows "in_hand sus args (if dict_get command ''command'' = Some (JStr ''approve'') then insert t told else told) d'"
    and "t \<notin> told \<or> dict_get command ''command'' \<noteq> Some (JStr ''execute'') \<Longrightarrow> \<mu> (dp_world d') = \<mu> (dp_world d)"
proof -
  let ?mt = "mts (dp_turn d)" and ?told = "if dict_get command ''command'' = Some (JStr ''approve'') then insert t told else told"
  have more: "in_hand sus args ?told d" using assms(2) by (auto simp: in_hand_def child_in_hand_def)
  have "in_hand sus args ?told d' \<and> (t \<notin> told \<or> dict_get command ''command'' \<noteq> Some (JStr ''execute'') \<longrightarrow> \<mu> (dp_world d') = \<mu> (dp_world d))"
  proof (cases "dp_children d t")
    case None
    with assms(4) more show ?thesis by (simp add: ask_runner_def)
  next
    case (Some ch)
    let ?hr = "touched (dp_world d) (dp_relay d) (mt_now ?mt) (mt_cursor_writable ?mt) (ch_process ch)"
    let ?a = "\<lparr>ar_line = forwarded command, ar_ctx = runner_ctx (sus t) (args t) ch ?mt, ar_rounds = mt_rounds ?mt\<rparr>"
    from assms(2) Some have hand: "child_in_hand (sus t) (args t) (t \<in> told) ch" by (simp add: in_hand_def)
    then have ok: "runner_ok (sus t) (args t) ch" and fit: "fit (sus t) (args t) ?hr" and calm: "t \<notin> told \<Longrightarrow> awaiting ?hr"
      by (simp_all add: child_in_hand_def)
    show ?thesis
    proof (cases "serve_line (su_invalid (sus t)) ?a ?hr")
      case None
      with Some assms(4) more show ?thesis by (simp add: ask_runner_def Let_def)
    next
      case served: (Some r)
      obtain response hr' where r: "r = (response, hr')" by force
      have d': "d' = d\<lparr>dp_children := (dp_children d)(t := Some (ch\<lparr>ch_process := hr'\<rparr>)), dp_world := orch_world (hr_engine hr'),
          dp_relay := bt_executor (hp_transport (hr_peer hr')), dp_turn := Suc (dp_turn d)\<rparr>"
        using Some served r assms(4) by (simp add: ask_runner_def Let_def)
      from serve_line_handled [OF served [unfolded r]]
      have line: "hr' = ?hr \<or> (\<exists>out. handle_line (runner_ctx (sus t) (args t) ch ?mt) (mt_rounds ?mt) (py_strip (forwarded command)) ?hr = Some (out, hr'))"
        by simp
      note handled = handled_line [OF ok spec [OF assms(1)] assms(3) fit, of ?mt "mt_rounds ?mt"]
      have "fit (sus t) (args t) hr'" using line fit handled(1) by blast
      moreover have "awaiting hr'" if "t \<notin> told" "dict_get command ''command'' \<noteq> Some (JStr ''approve'')"
        using line calm [OF that(1)] handled(2) that(2) by blast
      ultimately have "child_in_hand (sus t) (args t) (t \<in> ?told) (ch\<lparr>ch_process := hr'\<rparr>)"
        using ok by (auto simp: child_in_hand_def runner_ok_def)
      moreover have "\<mu> (orch_world (hr_engine hr')) = \<mu> (orch_world (hr_engine ?hr))"
        if "t \<notin> told \<or> dict_get command ''command'' \<noteq> Some (JStr ''execute'')"
        using line calm handled(3) that by blast
      ultimately show ?thesis using assms(2) by (auto simp: d' in_hand_def)
    qed
  qed
  then show "in_hand sus args ?told d'" "t \<notin> told \<or> dict_get command ''command'' \<noteq> Some (JStr ''execute'') \<Longrightarrow> \<mu> (dp_world d') = \<mu> (dp_world d)"
    by blast+
qed

abbreviation reads_back :: "string \<Rightarrow> bool" where
  "reads_back line \<equiv> \<forall>v. json_loads line = Some v \<longrightarrow> json_ok v"

lemma operator_session:
  assumes "\<forall>t. only_send_pays \<mu> (sus t)"
  shows "\<lbrakk>operator_loop (ask_runner sus args mts) pid exited lines d = (res, outs, d'); in_hand sus args told d; \<forall>line \<in> set lines. reads_back line\<rbrakk> \<Longrightarrow>
    \<mu> (dp_world d') = \<mu> (dp_world d) \<or> (\<exists>t \<in> told. \<exists>l \<in> set lines. orders t ''execute'' l)
    \<or> (\<exists>t \<in> set children. \<exists>l l'. subseq [l, l'] lines \<and> orders t ''approve'' l \<and> orders t ''execute'' l')"
proof (induction lines arbitrary: d told outs)
  case Nil
  then show ?case by (auto split: option.split_asm)
next
  case (Cons line lines)
  obtain turn d1 where turn: "operator_turn (ask_runner sus args mts) pid exited line d = (turn, d1)" by force
  have stop: "d' = d1 \<or> (\<exists>outs'. operator_loop (ask_runner sus args mts) pid exited lines d1 = (res, outs', d'))"
    using Cons.prems(1) turn by (cases turn) (auto split: prod.split_asm)
  have reads: "\<forall>line \<in> set lines. reads_back line" using Cons.prems(3) by simp
  have go: "\<mu> (dp_world d') = \<mu> (dp_world d1) \<or> (\<exists>t \<in> told'. \<exists>l \<in> set lines. orders t ''execute'' l)
      \<or> (\<exists>t \<in> set children. \<exists>l l'. subseq [l, l'] (line # lines) \<and> orders t ''approve'' l \<and> orders t ''execute'' l')"
    if "in_hand sus args told' d1" for told'
    using stop
  proof
    assume "\<exists>outs'. operator_loop (ask_runner sus args mts) pid exited lines d1 = (res, outs', d')"
    then obtain outs' where "operator_loop (ask_runner sus args mts) pid exited lines d1 = (res, outs', d')" ..
    from Cons.IH [OF this that reads] show ?thesis by (metis list_emb_Cons)
  qed simp
  from operator_turn_state [OF turn] show ?case
  proof (elim disjE exE conjE)
    assume "d1 = d"
    from go [of told] Cons.prems(2) show ?thesis unfolding \<open>d1 = d\<close> by (meson list.set_intros(2))
  next
    fix command t
    assume c: "json_loads line = Some (JObj command)" "dict_get command ''target'' = Some (JStr t)" "t \<in> set children"
      and d1: "d1 = snd (ask_runner sus args mts t (forwarded command) d)"
    from Cons.prems(3) c(1) have "json_ok (JObj command)" by fastforce
    note step = asked [OF assms Cons.prems(2) this d1]
    have first: "\<mu> (dp_world d1) = \<mu> (dp_world d) \<or> (t \<in> told \<and> orders t ''execute'' line)"
      using step(2) c(1,2) by (auto simp: orders_def)
    have second: "\<exists>l l'. subseq [l, l'] (line # lines) \<and> orders t ''approve'' l \<and> orders t ''execute'' l'"
      if "l' \<in> set lines" "orders t ''execute'' l'" "dict_get command ''command'' = Some (JStr ''approve'')" for l'
      using that c(1,2) subseq_singleton_left [of l' lines] by (intro exI [of _ line] exI [of _ l']) (auto simp: orders_def)
    show ?thesis
    proof (cases "dict_get command ''command'' = Some (JStr ''approve'')")
      case True
      with go [OF step(1)] have "\<mu> (dp_world d') = \<mu> (dp_world d1) \<or> (\<exists>t' \<in> insert t told. \<exists>l \<in> set lines. orders t' ''execute'' l)
          \<or> (\<exists>t \<in> set children. \<exists>l l'. subseq [l, l'] (line # lines) \<and> orders t ''approve'' l \<and> orders t ''execute'' l')" by simp
      with first second [OF _ _ True] c(3) show ?thesis by (metis insertE list.set_intros)
    next
      case False
      with go [OF step(1)] have "\<mu> (dp_world d') = \<mu> (dp_world d1) \<or> (\<exists>t' \<in> told. \<exists>l \<in> set lines. orders t' ''execute'' l)
          \<or> (\<exists>t \<in> set children. \<exists>l l'. subseq [l, l'] (line # lines) \<and> orders t ''approve'' l \<and> orders t ''execute'' l')" by simp
      with first show ?thesis by (metis list.set_intros)
    qed
  qed
qed

lemma session_orders:
  assumes "\<forall>t. only_send_pays \<mu> (sus t)" and "session (ask_runner sus args mts) pid exited lines d = (res, outs, d')"
    and "in_hand sus args {} d" and "\<forall>line \<in> set lines. reads_back line"
  shows "\<mu> (dp_world d') = \<mu> (dp_world d)
    \<or> (\<exists>t \<in> set children. \<exists>l l'. subseq [l, l'] lines \<and> orders t ''approve'' l \<and> orders t ''execute'' l')"
proof -
  let ?ask = "ask_runner sus args mts" and ?status = "[(''command'', JStr ''status'')]"
  have probed: "in_hand sus args {} d1 \<and> \<mu> (dp_world d1) = \<mu> (dp_world d0)"
    if "probe ?ask pid names d0 = (res, outs, d1)" "in_hand sus args {} d0" for names d0 d1 res outs
    using that
  proof (induction names arbitrary: d0 outs)
    case (Cons name names)
    obtain out d2 where send: "send_jsonl ?ask pid name ?status d0 = (out, d2)" by force
    with send_jsonl_state [of ?ask pid name ?status d0] have "d2 = snd (?ask name (forwarded ?status) d0)" by (simp add: forwarded_def)
    from asked [OF assms(1) Cons.prems(2) _ this] have one: "in_hand sus args {} d2" "\<mu> (dp_world d2) = \<mu> (dp_world d0)" by simp_all
    have "d1 = d2 \<or> (\<exists>outs'. probe ?ask pid names d2 = (res, outs', d1))"
      using Cons.prems(1) send by (auto split: sum.split_asm prod.split_asm)
    then show ?case
    proof
      assume "\<exists>outs'. probe ?ask pid names d2 = (res, outs', d1)"
      then obtain outs' where "probe ?ask pid names d2 = (res, outs', d1)" ..
      from Cons.IH [OF this one(1)] one(2) show ?thesis by simp
    qed (use one in simp)
  qed simp
  obtain res0 outs0 d1 where p: "probe ?ask pid children d = (res0, outs0, d1)" by (metis prod_cases3)
  note one = probed [OF p assms(3)]
  have "d' = d1 \<or> (\<exists>outs'. operator_loop ?ask pid exited lines d1 = (res, outs', d'))"
    using assms(2) p by (auto simp: session_def split: sum.split_asm prod.split_asm)
  then show ?thesis
  proof
    assume "\<exists>outs'. operator_loop ?ask pid exited lines d1 = (res, outs', d')"
    then obtain outs' where "operator_loop ?ask pid exited lines d1 = (res, outs', d')" ..
    from operator_session [OF assms(1) this _ assms(4)] one show ?thesis by fastforce
  qed (use one in simp)
qed

text \<open>Starting and stopping runners pays nothing and approves nothing.\<close>

definition hands_over :: "('w \<Rightarrow> 'm) \<Rightarrow> (string \<Rightarrow> ('w, 'x) surroundings) \<Rightarrow> (string \<Rightarrow> hermes_args) \<Rightarrow> ('w, 'x) deployment \<Rightarrow> ('w, 'x) deployment \<Rightarrow> bool" where
  "hands_over \<mu> sus args d d' \<longleftrightarrow>
     ((\<forall>t. libraries_ok (sus t)) \<longrightarrow> \<mu> (dp_world d') = \<mu> (dp_world d) \<and> (\<forall>told. in_hand sus args told d \<longrightarrow> in_hand sus args told d'))"

lemma end_child_hands_over: "hands_over \<mu> sus args d (end_child name d)"
  by (auto simp: hands_over_def end_child_def in_hand_def)

lemma spawn_hands_over: "hands_over \<mu> sus args d (spawn_runner sus args mts name d)"
proof -
  let ?mt = "mts (dp_turn d)"
  let ?start = "hermes_start (with_files None None None None (sus name)) (args name) (mt_env ?mt) (mt_now ?mt) (dp_world d) (dp_relay d)"
  show ?thesis
  proof (cases ?start)
    case (Serves pc wl cfg line hr)
    have "libraries_ok (sus name) \<Longrightarrow> admitted (sus name) (args name) pc wl \<and> fit (sus name) (args name) hr \<and> awaiting hr
        \<and> orch_world (hr_engine hr) = dp_world d"
      by (rule started_fit [OF _ Serves])
    with Serves show ?thesis
      by (auto simp: spawn_runner_def Let_def hands_over_def in_hand_def child_in_hand_def runner_ok_def)
  qed (auto simp: spawn_runner_def Let_def hands_over_def in_hand_def)
qed

interpretation runners: os_relation "runner_os sus args mts" "hands_over \<mu> sus args" for sus :: "string \<Rightarrow> ('w, 'x) surroundings" and args mts \<mu>
proof
  fix d d' d'' :: "('w, 'x) deployment" and dir wrapper name path
  show "hands_over \<mu> sus args d d" by (simp add: hands_over_def)
  show "hands_over \<mu> sus args d d' \<Longrightarrow> hands_over \<mu> sus args d' d'' \<Longrightarrow> hands_over \<mu> sus args d d''"
    by (simp add: hands_over_def)
  show "hands_over \<mu> sus args d (snd (os_install (runner_os sus args mts) dir wrapper d))"
    by (simp add: runner_os_def hands_over_def in_hand_def)
  show "hands_over \<mu> sus args d (snd (os_spawn (runner_os sus args mts) name path d))"
    by (simp add: runner_os_def spawn_hands_over)
  show "hands_over \<mu> sus args d (snd (os_terminate (runner_os sus args mts) name d))"
    "hands_over \<mu> sus args d (snd (os_kill (runner_os sus args mts) name d))"
    by (simp_all add: runner_os_def end_child_hands_over)
  show "hands_over \<mu> sus args d (snd (os_banner (runner_os sus args mts) name d))"
    "hands_over \<mu> sus args d (os_close (runner_os sus args mts) name d)"
    "hands_over \<mu> sus args d (snd (os_wait (runner_os sus args mts) name d))"
    "hands_over \<mu> sus args d (snd (os_urlopen (runner_os sus args mts) path d))"
    by (simp_all add: runner_os_def hands_over_def in_hand_def)
qed

text \<open>C2: money moves only if the operator asks twice. In a run of the supervisor over two runners on
  empty state directories, whatever its arguments, whatever the operator types, whatever the
  relay and the peers send, and whichever writes fail: what only the wallet's command \<open>Send\<close>
  can change, the money spent for one, is unchanged, unless the operator's input holds a line
  that orders \<open>approve\<close> of one of the children and, later, one that orders \<open>execute\<close> of the
  same. No message, no recovery and no other command pays.\<close>

theorem payment_needs_two_orders:
  assumes "\<forall>t. libraries_ok (sus t)" and "\<forall>t. only_send_pays \<mu> (sus t)" and "\<forall>line \<in> set lines. reads_back line"
    and "supervisor_main (runner_os sus (args_of sp) mts) bracketed root_dir python runner sp env lines d = (res, outs, d')"
    and "dp_children d = Map.empty"
  shows "\<mu> (dp_world d') = \<mu> (dp_world d)
    \<or> (\<exists>t \<in> set children. \<exists>l l'. subseq [l, l'] lines \<and> orders t ''approve'' l \<and> orders t ''execute'' l')"
proof -
  have start: "in_hand sus (args_of sp) {} d" using assms(5) by (simp add: in_hand_def)
  from runners.main_session [OF assms(4), of \<mu>] show ?thesis
  proof (elim disjE exE conjE)
    fix d1 d2 res' outs'
    assume before: "hands_over \<mu> sus (args_of sp) d d1" and after: "hands_over \<mu> sus (args_of sp) d2 d'"
      and run: "session (os_ask (runner_os sus (args_of sp) mts)) (os_pid (runner_os sus (args_of sp) mts))
        (first_exited (runner_os sus (args_of sp) mts)) lines d1 = (res', outs', d2)"
    have ask: "os_ask (runner_os sus (args_of sp) mts) = ask_runner sus (args_of sp) mts" by (simp add: runner_os_def)
    from before assms(1) start have "in_hand sus (args_of sp) {} d1" "\<mu> (dp_world d1) = \<mu> (dp_world d)" by (simp_all add: hands_over_def)
    with session_orders [OF assms(2) run [unfolded ask] _ assms(3)] after assms(1) show ?thesis by (simp add: hands_over_def)
  qed (use assms(1) in \<open>simp add: hands_over_def\<close>)
qed

definition demo_meeting :: "nat \<Rightarrow> meeting" where
  "demo_meeting n = \<lparr>mt_env = demo_process_env, mt_clock = px_clock demo_ctx, mt_rounds = 1, mt_now = int n, mt_cursor_writable = True, mt_health = (\<lambda>_. Some 200)\<rparr>"

theorem payment_needs_two_orders_witness:
  "\<exists>res outs d'. supervisor_main (runner_os (\<lambda>_. demo_surroundings) (args_of demo_supervisor) demo_meeting) (\<lambda>_. None) ''/opt'' ''python3'' ''run_hermes.py''
      demo_supervisor Map.empty [json_dumps default_opts (JObj [(''target'', JStr ''alice''), (''command'', JStr ''execute'')])]
      \<lparr>dp_children = Map.empty, dp_banner = (\<lambda>_. []), dp_wrappers = {}, dp_world = 7, dp_relay = 0, dp_turn = 0\<rparr> = (res, outs, d')
    \<and> dp_world d' = 7"
proof -
  let ?line = "json_dumps default_opts (JObj [(''target'', JStr ''alice''), (''command'', JStr ''execute'')])"
  let ?d = "\<lparr>dp_children = Map.empty, dp_banner = (\<lambda>_. []), dp_wrappers = {}, dp_world = 7, dp_relay = 0, dp_turn = 0\<rparr> :: (nat, nat) deployment"
  have quiet: "\<forall>t. only_send_pays id demo_surroundings" by (simp add: only_send_pays_def demo_surroundings_def)
  have "json_loads ?line = Some (JObj [(''target'', JStr ''alice''), (''command'', JStr ''execute'')])" by code_simp
  then have reads: "\<forall>line \<in> set [?line]. reads_back line" by simp
  obtain res outs d' where run: "supervisor_main (runner_os (\<lambda>_. demo_surroundings) (args_of demo_supervisor) demo_meeting) (\<lambda>_. None) ''/opt'' ''python3''
      ''run_hermes.py'' demo_supervisor Map.empty [?line] ?d = (res, outs, d')" by (metis prod_cases3)
  have "\<not> subseq [l, l'] [?line]" for l l' using list_emb_length [of "(=)" "[l, l']" "[?line]"] by auto
  with payment_needs_two_orders [OF _ quiet reads run] demo_libraries have "dp_world d' = 7" by auto
  with run show ?thesis by blast
qed

end
