(* ===== verification/Supervisor_Shell.thy ===== *)
theory Supervisor_Shell
  imports Supervisor
begin

text \<open>
  The shell wrapper the supervisor writes, read back by the quoting rules of the POSIX shell:
  which words the command of the wrapper consists of.
\<close>

section \<open>Reading words\<close>

datatype quoting = Plain | Single | Double

text \<open>
  One word: between single quotes every character stands for itself, between double quotes
  all but those that start an expansion or an escape. A text that needs more than this is
  not read.
\<close>

fun sh_word :: "quoting \<Rightarrow> string \<Rightarrow> (string \<times> string) option" where
  "sh_word q [] = (if q = Plain then Some ([], []) else None)"
| "sh_word Plain (c # r) =
     (if c = CHR 0x27 then sh_word Single r
      else if c = CHR 0x22 then sh_word Double r
      else if c = CHR '' '' \<or> c = CHR 0x0A then Some ([], c # r)
      else if shell_safe c then map_option (apfst (Cons c)) (sh_word Plain r) else None)"
| "sh_word Single (c # r) = (if c = CHR 0x27 then sh_word Plain r else map_option (apfst (Cons c)) (sh_word Single r))"
| "sh_word Double (c # r) =
     (if c = CHR 0x22 then sh_word Plain r
      else if c \<in> {CHR ''$'', CHR 0x60, CHR 0x5C} then None else map_option (apfst (Cons c)) (sh_word Double r))"

text \<open>\<open>sh_reads s ws t\<close>: the text \<open>s\<close> begins with the words \<open>ws\<close>, before the text \<open>t\<close>.\<close>

inductive sh_reads :: "string \<Rightarrow> string list \<Rightarrow> string \<Rightarrow> bool" where
  stop: "sh_reads s [] s"
| blank: "sh_reads s ws t \<Longrightarrow> sh_reads (CHR '' '' # s) ws t"
| joined: "sh_reads s ws t \<Longrightarrow> sh_reads (CHR 0x5C # CHR 0x0A # s) ws t"
| word: "sh_word Plain s = Some (w, s') \<Longrightarrow> s \<noteq> [] \<Longrightarrow> hd s \<noteq> CHR '' '' \<Longrightarrow> hd s \<noteq> CHR 0x0A \<Longrightarrow> sh_reads s' ws t \<Longrightarrow> sh_reads s (w # ws) t"

section \<open>Quoted texts\<close>

lemma shell_safe_plain: "shell_safe c \<Longrightarrow> c \<noteq> CHR 0x27 \<and> c \<noteq> CHR 0x22 \<and> c \<noteq> CHR '' '' \<and> c \<noteq> CHR 0x0A"
  by (auto simp: shell_safe_def is_alnum_def is_digit_def)

abbreviation word_ends :: "string \<Rightarrow> bool" where
  "word_ends t \<equiv> t = [] \<or> hd t = CHR '' '' \<or> hd t = CHR 0x0A"

lemma sh_word_end: "word_ends t \<Longrightarrow> sh_word Plain t = Some ([], t)"
  by (cases t) auto

lemma sh_word_safe: "list_all shell_safe s \<Longrightarrow> word_ends t \<Longrightarrow> sh_word Plain (s @ t) = Some (s, t)"
  by (induction s) (auto simp: sh_word_end dest: shell_safe_plain)

lemma sh_word_single:
  "word_ends t \<Longrightarrow> sh_word Single (concat (map (\<lambda>c. if c = CHR 0x27 then [CHR 0x27, CHR 0x22, CHR 0x27, CHR 0x22, CHR 0x27] else [c]) s)
      @ CHR 0x27 # t) = Some (s, t)"
  by (induction s) (auto simp: sh_word_end)

lemma sh_word_double:
  "set s \<inter> {CHR 0x22, CHR ''$'', CHR 0x60, CHR 0x5C} = {} \<Longrightarrow> word_ends t \<Longrightarrow> sh_word Double (s @ CHR 0x22 # t) = Some (s, t)"
  by (induction s) (auto simp: sh_word_end)

lemma sh_word_quote: "word_ends t \<Longrightarrow> sh_word Plain (shlex_quote s @ t) = Some (s, t)"
  using sh_word_safe sh_word_single by (auto simp: shlex_quote_def sh_word_end)

lemma shlex_quote_start: "shlex_quote s \<noteq> [] \<and> hd (shlex_quote s) \<noteq> CHR '' '' \<and> hd (shlex_quote s) \<noteq> CHR 0x0A"
  by (cases s) (auto simp: shlex_quote_def dest: shell_safe_plain)

lemma reads_quote: "word_ends t \<Longrightarrow> sh_reads t ws r \<Longrightarrow> sh_reads (shlex_quote s @ t) (s # ws) r"
  using shlex_quote_start [of s] by (intro word [OF sh_word_quote]) auto

definition inert :: "string \<Rightarrow> bool" where
  "inert s \<longleftrightarrow> set s \<inter> {CHR 0x22, CHR ''$'', CHR 0x60, CHR 0x5C} = {}"

lemma reads_dquoted: "inert s \<Longrightarrow> word_ends t \<Longrightarrow> sh_reads t ws r \<Longrightarrow> sh_reads (dquoted s @ t) (s # ws) r"
  by (rule word [of _ _ t]) (auto simp: dquoted_def inert_def sh_word_double)

lemma reads_option:
  assumes "list_all shell_safe s" and "s \<noteq> []" and "sh_reads t ws r"
  shows "sh_reads (s @ CHR '' '' # t) (s # ws) r"
proof (rule word)
  show "sh_word Plain (s @ CHR '' '' # t) = Some (s, CHR '' '' # t)" using assms(1) by (simp add: sh_word_safe)
  have "shell_safe (hd s)" using assms(1,2) by (cases s) simp_all
  from shell_safe_plain [OF this] assms(2) show "hd (s @ CHR '' '' # t) \<noteq> CHR '' ''" "hd (s @ CHR '' '' # t) \<noteq> CHR 0x0A" by simp_all
qed (use assms(3) in \<open>simp_all add: blank\<close>)

lemma reads_continued: "sh_reads t ws r \<Longrightarrow> sh_reads (continued @ t) ws r"
  by (simp add: continued_def blank joined)

lemma continued_ends: "word_ends (continued @ t)"
  by (simp add: continued_def)

lemma reads_quoted_option:
  "list_all shell_safe name \<Longrightarrow> name \<noteq> [] \<Longrightarrow> sh_reads t ws r \<Longrightarrow>
    sh_reads (name @ CHR '' '' # shlex_quote v @ continued @ t) (name # v # ws) r"
  by (intro reads_option reads_quote reads_continued continued_ends)

lemma reads_dquoted_option:
  "list_all shell_safe name \<Longrightarrow> name \<noteq> [] \<Longrightarrow> inert v \<Longrightarrow> sh_reads t ws r \<Longrightarrow>
    sh_reads (name @ CHR '' '' # dquoted v @ continued @ t) (name # v # ws) r"
  by (intro reads_option reads_dquoted reads_continued continued_ends)

section \<open>The command of the wrapper\<close>

definition option_words :: "string \<Rightarrow> string option \<Rightarrow> string list" where
  "option_words name v = concat (map (\<lambda>b. [name, b]) (given v (\<lambda>b. b)))"

lemma join_snoc: "join sep (xs @ [y]) = concat (map (\<lambda>x. x @ sep) xs) @ y"
  by (induction sep xs rule: join.induct) auto

lemma reads_given:
  "list_all shell_safe name \<Longrightarrow> name \<noteq> [] \<Longrightarrow> sh_reads t ws r \<Longrightarrow>
    sh_reads (concat (map (\<lambda>x. x @ continued) (given v (\<lambda>b. name @ CHR '' '' # shlex_quote b))) @ t) (option_words name v @ ws) r"
  using reads_quoted_option by (auto simp: given_def option_words_def split: option.split list.split)

lemma exec_command_text:
  "exec_command python runner wa = ''exec'' @ CHR '' '' # shlex_quote python @ CHR '' '' # shlex_quote runner @ continued
     @ ''--role'' @ CHR '' '' # shlex_quote (wa_role wa) @ continued
     @ ''--channel'' @ CHR '' '' # dquoted (wa_channel wa) @ continued
     @ ''--pubkey'' @ CHR '' '' # dquoted (wa_pubkey wa) @ continued
     @ ''--approver-pubkey'' @ CHR '' '' # dquoted (wa_approver_pubkey wa) @ continued
     @ ''--state-root'' @ CHR '' '' # dquoted (wa_state_root wa) @ continued
     @ ''--network'' @ CHR '' '' # dquoted (wa_network wa) @ continued
     @ concat (map (\<lambda>x. x @ continued) (given (wa_buzz_bin wa) (\<lambda>b. ''--buzz-bin'' @ CHR '' '' # shlex_quote b)))
     @ concat (map (\<lambda>x. x @ continued) (given (wa_wave_rpc_server wa) (\<lambda>b. ''--wave-rpc-server'' @ CHR '' '' # shlex_quote b)))
     @ dquoted ''$@'' @ newline"
proof -
  have "exec_command python runner wa = join continued
     (([''exec '' @ shlex_quote python @ '' '' @ shlex_quote runner, ''--role '' @ shlex_quote (wa_role wa),
       ''--channel '' @ dquoted (wa_channel wa), ''--pubkey '' @ dquoted (wa_pubkey wa),
       ''--approver-pubkey '' @ dquoted (wa_approver_pubkey wa), ''--state-root '' @ dquoted (wa_state_root wa),
       ''--network '' @ dquoted (wa_network wa)]
      @ given (wa_buzz_bin wa) (\<lambda>b. ''--buzz-bin '' @ shlex_quote b)
      @ given (wa_wave_rpc_server wa) (\<lambda>b. ''--wave-rpc-server '' @ shlex_quote b)) @ [dquoted ''$@'']) @ newline"
    unfolding exec_command_def by (simp only: append_assoc append.simps)
  then show ?thesis unfolding join_snoc by simp
qed

text \<open>C37: the wrapper runs the program it was written for. The shell takes the command of the wrapper for
  exactly the configured interpreter, runner and options, each value as one word as it was
  given, whatever characters the interpreter, the runner, the role, the buzz binary and the
  wallet server are made of; the channel, the keys, the state root and the network must not
  hold a double quote, a dollar sign, a backquote or a backslash, which the wrapper does not
  escape.\<close>

theorem wrapper_passes_arguments:
  assumes "inert (wa_channel wa)" and "inert (wa_pubkey wa)" and "inert (wa_approver_pubkey wa)"
    and "inert (wa_state_root wa)" and "inert (wa_network wa)"
  shows "sh_reads (exec_command python runner wa)
     ([''exec'', python, runner, ''--role'', wa_role wa, ''--channel'', wa_channel wa, ''--pubkey'', wa_pubkey wa,
       ''--approver-pubkey'', wa_approver_pubkey wa, ''--state-root'', wa_state_root wa, ''--network'', wa_network wa]
      @ option_words ''--buzz-bin'' (wa_buzz_bin wa) @ option_words ''--wave-rpc-server'' (wa_wave_rpc_server wa))
     (dquoted ''$@'' @ newline)"
proof -
  have safe: "list_all shell_safe ''exec''" "list_all shell_safe ''--role''" "list_all shell_safe ''--channel''" "list_all shell_safe ''--pubkey''"
    "list_all shell_safe ''--approver-pubkey''" "list_all shell_safe ''--state-root''" "list_all shell_safe ''--network''"
    "list_all shell_safe ''--buzz-bin''" "list_all shell_safe ''--wave-rpc-server''"
    by (simp_all add: shell_safe_def is_alnum_def is_digit_def)
  have "sh_reads (concat (map (\<lambda>x. x @ continued) (given (wa_buzz_bin wa) (\<lambda>b. ''--buzz-bin'' @ CHR '' '' # shlex_quote b)))
     @ concat (map (\<lambda>x. x @ continued) (given (wa_wave_rpc_server wa) (\<lambda>b. ''--wave-rpc-server'' @ CHR '' '' # shlex_quote b)))
     @ dquoted ''$@'' @ newline)
     (option_words ''--buzz-bin'' (wa_buzz_bin wa) @ option_words ''--wave-rpc-server'' (wa_wave_rpc_server wa) @ []) (dquoted ''$@'' @ newline)"
    by (intro reads_given [OF safe(8)] reads_given [OF safe(9)] stop) simp_all
  then have options: "sh_reads (concat (map (\<lambda>x. x @ continued) (given (wa_buzz_bin wa) (\<lambda>b. ''--buzz-bin'' @ CHR '' '' # shlex_quote b)))
     @ concat (map (\<lambda>x. x @ continued) (given (wa_wave_rpc_server wa) (\<lambda>b. ''--wave-rpc-server'' @ CHR '' '' # shlex_quote b)))
     @ dquoted ''$@'' @ newline)
     (option_words ''--buzz-bin'' (wa_buzz_bin wa) @ option_words ''--wave-rpc-server'' (wa_wave_rpc_server wa)) (dquoted ''$@'' @ newline)"
    by (simp only: append_Nil2)
  have ends: "word_ends (CHR '' '' # t)" for t by simp
  have "sh_reads (exec_command python runner wa)
     (''exec'' # python # runner # ''--role'' # wa_role wa # ''--channel'' # wa_channel wa # ''--pubkey'' # wa_pubkey wa #
       ''--approver-pubkey'' # wa_approver_pubkey wa # ''--state-root'' # wa_state_root wa # ''--network'' # wa_network wa
      # (option_words ''--buzz-bin'' (wa_buzz_bin wa) @ option_words ''--wave-rpc-server'' (wa_wave_rpc_server wa)))
     (dquoted ''$@'' @ newline)"
    unfolding exec_command_text
    by (rule reads_option [OF safe(1) _ reads_quote [OF ends blank [OF reads_quote [OF continued_ends reads_continued]]]], simp,
      rule reads_quoted_option [OF safe(2)], simp, rule reads_dquoted_option [OF safe(3) _ assms(1)], simp,
      rule reads_dquoted_option [OF safe(4) _ assms(2)], simp, rule reads_dquoted_option [OF safe(5) _ assms(3)], simp,
      rule reads_dquoted_option [OF safe(6) _ assms(4)], simp, rule reads_dquoted_option [OF safe(7) _ assms(5)], simp, rule options)
  then show ?thesis by (simp only: append.simps)
qed

theorem wrapper_passes_arguments_witness:
  "sh_reads (exec_command ''/usr/bin/python3'' ''/opt/my app/run_hermes.py''
      \<lparr>wa_state_root = ''/tmp/alice dir'', wa_role = ''alice'', wa_channel = ''c1'', wa_pubkey = ''aa'', wa_approver_pubkey = ''bb'',
       wa_network = ''regtest'', wa_buzz_bin = Some ''it's'', wa_wave_rpc_server = None\<rparr>)
     [''exec'', ''/usr/bin/python3'', ''/opt/my app/run_hermes.py'', ''--role'', ''alice'', ''--channel'', ''c1'', ''--pubkey'', ''aa'',
      ''--approver-pubkey'', ''bb'', ''--state-root'', ''/tmp/alice dir'', ''--network'', ''regtest'', ''--buzz-bin'', ''it's'']
     (dquoted ''$@'' @ newline)"
  using wrapper_passes_arguments [of "\<lparr>wa_state_root = ''/tmp/alice dir'', wa_role = ''alice'', wa_channel = ''c1'', wa_pubkey = ''aa'',
       wa_approver_pubkey = ''bb'', wa_network = ''regtest'', wa_buzz_bin = Some ''it's'', wa_wave_rpc_server = None\<rparr>"
      "''/usr/bin/python3''" "''/opt/my app/run_hermes.py''"]
  by (simp add: inert_def option_words_def given_def)

text \<open>A channel with double quotes in it adds options of its own.\<close>

lemma channel_adds_option:
  assumes "sh_reads t ws r"
  shows "sh_reads (''--channel'' @ CHR '' '' # dquoted (''c'' @ CHR 0x22 # '' --network '' @ CHR 0x22 # ''signet'') @ continued @ t)
    (''--channel'' # ''c'' # ''--network'' # ''signet'' # ws) r"
proof -
  have safe: "list_all shell_safe ''--channel''" "list_all shell_safe ''--network''"
    by (simp_all add: shell_safe_def is_alnum_def is_digit_def)
  have split: "dquoted (''c'' @ CHR 0x22 # '' --network '' @ CHR 0x22 # ''signet'') @ continued @ t =
      dquoted ''c'' @ CHR '' '' # ''--network'' @ CHR '' '' # dquoted ''signet'' @ continued @ t"
    by (simp add: dquoted_def)
  have inert: "inert ''c''" "inert ''signet''" by (simp_all add: inert_def)
  show ?thesis unfolding split
    by (rule reads_option [OF safe(1)], simp, rule reads_dquoted [OF inert(1)], simp, rule blank,
      rule reads_dquoted_option [OF safe(2) _ inert(2) assms]) simp
qed

end
