(* ===== verification/Json_Prefix.thy ===== *)
theory Json_Prefix
  imports Json_Roundtrip "HOL-Library.Sublist"
begin

text \<open>
  Reading a JSON text does not depend on what follows it: a text that begins with a complete
  object is read the same way up to the end of that object. So the beginning of an object that
  was cut off is no JSON, and neither are two objects in one line.
\<close>

section \<open>Numbers and literals\<close>

lemma suffix_dropWhile [simp]: "suffix (dropWhile P s) s"
  by (metis suffix_def takeWhile_dropWhile_id)

lemma int_part_suffix: "int_part s = (a, r) \<Longrightarrow> suffix r s"
  by (auto simp: int_part_def suffix_ConsI split: list.split_asm if_split_asm dest: sym)

lemma frac_part_suffix: "frac_part s = (a, r) \<Longrightarrow> suffix r s"
  by (auto simp: frac_part_def suffix_ConsI split: list.split_asm if_split_asm)

lemma exp_part_suffix: "exp_part s = (a, r) \<Longrightarrow> suffix r s"
proof -
  have "suffix (snd (split_sign t)) t" for t by (auto simp: split_sign_def suffix_ConsI split: list.split)
  then have "suffix (dropWhile P (snd (split_sign t))) (c # t)" for P c t
    by (meson suffix_ConsI suffix_dropWhile suffix_order.trans)
  then show "exp_part s = (a, r) \<Longrightarrow> suffix r s"
    by (auto simp: exp_part_def Let_def split: list.split_asm prod.split_asm if_split_asm) (metis snd_conv)+
qed

lemma parse_number_suffix:
  assumes "parse_number s = Some (v, r)" shows "suffix r s"
proof -
  let ?s1 = "if take 1 s = ''-'' then drop 1 s else s"
  obtain ip s2 where ip: "int_part ?s1 = (ip, s2)" by force
  obtain fp s3 where fp: "frac_part s2 = (fp, s3)" by force
  obtain xp s4 where xp: "exp_part s3 = (xp, s4)" by force
  have "r = s4" using assms ip fp xp by (auto simp: parse_number_def Let_def split: if_split_asm prod.split_asm)
  moreover have "suffix s4 ?s1" using int_part_suffix [OF ip] frac_part_suffix [OF fp] exp_part_suffix [OF xp] suffix_order.trans by blast
  moreover have "suffix ?s1 s" by (simp add: suffix_drop)
  ultimately show ?thesis using suffix_order.trans by blast
qed

text \<open>What ends a number in the middle of a text.\<close>

definition ended :: "string \<Rightarrow> bool" where
  "ended r \<longleftrightarrow> r \<noteq> [] \<and> delim r"

lemma ended_append [simp]: "ended r \<Longrightarrow> ended (r @ q)"
  by (cases r) (auto simp: ended_def delim_def)

lemma parse_number_more:
  assumes "parse_number s = Some (v, r)" and "ended r"
  shows "parse_number (s @ q) = Some (v, r @ q)"
proof -
  from parse_number_suffix [OF assms(1)] obtain s0 where s: "s = s0 @ r" by (auto simp: suffix_def)
  have "delim r" "delim (r @ q)" using assms(2) ended_append [OF assms(2)] by (auto simp: ended_def)
  with assms(1) s parse_number_append [of r s0] have "parse_number s0 = Some (v, [])" by (auto simp: map_option_case split: option.split_asm)
  with parse_number_append [OF \<open>delim (r @ q)\<close>, of s0] s show ?thesis by simp
qed

lemma parse_literal_more:
  assumes "parse_literal s = Some (v, r)" and "ended r"
  shows "parse_literal (s @ q) = Some (v, r @ q)"
proof (cases "parse_number s")
  case (Some x)
  with parse_literal_number [OF Some] assms(1) have "parse_number s = Some (v, r)" by simp
  from parse_literal_number [OF parse_number_more [OF this assms(2)]] show ?thesis .
next
  case None
  have word: "parse_literal (s @ q) = Some (v, r @ q)"
    if "take (length w) s = w" "r = drop (length w) s" "\<And>t. parse_literal (w @ t) = Some (v, t)" for w
    using that(1,2) that(3) [of "r @ q"] by (metis append.assoc append_take_drop_id)
  have no_number: "parse_number (c # t) = None" if "c \<noteq> CHR ''-''" "\<not> is_digit c" for c t
    using parse_number_starts [of "c # t"] that by (cases "parse_number (c # t)") auto
  have minus: "parse_number (''-Infinity'' @ t) = None" for t
    by (simp add: parse_number_def int_part_def is_digit_def Let_def split: prod.split)
  have texts: "parse_literal (''null'' @ t) = Some (JNull, t)" "parse_literal (''true'' @ t) = Some (JBool True, t)"
    "parse_literal (''false'' @ t) = Some (JBool False, t)" "parse_literal (''NaN'' @ t) = Some (JFloat FNan, t)"
    "parse_literal (''Infinity'' @ t) = Some (JFloat (FInf False), t)" "parse_literal (''-Infinity'' @ t) = Some (JFloat (FInf True), t)" for t
    using minus [of t] by (simp_all add: parse_literal_def no_number is_digit_def)
  from assms(1) None have "(\<exists>w. take (length w) s = w \<and> r = drop (length w) s \<and> (w, v) \<in> {(''null'', JNull), (''true'', JBool True),
      (''false'', JBool False), (''NaN'', JFloat FNan), (''Infinity'', JFloat (FInf False)), (''-Infinity'', JFloat (FInf True))})"
    by (auto simp: parse_literal_def eval_nat_numeral split: if_split_asm)
  then show ?thesis using word texts by blast
qed

section \<open>Values\<close>

lemma four_given:
  "(case w of h1 # h2 # h3 # h4 # r \<Rightarrow> F h1 h2 h3 h4 r | _ \<Rightarrow> None) = Some x \<Longrightarrow> \<exists>h1 h2 h3 h4 r. w = h1 # h2 # h3 # h4 # r"
  by (auto split: list.split_asm)

lemma parse_str_more: "parse_str s = Some (t, r) \<Longrightarrow> parse_str (s @ q) = Some (t, r @ q)"
proof (induction s arbitrary: t rule: parse_str.induct)
  case (2 c cs)
  note read = "2.prems" [unfolded parse_str.simps(2)]
  consider (quote) "c = quote_char" | (escape) e w where "c \<noteq> quote_char" "c = backslash" "cs = e # w" "e \<noteq> CHR ''u''"
    | (hex) h1 h2 h3 h4 w where "c \<noteq> quote_char" "c = backslash" "cs = CHR ''u'' # h1 # h2 # h3 # h4 # w"
    | (plain) "c \<noteq> quote_char" "c \<noteq> backslash" "\<not> code c < 32"
  proof (cases "c = quote_char \<or> c \<noteq> backslash")
    case True
    with read quote plain show thesis by (auto split: if_split_asm simp del: parse_str.simps)
  next
    case False
    with read obtain e w where cs: "cs = e # w" by (cases cs) simp_all
    show thesis
    proof (cases "e = CHR ''u''")
      case True
      from False read True cs have "(case w of h1 # h2 # h3 # h4 # r' \<Rightarrow>
          (case unescape_u h1 h2 h3 h4 of Some u \<Rightarrow> map_option (apfst (Cons u)) (parse_str r') | None \<Rightarrow> None) | _ \<Rightarrow> None) = Some (t, r)"
        by (simp del: parse_str.simps)
      from four_given [OF this] have "\<exists>h1 h2 h3 h4 w'. w = h1 # h2 # h3 # h4 # w'" .
      with True False cs hex show thesis by blast
    qed (use False cs escape in blast)
  qed
  then show ?case
  proof cases
    case quote
    with read show ?thesis by simp
  next
    case escape
    with read obtain u t' where u: "unescape e = Some u" "parse_str w = Some (t', r)" "t = u # t'"
      by (auto split: option.split_asm simp del: parse_str.simps)
    with "2.IH"(2) [OF escape(1,2,3,4) u(1,2)] escape show ?thesis by simp
  next
    case hex
    with read obtain u t' where u: "unescape_u h1 h2 h3 h4 = Some u" "parse_str w = Some (t', r)" "t = u # t'"
      by (auto split: option.split_asm simp del: parse_str.simps)
    with "2.IH"(1) [OF hex refl refl refl refl refl u(1,2)] hex show ?thesis by simp
  next
    case plain
    with read obtain t' where u: "parse_str cs = Some (t', r)" "t = c # t'" by (auto simp del: parse_str.simps)
    with "2.IH"(3) [OF plain u(1)] plain show ?thesis by simp
  qed
qed simp

lemma skip_ws_more: "skip_ws s = c # r \<Longrightarrow> skip_ws (s @ q) = c # r @ q"
  by (induction s) (auto split: if_split_asm)

lemma ended_skip: "skip_ws r = c # t \<Longrightarrow> c \<in> {CHR '','', CHR '']'', CHR 0x7D} \<Longrightarrow> ended r"
  by (cases r) (auto simp: ended_def delim_def is_ws_def split: if_split_asm)

lemma parse_nothing [simp]: "parse_value n [] = None" "parse_elems n [] = None" "parse_members n [] = None"
proof -
  show none: "parse_value n [] = None" for n by (cases n) simp_all
  show "parse_elems n [] = None" by (cases n) (simp_all add: none del: parse_value.simps)
  show "parse_members n [] = None" by (cases n) simp_all
qed

definition enclosed :: "string \<Rightarrow> bool" where
  "enclosed s \<longleftrightarrow> s \<noteq> [] \<and> hd s \<in> {quote_char, CHR 0x7B, CHR ''[''}"

lemma parse_more:
  "\<lbrakk>parse_value n s = Some (v, r); n \<le> m; enclosed s \<or> ended r\<rbrakk> \<Longrightarrow> parse_value m (s @ q) = Some (v, r @ q)"
  "\<lbrakk>parse_elems n s = Some (vs, r); n \<le> m\<rbrakk> \<Longrightarrow> parse_elems m (s @ q) = Some (vs, r @ q)"
  "\<lbrakk>parse_members n s = Some (kvs, r); n \<le> m\<rbrakk> \<Longrightarrow> parse_members m (s @ q) = Some (kvs, r @ q)"
proof (induction n s and n s and n s arbitrary: v r m and vs r m and kvs r m rule: parse_value_parse_elems_parse_members.induct)
  case (2 n s)
  then obtain k where m: "m = Suc k" "n \<le> k" by (cases m) auto
  obtain c t where s: "s = c # t" using "2.prems"(1) by (cases s) auto
  consider "c = quote_char" | "c = CHR 0x7B" | "c = CHR ''[''" | "c \<notin> {quote_char, CHR 0x7B, CHR ''[''}" by blast
  then show ?case
  proof cases
    case 1
    with "2.prems"(1) s m show ?thesis by (auto dest: parse_str_more)
  next
    case 2
    with "2.prems"(1) s obtain d t' where t: "skip_ws t = d # t'" by (cases "skip_ws t") auto
    show ?thesis
      using 2 "2.IH"(1) [OF s] "2.prems"(1) s m t skip_ws_more [OF t, of q] by (auto simp: map_option_case split: if_split_asm option.split_asm)
  next
    case 3
    with "2.prems"(1) s obtain d t' where t: "skip_ws t = d # t'" by (cases "skip_ws t") auto
    show ?thesis
      using 3 "2.IH"(2) [OF s] "2.prems"(1) s m t skip_ws_more [OF t, of q] by (auto simp: map_option_case split: if_split_asm option.split_asm)
  next
    case 4
    with "2.prems" s m parse_literal_more [of s v r q] show ?thesis by (auto simp: enclosed_def)
  qed
next
  case (4 n s)
  then obtain k where m: "m = Suc k" "n \<le> k" by (cases m) auto
  obtain v t where v: "parse_value n s = Some (v, t)" using "4.prems"(1) by (auto split: option.split_asm)
  obtain d t' where t: "skip_ws t = d # t'" using "4.prems"(1) v by (auto split: list.split_asm)
  from "4.prems"(1) v t have d: "d \<in> {CHR '','', CHR '']'', CHR 0x7D}" by (auto split: if_split_asm)
  note more = "4.IH"(1) [OF v m(2) disjI2 [OF ended_skip [OF t d]]]
  show ?case
  proof (cases "d = CHR '']''")
    case True
    with "4.prems"(1) v t m more skip_ws_more [OF t, of q] show ?thesis by simp
  next
    case False
    with "4.prems"(1) v t obtain vs' where rest: "parse_elems n (skip_ws t') = Some (vs', r)" "vs = v # vs'" "d = CHR '',''"
      by (auto split: if_split_asm)
    have "parse_elems k (skip_ws t' @ q) = Some (vs', r @ q)"
      by (rule "4.IH"(2) [OF v _ t False rest(3)]) (use rest(1) m(2) in simp_all)
    moreover have "skip_ws (t' @ q) = skip_ws t' @ q" using rest(1) skip_ws_more [of t' _ _ q] by (cases "skip_ws t'") auto
    ultimately show ?thesis using rest v t m more skip_ws_more [OF t, of q] by simp
  qed
next
  case (6 n s)
  then obtain k where m: "m = Suc k" "n \<le> k" by (cases m) auto
  obtain s' where s: "s = quote_char # s'" using "6.prems"(1) by (auto split: list.split_asm if_split_asm)
  obtain key r1 where key: "parse_str s' = Some (key, r1)" using "6.prems"(1) s by (auto split: option.split_asm)
  obtain r2 where colon: "skip_ws r1 = CHR '':'' # r2" using "6.prems"(1) s key by (auto split: list.split_asm if_split_asm)
  obtain v t where v: "parse_value n (skip_ws r2) = Some (v, t)" using "6.prems"(1) s key colon by (auto split: option.split_asm)
  obtain d t' where t: "skip_ws t = d # t'" using "6.prems"(1) s key colon v by (auto split: list.split_asm)
  have d: "d \<in> {CHR '','', CHR '']'', CHR 0x7D}" using "6.prems"(1) s key colon v t by (auto split: if_split_asm)
  have more: "parse_value k (skip_ws r2 @ q) = Some (v, t @ q)"
    by (rule "6.IH"(1) [OF s _ key _ colon]) (use v m(2) ended_skip [OF t d] in simp_all)
  have skip: "skip_ws (r2 @ q) = skip_ws r2 @ q" using v skip_ws_more [of r2 _ _ q] by (cases "skip_ws r2") auto
  note steps = s m parse_str_more [OF key, of q] skip_ws_more [OF colon, of q] skip more skip_ws_more [OF t, of q]
  show ?case
  proof (cases "d = CHR 0x7D")
    case True
    with "6.prems"(1) key colon v t steps show ?thesis by simp
  next
    case False
    with "6.prems"(1) s key colon v t obtain kvs' where
      rest: "parse_members n (skip_ws t') = Some (kvs', r)" "kvs = (key, v) # kvs'" "d = CHR '',''"
      by (auto split: if_split_asm)
    have "parse_members k (skip_ws t' @ q) = Some (kvs', r @ q)"
      by (rule "6.IH"(2) [OF s _ key _ colon _ v _ t False rest(3)]) (use rest(1) m(2) in simp_all)
    moreover have "skip_ws (t' @ q) = skip_ws t' @ q" using rest(1) skip_ws_more [of t' _ _ q] by (cases "skip_ws t'") auto
    ultimately show ?thesis using rest steps by simp
  qed
qed simp_all

section \<open>Objects\<close>

lemma parse_dumped:
  assumes "opts_ok opt" and "json_ok (JObj d)" and "2 * length (json_dumps opt (JObj d)) \<le> n"
  shows "parse_value n (json_dumps opt (JObj d)) = Some (canon opt (JObj d), [])"
  using reads_value [OF assms(1,2)] assms(3) unfolding reads_def by (metis append_Nil2 delim_def)

text \<open>The beginning of an object is no JSON.\<close>

lemma cut_object:
  assumes "opts_ok opt" and "json_ok (JObj d)" and "0 < n" and "n < length (json_dumps opt (JObj d))"
  shows "json_loads (take n (json_dumps opt (JObj d))) = None"
proof (cases "json_loads (take n (json_dumps opt (JObj d)))")
  case (Some v)
  let ?s = "json_dumps opt (JObj d)" and ?p = "take n (json_dumps opt (JObj d))"
  obtain t where p: "?p = CHR 0x7B # t" using assms(3) by (cases n) (simp_all add: json_dumps_Obj del: json_dumps.simps)
  then have "skip_ws ?p = ?p" "enclosed ?p" by (simp_all add: is_ws_def enclosed_def)
  with Some obtain r where read: "parse_value (2 * length ?p + 2) ?p = Some (v, r)"
    by (auto simp: json_loads_def simp del: parse_value.simps split: option.split_asm prod.split_asm if_split_asm)
  let ?m = "2 * length ?s + 2"
  have "parse_value ?m (?p @ drop n ?s) = Some (v, r @ drop n ?s)"
    by (rule parse_more(1) [OF read]) (use \<open>enclosed ?p\<close> assms(4) in simp_all)
  moreover have "parse_value ?m ?s = Some (canon opt (JObj d), [])" by (rule parse_dumped [OF assms(1,2)]) simp
  ultimately have "drop n ?s = []" by (simp del: parse_value.simps json_dumps.simps)
  with assms(4) show ?thesis by simp
qed

text \<open>Nor is an object with more than blanks behind it.\<close>

lemma continued_object:
  assumes "opts_ok opt" and "json_ok (JObj d)" and "skip_ws q \<noteq> []"
  shows "json_loads (json_dumps opt (JObj d) @ q) = None"
proof -
  let ?s = "json_dumps opt (JObj d)"
  obtain t where s: "?s = CHR 0x7B # t" by (simp add: json_dumps_Obj del: json_dumps.simps)
  have "parse_value (2 * length (?s @ q) + 2) (?s @ q) = Some (canon opt (JObj d), [] @ q)"
    by (rule parse_more(1) [OF parse_dumped [OF assms(1,2) order_refl]]) (simp_all add: s enclosed_def del: json_dumps.simps)
  moreover have "skip_ws (?s @ q) = ?s @ q" by (simp add: s is_ws_def del: json_dumps.simps)
  ultimately show ?thesis using assms(3) by (simp add: json_loads_def del: parse_value.simps json_dumps.simps)
qed

end
