(* ===== verification/Durable_Files.thy ===== *)
theory Durable_Files
  imports Runner_Lifetime Json_Prefix
begin

text \<open>
  What a crash in the middle of a write leaves behind. The store, the snapshot and the cursor
  are written to a temporary file that then replaces the old one
  (\<open>IdempotencyStore._save\<close> in \<open>policy.py\<close>, \<open>ProcessStateStore.save\<close> in \<open>process.py\<close>,
  \<open>BuzzTransport._save_cursor\<close> in \<open>transport.py\<close>): the steps of that are a relation here, and the
  one-step saves of the model are what it comes to, wherever it is cut off. The audit log is
  appended to in place (\<open>AuditLog.append\<close>), and a line that is cut off stops every later start.
\<close>

section \<open>A save, step by step\<close>

type_synonym directory = "string \<Rightarrow> string option"

text \<open>
  \<open>Writing\<close>, \<open>Written\<close> and \<open>Failing\<close> carry the name of the temporary file: it is open, it is
  complete and closed, or an exception is on its way to the handler that removes it.
\<close>

datatype phase = Begun | Writing string | Written string | Failing string | Returned | Escaped

text \<open>
  \<open>mkstemp\<close> makes a file with a new name that ends in \<open>.tmp\<close>; the text reaches the file in
  pieces, as buffers are written out; \<open>os.replace\<close> renames in one step.
\<close>

inductive save_step :: "string \<Rightarrow> string \<Rightarrow> phase \<times> directory \<Rightarrow> phase \<times> directory \<Rightarrow> bool" for path content where
  no_temporary: "save_step path content (Begun, fs) (Escaped, fs)"
| temporary: "fs tmp = None \<Longrightarrow> suffix ''.tmp'' tmp \<Longrightarrow> save_step path content (Begun, fs) (Writing tmp, fs(tmp \<mapsto> []))"
| piece: "fs tmp = Some (take m content) \<Longrightarrow> m < n \<Longrightarrow> n \<le> length content \<Longrightarrow>
    save_step path content (Writing tmp, fs) (Writing tmp, fs(tmp \<mapsto> take n content))"
| complete: "fs tmp = Some content \<Longrightarrow> save_step path content (Writing tmp, fs) (Written tmp, fs)"
| write_fails: "save_step path content (Writing tmp, fs) (Failing tmp, fs)"
| replaced: "save_step path content (Written tmp, fs) (Returned, (fs(path := fs tmp))(tmp := None))"
| replace_fails: "save_step path content (Written tmp, fs) (Failing tmp, fs)"
| removed: "save_step path content (Failing tmp, fs) (Escaped, fs(tmp := None))"
| not_removed: "save_step path content (Failing tmp, fs) (Escaped, fs)"

inductive_cases from_begun: "save_step path content (Begun, fs) s"
inductive_cases from_writing: "save_step path content (Writing tmp, fs) s"
inductive_cases from_written: "save_step path content (Written tmp, fs) s"
inductive_cases from_failing: "save_step path content (Failing tmp, fs) s"
inductive_cases from_end: "save_step path content (Returned, fs) s" "save_step path content (Escaped, fs) s"

definition left_over :: "string \<Rightarrow> directory \<Rightarrow> string \<Rightarrow> directory \<Rightarrow> bool" where
  "left_over content fs0 tmp fs \<longleftrightarrow> fs0 tmp = None \<and> suffix ''.tmp'' tmp \<and> (\<exists>m. fs = fs0(tmp \<mapsto> take m content))"

fun save_inv :: "string \<Rightarrow> string \<Rightarrow> directory \<Rightarrow> phase \<times> directory \<Rightarrow> bool" where
  "save_inv path content fs0 (Begun, fs) \<longleftrightarrow> fs = fs0"
| "save_inv path content fs0 (Writing tmp, fs) \<longleftrightarrow> left_over content fs0 tmp fs"
| "save_inv path content fs0 (Written tmp, fs) \<longleftrightarrow> fs0 tmp = None \<and> suffix ''.tmp'' tmp \<and> fs = fs0(tmp \<mapsto> content)"
| "save_inv path content fs0 (Failing tmp, fs) \<longleftrightarrow> left_over content fs0 tmp fs"
| "save_inv path content fs0 (Returned, fs) \<longleftrightarrow> fs = fs0(path \<mapsto> content)"
| "save_inv path content fs0 (Escaped, fs) \<longleftrightarrow> fs = fs0 \<or> (\<exists>tmp. left_over content fs0 tmp fs)"

lemma left_over_whole: "fs0 tmp = None \<Longrightarrow> suffix ''.tmp'' tmp \<Longrightarrow> left_over content fs0 tmp (fs0(tmp \<mapsto> content))"
  unfolding left_over_def by (metis order_refl take_all)

lemma save_step_inv:
  assumes "save_step path content s s'" and "save_inv path content fs0 s" and "\<not> suffix ''.tmp'' path"
  shows "save_inv path content fs0 s'"
  using assms
proof (cases rule: save_step.cases)
  case (temporary fs tmp)
  with assms show ?thesis by (auto simp: left_over_def intro: exI [of _ 0])
next
  case (piece fs tmp m n)
  with assms show ?thesis by (auto simp: left_over_def)
next
  case (complete fs tmp)
  with assms show ?thesis by (auto simp: left_over_def)
next
  case (replaced tmp fs)
  with assms have fs: "fs = fs0(tmp \<mapsto> content)" "fs0 tmp = None" "tmp \<noteq> path" by auto
  have "(fs(path := fs tmp))(tmp := None) = fs0(path \<mapsto> content)" using fs by (intro ext) simp
  with replaced show ?thesis by simp
next
  case (replace_fails tmp fs)
  with assms left_over_whole show ?thesis by auto
next
  case (removed tmp fs)
  with assms show ?thesis by (auto simp: left_over_def)
qed auto

lemma save_run_inv:
  assumes "(save_step path content)\<^sup>*\<^sup>* (Begun, fs) s" and "\<not> suffix ''.tmp'' path"
  shows "save_inv path content fs s"
  using assms(1)
proof (induction rule: rtranclp_induct)
  case (step s s')
  from save_step_inv [OF step(2,3) assms(2)] show ?case .
qed simp

text \<open>A save ends: every step but the last two can be followed by another, and only finitely many follow.\<close>

fun steps_left :: "string \<Rightarrow> phase \<times> directory \<Rightarrow> nat" where
  "steps_left content (Begun, fs) = length content + 4"
| "steps_left content (Writing tmp, fs) = (case fs tmp of Some t \<Rightarrow> length content - length t | None \<Rightarrow> 0) + 3"
| "steps_left content (Written tmp, fs) = 2"
| "steps_left content (Failing tmp, fs) = 1"
| "steps_left content (_, fs) = 0"

lemma save_step_decreases: "save_step path content s s' \<Longrightarrow> steps_left content s' < steps_left content s"
  by (induction rule: save_step.induct) auto

lemma save_goes_on:
  assumes "save_inv path content fs0 (ph, fs)" and "ph \<notin> {Returned, Escaped}"
  shows "\<exists>s'. save_step path content (ph, fs) s'"
  using assms by (cases ph) (auto intro: save_step.intros)

section \<open>One-step saves\<close>

text \<open>
  The model's saves take one step, with a truth value that tells whether the write succeeds.
\<close>

locale atomic_save =
  fixes save :: "bool \<Rightarrow> 's \<Rightarrow> ('e + unit) \<times> 's"
    and on_disk :: "'s \<Rightarrow> bool"
    and disk :: "'s \<Rightarrow> string option"
    and content :: "'s \<Rightarrow> string"
  assumes save_writes: "on_disk s \<Longrightarrow> fst (save True s) = Inr () \<and> disk (snd (save True s)) = Some (content s)"
    and save_fails: "on_disk s \<Longrightarrow> (\<exists>e. fst (save False s) = Inl e) \<and> disk (snd (save False s)) = disk s"
begin

lemma refines:
  assumes "(save_step path (content s))\<^sup>*\<^sup>* (Begun, fs) (ph, fs')" and "\<not> suffix ''.tmp'' path" and "on_disk s" and "fs path = disk s"
  shows "\<exists>ok. fs' path = disk (snd (save ok s)) \<and> (ph = Returned \<longrightarrow> fst (save ok s) = Inr ()) \<and> (ph = Escaped \<longrightarrow> (\<exists>e. fst (save ok s) = Inl e))"
proof -
  have inv: "save_inv path (content s) fs (ph, fs')" by (rule save_run_inv [OF assms(1,2)])
  have untouched: "fs' path = fs path" if "left_over (content s) fs tmp fs'" for tmp
    using that assms(2) by (auto simp: left_over_def)
  show ?thesis
  proof (cases "ph = Returned")
    case True
    with inv save_writes [OF assms(3)] show ?thesis by (intro exI [of _ True]) simp
  next
    case False
    with inv untouched assms(2) have "fs' path = fs path" by (cases ph) auto
    with False save_fails [OF assms(3)] assms(4) show ?thesis by (intro exI [of _ False]) simp
  qed
qed

end

interpretation store_saves: atomic_save store_save "\<lambda>st. \<exists>c cs. st_path st = Some (c # cs)" st_file
  "\<lambda>st. json_dumps default_sorted (store_json st)"
  by unfold_locales (auto simp: store_save_def simp del: json_dumps.simps)

interpretation snapshot_saves: atomic_save snapshot_state "\<lambda>_. True" hr_snapshot "\<lambda>hr. snapshot_text (hr_engine hr) (hr_inbox hr)"
  by unfold_locales (auto simp: snapshot_state_def)

interpretation cursor_saves: atomic_save "\<lambda>ok bt. save_cursor cfg (bt\<lparr>bt_cursor_writable := ok\<rparr>)" "\<lambda>_. bc_has_cursor cfg" bt_cursor_file
  "\<lambda>bt. json_dumps default_sorted (cursor_json (bt_seen bt))" for cfg
  by unfold_locales (auto simp: save_cursor_def simp del: json_dumps.simps)

abbreviation agrees :: "phase \<Rightarrow> 'e + unit \<Rightarrow> bool" where
  "agrees ph out \<equiv> (ph = Returned \<longrightarrow> out = Inr ()) \<and> (ph = Escaped \<longrightarrow> (\<exists>e. out = Inl e))"

text \<open>C11: the saves of the store, the snapshot and the cursor are atomic. Wherever a save is cut off by a
  crash, and whichever of its steps raises, the file holds what the one-step save of the model
  leaves there, with or without success; a save that returns has succeeded and one that raises
  has left the old content. No other file is touched. So the crashes of the theorems on
  sessions, processes and runners, which fall between such saves, are all there are to these
  files.\<close>

theorem saves_are_atomic:
  fixes hr :: "('w, 's) HermesProcess" and bt :: "'x BuzzTransport"
  assumes "(save_step path content)\<^sup>*\<^sup>* (Begun, fs) (ph, fs')" and "\<not> suffix ''.tmp'' path"
  shows "(\<forall>p. p \<noteq> path \<and> fs p \<noteq> None \<longrightarrow> fs' p = fs p)
    \<and> (st_path st = Some path \<and> path \<noteq> [] \<and> fs path = st_file st \<and> content = json_dumps default_sorted (store_json st) \<longrightarrow>
        (\<exists>ok. fs' path = st_file (snd (store_save ok st)) \<and> agrees ph (fst (store_save ok st))))
    \<and> (fs path = hr_snapshot hr \<and> content = snapshot_text (hr_engine hr) (hr_inbox hr) \<longrightarrow>
        (\<exists>ok. fs' path = hr_snapshot (snd (snapshot_state ok hr)) \<and> agrees ph (fst (snapshot_state ok hr))))
    \<and> (bc_has_cursor cfg \<and> fs path = bt_cursor_file bt \<and> content = json_dumps default_sorted (cursor_json (bt_seen bt)) \<longrightarrow>
        (\<exists>ok. let (out, bt') = save_cursor cfg (bt\<lparr>bt_cursor_writable := ok\<rparr>) in fs' path = bt_cursor_file bt' \<and> agrees ph out))"
proof (intro conjI impI)
  from save_run_inv [OF assms] show "\<forall>p. p \<noteq> path \<and> fs p \<noteq> None \<longrightarrow> fs' p = fs p"
    by (cases ph) (auto simp: left_over_def)
next
  assume "st_path st = Some path \<and> path \<noteq> [] \<and> fs path = st_file st \<and> content = json_dumps default_sorted (store_json st)"
  then show "\<exists>ok. fs' path = st_file (snd (store_save ok st)) \<and> agrees ph (fst (store_save ok st))"
    using store_saves.refines [of path st fs ph fs'] assms by (cases path) (auto simp del: json_dumps.simps)
next
  assume "fs path = hr_snapshot hr \<and> content = snapshot_text (hr_engine hr) (hr_inbox hr)"
  then show "\<exists>ok. fs' path = hr_snapshot (snd (snapshot_state ok hr)) \<and> agrees ph (fst (snapshot_state ok hr))"
    using snapshot_saves.refines [of path hr fs ph fs'] assms by simp
next
  assume "bc_has_cursor cfg \<and> fs path = bt_cursor_file bt \<and> content = json_dumps default_sorted (cursor_json (bt_seen bt))"
  then show "\<exists>ok. let (out, bt') = save_cursor cfg (bt\<lparr>bt_cursor_writable := ok\<rparr>) in fs' path = bt_cursor_file bt' \<and> agrees ph out"
    using cursor_saves.refines [of path bt fs ph fs' cfg] assms by (simp add: case_prod_beta del: json_dumps.simps)
qed

definition old_store :: IdempotencyStore where
  "old_store = empty_store (Some ''store.json'') (Some ''old'')"

theorem saves_are_atomic_witness:
  "\<exists>fs'. (save_step ''store.json'' (json_dumps default_sorted (store_json old_store)))\<^sup>*\<^sup>*
      (Begun, [''store.json'' \<mapsto> ''old'']) (Writing ''a.tmp'', fs') \<and> fs' ''a.tmp'' = Some [CHR 0x7B]
    \<and> (\<exists>ok. fs' ''store.json'' = st_file (snd (store_save ok old_store)))"
proof -
  let ?content = "json_dumps default_sorted (store_json old_store)" and ?fs = "[''store.json'' \<mapsto> ''old''] :: directory"
  let ?r = "save_step ''store.json'' ?content" and ?half = "?fs(''a.tmp'' \<mapsto> [], ''a.tmp'' \<mapsto> take 1 ?content)"
  have tmp: "suffix ''.tmp'' ''a.tmp''" "\<not> suffix ''.tmp'' ''store.json''" by (simp_all add: suffix_to_prefix)
  obtain t where content: "?content = CHR 0x7B # t" by (simp add: store_json_def json_dumps_Obj del: json_dumps.simps)
  have first: "?r (Begun, ?fs) (Writing ''a.tmp'', ?fs(''a.tmp'' \<mapsto> []))" by (rule temporary) (use tmp in simp_all)
  have second: "?r (Writing ''a.tmp'', ?fs(''a.tmp'' \<mapsto> [])) (Writing ''a.tmp'', ?half)"
    by (rule piece [where m = 0]) (simp_all add: content)
  have run: "?r\<^sup>*\<^sup>* (Begun, ?fs) (Writing ''a.tmp'', ?half)"
    using rtranclp.rtrancl_into_rtrancl [of ?r, OF r_into_rtranclp [of ?r, OF first] second] .
  have "st_path old_store = Some ''store.json''" "st_file old_store = Some ''old''" by (simp_all add: old_store_def empty_store_def)
  with conjunct1 [OF conjunct2 [OF saves_are_atomic [where st = old_store, OF run tmp(2)]]]
  have "\<exists>ok. ?half ''store.json'' = st_file (snd (store_save ok old_store))" by simp
  moreover have "?half ''a.tmp'' = Some [CHR 0x7B]" by (simp add: content)
  ultimately show ?thesis using run by blast
qed

section \<open>A line of the audit log that is cut off\<close>

abbreviation audit_line :: "pyfloat \<Rightarrow> string \<Rightarrow> fields \<Rightarrow> AuditLog \<Rightarrow> string" where
  "audit_line ts event kwargs al \<equiv> json_dumps default_sorted (JObj (audit_entry (al_seq al) ts event kwargs))"

text \<open>The lines of the log when the process ends, or the disk is full, after \<open>n\<close> characters of an append.\<close>

definition torn_log :: "nat \<Rightarrow> pyfloat \<Rightarrow> string \<Rightarrow> fields \<Rightarrow> AuditLog \<Rightarrow> string list" where
  "torn_log n ts event kwargs al = (case al_file al of None \<Rightarrow> [] | Some ls \<Rightarrow> ls) @ [take n (audit_line ts event kwargs al)]"

lemma dropWhile_rev_take: "\<exists>k \<le> length s. rev (dropWhile P (rev s)) = take k s"
  by (metis append_eq_conv_conj length_dropWhile_le length_rev rev_append rev_rev_ident takeWhile_dropWhile_id)

lemma strip_cut:
  assumes "s = CHR 0x7B # t"
  shows "\<exists>k. 0 < k \<and> k \<le> length s \<and> py_strip s = take k s"
proof -
  have "dropWhile is_space s = s" using assms by (simp add: is_space_def)
  with dropWhile_rev_take [of s is_space] obtain k where k: "k \<le> length s" "py_strip s = take k s" unfolding py_strip_def by auto
  have "CHR 0x7B \<in> set (py_strip s)" unfolding py_strip_def \<open>dropWhile is_space s = s\<close>
    using assms by (simp add: dropWhile_append3 is_space_def)
  then have "k \<noteq> 0" using k(2) by (intro notI) simp
  with k show ?thesis by blast
qed

lemma load_seq_stops:
  assumes "line_next_seq line = Inl e" shows "\<exists>e. load_seq s (ls @ line # ls') = Inl e"
proof (induction ls arbitrary: s)
  case (Cons l ls)
  then show ?case by (auto split: sum.split option.split)
qed (simp add: assms)

lemma torn_line:
  assumes "kwargs_ok ts kwargs" and "0 < n" and "n < length (audit_line ts event kwargs al)"
  shows "line_next_seq (take n (audit_line ts event kwargs al)) = Inl (ValueError ''audit line is not JSON'')"
proof -
  let ?l = "audit_line ts event kwargs al"
  obtain t where "take n ?l = CHR 0x7B # t" using assms(2) by (cases n) (simp_all add: json_dumps_Obj del: json_dumps.simps)
  from strip_cut [OF this] assms(3) obtain k where k: "0 < k" "k \<le> n" "py_strip (take n ?l) = take k ?l"
    by (auto simp: min_def simp del: json_dumps.simps)
  with cut_object [OF opts_ok_in_use(3) json_ok_audit_entry [OF assms(1)] k(1), of "al_seq al" event] assms(3)
  have "json_loads (take k ?l) = None" by simp
  moreover have "take k ?l \<noteq> []" using k assms(3) by auto
  ultimately show ?thesis using k(3) by (simp add: line_next_seq_def Let_def del: json_dumps.simps)
qed

text \<open>C12: a cut-off line of the audit log keeps the process from starting. If a process dies, or the disk is
  full, after some but not all of the characters of an entry have reached the log, then no
  start of the runner on that log serves, whatever the other files hold and whatever the
  arguments are: an intent in execution can then not be reconciled either, until the file is
  mended by hand.\<close>

theorem torn_audit_line_blocks_restart:
  assumes "kwargs_ok ts kwargs" and "0 < n" and "n < length (audit_line ts event kwargs al)"
  shows "hermes_start (with_files store_file (Some (torn_log n ts event kwargs al)) snapshot cursor su) ha pe now w x \<noteq> Serves pc wl cfg banner hr"
proof
  assume "hermes_start (with_files store_file (Some (torn_log n ts event kwargs al)) snapshot cursor su) ha pe now w x = Serves pc wl cfg banner hr"
  then obtain bt where adm: "admitted su ha pc wl" and
    start: "start_on (hermes_ctx su pc wl cfg pe (\<lambda>_. FNan)) (unclocked pe) store_file (Some (torn_log n ts event kwargs al)) snapshot bt w = (Inr (), Some hr)"
    by (auto simp: hermes_start_iff)
  from adm have path: "pc_audit_path pc \<noteq> []" by (auto simp: admitted_def dest: audit_path_given)
  from load_seq_stops [OF torn_line [OF assms], of 0 _ "[]"] obtain e where "load_seq 0 (torn_log n ts event kwargs al) = Inl e"
    unfolding torn_log_def by blast
  with path have "audit_init (Some (pc_audit_path pc)) (Some (torn_log n ts event kwargs al)) = Inl e"
    by (simp add: audit_init_def Let_def)
  with start show False
    by (simp add: start_on_def process_start_def process_init_def orch_init_def split: sum.split_asm)
qed

theorem torn_audit_line_blocks_restart_witness:
  "\<exists>pc wl cfg hr. hermes_start (with_files None None None None demo_surroundings) demo_args demo_process_env 0 0 0 = Serves pc wl cfg (ready_line ''alice'') hr
    \<and> (\<forall>pc wl cfg banner hr'. hermes_start (with_files (st_file (orch_store (hr_engine hr)))
        (Some (torn_log 5 FNan ''intent_submitted'' [] (orch_audit (hr_engine hr)))) (hr_snapshot hr) None
        demo_surroundings) demo_args demo_process_env 0 0 0 \<noteq> Serves pc wl cfg banner hr')"
proof -
  have "demo_args\<lparr>ha_role := ''alice''\<rparr> = demo_args" by (simp add: demo_args_def)
  with demo_start [of "''alice''"] obtain pc wl cfg hr where
    start: "hermes_start (with_files None None None None demo_surroundings) demo_args demo_process_env 0 0 0 = Serves pc wl cfg (ready_line ''alice'') hr"
    by auto
  let ?l = "audit_line FNan ''intent_submitted'' [] (orch_audit (hr_engine hr))"
  have "kwargs_ok FNan []" by (simp add: kwargs_ok_def)
  moreover have "5 < length ?l"
    by (simp add: json_dumps_Obj audit_entry_def dump_order_def default_sorted_def dump_item_def dump_str_def esc_char_def del: json_dumps.simps)
  ultimately have "hermes_start (with_files (st_file (orch_store (hr_engine hr)))
        (Some (torn_log 5 FNan ''intent_submitted'' [] (orch_audit (hr_engine hr)))) (hr_snapshot hr) None
        demo_surroundings) demo_args demo_process_env 0 0 0 \<noteq> Serves pc wl cfg banner hr'" for pc wl cfg banner hr'
    by (intro torn_audit_line_blocks_restart) simp_all
  with start show ?thesis by (intro exI [of _ pc] exI [of _ wl] exI [of _ cfg] exI [of _ hr] conjI allI)
qed

text \<open>A line that lacks only its end is read, but the next entry is written behind it, and the start after that fails.\<close>

lemma joined_lines:
  assumes "kwargs_ok ts kwargs"
  shows "line_next_seq (audit_line ts event kwargs al @ json_dumps default_sorted (JObj d)) = Inl (ValueError ''audit line is not JSON'')"
proof -
  let ?l = "audit_line ts event kwargs al" and ?q = "json_dumps default_sorted (JObj d)"
  obtain t where l: "?l = CHR 0x7B # t" by (simp add: json_dumps_Obj del: json_dumps.simps)
  obtain u where q: "?q = CHR 0x7B # u @ [CHR 0x7D]" by (simp add: json_dumps_Obj del: json_dumps.simps)
  have "py_strip (?l @ ?q) = ?l @ ?q" unfolding l q by (simp add: py_strip_def is_space_def)
  moreover have "json_loads (?l @ ?q) = None"
    by (rule continued_object [OF opts_ok_in_use(3) json_ok_audit_entry [OF assms]]) (simp add: q is_ws_def del: json_dumps.simps)
  ultimately show ?thesis by (simp add: line_next_seq_def Let_def l del: json_dumps.simps)
qed

end
